(* ===== verification/Prelude.thy ===== *)
theory Prelude
  imports Main "HOL-Library.Word" "HOL-Library.Char_ord" "HOL-Library.List_Lexorder"
begin

text \<open>
  Shared vocabulary of the development: exceptions and results, bytes and C++ strings, and the
  generic lemmas the component theories build on.

  A C++ exception is a value of \<open>exn\<close>; a function that may throw returns \<open>'a result\<close>, with
  \<open>Inl\<close> for the exception that escapes. \<open>std::string\<close> is a byte sequence, modelled by the
  \<open>string\<close> of HOL, whose characters are exactly the 256 byte values; \<open>BinaryBuf\<close>
  (\<open>std::vector<uint8_t>\<close>) is a list of 8-bit words.
\<close>

section \<open>Collections of facts\<close>

named_theorems byte_simps \<open>conversions between characters, bytes and naturals\<close>
named_theorems result_simps \<open>evaluation of results and their sequencing\<close>

section \<open>Exceptions and results\<close>

text \<open>
  The exceptions of the JSON library that its documentation distinguishes, and the exception
  classes the sources throw or let escape. \<open>Assertion\<close> stands for an out-of-bounds access of a
  buffer (a failed \<open>assert\<close>, or undefined behaviour when assertions are compiled out).
\<close>

datatype json_exn = Parse_error | Type_error | Out_of_range_json

datatype exn =
    Json_exn json_exn
  | Invalid_argument string
  | Out_of_range string
  | Runtime_error string
  | Length_error
  | Olm_exception string
  | Crypto_exception string string
  | Bad_variant_access
  | Assertion

type_synonym 'a result = "exn + 'a"

definition rbind :: "'e + 'a \<Rightarrow> ('a \<Rightarrow> 'e + 'b) \<Rightarrow> 'e + 'b" where
  "rbind m f = (case m of Inl e \<Rightarrow> Inl e | Inr x \<Rightarrow> f x)"

lemma rbind_Inl [simp, result_simps]: "rbind (Inl e) f = Inl e"
  by (simp add: rbind_def)

lemma rbind_Inr [simp, result_simps]: "rbind (Inr x) f = f x"
  by (simp add: rbind_def)

lemma rbind_eq_Inr [result_simps]: "rbind m f = Inr y \<longleftrightarrow> (\<exists>x. m = Inr x \<and> f x = Inr y)"
  by (cases m) (simp_all add: rbind_def)

lemma rbind_eq_Inl: "rbind m f = Inl e \<longleftrightarrow> m = Inl e \<or> (\<exists>x. m = Inr x \<and> f x = Inl e)"
  by (cases m) (simp_all add: rbind_def)

lemma rbind_cong [fundef_cong]:
  "m = m' \<Longrightarrow> (\<And>x. m' = Inr x \<Longrightarrow> f x = g x) \<Longrightarrow> rbind m f = rbind m' g"
  by (cases m') (simp_all add: rbind_def)

text \<open>The loop \<open>for (x : xs) ys.push_back(f(x))\<close>, stopped by the first exception.\<close>

fun mapM :: "('a \<Rightarrow> 'e + 'b) \<Rightarrow> 'a list \<Rightarrow> 'e + 'b list" where
  "mapM f [] = Inr []"
| "mapM f (x # xs) = rbind (f x) (\<lambda>y. rbind (mapM f xs) (\<lambda>ys. Inr (y # ys)))"

lemma mapM_map: "(\<And>x. x \<in> set xs \<Longrightarrow> f (g x) = Inr (h x)) \<Longrightarrow> mapM f (map g xs) = Inr (map h xs)"
  by (induction xs) auto

lemma mapM_length: "mapM f xs = Inr ys \<Longrightarrow> length ys = length xs"
  by (induction xs arbitrary: ys) (auto simp: rbind_eq_Inr)

text \<open>The loop \<open>for (x : xs) acc = f(x, acc)\<close>, stopped by the first exception.\<close>

fun foldM :: "('a \<Rightarrow> 's \<Rightarrow> 'e + 's) \<Rightarrow> 'a list \<Rightarrow> 's \<Rightarrow> 'e + 's" where
  "foldM f [] s = Inr s"
| "foldM f (x # xs) s = rbind (f x s) (foldM f xs)"

lemma foldM_cong [fundef_cong]:
  assumes "xs = ys" and "s = t" and "\<And>x u. x \<in> set ys \<Longrightarrow> f x u = g x u"
  shows "foldM f xs s = foldM g ys t"
proof -
  have "foldM f ys t = foldM g ys t" using assms(3)
  proof (induction ys arbitrary: t)
    case (Cons y ys)
    then have "foldM f ys = foldM g ys" by (intro ext) simp
    then show ?case using Cons.prems by simp
  qed simp
  then show ?thesis using assms(1,2) by simp
qed

lemma mapM_eq: "(\<And>x. x \<in> set xs \<Longrightarrow> f x = Inr (h x)) \<Longrightarrow> mapM f xs = Inr (map h xs)"
  by (induction xs) auto

section \<open>Bytes and strings\<close>

type_synonym byte = "8 word"
type_synonym BinaryBuf = "byte list"

definition byte_of_char :: "char \<Rightarrow> byte" where
  "byte_of_char c = of_nat (of_char c)"

definition char_of_byte :: "byte \<Rightarrow> char" where
  "char_of_byte b = char_of (unat b)"

lemma unat_byte_of_char [simp, byte_simps]: "unat (byte_of_char c) = of_char c"
  by (simp add: byte_of_char_def unat_of_nat take_bit_eq_mod)

lemma char_of_byte_of_char [simp, byte_simps]: "char_of_byte (byte_of_char c) = c"
  by (simp add: char_of_byte_def)

lemma unat_byte_less [simp, byte_simps]: "unat (b :: byte) < 256"
  using unsigned_less [of b, where ?'a = nat] by simp

lemma of_char_of_byte [simp, byte_simps]: "(of_char (char_of_byte b) :: nat) = unat b"
  by (simp add: char_of_byte_def)

lemma byte_of_char_of_byte [simp, byte_simps]: "byte_of_char (char_of_byte b) = b"
  by (simp add: byte_of_char_def)

lemma byte_of_char_inject [simp]: "byte_of_char c = byte_of_char d \<longleftrightarrow> c = d"
  by (metis char_of_byte_of_char)

lemma char_of_byte_inject [simp]: "char_of_byte c = char_of_byte d \<longleftrightarrow> c = d"
  by (metis byte_of_char_of_byte)

section \<open>\<open>std::string\<close> and \<open>std::map\<close>\<close>

text \<open>
  \<open>find_char c s\<close> is \<open>s.find(c)\<close>, with \<open>None\<close> for \<open>npos\<close>; \<open>starts_with p s\<close> is
  \<open>s.starts_with(p)\<close>, equivalently \<open>s.find(p) == 0\<close>. \<open>substr\<close> throws when the start is past
  the end.
\<close>

fun find_char :: "char \<Rightarrow> string \<Rightarrow> nat option" where
  "find_char c [] = None"
| "find_char c (x # xs) = (if x = c then Some 0 else map_option Suc (find_char c xs))"

lemma find_char_None [simp]: "find_char c s = None \<longleftrightarrow> c \<notin> set s"
  by (induction s) auto

lemma find_char_notin [simp]: "c \<notin> set s \<Longrightarrow> find_char c s = None"
  by simp

lemma find_char_append [simp]: "c \<notin> set xs \<Longrightarrow> find_char c (xs @ c # ys) = Some (length xs)"
  by (induction xs) auto

lemma find_char_Some:
  "find_char c s = Some i \<Longrightarrow> i < length s \<and> s = take i s @ c # drop (Suc i) s \<and> c \<notin> set (take i s)"
proof (induction s arbitrary: i)
  case (Cons x xs)
  then show ?case by (cases "x = c") auto
qed simp

definition starts_with :: "string \<Rightarrow> string \<Rightarrow> bool" where
  "starts_with p s \<longleftrightarrow> take (length p) s = p"

lemma starts_with_append [simp]: "starts_with p (p @ s)"
  by (simp add: starts_with_def)

lemma starts_with_simps:
  "starts_with [] t" "\<not> starts_with (c # p) []" "starts_with (c # p) (d # t) \<longleftrightarrow> c = d \<and> starts_with p t"
  by (auto simp: starts_with_def)

lemma starts_with_iff: "starts_with p s \<longleftrightarrow> (\<exists>t. s = p @ t)"
  by (metis append_take_drop_id starts_with_append starts_with_def)

definition ends_with :: "string \<Rightarrow> string \<Rightarrow> bool" where
  "ends_with p s \<longleftrightarrow> length p \<le> length s \<and> drop (length s - length p) s = p"

definition substr :: "nat \<Rightarrow> nat option \<Rightarrow> string \<Rightarrow> string result" where
  "substr pos n s =
     (if pos \<le> length s
      then Inr (case n of None \<Rightarrow> drop pos s | Some k \<Rightarrow> take k (drop pos s))
      else Inl (Out_of_range ''basic_string::substr''))"

text \<open>
  A \<open>std::map\<close> with string keys is an association list in ascending key order (the order in which
  it is traversed); \<open>map_set\<close> is \<open>m[k] = v\<close> and \<open>map_emplace\<close> keeps an entry that is there.
\<close>

type_synonym 'v smap = "(string \<times> 'v) list"

fun map_set :: "string \<Rightarrow> 'v \<Rightarrow> 'v smap \<Rightarrow> 'v smap" where
  "map_set k v [] = [(k, v)]"
| "map_set k v ((k', v') # m) =
     (if k < k' then (k, v) # (k', v') # m
      else if k = k' then (k, v) # m
      else (k', v') # map_set k v m)"

definition map_emplace :: "string \<Rightarrow> 'v \<Rightarrow> 'v smap \<Rightarrow> 'v smap" where
  "map_emplace k v m = (if map_of m k = None then map_set k v m else m)"

definition smap_ok :: "'v smap \<Rightarrow> bool" where
  "smap_ok m \<longleftrightarrow> sorted_wrt (<) (map fst m)"

lemma map_of_map_set [simp]: "map_of (map_set k v m) = (map_of m)(k \<mapsto> v)"
  by (induction k v m rule: map_set.induct) (auto simp: fun_eq_iff)

lemma fst_map_set: "fst ` set (map_set k v m) = insert k (fst ` set m)"
  by (induction k v m rule: map_set.induct) auto

lemma set_map_set: "set (map_set k v m) \<subseteq> insert (k, v) (set m)"
  by (induction m) (auto split: if_splits)

lemma smap_ok_map_set [simp]: "smap_ok m \<Longrightarrow> smap_ok (map_set k v m)"
proof (induction k v m rule: map_set.induct)
  case (2 k v k' v' m)
  have key: "k' < x" if "\<not> k < k'" "k \<noteq> k'" "x \<in> fst ` set (map_set k v m)" for x
    using that 2(2) by (auto simp: fst_map_set smap_ok_def)
  with 2 show ?case by (auto simp: smap_ok_def)
qed (simp add: smap_ok_def)

lemma map_of_filter_key: "map_of (filter (\<lambda>(k', _). k' \<noteq> k) m) = (map_of m)(k := None)"
  by (induction m) (auto simp: fun_eq_iff)

lemma smap_ok_filter [simp]: "smap_ok m \<Longrightarrow> smap_ok (filter P m)"
  by (simp add: smap_ok_def sorted_wrt_map sorted_wrt_filter)

lemma smap_ok_simps [simp]: "smap_ok []" "smap_ok [p]"
  by (simp_all add: smap_ok_def)

text \<open>A list of pairs as a map: the first value of a key counts.\<close>

definition to_smap :: "(string \<times> 'v) list \<Rightarrow> 'v smap" where
  "to_smap m = foldr (\<lambda>(k, v) a. map_set k v a) m []"

lemma smap_ok_to_smap [simp]: "smap_ok (to_smap m)"
  by (induction m) (auto simp: to_smap_def)

lemma map_of_to_smap [simp]: "map_of (to_smap m) = map_of m"
  by (induction m) (auto simp: to_smap_def)

lemma to_smap_id [simp]: "smap_ok m \<Longrightarrow> to_smap m = m"
proof (induction m)
  case (Cons p m)
  obtain k v where p: "p = (k, v)" by (cases p)
  have "smap_ok m" and "\<forall>x \<in> set (map fst m). k < x" using Cons.prems by (auto simp: smap_ok_def p)
  then show ?case using Cons.IH by (cases m) (auto simp: to_smap_def p)
qed (simp add: to_smap_def)

lemma smap_ok_distinct: "smap_ok m \<Longrightarrow> distinct (map fst m)"
  by (simp add: smap_ok_def strict_sorted_iff)

section \<open>Decimal numbers\<close>

text \<open>\<open>std::to_string\<close> of a number, and the value of a string of digits.\<close>

definition digit :: "nat \<Rightarrow> char" where
  "digit d = char_of (48 + d)"

fun dec_string :: "nat \<Rightarrow> string" where
  "dec_string n = (if n < 10 then [digit n] else dec_string (n div 10) @ [digit (n mod 10)])"

declare dec_string.simps [simp del]

definition dec_int :: "int \<Rightarrow> string" where
  "dec_int n = (if n < 0 then CHR ''-'' # dec_string (nat (- n)) else dec_string (nat n))"

definition dec_value :: "string \<Rightarrow> nat" where
  "dec_value s = foldl (\<lambda>v c. 10 * v + (of_char c - 48)) 0 s"

lemma of_char_digit [simp]: "d < 10 \<Longrightarrow> of_char (digit d) = 48 + d"
  by (simp add: digit_def)

lemma dec_value_snoc: "dec_value (s @ [c]) = 10 * dec_value s + (of_char c - 48)"
  by (simp add: dec_value_def)

lemma dec_value_string [simp]: "dec_value (dec_string n) = n"
proof (induction n rule: dec_string.induct)
  case (1 n)
  show ?case
  proof (cases "n < 10")
    case True
    then show ?thesis by (simp add: dec_string.simps [of n] dec_value_def)
  next
    case False
    then show ?thesis using 1 by (simp add: dec_string.simps [of n] dec_value_snoc)
  qed
qed

lemma dec_string_digits: "\<forall>c \<in> set (dec_string n). 48 \<le> (of_char c :: nat) \<and> (of_char c :: nat) \<le> 57"
proof (induction n rule: dec_string.induct)
  case (1 n)
  have d: "of_char (digit (n mod 10)) = (48 + n mod 10 :: nat)" by simp
  show ?case
  proof (cases "n < 10")
    case True
    then show ?thesis by (simp add: dec_string.simps [of n])
  next
    case False
    then show ?thesis using 1 d by (auto simp: dec_string.simps [of n])
  qed
qed

lemma dec_string_not_Nil [simp]: "dec_string n \<noteq> []"
  by (simp add: dec_string.simps [of n])

end
