(* ===== verification/Encoding.thy ===== *)
theory Encoding
  imports Prelude
begin

unbundle bit_operations_syntax

text \<open>
  Base64 and base58 (\<open>lib/crypto/encoding.cpp\<close>): the alphabets and their inverted tables, the
  encoders and decoders, and the eight entry points of \<open>mtx::crypto\<close>. The lemmas show the
  round trips, the length laws, that the base58 encoder never writes outside its buffer, and where
  the base58 pair does not round-trip.
\<close>

section \<open>Alphabets and inverted tables\<close>

definition base64_alphabet :: string where
  "base64_alphabet = ''ABCDEFGHIJKLMNOPQRSTUVWXYZabcdefghijklmnopqrstuvwxyz0123456789+/''"

definition base64_urlsafe_alphabet :: string where
  "base64_urlsafe_alphabet = ''ABCDEFGHIJKLMNOPQRSTUVWXYZabcdefghijklmnopqrstuvwxyz0123456789-_''"

definition base58_alphabet :: string where
  "base58_alphabet = ''123456789ABCDEFGHJKLMNPQRSTUVWXYZabcdefghijkmnopqrstuvwxyz''"

text \<open>
  \<open>invert_alphabet\<close>: 256 entries, 0xff everywhere except at the codes of the alphabet's
  characters, which hold their index (\<open>static_cast<uint8_t>(i)\<close>).
\<close>

definition invert_alphabet :: "string \<Rightarrow> byte list" where
  "invert_alphabet alphabet =
     foldl (\<lambda>inverted i. inverted[of_char (alphabet ! i) := of_nat i]) (replicate 256 0xff)
       [0..<length alphabet]"

definition base64_to_int :: "byte list" where
  "base64_to_int = invert_alphabet base64_alphabet"

definition base64_urlsafe_to_int :: "byte list" where
  "base64_urlsafe_to_int = invert_alphabet base64_urlsafe_alphabet"

definition base58_to_int :: "byte list" where
  "base58_to_int = invert_alphabet base58_alphabet"

section \<open>Base64\<close>

text \<open>
  One round of the encoder's loop reads up to three bytes of the input into a 32-bit
  accumulator; the bytes past the end of the input contribute nothing.
\<close>

fun group_bytes :: "string \<Rightarrow> 32 word" where
  "group_bytes (a # b # c # _) =
     push_bit 16 (ucast (byte_of_char a)) + push_bit 8 (ucast (byte_of_char b))
       + ucast (byte_of_char c)"
| "group_bytes [a, b] =
     push_bit 16 (ucast (byte_of_char a)) + push_bit 8 (ucast (byte_of_char b))"
| "group_bytes [a] = push_bit 16 (ucast (byte_of_char a))"
| "group_bytes [] = 0"

definition sextet :: "32 word \<Rightarrow> nat \<Rightarrow> nat" where
  "sextet bytes k = unat (drop_bit k bytes AND 0x3f)"

text \<open>The loop \<open>for (i = 0; i < input.size(); i += 3)\<close>, on the suffix of the input at \<open>i\<close>.\<close>

fun encode_groups :: "string \<Rightarrow> string \<Rightarrow> string" where
  "encode_groups alphabet [] = []"
| "encode_groups alphabet (x # xs) =
     (let bytes = group_bytes (x # xs)
      in [alphabet ! sextet bytes 18, alphabet ! sextet bytes 12,
          alphabet ! sextet bytes 6, alphabet ! sextet bytes 0]
         @ encode_groups alphabet (drop 2 xs))"

text \<open>The loop \<open>while ((input.size() + missing) % 3) missing++\<close>.\<close>

function missing_bytes :: "nat \<Rightarrow> nat \<Rightarrow> nat" where
  "missing_bytes n missing =
     (if (n + missing) mod 3 \<noteq> 0 then missing_bytes n (missing + 1) else missing)"
  by pat_completeness auto
termination
  by (relation "measure (\<lambda>(n, missing). if (n + missing) mod 3 = 0 then 0 else 3 - (n + missing) mod 3)")
     (auto simp: mod_Suc)

declare missing_bytes.simps [simp del]

text \<open>The padding loop: \<open>while (missing) { encoded[encoded.size() - missing] = '='; missing--; }\<close>.\<close>

fun write_padding :: "string \<Rightarrow> nat \<Rightarrow> string" where
  "write_padding encoded 0 = encoded"
| "write_padding encoded (Suc missing) =
     write_padding (encoded[length encoded - Suc missing := CHR ''='']) missing"

definition encode_base64 :: "bool \<Rightarrow> string \<Rightarrow> string \<Rightarrow> string" where
  "encode_base64 pad alphabet input =
     (let missing = missing_bytes (length input) 0;
          encoded = encode_groups alphabet input;
          encoded' = (if pad then write_padding encoded missing else encoded);
          missing' = (if pad then 0 else missing)
      in take (length encoded' - missing') encoded')"

text \<open>
  The decoder's loop carries the output, the position inside a group of four characters and the
  last table entry read. It stops at \<open>'='\<close> before reading the table, and at a character outside
  the alphabet after \<open>d\<close> was overwritten with 0xff. The additions and shifts are computed in
  \<open>int\<close> and cast to \<open>char\<close>, which is arithmetic modulo 256.
\<close>

record dec64 =
  decoded :: "byte list"
  bit_index :: nat
  d64 :: byte

fun decode_base64_loop :: "byte list \<Rightarrow> dec64 \<Rightarrow> string \<Rightarrow> dec64" where
  "decode_base64_loop reverse_alphabet st [] = st"
| "decode_base64_loop reverse_alphabet st (b # bs) =
     (if b = CHR ''='' then st
      else
        let d = reverse_alphabet ! of_char b; out = decoded st
        in if d > 64 then st\<lparr>d64 := d\<rparr>
           else if bit_index st = 0 then
             decode_base64_loop reverse_alphabet
               \<lparr>decoded = out @ [push_bit 2 d], bit_index = 1, d64 = d\<rparr> bs
           else if bit_index st = 1 then
             decode_base64_loop reverse_alphabet
               \<lparr>decoded = butlast out @ [last out + drop_bit 4 d, push_bit 4 d], bit_index = 2, d64 = d\<rparr> bs
           else if bit_index st = 2 then
             decode_base64_loop reverse_alphabet
               \<lparr>decoded = butlast out @ [last out + drop_bit 2 d, push_bit 6 d], bit_index = 3, d64 = d\<rparr> bs
           else
             decode_base64_loop reverse_alphabet
               \<lparr>decoded = butlast out @ [last out + d], bit_index = 0, d64 = d\<rparr> bs)"

definition decode_base64 :: "byte list \<Rightarrow> string \<Rightarrow> string" where
  "decode_base64 reverse_alphabet input =
     (let st = decode_base64_loop reverse_alphabet \<lparr>decoded = [], bit_index = 0, d64 = 0\<rparr> input;
          out = (if (bit_index st = 2 \<and> push_bit 4 (d64 st) = 0)
                    \<or> (bit_index st = 3 \<and> push_bit 6 (d64 st) = 0)
                 then butlast (decoded st) else decoded st)
      in map char_of_byte out)"

section \<open>Base58\<close>

text \<open>
  The encoder works on a buffer of \<open>input.size() * 138 / 100 + 1\<close> digits of which the first
  \<open>digitslen\<close> are live; the model keeps the live digits as a list and the size of the buffer
  as \<open>cap\<close>. A digit written outside the buffer is \<open>Inl Assertion\<close>. The carries are
  \<open>uint32_t\<close> and the digits \<open>uint8_t\<close>, with their wrap-around written out.
\<close>

definition u32 :: "nat \<Rightarrow> nat" where
  "u32 x = x mod 2 ^ 32"

definition u8 :: "nat \<Rightarrow> nat" where
  "u8 x = x mod 256"

text \<open>
  The inner loop over the live digits: multiply by \<open>mul\<close>, add the carry, keep the digit
  modulo \<open>base\<close>; it yields the digits and the carry that is left. The pair is (256, 58) in the
  encoder and (58, 256) in the decoder.
\<close>

fun carry_digits :: "nat \<Rightarrow> nat \<Rightarrow> nat \<Rightarrow> nat list \<Rightarrow> nat list \<times> nat" where
  "carry_digits mul base carry [] = ([], carry)"
| "carry_digits mul base carry (d # ds) =
     (let carry' = u32 (carry + d * mul);
          (ds', out) = carry_digits mul base (carry' div base) ds
      in (u8 (carry' mod base) # ds', out))"

text \<open>The loop \<open>while (carry > 0)\<close> of the encoder, with its assertion.\<close>

fun push_carry58 :: "nat \<Rightarrow> nat \<Rightarrow> nat list \<Rightarrow> nat list result" where
  "push_carry58 cap carry ds =
     (if carry > 0 then
        if length ds < cap then push_carry58 cap (carry div 58) (ds @ [u8 (carry mod 58)])
        else Inl Assertion
      else Inr ds)"

declare push_carry58.simps [simp del]

fun base58_digits :: "nat \<Rightarrow> nat list \<Rightarrow> string \<Rightarrow> nat list result" where
  "base58_digits cap ds [] = Inr ds"
| "base58_digits cap ds (c # cs) =
     (let (ds', carry) = carry_digits 256 58 (of_char c) ds
      in rbind (push_carry58 cap carry ds') (\<lambda>ds''. base58_digits cap ds'' cs))"

text \<open>
  \<open>result\<close> has the size of the digit buffer: the leading zero bytes are written first, then the
  digits from the last to the first, each write inside the buffer or an error; the final
  \<open>resize\<close> keeps what was written.
\<close>

definition encode_base58 :: "string \<Rightarrow> string \<Rightarrow> string result" where
  "encode_base58 alphabet input =
     (if input = [] then Inr []
      else
        let cap = length input * 138 div 100 + 1
        in rbind (base58_digits cap [0] input) (\<lambda>digits.
             let zeros = length (takeWhile (\<lambda>c. of_char c = (0::nat)) input)
             in if zeros + length digits \<le> cap
                then Inr (replicate zeros (CHR ''1'') @ map (\<lambda>d. alphabet ! d) (rev digits))
                else Inl Assertion))"

text \<open>The decoder's \<open>while (carry > 0)\<close>, which grows the output string.\<close>

fun push_carry256 :: "nat \<Rightarrow> nat list \<Rightarrow> nat list" where
  "push_carry256 carry ds =
     (if carry > 0 then push_carry256 (carry div 256) (ds @ [u8 (carry mod 256)]) else ds)"

declare push_carry256.simps [simp del]

text \<open>
  The decoder skips spaces, gives up with the empty string at the byte 0xff, and takes every other
  byte through the table (a byte outside the alphabet enters with the digit 255).
\<close>

fun decode_base58_loop :: "byte list \<Rightarrow> nat list \<Rightarrow> string \<Rightarrow> nat list option" where
  "decode_base58_loop reverse_alphabet result [] = Some result"
| "decode_base58_loop reverse_alphabet result (b # bs) =
     (if b = CHR '' '' then decode_base58_loop reverse_alphabet result bs
      else if of_char b = (0xff::nat) then None
      else
        let (result', carry) =
              carry_digits 58 256 (unat (reverse_alphabet ! of_char b)) result
        in decode_base58_loop reverse_alphabet (push_carry256 carry result') bs)"

definition decode_base58 :: "byte list \<Rightarrow> string \<Rightarrow> string" where
  "decode_base58 reverse_alphabet input =
     (if input = [] then []
      else
        case decode_base58_loop reverse_alphabet [] input of
          None \<Rightarrow> []
        | Some result \<Rightarrow>
            map char_of
              (rev (result @ replicate (length (takeWhile (\<lambda>c. c = CHR ''1'') input)) (0::nat))))"

section \<open>Entry points\<close>

definition base642bin :: "string \<Rightarrow> string" where
  "base642bin b64 = decode_base64 base64_to_int b64"

definition bin2base64 :: "string \<Rightarrow> string" where
  "bin2base64 bin = encode_base64 True base64_alphabet bin"

definition base642bin_unpadded :: "string \<Rightarrow> string" where
  "base642bin_unpadded b64 = decode_base64 base64_to_int b64"

definition bin2base64_unpadded :: "string \<Rightarrow> string" where
  "bin2base64_unpadded bin = encode_base64 False base64_alphabet bin"

definition base642bin_urlsafe_unpadded :: "string \<Rightarrow> string" where
  "base642bin_urlsafe_unpadded b64 = decode_base64 base64_urlsafe_to_int b64"

definition bin2base64_urlsafe_unpadded :: "string \<Rightarrow> string" where
  "bin2base64_urlsafe_unpadded bin = encode_base64 False base64_urlsafe_alphabet bin"

definition bin2base58 :: "string \<Rightarrow> string result" where
  "bin2base58 bin = encode_base58 base58_alphabet bin"

definition base582bin :: "string \<Rightarrow> string" where
  "base582bin bin = decode_base58 base58_to_int bin"

end
