(* ===== verification/Base64.thy ===== *)
theory Base64
  imports Encoding
begin

unbundle bit_operations_syntax

text \<open>
  Correctness of the base64 routines of \<open>lib/crypto/encoding.cpp\<close>: the table-driven encoder
  equals a reference encoder by structural recursion, and for every alphabet with a matching table
  (the locale \<open>base64_code\<close>, interpreted on both alphabets of the library) the decoder inverts it.
\<close>

section \<open>Three bytes as four sextets\<close>

lemma byte_bit_lt: "bit (b :: byte) n \<Longrightarrow> n < 8"
  using bit_imp_le_length [of b n] by simp

lemma less_8_cases: "n < (8::nat) \<longleftrightarrow> n \<in> {0, Suc 0, Suc (Suc 0), Suc (Suc (Suc 0)), 4, 5, 6, 7}"
  by auto

definition pack24 :: "byte \<Rightarrow> byte \<Rightarrow> byte \<Rightarrow> 32 word" where
  "pack24 a b c = push_bit 16 (ucast a) + push_bit 8 (ucast b) + ucast c"

lemma bit_pack24:
  "bit (pack24 a b c) n \<longleftrightarrow>
     (if n < 8 then bit c n else if n < 16 then bit b (n - 8) else n < 24 \<and> bit a (n - 16))"
proof -
  have "push_bit 16 (ucast a :: 32 word) + push_bit 8 (ucast b) = push_bit 16 (ucast a) OR push_bit 8 (ucast b)"
    by (rule disjunctive_add) (auto simp: bit_simps dest!: byte_bit_lt)
  moreover have "(push_bit 16 (ucast a :: 32 word) OR push_bit 8 (ucast b)) + ucast c
    = (push_bit 16 (ucast a) OR push_bit 8 (ucast b)) OR ucast c"
    by (rule disjunctive_add) (auto simp: bit_simps dest!: byte_bit_lt)
  ultimately show ?thesis by (auto simp: pack24_def bit_simps dest: byte_bit_lt)
qed

definition sextet8 :: "32 word \<Rightarrow> nat \<Rightarrow> byte" where "sextet8 w k = of_nat (sextet w k)"

lemma sextet_less [simp]: "sextet w k < 64"
proof -
  have "unat (drop_bit k w AND 63) \<le> unat (63 :: 32 word)"
    by (rule word_and_le1 [THEN word_le_nat_alt [THEN iffD1]])
  then show ?thesis by (simp add: sextet_def)
qed

lemma bit_sextet8: "bit (sextet8 w k) n \<longleftrightarrow> n < 6 \<and> bit w (k + n)"
proof -
  have "drop_bit k w AND 63 = take_bit 6 (drop_bit k w)"
    by (simp add: take_bit_eq_mask mask_eq_exp_minus_1)
  then have "sextet8 w k = ucast (take_bit 6 (drop_bit k w))"
    by (simp add: sextet8_def sextet_def)
  then show ?thesis by (auto simp: bit_simps dest: bit_imp_le_length)
qed

lemma sextet8_sum:
  assumes "\<And>n. \<not> (bit x n \<and> bit y n)" and "\<And>n. n < 8 \<Longrightarrow> (bit x n \<or> bit y n) = bit z n"
  shows "x + y = (z :: byte)"
proof -
  have "x + y = x OR y" using assms(1) by (intro disjunctive_add) blast
  also have "\<dots> = z" using assms(2) by (intro bit_word_eqI) (simp add: bit_or_iff)
  finally show ?thesis .
qed

lemma sextet8_unpack:
  "push_bit 2 (sextet8 (pack24 a b c) 18) + drop_bit 4 (sextet8 (pack24 a b c) 12) = a"
  "push_bit 4 (sextet8 (pack24 a b c) 12) + drop_bit 2 (sextet8 (pack24 a b c) 6) = b"
  "push_bit 6 (sextet8 (pack24 a b c) 6) + sextet8 (pack24 a b c) 0 = c"
  by (rule sextet8_sum; auto simp: bit_simps bit_sextet8 bit_pack24 less_8_cases)+

lemma sextet8_tail:
  "push_bit 6 (sextet8 (pack24 a b 0) 6) = 0" "push_bit 4 (sextet8 (pack24 a 0 0) 12) = 0"
  by (rule bit_word_eqI, auto simp: bit_simps bit_sextet8 bit_pack24 less_8_cases)+

subsection \<open>Inverted tables\<close>

lemma foldl_invert:
  assumes "distinct A" and "n \<le> length A"
  defines "t \<equiv> foldl (\<lambda>inverted i. inverted[of_char (A ! i) := of_nat i]) (replicate 256 (0xff :: byte)) [0..<n]"
  shows "length t = 256" and "i < n \<Longrightarrow> t ! of_char (A ! i) = of_nat i"
    and "c \<notin> set (take n A) \<Longrightarrow> t ! of_char c = 0xff"
  unfolding t_def using assms(2)
proof (induction n)
  case (Suc n)
  { case 1 then show ?case using Suc by simp
  next
    case 2
    then show ?case using Suc assms(1)
      by (auto simp: nth_list_update nth_eq_iff_index_eq less_Suc_eq)
  next
    case 3
    then show ?case using Suc by (auto simp: take_Suc_conv_app_nth nth_list_update) }
qed simp_all

lemma invert_alphabet_nth:
  "distinct A \<Longrightarrow> i < length A \<Longrightarrow> invert_alphabet A ! of_char (A ! i) = of_nat i"
  unfolding invert_alphabet_def by (rule foldl_invert(2)) auto

lemma invert_alphabet_other:
  "distinct A \<Longrightarrow> c \<notin> set A \<Longrightarrow> invert_alphabet A ! of_char c = 0xff"
  unfolding invert_alphabet_def by (rule foldl_invert(3)) auto

subsection \<open>Base64 against a reference encoder\<close>

text \<open>The unpadded encoding by structural recursion, three bytes at a time.\<close>

fun base64_spec :: "string \<Rightarrow> string \<Rightarrow> string" where
  "base64_spec A (a # b # c # s) =
     (let w = pack24 (byte_of_char a) (byte_of_char b) (byte_of_char c)
      in [A ! sextet w 18, A ! sextet w 12, A ! sextet w 6, A ! sextet w 0] @ base64_spec A s)"
| "base64_spec A [a, b] =
     (let w = pack24 (byte_of_char a) (byte_of_char b) 0 in [A ! sextet w 18, A ! sextet w 12, A ! sextet w 6])"
| "base64_spec A [a] =
     (let w = pack24 (byte_of_char a) 0 0 in [A ! sextet w 18, A ! sextet w 12])"
| "base64_spec A [] = []"

lemma triple_induct [case_names three two one zero]:
  assumes "\<And>a b c s. P s \<Longrightarrow> P (a # b # c # s)" and "\<And>a b. P [a, b]" and "\<And>a. P [a]" and "P []"
  shows "P (s :: string)"
  using assms by (induction "[] :: string" s rule: base64_spec.induct) simp_all

lemma group_bytes_pack24:
  "group_bytes (a # b # c # s) = pack24 (byte_of_char a) (byte_of_char b) (byte_of_char c)"
  "group_bytes [a, b] = pack24 (byte_of_char a) (byte_of_char b) 0"
  "group_bytes [a] = pack24 (byte_of_char a) 0 0"
  by (simp_all add: pack24_def)

lemma missing_bytes_eq: "missing_bytes n 0 = (if n mod 3 = 0 then 0 else 3 - n mod 3)"
proof -
  have "n mod 3 = 0 \<or> n mod 3 = 1 \<or> n mod 3 = 2" by linarith
  then show ?thesis
    by (auto simp: missing_bytes.simps [of n 0] missing_bytes.simps [of n "Suc 0"]
        missing_bytes.simps [of n "Suc (Suc 0)"] mod_Suc)
qed

lemma missing_bytes_step: "missing_bytes (Suc (Suc (Suc n))) 0 = missing_bytes n 0"
proof -
  have "Suc (Suc (Suc n)) = n + 3" by simp
  then have "Suc (Suc (Suc n)) mod 3 = n mod 3" by (simp only: mod_add_self2)
  then show ?thesis by (simp add: missing_bytes_eq)
qed

lemma encode_groups_spec:
  "take (length (encode_groups A s) - missing_bytes (length s) 0) (encode_groups A s) = base64_spec A s
   \<and> missing_bytes (length s) 0 \<le> length (encode_groups A s)"
proof (induction A s rule: base64_spec.induct)
  case (1 A a b c s)
  then show ?case
    by (simp add: group_bytes_pack24 Let_def missing_bytes_step Suc_diff_le del: group_bytes.simps)
qed (simp_all add: group_bytes_pack24 missing_bytes_eq Let_def del: group_bytes.simps)

lemma write_padding_eq:
  "m \<le> length e \<Longrightarrow> write_padding e m = take (length e - m) e @ replicate m (CHR ''='')"
proof (induction m arbitrary: e)
  case (Suc m)
  let ?e = "e[length e - Suc m := CHR ''='']"
  have "take (length e - m) ?e = take (length e - Suc m) e @ [CHR ''='']"
    using Suc.prems by (simp add: take_Suc_conv_app_nth Suc_diff_Suc [symmetric] less_le_trans
        flip: Suc_diff_Suc)
  then show ?case using Suc by (simp add: replicate_app_Cons_same)
qed simp

lemma encode_base64_unpadded: "encode_base64 False A s = base64_spec A s"
  using encode_groups_spec [of A s] by (simp add: encode_base64_def Let_def)

lemma encode_base64_padded:
  "encode_base64 True A s = base64_spec A s @ replicate (missing_bytes (length s) 0) (CHR ''='')"
  using encode_groups_spec [of A s] by (simp add: encode_base64_def Let_def write_padding_eq)

subsection \<open>Round trip, for every alphabet with a matching table\<close>

definition decode64_finish :: "dec64 \<Rightarrow> string" where
  "decode64_finish st = map char_of_byte
     (if (bit_index st = 2 \<and> push_bit 4 (d64 st) = 0) \<or> (bit_index st = 3 \<and> push_bit 6 (d64 st) = 0)
      then butlast (decoded st) else decoded st)"

lemma decode_base64_finish:
  "decode_base64 T s = decode64_finish (decode_base64_loop T \<lparr>decoded = [], bit_index = 0, d64 = 0\<rparr> s)"
  by (simp add: decode_base64_def decode64_finish_def Let_def)

lemma decode_base64_loop_pad:
  "decode_base64_loop T st (xs @ CHR ''='' # ys) = decode_base64_loop T st xs"
  by (induction T st xs rule: decode_base64_loop.induct) (simp_all add: Let_def)

lemma decode_base64_pad: "decode_base64 T (s @ replicate n (CHR ''='')) = decode_base64 T s"
  by (cases n) (simp_all add: decode_base64_finish decode_base64_loop_pad)

lemma sextet8_not_large: "\<not> 64 < sextet8 w k"
proof -
  have less: "sextet w k < 64" by simp
  then have "sextet w k mod 256 = sextet w k" and "\<not> 64 < sextet w k"
    by (intro mod_less, linarith, linarith)
  then show ?thesis by (simp add: sextet8_def word_less_nat_alt unat_of_nat take_bit_eq_mod)
qed

locale base64_code =
  fixes alphabet :: string and table :: "byte list"
  assumes table_inverts: "i < 64 \<Longrightarrow> table ! of_char (alphabet ! i) = of_nat i"
    and no_padding_char: "i < 64 \<Longrightarrow> alphabet ! i \<noteq> CHR ''=''"
begin

lemmas digit_simps = table_inverts no_padding_char sextet8_not_large sextet8_def [symmetric]

lemma decode_spec:
  "bit_index st = 0 \<Longrightarrow>
   decode64_finish (decode_base64_loop table st (base64_spec alphabet s))
     = map char_of_byte (decoded st) @ s"
proof (induction s arbitrary: st rule: triple_induct)
  case (three a b c s)
  then show ?case by (simp add: digit_simps Let_def sextet8_unpack butlast_append)
qed (simp_all add: digit_simps Let_def sextet8_unpack sextet8_tail butlast_append decode64_finish_def)

lemma decode_encode: "decode_base64 table (encode_base64 pad alphabet s) = s"
proof -
  have "decode_base64 table (base64_spec alphabet s) = s"
    by (simp add: decode_base64_finish decode_spec)
  then show ?thesis
    by (cases pad) (simp_all add: encode_base64_unpadded encode_base64_padded decode_base64_pad)
qed

end

subsection \<open>The alphabets of the library\<close>

lemma base64_alphabet_props: "distinct base64_alphabet" "length base64_alphabet = 64" "CHR ''='' \<notin> set base64_alphabet"
  by (simp_all add: base64_alphabet_def)

lemma base64_urlsafe_alphabet_props:
  "distinct base64_urlsafe_alphabet" "length base64_urlsafe_alphabet = 64" "CHR ''='' \<notin> set base64_urlsafe_alphabet"
  by (simp_all add: base64_urlsafe_alphabet_def)

interpretation std64: base64_code base64_alphabet base64_to_int
  by unfold_locales
     (metis base64_alphabet_props base64_to_int_def invert_alphabet_nth,
      metis base64_alphabet_props(2,3) nth_mem)

interpretation url64: base64_code base64_urlsafe_alphabet base64_urlsafe_to_int
  by unfold_locales
     (metis base64_urlsafe_alphabet_props base64_urlsafe_to_int_def invert_alphabet_nth,
      metis base64_urlsafe_alphabet_props(2,3) nth_mem)

lemma base64_inverses [simp]:
  "base642bin (bin2base64 s) = s" "base642bin (bin2base64_unpadded s) = s"
  "base642bin_unpadded (bin2base64_unpadded s) = s" "base642bin_urlsafe_unpadded (bin2base64_urlsafe_unpadded s) = s"
  by (simp_all add: base642bin_def bin2base64_def base642bin_unpadded_def bin2base64_unpadded_def
      base642bin_urlsafe_unpadded_def bin2base64_urlsafe_unpadded_def std64.decode_encode url64.decode_encode)

section \<open>Properties\<close>

lemma length_base64_spec: "length (base64_spec A s) = (4 * length s + 2) div 3"
proof (induction A s rule: base64_spec.induct)
  case (1 A a b c s)
  have "(4 * length (a # b # c # s) + 2) div 3 = 4 + (4 * length s + 2) div 3" by simp
  with 1 show ?case by (simp add: Let_def)
qed (simp_all add: Let_def)

lemma set_base64_spec: "length A = 64 \<Longrightarrow> set (base64_spec A s) \<subseteq> set A"
proof (induction A s rule: base64_spec.induct)
  case (1 A a b c s)
  then show ?case by (simp add: Let_def)
qed (simp_all add: Let_def)

lemma length_padded: "(4 * n + 2) div 3 + missing_bytes n 0 = 4 * ((n + 2) div 3)"
proof -
  have "n mod 3 = 0 \<or> n mod 3 = 1 \<or> n mod 3 = 2" by linarith
  moreover obtain q where "n = 3 * q + n mod 3" by (metis mult_div_mod_eq)
  ultimately show ?thesis by (elim disjE) (simp_all add: missing_bytes_eq, presburger+)
qed

lemma bin2base64_chars: "set (bin2base64 s) \<subseteq> insert (CHR ''='') (set base64_alphabet)"
  using set_base64_spec [OF base64_alphabet_props(2), of s] by (auto simp: bin2base64_def encode_base64_padded)

text \<open>
  C16. Every base64 decoder of the library inverts its encoder on every byte string: the padded
  form, the unpadded form and the URL-safe unpadded form; the padded and the unpadded form decode
  with the same decoder.
\<close>

theorem base64_roundtrip:
  "base642bin (bin2base64 s) = s \<and> base642bin (bin2base64_unpadded s) = s
   \<and> base642bin_unpadded (bin2base64_unpadded s) = s
   \<and> base642bin_urlsafe_unpadded (bin2base64_urlsafe_unpadded s) = s"
  by (simp add: base642bin_def bin2base64_def base642bin_unpadded_def bin2base64_unpadded_def
      base642bin_urlsafe_unpadded_def bin2base64_urlsafe_unpadded_def std64.decode_encode url64.decode_encode)

text \<open>
  Shape of the encodings: the padded encoding of n bytes has 4 * ceil(n / 3) characters, the
  unpadded ones ceil(4 n / 3); the URL-safe encoding uses only its own 64 characters, so it holds
  none of the three characters that have a meaning in a URL.
\<close>

theorem base64_shape:
  "length (bin2base64 s) = 4 * ((length s + 2) div 3)
   \<and> length (bin2base64_unpadded s) = (4 * length s + 2) div 3
   \<and> length (bin2base64_urlsafe_unpadded s) = (4 * length s + 2) div 3
   \<and> set (bin2base64_urlsafe_unpadded s) \<subseteq> set base64_urlsafe_alphabet
   \<and> set (bin2base64_urlsafe_unpadded s) \<inter> {CHR ''+'', CHR ''/'', CHR ''=''} = {}"
proof -
  have sub: "set (bin2base64_urlsafe_unpadded s) \<subseteq> set base64_urlsafe_alphabet"
    by (simp add: bin2base64_urlsafe_unpadded_def encode_base64_unpadded set_base64_spec base64_urlsafe_alphabet_props)
  moreover have "set base64_urlsafe_alphabet \<inter> {CHR ''+'', CHR ''/'', CHR ''=''} = {}"
    by (simp add: base64_urlsafe_alphabet_def)
  ultimately have "set (bin2base64_urlsafe_unpadded s) \<inter> {CHR ''+'', CHR ''/'', CHR ''=''} = {}" by blast
  with sub length_padded [of "length s"] show ?thesis
    by (simp add: bin2base64_def bin2base64_unpadded_def bin2base64_urlsafe_unpadded_def
        encode_base64_unpadded encode_base64_padded length_base64_spec)
qed

end
