(* ===== verification/Base58.thy ===== *)
theory Base58
  imports Base64
begin

text \<open>
  Correctness of the base58 routines of \<open>lib/crypto/encoding.cpp\<close>: the digit buffers are read as
  numbers in positional notation, one step of either loop is shown to be one step of a change of
  base, so that encoder and decoder compute the digits of the same number; the encoder stays inside
  its buffer.
\<close>

subsection \<open>Positional notation\<close>

fun val :: "nat \<Rightarrow> nat list \<Rightarrow> nat" where
  "val b [] = 0"
| "val b (d # ds) = d + b * val b ds"

fun digits_le :: "nat \<Rightarrow> nat \<Rightarrow> nat list" where
  "digits_le b n = (if n = 0 \<or> b < 2 then [] else n mod b # digits_le b (n div b))"

declare digits_le.simps [simp del]

lemma digits_le_0 [simp]: "digits_le b 0 = []"
  by (simp add: digits_le.simps)

lemma val_append [simp]: "val b (xs @ ys) = val b xs + b ^ length xs * val b ys"
  by (induction xs) (simp_all add: algebra_simps)

lemma val_less: "\<forall>d \<in> set ds. d < b \<Longrightarrow> val b ds < b ^ length ds"
proof (induction ds)
  case (Cons d ds)
  then have "val b ds + 1 \<le> b ^ length ds" and "d < b" by auto
  then have "d + b * val b ds < b * (val b ds + 1)" and "b * (val b ds + 1) \<le> b * b ^ length ds"
    by (simp, blast intro: mult_le_mono2)
  then show ?case by simp
qed simp

text \<open>A digit list whose most significant digit is not zero is determined by its value.\<close>

lemma digits_le_val:
  "\<forall>d \<in> set ds. d < b \<Longrightarrow> ds = [] \<or> last ds \<noteq> 0 \<Longrightarrow> digits_le b (val b ds) = ds"
proof (induction ds)
  case (Cons d ds)
  then have d: "d < b" by simp
  have "val b (d # ds) \<noteq> 0"
  proof (cases ds)
    case Nil
    with Cons.prems show ?thesis by simp
  next
    case (Cons d' ds')
    with Cons.IH Cons.prems have "digits_le b (val b ds) = ds" by simp
    with Cons have "val b ds \<noteq> 0" by (metis digits_le_0 list.distinct(1))
    with d show ?thesis by auto
  qed
  moreover have "2 \<le> b"
  proof (rule ccontr)
    assume "\<not> 2 \<le> b"
    with Cons.prems have "\<forall>x \<in> set (d # ds). x = 0" by auto
    with Cons.prems(2) show False by (metis last_in_set list.distinct(1))
  qed
  moreover have "val b (d # ds) mod b = d" and "val b (d # ds) div b = val b ds"
    using d by simp_all
  moreover have "digits_le b (val b ds) = ds"
    using Cons by (cases ds) auto
  ultimately show ?case
    by (subst digits_le.simps) (auto simp del: val.simps)
qed simp

lemma digits_le_props:
  assumes "2 \<le> b"
  shows "(\<forall>d \<in> set (digits_le b n). d < b) \<and> val b (digits_le b n) = n
     \<and> (n \<noteq> 0 \<longrightarrow> digits_le b n \<noteq> [] \<and> last (digits_le b n) \<noteq> 0)"
  using assms
proof (induction b n rule: digits_le.induct)
  case (1 b n)
  show ?case
  proof (cases "n = 0")
    case False
    with 1 have IH: "(\<forall>d \<in> set (digits_le b (n div b)). d < b) \<and> val b (digits_le b (n div b)) = n div b
       \<and> (n div b \<noteq> 0 \<longrightarrow> digits_le b (n div b) \<noteq> [] \<and> last (digits_le b (n div b)) \<noteq> 0)"
      by simp
    have eq: "digits_le b n = n mod b # digits_le b (n div b)"
      using False 1 by (simp add: digits_le.simps [of b n])
    have "n div b = 0 \<Longrightarrow> n mod b \<noteq> 0" using False by (metis div_mult_mod_eq mult_0 add_0)
    with IH 1 show ?thesis by (auto simp: eq)
  qed simp
qed

lemma last_nonzero_iff:
  assumes "\<forall>d \<in> set ds. d < b" and "ds \<noteq> []"
  shows "last ds \<noteq> 0 \<longleftrightarrow> b ^ (length ds - 1) \<le> val b ds"
proof -
  have split: "val b ds = val b (butlast ds) + b ^ (length ds - 1) * last ds"
    using val_append [of b "butlast ds" "[last ds]"] assms(2) by simp
  have small: "val b (butlast ds) < b ^ (length ds - 1)"
    using val_less [of "butlast ds" b] assms(1) by (simp add: in_set_butlastD)
  show ?thesis
  proof
    assume "last ds \<noteq> 0"
    then have "b ^ (length ds - 1) * 1 \<le> b ^ (length ds - 1) * last ds" by (intro mult_le_mono2) simp
    then show "b ^ (length ds - 1) \<le> val b ds" using split by linarith
  next
    assume "b ^ (length ds - 1) \<le> val b ds"
    then show "last ds \<noteq> 0" using split small by (intro notI) simp
  qed
qed

lemma length_digits_le:
  assumes "2 \<le> b" and "n < b ^ k" shows "length (digits_le b n) \<le> k"
proof (cases "n = 0")
  case False
  with digits_le_props [OF assms(1), of n] last_nonzero_iff [of "digits_le b n" b]
  have "b ^ (length (digits_le b n) - 1) \<le> n" by simp
  with assms(2) have "b ^ (length (digits_le b n) - 1) < b ^ k" by linarith
  with assms(1) have "length (digits_le b n) - 1 < k" by (intro power_less_imp_less_exp) auto
  then show ?thesis by linarith
qed simp

subsection \<open>Carrying\<close>

lemma u32_id: "x < 2 ^ 32 \<Longrightarrow> u32 x = x" and u8_id: "x < 256 \<Longrightarrow> u8 x = x"
  by (simp_all add: u32_def u8_def)

lemma carry_digits_val:
  assumes "carry_digits mul b carry ds = (ds', out)"
    and "mul \<le> 256" and "58 \<le> b" and "b \<le> 256" and "carry \<le> 65536" and "\<forall>d \<in> set ds. d < b"
  shows "length ds' = length ds \<and> (\<forall>d \<in> set ds'. d < b) \<and> out \<le> 65536
     \<and> val b ds' + b ^ length ds * out = carry + mul * val b ds"
  using assms
proof (induction mul b carry ds arbitrary: ds' out rule: carry_digits.induct)
  case (2 mul b carry d ds)
  then have d: "d < b" by (simp del: carry_digits.simps)
  define c where "c = carry + d * mul"
  have "d * mul \<le> 256 * 256" using d "2.prems" by (intro mult_le_mono) auto
  then have c_le: "c \<le> 131072" using "2.prems" by (simp add: c_def)
  then have u: "u32 c = c" by (intro u32_id) simp
  obtain es where es: "carry_digits mul b (c div b) ds = (es, out)" and ds': "ds' = u8 (c mod b) # es"
    using "2.prems"(1) by (auto simp: c_def [symmetric] u split: prod.splits)
  have "c div b \<le> c div 58" using "2.prems" by (intro div_le_mono2) auto
  also have "\<dots> \<le> 65536" using c_le by linarith
  finally have cb: "c div b \<le> 65536" .
  have m: "c mod b < b" using "2.prems" by simp
  then have u8: "u8 (c mod b) = c mod b" using "2.prems" by (intro u8_id) linarith
  have IH: "length es = length ds \<and> (\<forall>d \<in> set es. d < b) \<and> out \<le> 65536
     \<and> val b es + b ^ length ds * out = c div b + mul * val b ds"
    using "2.IH" [of "u32 (carry + d * mul)" es out] "2.prems" es cb
    by (simp only: c_def [symmetric] u) simp
  have "val b ds' + b ^ length (d # ds) * out = c mod b + b * (val b es + b ^ length ds * out)"
    by (simp add: ds' u8 algebra_simps)
  also have "\<dots> = c + b * mul * val b ds"
    using IH by (simp add: algebra_simps)
  finally show ?case using IH m u8 by (simp add: ds' c_def algebra_simps)
qed simp

subsection \<open>The encoder\<close>

lemma push_carry58_val:
  assumes "val 58 ds + 58 ^ length ds * carry < 58 ^ cap" and "\<forall>d \<in> set ds. d < 58"
  shows "\<exists>ds'. push_carry58 cap carry ds = Inr ds' \<and> (\<forall>d \<in> set ds'. d < 58)
     \<and> val 58 ds' = val 58 ds + 58 ^ length ds * carry
     \<and> (if carry = 0 then ds' = ds else ds' \<noteq> [] \<and> last ds' \<noteq> 0)"
  using assms
proof (induction cap carry ds rule: push_carry58.induct)
  case (1 cap carry ds)
  show ?case
  proof (cases "carry = 0")
    case False
    have "(58::nat) ^ length ds * 1 \<le> 58 ^ length ds * carry" using False by (intro mult_le_mono2) simp
    then have "(58::nat) ^ length ds < 58 ^ cap" using "1.prems"(1) by linarith
    then have len: "length ds < cap" by (simp add: power_strict_increasing_iff)
    have u8: "u8 (carry mod 58) = carry mod 58" by (rule u8_id) (simp add: order.strict_trans [OF mod_less_divisor])
    define ds1 where "ds1 = ds @ [u8 (carry mod 58)]"
    have step: "push_carry58 cap carry ds = push_carry58 cap (carry div 58) ds1"
      using False len by (subst push_carry58.simps) (simp add: ds1_def)
    have v1: "val 58 ds1 + 58 ^ length ds1 * (carry div 58) = val 58 ds + 58 ^ length ds * carry"
    proof -
      have "58 ^ length ds * carry = 58 ^ length ds * (carry mod 58 + 58 * (carry div 58))" by simp
      then show ?thesis by (simp only: ds1_def u8 val_append distrib_left) simp
    qed
    have "\<exists>ds'. push_carry58 cap (carry div 58) ds1 = Inr ds' \<and> (\<forall>d \<in> set ds'. d < 58)
       \<and> val 58 ds' = val 58 ds1 + 58 ^ length ds1 * (carry div 58)
       \<and> (if carry div 58 = 0 then ds' = ds1 else ds' \<noteq> [] \<and> last ds' \<noteq> 0)"
      unfolding ds1_def
    proof (rule "1.IH")
      show "0 < carry" using False by simp
      show "length ds < cap" by (rule len)
      show "val 58 (ds @ [u8 (carry mod 58)]) + 58 ^ length (ds @ [u8 (carry mod 58)]) * (carry div 58) < 58 ^ cap"
        using v1 "1.prems"(1) by (simp only: ds1_def)
      show "\<forall>d \<in> set (ds @ [u8 (carry mod 58)]). d < 58" using "1.prems"(2) by (simp add: u8)
    qed
    moreover have "carry div 58 = 0 \<Longrightarrow> last ds1 \<noteq> 0" using False by (simp only: ds1_def u8 last_snoc) (metis add_0 div_mult_mod_eq mult_0)
    moreover have "ds1 \<noteq> []" by (simp add: ds1_def)
    ultimately show ?thesis using False by (auto simp only: step v1 split: if_splits)
  qed (use "1.prems" in \<open>simp add: push_carry58.simps\<close>)
qed

text \<open>
  The live digits are canonical: the single digit 0 before the first non-zero byte, and after it
  the digits of the value without leading zeros.
\<close>

definition canon58 :: "nat \<Rightarrow> nat list" where
  "canon58 v = (if v = 0 then [0] else digits_le 58 v)"

lemma canon58_props [simp]: "val 58 (canon58 v) = v" "\<forall>d \<in> set (canon58 v). d < 58"
  using digits_le_props [of 58 v] by (auto simp: canon58_def)

lemma carry_digits_normal:
  assumes "carry_digits mul b carry ds = (ds', 0)"
    and "1 \<le> mul" and "mul \<le> 256" and "58 \<le> b" and "b \<le> 256" and "carry \<le> 65536"
    and "\<forall>d \<in> set ds. d < b" and "ds = [] \<or> last ds \<noteq> 0"
  shows "digits_le b (carry + mul * val b ds) = ds'"
proof -
  have ds': "length ds' = length ds" "\<forall>d \<in> set ds'. d < b" "val b ds' = carry + mul * val b ds"
    using carry_digits_val [OF assms(1,3-7)] by auto
  have "ds' = [] \<or> last ds' \<noteq> 0"
  proof (cases "ds = []")
    case False
    then have "b ^ (length ds - 1) \<le> val b ds" using assms(7,8) last_nonzero_iff by blast
    also have "val b ds \<le> carry + mul * val b ds" using assms(2) by (simp add: trans_le_add2)
    finally show ?thesis using ds' last_nonzero_iff [of ds' b] by fastforce
  qed (use ds' in simp)
  then show ?thesis using digits_le_val [of ds' b] ds' by simp
qed

lemma base58_step:
  assumes "c < 256" and "v * 256 + c < 58 ^ cap"
  shows "(case carry_digits 256 58 c (canon58 v) of (ds, carry) \<Rightarrow> push_carry58 cap carry ds)
     = Inr (canon58 (v * 256 + c))"
proof -
  obtain ds carry where cd: "carry_digits 256 58 c (canon58 v) = (ds, carry)" by fastforce
  have V: "length ds = length (canon58 v)" "\<forall>d \<in> set ds. d < 58" "val 58 ds + 58 ^ length ds * carry = v * 256 + c"
    using carry_digits_val [OF cd] assms(1) by auto
  obtain ds' where p: "push_carry58 cap carry ds = Inr ds'" and d': "\<forall>d \<in> set ds'. d < 58"
    and v': "val 58 ds' = v * 256 + c" and n: "if carry = 0 then ds' = ds else ds' \<noteq> [] \<and> last ds' \<noteq> 0"
    using push_carry58_val [of ds carry cap] V assms(2) by auto
  have "ds' = canon58 (v * 256 + c)"
  proof (cases "carry = 0")
    case False
    with n have "ds' = digits_le 58 (v * 256 + c)" and "ds' \<noteq> []" using digits_le_val [of ds' 58] d' v' by auto
    then show ?thesis by (cases "v * 256 + c = 0") (simp_all only: canon58_def digits_le_0 if_True if_False)
  next
    case True
    with n have ds': "ds' = ds" by simp
    show ?thesis
    proof (cases "v = 0")
      case True
      then obtain x where "ds = [x]" using V(1) by (auto simp: canon58_def length_Suc_conv)
      with True v' ds' V(2) digits_le_val [of ds 58] show ?thesis by (auto simp: canon58_def)
    next
      case False
      then have "canon58 v = digits_le 58 v" and "val 58 (canon58 v) = v" by (simp_all add: canon58_def digits_le_props)
      then have "digits_le 58 (c + 256 * v) = ds"
        using carry_digits_normal [of 256 58 c "canon58 v" ds] cd \<open>carry = 0\<close> assms(1) digits_le_props [of 58 v] False
        by simp
      with False ds' show ?thesis by (simp add: canon58_def algebra_simps)
    qed
  qed
  with cd p show ?thesis by simp
qed

lemma base58_digits_canon:
  "v * 256 ^ length s + val 256 (rev (map of_char s)) < 58 ^ cap \<Longrightarrow>
   base58_digits cap (canon58 v) s = Inr (canon58 (v * 256 ^ length s + val 256 (rev (map of_char s))))"
proof (induction s arbitrary: v)
  case (Cons c s)
  have eq: "v * 256 ^ length (c # s) + val 256 (rev (map of_char (c # s)))
      = (v * 256 + of_char c) * 256 ^ length s + val 256 (rev (map of_char s))"
    by (simp add: algebra_simps)
  have "v * 256 + of_char c < (58::nat) ^ cap"
    proof -
    have "v * 256 + of_char c \<le> (v * 256 + of_char c) * 256 ^ length s" by simp
    also have "\<dots> \<le> \<dots> + val 256 (rev (map of_char s))" by (rule le_add1)
    also have "\<dots> < 58 ^ cap" using Cons.prems unfolding eq .
    finally show ?thesis .
  qed
  then have step: "(case carry_digits 256 58 (of_char c) (canon58 v) of (ds, carry) \<Rightarrow> push_carry58 cap carry ds)
      = Inr (canon58 (v * 256 + of_char c))" by (intro base58_step) simp_all
  have "base58_digits cap (canon58 v) (c # s) = base58_digits cap (canon58 (v * 256 + of_char c)) s"
    using step by (simp split: prod.splits)
  also have "\<dots> = Inr (canon58 ((v * 256 + of_char c) * 256 ^ length s + val 256 (rev (map of_char s))))"
    using Cons.prems unfolding eq by (rule Cons.IH)
  finally show ?case by (simp only: eq)
qed simp

text \<open>The buffer is large enough: 138 base58 digits hold 100 bytes.\<close>

lemma pow_256_58: "256 ^ n \<le> (58::nat) ^ (n * 138 div 100 + 1)"
proof -
  let ?k = "n * 138 div 100 + 1"
  have "(256::nat) ^ 100 \<le> 58 ^ 138" by simp
  then have "((256::nat) ^ 100) ^ n \<le> (58 ^ 138) ^ n" by (rule power_mono) simp
  also have "\<dots> = 58 ^ (138 * n)" by (simp only: power_mult)
  also have "\<dots> \<le> 58 ^ (100 * ?k)" by (rule power_increasing) auto
  finally have "(256 ^ n) ^ 100 \<le> ((58::nat) ^ ?k) ^ 100"
    by (simp only: power_mult [symmetric] mult.commute)
  then show ?thesis using power_less_imp_less_base not_le zero_le by (metis (no_types) power_strict_mono zero_less_numeral)
qed

definition leading_zeros :: "string \<Rightarrow> nat" where
  "leading_zeros s = length (takeWhile (\<lambda>c. of_char c = (0::nat)) s)"

definition be_value :: "string \<Rightarrow> nat" where
  "be_value s = val 256 (rev (map of_char s))"

lemma be_value_less: "be_value s < 256 ^ length s"
  using val_less [of "rev (map of_char s)" 256] by (auto simp: be_value_def)

lemma be_value_drop_zeros: "be_value s = be_value (drop (leading_zeros s) s)"
  by (induction s) (auto simp: be_value_def leading_zeros_def)

lemma leading_zeros_le: "leading_zeros s \<le> length s"
  by (simp add: leading_zeros_def length_takeWhile_le)

lemma base58_fits:
  assumes "s \<noteq> []"
  shows "leading_zeros s + length (canon58 (be_value s)) \<le> length s * 138 div 100 + 1"
proof (cases "be_value s = 0")
  case True
  then have "length (canon58 (be_value s)) = 1" by (simp add: canon58_def)
  with leading_zeros_le [of s] show ?thesis by linarith
next
  case False
  let ?r = "length s - leading_zeros s"
  have "be_value s < 256 ^ ?r" using be_value_less [of "drop (leading_zeros s) s"] be_value_drop_zeros [of s] by simp
  also have "\<dots> \<le> 58 ^ (?r * 138 div 100 + 1)" by (rule pow_256_58)
  finally have "length (digits_le 58 (be_value s)) \<le> ?r * 138 div 100 + 1" by (intro length_digits_le) simp
  moreover have "leading_zeros s + ?r * 138 div 100 \<le> length s * 138 div 100"
    using leading_zeros_le [of s] by linarith
  ultimately show ?thesis using False by (simp add: canon58_def)
qed

lemma encode_base58_total:
  assumes "s \<noteq> []"
  shows "encode_base58 A s = Inr (replicate (leading_zeros s) (CHR ''1'')
    @ map (\<lambda>d. A ! d) (rev (canon58 (be_value s))))"
proof -
  have "be_value s < 58 ^ (length s * 138 div 100 + 1)"
    using be_value_less [of s] pow_256_58 [of "length s"] by (rule less_le_trans)
  then have "base58_digits (length s * 138 div 100 + 1) [0] s = Inr (canon58 (be_value s))"
    using base58_digits_canon [of 0 s] by (simp add: canon58_def be_value_def)
  then show ?thesis using base58_fits [OF assms] assms
    by (simp add: encode_base58_def Let_def leading_zeros_def)
qed

subsection \<open>The decoder\<close>

lemma push_carry256_val:
  assumes "\<forall>d \<in> set ds. d < 256"
  shows "(\<forall>d \<in> set (push_carry256 carry ds). d < 256)
     \<and> val 256 (push_carry256 carry ds) = val 256 ds + 256 ^ length ds * carry
     \<and> (if carry = 0 then push_carry256 carry ds = ds
        else push_carry256 carry ds \<noteq> [] \<and> last (push_carry256 carry ds) \<noteq> 0)"
  using assms
proof (induction carry ds rule: push_carry256.induct)
  case (1 carry ds)
  show ?case
  proof (cases "carry = 0")
    case False
    define ds1 where "ds1 = ds @ [u8 (carry mod 256)]"
    have u8: "u8 (carry mod 256) = carry mod 256" by (simp add: u8_def)
    have step: "push_carry256 carry ds = push_carry256 (carry div 256) ds1"
      using False by (subst push_carry256.simps) (simp add: ds1_def)
    have v1: "val 256 ds1 + 256 ^ length ds1 * (carry div 256) = val 256 ds + 256 ^ length ds * carry"
    proof -
      have "256 ^ length ds * carry = 256 ^ length ds * (carry mod 256 + 256 * (carry div 256))" by simp
      then show ?thesis by (simp only: ds1_def u8 val_append distrib_left) simp
    qed
    have IH: "(\<forall>d \<in> set (push_carry256 (carry div 256) ds1). d < 256)
     \<and> val 256 (push_carry256 (carry div 256) ds1) = val 256 ds1 + 256 ^ length ds1 * (carry div 256)
     \<and> (if carry div 256 = 0 then push_carry256 (carry div 256) ds1 = ds1
        else push_carry256 (carry div 256) ds1 \<noteq> [] \<and> last (push_carry256 (carry div 256) ds1) \<noteq> 0)"
      unfolding ds1_def
    proof (rule "1.IH")
      show "0 < carry" using False by simp
      show "\<forall>d \<in> set (ds @ [u8 (carry mod 256)]). d < 256" using "1.prems" by (simp add: u8)
    qed
    moreover have "carry div 256 = 0 \<Longrightarrow> last ds1 \<noteq> 0"
      using False by (simp only: ds1_def u8 last_snoc) (metis add_0 div_mult_mod_eq mult_0)
    moreover have "ds1 \<noteq> []" by (simp add: ds1_def)
    ultimately show ?thesis using False by (auto simp only: step v1 split: if_splits)
  qed (use "1.prems" in \<open>simp add: push_carry256.simps\<close>)
qed

lemma base256_step:
  assumes "i < 256"
  shows "(case carry_digits 58 256 i (digits_le 256 v) of (ds, carry) \<Rightarrow> push_carry256 carry ds)
     = digits_le 256 (v * 58 + i)"
proof -
  obtain ds carry where cd: "carry_digits 58 256 i (digits_le 256 v) = (ds, carry)" by fastforce
  have D: "\<forall>d \<in> set (digits_le 256 v). d < 256" "val 256 (digits_le 256 v) = v"
    "digits_le 256 v = [] \<or> last (digits_le 256 v) \<noteq> 0"
    using digits_le_props [of 256 v] by (auto simp: digits_le_0)
  have V: "\<forall>d \<in> set ds. d < 256" "val 256 ds + 256 ^ length ds * carry = v * 58 + i"
    using carry_digits_val [OF cd] assms D by auto
  have "push_carry256 carry ds = digits_le 256 (v * 58 + i)"
  proof (cases "carry = 0")
    case False
    then show ?thesis
      using push_carry256_val [OF V(1), of carry] V(2) digits_le_val [of "push_carry256 carry ds" 256] by auto
  next
    case True
    then have "digits_le 256 (i + 58 * v) = ds"
      using carry_digits_normal [of 58 256 i "digits_le 256 v" ds] cd D assms by simp
    moreover have "push_carry256 carry ds = ds" using True by (simp add: push_carry256.simps)
    ultimately show ?thesis by (simp add: algebra_simps)
  qed
  with cd show ?thesis by simp
qed

lemma base58_alphabet_props:
  "distinct base58_alphabet" "length base58_alphabet = 58" "CHR '' '' \<notin> set base58_alphabet"
  "\<forall>c \<in> set base58_alphabet. of_char c \<noteq> (0xff :: nat)" "base58_alphabet ! 0 = CHR ''1''"
  by (simp_all add: base58_alphabet_def)

lemma base58_digit:
  assumes "i < 58"
  shows "base58_to_int ! of_char (base58_alphabet ! i) = of_nat i"
    and "base58_alphabet ! i \<noteq> CHR '' ''" and "of_char (base58_alphabet ! i) \<noteq> (0xff :: nat)"
    and "base58_alphabet ! i = CHR ''1'' \<longleftrightarrow> i = 0"
proof -
  have mem: "base58_alphabet ! i \<in> set base58_alphabet" using assms by (simp add: base58_alphabet_props)
  show "base58_to_int ! of_char (base58_alphabet ! i) = of_nat i"
    using assms by (simp add: base58_to_int_def invert_alphabet_nth base58_alphabet_props)
  show "base58_alphabet ! i \<noteq> CHR '' ''" and "of_char (base58_alphabet ! i) \<noteq> (0xff :: nat)"
    using mem base58_alphabet_props by auto
  show "base58_alphabet ! i = CHR ''1'' \<longleftrightarrow> i = 0"
    using nth_eq_iff_index_eq [OF base58_alphabet_props(1), of i 0] assms
    by (simp add: base58_alphabet_props)
qed

lemma decode_base58_loop_digits:
  "\<forall>i \<in> set is. i < 58 \<Longrightarrow>
   decode_base58_loop base58_to_int (digits_le 256 v) (map (\<lambda>d. base58_alphabet ! d) is)
     = Some (digits_le 256 (v * 58 ^ length is + val 58 (rev is)))"
proof (induction "is" arbitrary: v)
  case (Cons i "is")
  then have i: "i < 58" by simp
  then have u: "unat (of_nat i :: byte) = i" by (simp add: unat_of_nat take_bit_eq_mod)
  have "decode_base58_loop base58_to_int (digits_le 256 v) (map (\<lambda>d. base58_alphabet ! d) (i # is))
      = decode_base58_loop base58_to_int (digits_le 256 (v * 58 + i)) (map (\<lambda>d. base58_alphabet ! d) is)"
    using base256_step [of i v] i by (simp add: base58_digit u split: prod.splits)
  also have "\<dots> = Some (digits_le 256 ((v * 58 + i) * 58 ^ length is + val 58 (rev is)))"
    using Cons by simp
  finally show ?case by (simp add: algebra_simps)
qed simp

subsection \<open>Round trip of base58\<close>

lemma val_zeros [simp]: "val b (replicate n 0) = 0"
  by (induction n) simp_all

lemma takeWhile_replicate_Cons:
  "\<not> P x \<Longrightarrow> P c \<Longrightarrow> takeWhile P (replicate z c @ x # xs) = replicate z c"
  by (induction z) simp_all

lemma takeWhile_ones:
  assumes "v \<noteq> 0"
  shows "takeWhile (\<lambda>c. c = CHR ''1'')
     (replicate z (CHR ''1'') @ map (\<lambda>d. base58_alphabet ! d) (rev (digits_le 58 v))) = replicate z (CHR ''1'')"
proof -
  let ?r = "rev (digits_le 58 v)"
  have ne: "?r \<noteq> []" and "hd ?r \<noteq> 0" and "hd ?r < 58"
    using digits_le_props [of 58 v] assms by (auto simp: hd_rev)
  then have x: "base58_alphabet ! hd ?r \<noteq> CHR ''1''" by (simp add: base58_digit(4))
  have "map (\<lambda>d. base58_alphabet ! d) ?r = (base58_alphabet ! hd ?r) # map (\<lambda>d. base58_alphabet ! d) (tl ?r)"
    using ne by (metis list.simps(9) list.collapse)
  then show ?thesis
    using takeWhile_replicate_Cons [where P = "\<lambda>c. c = CHR ''1''" and c = "CHR ''1''", OF x] by simp
qed

lemma of_char_0_iff: "of_char c = (0::nat) \<longleftrightarrow> c = CHR 0x00"
proof
  assume "of_char c = (0::nat)"
  then have "char_of (of_char c :: nat) = char_of (0::nat)" by (rule arg_cong)
  then have "c = char_of (0::nat)" by (simp only: char_of_char)
  then show "c = CHR 0x00" by (simp add: char_of_def)
qed simp

lemma be_value_eq_0_iff: "be_value s = 0 \<longleftrightarrow> (\<forall>c \<in> set s. c = CHR 0x00)"
  by (induction s) (auto simp: be_value_def of_char_0_iff)

lemma be_value_split: "replicate (leading_zeros s) (CHR 0x00) @ drop (leading_zeros s) s = s"
proof (induction s)
  case (Cons c s)
  then show ?case by (cases "c = CHR 0x00") (simp_all add: leading_zeros_def of_char_0_iff)
qed (simp add: leading_zeros_def)

lemma be_value_digits:
  assumes "be_value s \<noteq> 0"
  shows "rev (digits_le 256 (be_value s)) = map of_char (drop (leading_zeros s) s)"
proof -
  define r where "r = drop (leading_zeros s) s"
  let ?ds = "rev (map of_char r) :: nat list"
  have v: "be_value s = val 256 ?ds" using be_value_drop_zeros [of s] by (simp add: be_value_def r_def)
  have ne: "r \<noteq> []" using assms v by auto
  have "r = dropWhile (\<lambda>c. of_char c = (0::nat)) s" by (simp add: r_def leading_zeros_def dropWhile_eq_drop)
  then have "of_char (hd r) \<noteq> (0::nat)" using hd_dropWhile ne by blast
  then have "last ?ds \<noteq> 0" using ne by (simp add: last_rev hd_map)
  then have "digits_le 256 (val 256 ?ds) = ?ds" by (intro digits_le_val) auto
  then show ?thesis by (simp only: v rev_rev_ident r_def [symmetric])
qed

lemma decode_base58_digits:
  assumes "v \<noteq> 0"
  shows "base582bin (replicate z (CHR ''1'') @ map (\<lambda>d. base58_alphabet ! d) (rev (digits_le 58 v)))
     = replicate z (CHR 0x00) @ map char_of (rev (digits_le 256 v))"
proof -
  let ?is = "replicate z 0 @ rev (digits_le 58 v)"
  let ?e = "replicate z (CHR ''1'') @ map (\<lambda>d. base58_alphabet ! d) (rev (digits_le 58 v))"
  have D: "\<forall>d \<in> set (digits_le 58 v). d < 58" "val 58 (digits_le 58 v) = v" "digits_le 58 v \<noteq> []"
    using digits_le_props [of 58 v] assms by auto
  have e: "?e = map (\<lambda>d. base58_alphabet ! d) ?is"
    by (simp add: base58_alphabet_props)
  have "\<forall>i \<in> set ?is. i < 58" using D(1) by auto
  from decode_base58_loop_digits [OF this, of 0]
  have "decode_base58_loop base58_to_int [] ?e = Some (digits_le 256 v)"
    using D(2) by (simp only: e) (simp add: D(2))
  moreover have "char_of (0::nat) = CHR 0x00" by (simp add: char_of_def)
  ultimately show ?thesis
    using takeWhile_ones [OF assms, of z] D(3)
    by (simp add: base582bin_def decode_base58_def rev_map del: char_of_def)
qed

lemma bin2base58_nonzero:
  assumes "be_value s \<noteq> 0"
  shows "bin2base58 s = Inr (replicate (leading_zeros s) (CHR ''1'')
     @ map (\<lambda>d. base58_alphabet ! d) (rev (digits_le 58 (be_value s))))"
proof -
  have "s \<noteq> []" using assms by (auto simp: be_value_def)
  with assms show ?thesis using encode_base58_total [of s] by (simp add: bin2base58_def canon58_def)
qed

lemma base58_roundtrip_nonzero:
  assumes "be_value s \<noteq> 0"
  shows "rbind (bin2base58 s) (\<lambda>e. Inr (base582bin e)) = Inr s"
  using be_value_split [of s]
  by (simp add: bin2base58_nonzero [OF assms] decode_base58_digits [OF assms] be_value_digits [OF assms] comp_def)

section \<open>Properties\<close>

lemma canon58_chars: "set (map (\<lambda>d. base58_alphabet ! d) (rev (canon58 v))) \<subseteq> set base58_alphabet"
  using canon58_props(2) [of v] base58_alphabet_props(2) by (auto intro!: nth_mem)

text \<open>
  C26. Base58 decoding inverts encoding: for every byte string with a byte other than 0, the encoder
  yields a string and the decoder turns it back into the input, leading zero bytes included.
\<close>

theorem base58_roundtrip:
  assumes "\<exists>c \<in> set s. c \<noteq> CHR 0x00"
  shows "\<exists>e. bin2base58 s = Inr e \<and> base582bin e = s"
proof -
  have "be_value s \<noteq> 0" using assms by (simp add: be_value_eq_0_iff)
  then show ?thesis using base58_roundtrip_nonzero [of s] bin2base58_nonzero [of s] by simp
qed

theorem base58_roundtrip_witness:
  "\<exists>e. bin2base58 [CHR 0x00, CHR ''m'', CHR 0xff] = Inr e \<and> base582bin e = [CHR 0x00, CHR ''m'', CHR 0xff]"
  by (rule base58_roundtrip) simp

text \<open>
  C39. The base58 encoder never leaves its buffer of \<open>n * 138 / 100 + 1\<close> digits: it reaches neither
  the assertion nor an index outside \<open>result\<close>, its output fits the buffer and uses only the
  alphabet.
\<close>

theorem bin2base58_bounds:
  "\<exists>e. bin2base58 s = Inr e \<and> length e \<le> length s * 138 div 100 + 1 \<and> set e \<subseteq> set base58_alphabet"
proof (cases "s = []")
  case False
  have "CHR ''1'' \<in> set base58_alphabet" by (simp add: base58_alphabet_def)
  then have "set (replicate (leading_zeros s) (CHR ''1'')) \<subseteq> set base58_alphabet" by auto
  with False show ?thesis
    using encode_base58_total [OF False, of base58_alphabet] base58_fits [OF False] canon58_chars [of "be_value s"]
    by (simp add: bin2base58_def)
qed (simp add: bin2base58_def encode_base58_def)

text \<open>
  Where the base58 pair is not an inverse: the encoding of n > 0 zero bytes has one digit too
  many and decodes to n + 1 zero bytes.
\<close>

theorem base58_zeros:
  assumes "0 < n"
  shows "bin2base58 (replicate n (CHR 0x00)) = Inr (replicate (n + 1) (CHR ''1''))
    \<and> base582bin (replicate (n + 1) (CHR ''1'')) = replicate (n + 1) (CHR 0x00)"
proof
  have v: "be_value (replicate n (CHR 0x00)) = 0" by (simp add: be_value_eq_0_iff)
  have z: "leading_zeros (replicate n (CHR 0x00)) = n" by (simp add: leading_zeros_def takeWhile_replicate)
  show "bin2base58 (replicate n (CHR 0x00)) = Inr (replicate (n + 1) (CHR ''1''))"
    using encode_base58_total [of "replicate n (CHR 0x00)" base58_alphabet] assms
    by (simp add: bin2base58_def v z canon58_def base58_alphabet_props replicate_append_same)
  have "decode_base58_loop base58_to_int [] (map (\<lambda>d. base58_alphabet ! d) (replicate (n + 1) 0)) = Some []"
    using decode_base58_loop_digits [of "replicate (n + 1) 0" 0] by simp
  then show "base582bin (replicate (n + 1) (CHR ''1'')) = replicate (n + 1) (CHR 0x00)"
    by (simp add: base582bin_def decode_base58_def base58_alphabet_props takeWhile_replicate char_of_def replicate_append_same)
qed

theorem base58_zeros_witness:
  "bin2base58 (replicate 2 (CHR 0x00)) = Inr (replicate 3 (CHR ''1''))
    \<and> base582bin (replicate 3 (CHR ''1'')) = replicate 3 (CHR 0x00)"
  using base58_zeros [of 2] by (simp only: zero_less_numeral numeral_plus_one semiring_norm simp_thms)

end
