(* ===== verification/Utils.thy ===== *)
theory Utils
  imports Prelude
begin

text \<open>
  The helpers of \<open>lib/utils.cpp\<close>: MXC URIs, percent-encoding, query strings, random tokens and the
  number test. Percent-encoding and query strings are shown invertible by reference decoders.
\<close>

section \<open>MXC URIs\<close>

record MxcUrl =
  mxc_server :: string
  mxc_media_id :: string

text \<open>
  The loop that cuts \<open>str_left\<close> at each \<open>'/'\<close> and appends the rest: the suffix of the input is
  the argument, the parts are the result.
\<close>

function split_parts :: "char \<Rightarrow> string \<Rightarrow> string list" where
  "split_parts sep str_left =
     (case find_char sep str_left of
        None \<Rightarrow> [str_left]
      | Some pos \<Rightarrow> take pos str_left # split_parts sep (drop (pos + 1) str_left))"
  by pat_completeness auto
termination
  by (relation "measure (\<lambda>(_, s). length s)") (auto dest: find_char_Some)

declare split_parts.simps [simp del]

definition parse_mxc_url :: "string \<Rightarrow> MxcUrl" where
  "parse_mxc_url url =
     (let res = \<lparr>mxc_server = [], mxc_media_id = []\<rparr>
      in if \<not> starts_with ''mxc://'' url then res
         else
           let parts = split_parts (CHR ''/'') (drop 6 url)
           in if length parts \<noteq> 2 then res\<lparr>mxc_server := parts ! 0\<rparr>
              else res\<lparr>mxc_server := parts ! 0, mxc_media_id := parts ! 1\<rparr>)"

section \<open>Character classes and tokens\<close>

text \<open>\<open>std::isdigit\<close> and \<open>std::isalnum\<close> in the C locale.\<close>

definition isdigit :: "char \<Rightarrow> bool" where
  "isdigit c \<longleftrightarrow> CHR ''0'' \<le> c \<and> c \<le> CHR ''9''"

definition isalnum :: "char \<Rightarrow> bool" where
  "isalnum c \<longleftrightarrow> isdigit c \<or> (CHR ''a'' \<le> c \<and> c \<le> CHR ''z'') \<or> (CHR ''A'' \<le> c \<and> c \<le> CHR ''Z'')"

definition is_number :: "string \<Rightarrow> bool" where
  "is_number s \<longleftrightarrow> s \<noteq> [] \<and> find (\<lambda>c. \<not> isdigit c) s = None"

definition token_symbols :: string where
  "token_symbols = ''!@#$%^&*()''"

definition token_alphanumeric :: string where
  "token_alphanumeric = ''abcdefghijklmnopqrstuvwxyz'' @ ''ABCDEFGHIJKLMNOPQRSTUVWXYZ'' @ ''1234567890''"

definition token_chars :: "bool \<Rightarrow> string" where
  "token_chars with_symbols =
     (if with_symbols then token_alphanumeric @ token_symbols else token_alphanumeric)"

text \<open>
  The random device is a parameter: \<open>draw lo hi i\<close> is the i-th number drawn from
  \<open>uniform_int_distribution(lo, hi)\<close>.
\<close>

definition random_token :: "(int \<Rightarrow> int \<Rightarrow> nat \<Rightarrow> int) \<Rightarrow> 8 word \<Rightarrow> bool \<Rightarrow> string" where
  "random_token draw len with_symbols =
     (let chars = token_chars with_symbols
      in map (\<lambda>i. chars ! nat (draw 0 (int (length chars) - 1) i)) [0..<unat len])"

section \<open>Percent-encoding and query strings\<close>

text \<open>\<open>std::hex << std::uppercase << std::setw(2)\<close> with fill \<open>'0'\<close>, for a byte.\<close>

definition hex_digits :: string where
  "hex_digits = ''0123456789ABCDEF''"

definition hex2 :: "nat \<Rightarrow> string" where
  "hex2 n = [hex_digits ! (n div 16), hex_digits ! (n mod 16)]"

definition url_safe :: "char \<Rightarrow> bool" where
  "url_safe c \<longleftrightarrow> isalnum c \<or> c = CHR ''-'' \<or> c = CHR ''_'' \<or> c = CHR ''.'' \<or> c = CHR ''~''"

fun url_encode :: "string \<Rightarrow> string" where
  "url_encode [] = []"
| "url_encode (c # value) =
     (if url_safe c then c # url_encode value
      else CHR ''%'' # hex2 (of_char c) @ url_encode value)"

text \<open>The pairs come in the order of the \<open>std::map\<close>; the first has no separator before it.\<close>

fun query_rest :: "string smap \<Rightarrow> string" where
  "query_rest [] = []"
| "query_rest ((k, v) # params) = ''&'' @ k @ ''='' @ url_encode v @ query_rest params"

fun query_params :: "string smap \<Rightarrow> string" where
  "query_params [] = []"
| "query_params ((k, v) # params) = k @ ''='' @ url_encode v @ query_rest params"

section \<open>Splitting\<close>

lemma split_parts_no_sep: "sep \<notin> set s \<Longrightarrow> split_parts sep s = [s]"
  by (simp add: split_parts.simps [of sep s])

lemma split_parts_sep: "sep \<notin> set xs \<Longrightarrow> split_parts sep (xs @ sep # ys) = xs # split_parts sep ys"
  by (subst split_parts.simps) simp

lemma split_parts_cases:
  obtains (one) "sep \<notin> set s" "split_parts sep s = [s]"
  | (more) xs ys where "sep \<notin> set xs" "s = xs @ sep # ys" "split_parts sep s = xs # split_parts sep ys"
proof (cases "sep \<in> set s")
  case True
  then obtain xs ys where "s = xs @ sep # ys" "sep \<notin> set xs" by (meson split_list_first)
  then show ?thesis using split_parts_sep more by blast
qed (use one split_parts_no_sep in blast)

lemma length_split_parts: "length (split_parts sep s) = Suc (count_list s sep)"
proof (induction s rule: length_induct)
  case (1 s)
  then show ?case
  proof (cases sep s rule: split_parts_cases)
    case (more xs ys)
    then have "length (split_parts sep ys) = Suc (count_list ys sep)" using 1 by simp
    with more show ?thesis by (simp add: count_notin)
  qed (simp add: count_notin)
qed

text \<open>Splitting undoes joining, for parts without the separator.\<close>

lemma split_parts_concat:
  "sep \<notin> set x \<Longrightarrow> \<forall>y \<in> set ys. sep \<notin> set y \<Longrightarrow>
   split_parts sep (x @ concat (map (\<lambda>y. sep # y) ys)) = x # ys"
proof (induction ys arbitrary: x)
  case (Cons y ys)
  then show ?case by (simp add: split_parts_sep)
qed (simp add: split_parts_no_sep)

section \<open>Reference decoders\<close>

fun unhex :: "char \<Rightarrow> nat" where
  "unhex c = (case find_char c hex_digits of Some i \<Rightarrow> i | None \<Rightarrow> 0)"

fun url_decode :: "string \<Rightarrow> string" where
  "url_decode (c # h # l # s) =
     (if c = CHR ''%'' then char_of (16 * unhex h + unhex l) # url_decode s else c # url_decode (h # l # s))"
| "url_decode [c, d] = [c, d]"
| "url_decode [c] = [c]"
| "url_decode [] = []"

definition decode_pair :: "string \<Rightarrow> string \<times> string" where
  "decode_pair s = (case find_char (CHR ''='') s of
       None \<Rightarrow> (s, [])
     | Some i \<Rightarrow> (take i s, url_decode (drop (i + 1) s)))"

definition parse_query :: "string \<Rightarrow> string smap" where
  "parse_query s = (if s = [] then [] else map decode_pair (split_parts (CHR ''&'') s))"

lemma unhex_hex: "n < 16 \<Longrightarrow> unhex (hex_digits ! n) = n"
proof -
  have "\<forall>n \<in> set [0..<16]. unhex (hex_digits ! n) = n" by code_simp
  then show "n < 16 \<Longrightarrow> unhex (hex_digits ! n) = n" by simp
qed

lemma hex2_decode: "n < 256 \<Longrightarrow> 16 * unhex (hex_digits ! (n div 16)) + unhex (hex_digits ! (n mod 16)) = n"
proof -
  assume "n < 256"
  then have "n div 16 < 16" and "n mod 16 < 16" by auto
  then show ?thesis by (simp only: unhex_hex) simp
qed

lemma url_decode_safe: "c \<noteq> CHR ''%'' \<Longrightarrow> url_decode (c # s) = c # url_decode s"
  by (cases "(c # s)" rule: url_decode.cases) auto

lemma url_safe_chars: "url_safe c \<Longrightarrow> c \<notin> {CHR ''%'', CHR ''&'', CHR ''='', CHR ''/'', CHR ''?'', CHR ''#''}"
  by (auto simp: url_safe_def isalnum_def isdigit_def less_eq_char_def)

lemma url_decode_encode: "url_decode (url_encode s) = s"
proof (induction s)
  case (Cons c s)
  show ?case
  proof (cases "url_safe c")
    case True
    then show ?thesis using Cons url_safe_chars [of c] by (simp add: url_decode_safe del: unhex.simps)
  next
    case False
    have "16 * unhex (hex_digits ! (of_char c div 16)) + unhex (hex_digits ! (of_char c mod 16)) = of_char c"
      by (rule hex2_decode) simp
    with False Cons show ?thesis by (simp add: hex2_def del: unhex.simps)
  qed
qed simp

lemma hex_digits_safe: "n < 16 \<Longrightarrow> url_safe (hex_digits ! n)"
proof -
  have "\<forall>n \<in> set [0..<16]. url_safe (hex_digits ! n)" by code_simp
  then show "n < 16 \<Longrightarrow> url_safe (hex_digits ! n)" by simp
qed

lemma url_encode_chars: "c \<in> set (url_encode s) \<Longrightarrow> url_safe c \<or> c = CHR ''%''"
proof (induction s)
  case (Cons x s)
  have "url_safe (hex_digits ! (of_char x div 16))" and "url_safe (hex_digits ! (of_char x mod 16))"
    by (simp_all add: hex_digits_safe div_less_iff_less_mult)
  with Cons show ?case by (auto simp: hex2_def split: if_splits)
qed simp

lemma url_encode_excludes: "c \<in> {CHR ''&'', CHR ''='', CHR ''/'', CHR ''?'', CHR ''#''} \<Longrightarrow> c \<notin> set (url_encode s)"
  using url_encode_chars [of c s] url_safe_chars [of c] by auto

lemma decode_pair_encode: "CHR ''='' \<notin> set k \<Longrightarrow> decode_pair (k @ ''='' @ url_encode v) = (k, v)"
  by (simp add: decode_pair_def url_decode_encode)

lemma query_rest_concat: "query_rest ps = concat (map (\<lambda>y. CHR ''&'' # y) (map (\<lambda>(k, v). k @ ''='' @ url_encode v) ps))"
  by (induction ps rule: query_rest.induct) simp_all

section \<open>Properties\<close>

text \<open>
  C37. Percent-encoding is invertible and its output holds only unreserved characters and
  \<open>'%'\<close>; an unreserved input is unchanged.
\<close>

theorem url_encode_correct:
  "url_decode (url_encode s) = s \<and> list_all (\<lambda>c. url_safe c \<or> c = CHR ''%'') (url_encode s)
   \<and> (list_all url_safe s \<longrightarrow> url_encode s = s)"
proof -
  have "list_all url_safe s \<longrightarrow> url_encode s = s" by (induction s) auto
  then show ?thesis using url_encode_chars [of _ s] by (auto simp: url_decode_encode list_all_iff)
qed

theorem url_encode_correct_witness:
  "url_decode (url_encode ''a b/c'') = ''a b/c'' \<and> url_encode ''room-1.2_~'' = ''room-1.2_~''"
proof
  show "url_decode (url_encode ''a b/c'') = ''a b/c''" using url_encode_correct by blast
  have "list_all url_safe ''room-1.2_~''" by code_simp
  then show "url_encode ''room-1.2_~'' = ''room-1.2_~''" using url_encode_correct by blast
qed

text \<open>
  A query string determines its parameters: splitting it at \<open>'&'\<close>, each part at its first
  \<open>'='\<close>, and decoding the values gives back the map, whatever bytes the values hold. The keys are
  not encoded, so they must be free of the two separators.
\<close>

theorem query_params_invertible:
  assumes "\<forall>(k, v) \<in> set params. CHR ''&'' \<notin> set k \<and> CHR ''='' \<notin> set k"
  shows "parse_query (query_params params) = params"
proof (cases params)
  case (Cons p ps)
  let ?e = "\<lambda>(k, v). k @ ''='' @ url_encode v"
  have amp: "CHR ''&'' \<notin> set (?e p')" if "p' \<in> set params" for p'
    using assms that url_encode_excludes [of "CHR ''&''"] by (auto split: prod.splits)
  have "query_params params = ?e p @ concat (map (\<lambda>y. CHR ''&'' # y) (map ?e ps))"
    by (simp add: Cons query_rest_concat split: prod.splits)
  then have "split_parts (CHR ''&'') (query_params params) = map ?e params"
    using split_parts_concat [of "CHR ''&''" "?e p" "map ?e ps"] amp Cons by auto
  moreover have "query_params params \<noteq> []" by (cases p) (simp add: Cons)
  moreover have "map decode_pair (map ?e params) = params"
    using assms by (auto intro!: map_idI simp: decode_pair_encode [simplified])
  ultimately show ?thesis by (simp add: parse_query_def)
qed (simp add: parse_query_def)

theorem query_params_invertible_witness:
  "parse_query (query_params [(''filter'', ''a&b=c''), (''since'', ''s 1'')]) = [(''filter'', ''a&b=c''), (''since'', ''s 1'')]"
  by (rule query_params_invertible) simp

text \<open>
  \<open>parse_mxc_url\<close>: a string without the prefix gives the empty URL; otherwise the server is
  the text up to the first slash after the prefix, and the media id is the rest when there is
  exactly one slash and empty when there is none or more than one.
\<close>

theorem parse_mxc_url_correct:
  "(\<not> starts_with ''mxc://'' url \<longrightarrow> parse_mxc_url url = \<lparr>mxc_server = [], mxc_media_id = []\<rparr>)
   \<and> (CHR ''/'' \<notin> set server \<longrightarrow>
       parse_mxc_url (''mxc://'' @ server) = \<lparr>mxc_server = server, mxc_media_id = []\<rparr>
       \<and> parse_mxc_url (''mxc://'' @ server @ ''/'' @ rest) =
           \<lparr>mxc_server = server, mxc_media_id = if CHR ''/'' \<in> set rest then [] else rest\<rparr>)"
proof -
  have "length (split_parts (CHR ''/'') rest) = 1 \<longleftrightarrow> CHR ''/'' \<notin> set rest"
    by (simp add: length_split_parts count_list_0_iff)
  then show ?thesis
    using starts_with_append [of "''mxc://''"]
    by (auto simp: parse_mxc_url_def split_parts_no_sep split_parts_sep Let_def)
qed

theorem parse_mxc_url_correct_witness:
  "parse_mxc_url ''https://x'' = \<lparr>mxc_server = [], mxc_media_id = []\<rparr>
   \<and> parse_mxc_url ''mxc://localhost/abc'' = \<lparr>mxc_server = ''localhost'', mxc_media_id = ''abc''\<rparr>"
proof
  show "parse_mxc_url ''https://x'' = \<lparr>mxc_server = [], mxc_media_id = []\<rparr>"
    using parse_mxc_url_correct [of "''https://x''"] by (simp add: starts_with_def)
  show "parse_mxc_url ''mxc://localhost/abc'' = \<lparr>mxc_server = ''localhost'', mxc_media_id = ''abc''\<rparr>"
    using parse_mxc_url_correct [of "[]" "''localhost''" "''abc''"] by simp
qed

text \<open>
  A random token has the requested length and only characters of the chosen set, for every
  random device whose distribution stays inside its bounds.
\<close>

theorem random_token_shape:
  assumes "\<And>lo hi i. lo \<le> hi \<Longrightarrow> lo \<le> draw lo hi i \<and> draw lo hi i \<le> hi"
  shows "length (random_token draw len with_symbols) = unat len
    \<and> set (random_token draw len with_symbols) \<subseteq> set (token_chars with_symbols)"
proof -
  let ?cs = "token_chars with_symbols"
  have "0 < length ?cs" by (simp add: token_chars_def token_alphanumeric_def)
  then have "nat (draw 0 (int (length ?cs) - 1) i) < length ?cs" for i
    using assms [of 0 "int (length ?cs) - 1" i] by linarith
  then show ?thesis by (auto simp: random_token_def Let_def)
qed

theorem random_token_shape_witness:
  "length (random_token (\<lambda>lo hi i. min hi (lo + int i)) 12 True) = unat (12 :: 8 word)
    \<and> set (random_token (\<lambda>lo hi i. min hi (lo + int i)) 12 True) \<subseteq> set (token_chars True)"
  by (rule random_token_shape) simp

end
