(* ===== verification/Identifiers.thy ===== *)
theory Identifiers
  imports Prelude
begin

text \<open>
  Matrix identifiers (\<open>include/mtx/identifiers.hpp\<close>): event, room and user ids and the \<open>parse\<close>
  template, which splits an id into localpart and hostname.
\<close>

datatype id_kind = Event_id | Room_id | User_id

fun sigil :: "id_kind \<Rightarrow> string" where
  "sigil Event_id = ''$''"
| "sigil Room_id = ''!''"
| "sigil User_id = ''@''"

record ID =
  localpart :: string
  hostname :: string
  id_str :: string

definition empty_ID :: ID where
  "empty_ID = \<lparr>localpart = [], hostname = [], id_str = []\<rparr>"

text \<open>\<open>to_string\<close> of an identifier, and the comparison of user ids.\<close>

definition id_to_string :: "ID \<Rightarrow> string" where
  "id_to_string i = id_str i"

definition User_eq :: "ID \<Rightarrow> ID \<Rightarrow> bool" where
  "User_eq a b \<longleftrightarrow> id_str a = id_str b"

text \<open>
  The template \<open>parse<Identifier>\<close>, with the identifier class as an argument. The substrings start
  inside the id, so they cannot throw.
\<close>

definition parse_id :: "id_kind \<Rightarrow> string \<Rightarrow> ID result" where
  "parse_id Identifier ident =
     (if ident = [] then Inr empty_ID
      else if [ident ! 0] \<noteq> sigil Identifier then
        Inl (Invalid_argument (ident @ '': missing sigil '' @ sigil Identifier))
      else
        case find_char (CHR '':'') ident of
          Some parts \<Rightarrow>
            rbind (substr 1 (Some (parts - 1)) ident) (\<lambda>lp.
            rbind (substr (parts + 1) None ident) (\<lambda>host.
              Inr \<lparr>localpart = lp, hostname = host, id_str = ident\<rparr>))
        | None \<Rightarrow>
            if sigil Identifier = ''$'' \<or> sigil Identifier = ''!'' then
              rbind (substr 1 None ident) (\<lambda>lp.
                Inr \<lparr>localpart = lp, hostname = [], id_str = ident\<rparr>)
            else Inl (Invalid_argument (ident @ '': invalid id'')))"

lemma sigil_single: "\<exists>c. sigil k = [c] \<and> c \<noteq> CHR '':''"
  by (cases k) simp_all

lemma sigil_user: "(sigil k = ''$'' \<or> sigil k = ''!'') \<longleftrightarrow> k \<noteq> User_id"
  by (cases k) simp_all

lemma parse_id_host:
  assumes "CHR '':'' \<notin> set lp"
  shows "parse_id k (sigil k @ lp @ '':'' @ host)
    = Inr \<lparr>localpart = lp, hostname = host, id_str = sigil k @ lp @ '':'' @ host\<rparr>"
proof -
  obtain c where c: "sigil k = [c]" "c \<noteq> CHR '':''" using sigil_single by blast
  have "find_char (CHR '':'') ((c # lp) @ CHR '':'' # host) = Some (length (c # lp))"
    using assms c by (intro find_char_append) simp
  then show ?thesis by (simp add: parse_id_def substr_def c)
qed

lemma parse_id_plain:
  assumes "CHR '':'' \<notin> set lp"
  shows "parse_id k (sigil k @ lp) = (if k = User_id then Inl (Invalid_argument (sigil k @ lp @ '': invalid id''))
     else Inr \<lparr>localpart = lp, hostname = [], id_str = sigil k @ lp\<rparr>)"
proof -
  obtain c where c: "sigil k = [c]" "c \<noteq> CHR '':''" using sigil_single by blast
  have "find_char (CHR '':'') (c # lp) = None" using assms c by simp
  then show ?thesis using sigil_user [of k] c by (cases k) (auto simp: parse_id_def substr_def)
qed

text \<open>
  C38. Parsing an identifier. A well-formed id splits at its first colon, so that sigil, localpart,
  colon and hostname spell the id again; an id without a colon is accepted for events and rooms
  only; everything else raises \<open>std::invalid_argument\<close>, except the empty string, which gives an
  empty identifier. A parsed identifier prints as the string it came from.
\<close>

theorem parse_id_correct:
  "parse_id k [] = Inr empty_ID
   \<and> (\<forall>x. parse_id k ident = Inr x \<longrightarrow> id_to_string x = ident)
   \<and> (CHR '':'' \<notin> set lp \<longrightarrow>
        parse_id k (sigil k @ lp @ '':'' @ host) = Inr \<lparr>localpart = lp, hostname = host, id_str = sigil k @ lp @ '':'' @ host\<rparr>
      \<and> parse_id k (sigil k @ lp) = (if k = User_id then Inl (Invalid_argument (sigil k @ lp @ '': invalid id''))
           else Inr \<lparr>localpart = lp, hostname = [], id_str = sigil k @ lp\<rparr>))
   \<and> (ident \<noteq> [] \<and> [hd ident] \<noteq> sigil k \<longrightarrow> parse_id k ident = Inl (Invalid_argument (ident @ '': missing sigil '' @ sigil k)))"
proof -
  have "parse_id k ident = Inr x \<Longrightarrow> id_to_string x = ident" for x
    by (auto simp: parse_id_def id_to_string_def empty_ID_def rbind_eq_Inr split: if_splits option.splits)
  moreover have "ident \<noteq> [] \<and> [hd ident] \<noteq> sigil k \<longrightarrow> parse_id k ident = Inl (Invalid_argument (ident @ '': missing sigil '' @ sigil k))"
    by (auto simp: parse_id_def hd_conv_nth)
  ultimately show ?thesis using parse_id_host parse_id_plain by (simp add: parse_id_def)
qed

theorem parse_id_correct_witness:
  "parse_id User_id ''@alice:example.com:5000''
     = Inr \<lparr>localpart = ''alice'', hostname = ''example.com:5000'', id_str = ''@alice:example.com:5000''\<rparr>
   \<and> parse_id User_id ''alice:example.com'' = Inl (Invalid_argument ''alice:example.com: missing sigil @'')"
proof
  show "parse_id User_id ''@alice:example.com:5000''
     = Inr \<lparr>localpart = ''alice'', hostname = ''example.com:5000'', id_str = ''@alice:example.com:5000''\<rparr>"
    using parse_id_correct [of User_id "[]" "''alice''" "''example.com:5000''"] by simp
  show "parse_id User_id ''alice:example.com'' = Inl (Invalid_argument ''alice:example.com: missing sigil @'')"
    using parse_id_correct [of User_id "''alice:example.com''"] by simp
qed

end
