(* ===== verification/Event_Types.thy ===== *)
theory Event_Types
  imports Prelude
begin

text \<open>
  The tables that connect Matrix type strings with enumerations: event types and message types
  (\<open>lib/structs/events.cpp\<close>) and error codes (\<open>lib/structs/errors.cpp\<close>).
\<close>

section \<open>Event types\<close>

datatype (plugins only: code) EventType =
    KeyVerificationCancel | KeyVerificationRequest | KeyVerificationStart
  | KeyVerificationAccept | KeyVerificationKey | KeyVerificationMac | KeyVerificationReady
  | KeyVerificationDone | Reaction | RoomKey | ForwardedRoomKey | RoomKeyRequest | RoomAliases
  | RoomAvatar | RoomCanonicalAlias | RoomCreate | RoomEncrypted | RoomEncryption
  | RoomGuestAccess | RoomHistoryVisibility | RoomJoinRules | RoomMember | RoomMessage
  | RoomName | RoomPowerLevels | RoomTopic | RoomRedaction | RoomPinnedEvents | RoomTombstone
  | RoomServerAcl | Sticker | Tag | Presence | PushRules | Widget | VectorWidget
  | PolicyRuleUser | PolicyRuleRoom | PolicyRuleServer | SpaceChild | SpaceParent | CallInvite
  | CallCandidates | CallAnswer | CallHangUp | CallSelectAnswer | CallReject | CallNegotiate
  | SecretRequest | SecretSend | Typing | Receipt | FullyRead | Direct | IgnoredUsers
  | NhekoHiddenEvents | NhekoEventExpiry | NhekoInvitePermissions | ImagePackInRoom
  | ImagePackInAccountData | ImagePackRooms | Dummy | Unsupported

definition getEventType :: "string \<Rightarrow> EventType result" where
  "getEventType type =
     (if type = ''m.key.verification.request'' then Inr KeyVerificationRequest
      else if type = ''m.key.verification.start'' then Inr KeyVerificationStart
      else if type = ''m.key.verification.accept'' then Inr KeyVerificationAccept
      else if type = ''m.key.verification.ready'' then Inr KeyVerificationReady
      else if type = ''m.key.verification.done'' then Inr KeyVerificationDone
      else if type = ''m.key.verification.key'' then Inr KeyVerificationKey
      else if type = ''m.key.verification.mac'' then Inr KeyVerificationMac
      else if type = ''m.key.verification.cancel'' then Inr KeyVerificationCancel
      else if type = ''m.reaction'' then Inr Reaction
      else if type = ''m.room_key'' then Inr RoomKey
      else if type = ''m.forwarded_room_key'' then Inr ForwardedRoomKey
      else if type = ''m.room_key_request'' then Inr RoomKeyRequest
      else if type = ''m.room.aliases'' then Inr RoomAliases
      else if type = ''m.room.avatar'' then Inr RoomAvatar
      else if type = ''m.room.canonical_alias'' then Inr RoomCanonicalAlias
      else if type = ''m.room.create'' then Inr RoomCreate
      else if type = ''m.room.encrypted'' then Inr RoomEncrypted
      else if type = ''m.dummy'' then Inr Dummy
      else if type = ''m.room.encryption'' then Inr RoomEncryption
      else if type = ''m.room.guest_access'' then Inr RoomGuestAccess
      else if type = ''m.room.history_visibility'' then Inr RoomHistoryVisibility
      else if type = ''m.room.join_rules'' then Inr RoomJoinRules
      else if type = ''m.room.member'' then Inr RoomMember
      else if type = ''m.room.message'' then Inr RoomMessage
      else if type = ''m.room.name'' then Inr RoomName
      else if type = ''m.room.power_levels'' then Inr RoomPowerLevels
      else if type = ''m.room.topic'' then Inr RoomTopic
      else if type = ''m.widget'' then Inr Widget
      else if type = ''im.vector.modular.widgets'' then Inr VectorWidget
      else if type = ''m.room.redaction'' then Inr RoomRedaction
      else if type = ''m.room.pinned_events'' then Inr RoomPinnedEvents
      else if type = ''m.room.tombstone'' then Inr RoomTombstone
      else if type = ''m.room.server_acl'' then Inr RoomServerAcl
      else if type = ''m.sticker'' then Inr Sticker
      else if type = ''m.policy.rule.user'' then Inr PolicyRuleUser
      else if type = ''m.policy.rule.room'' then Inr PolicyRuleRoom
      else if type = ''m.policy.rule.server'' then Inr PolicyRuleServer
      else if type = ''m.space.child'' then Inr SpaceChild
      else if type = ''m.space.parent'' then Inr SpaceParent
      else if type = ''m.tag'' then Inr Tag
      else if type = ''m.direct'' then Inr Direct
      else if type = ''m.presence'' then Inr Presence
      else if type = ''m.push_rules'' then Inr PushRules
      else if type = ''m.call.invite'' then Inr CallInvite
      else if type = ''m.call.candidates'' then Inr CallCandidates
      else if type = ''m.call.answer'' then Inr CallAnswer
      else if type = ''m.call.hangup'' then Inr CallHangUp
      else if type = ''m.call.select_answer'' then Inr CallSelectAnswer
      else if type = ''m.call.reject'' then Inr CallReject
      else if type = ''m.call.negotiate'' then Inr CallNegotiate
      else if type = ''m.secret.request'' then Inr SecretRequest
      else if type = ''m.secret.send'' then Inr SecretSend
      else if type = ''m.typing'' then Inr Typing
      else if type = ''m.receipt'' then Inr Receipt
      else if type = ''m.fully_read'' then Inr FullyRead
      else if type = ''m.ignored_user_list'' then Inr IgnoredUsers
      else if type = ''im.nheko.hidden_events'' then Inr NhekoHiddenEvents
      else if type = ''im.nheko.event_expiry'' then Inr NhekoEventExpiry
      else if type = ''im.nheko.invite_permissions'' then Inr NhekoInvitePermissions
      else if type = ''im.ponies.room_emotes'' then Inr ImagePackInRoom
      else if type = ''im.ponies.user_emotes'' then Inr ImagePackInAccountData
      else if type = ''im.ponies.emote_rooms'' then Inr ImagePackRooms
      else if type = '''' then Inl (Invalid_argument ''Empty event type'')
      else Inr Unsupported)"

primrec event_type_to_string :: "EventType \<Rightarrow> string" where
  "event_type_to_string KeyVerificationCancel = ''m.key.verification.cancel''"
| "event_type_to_string KeyVerificationRequest = ''m.key.verification.request''"
| "event_type_to_string KeyVerificationStart = ''m.key.verification.start''"
| "event_type_to_string KeyVerificationAccept = ''m.key.verification.accept''"
| "event_type_to_string KeyVerificationKey = ''m.key.verification.key''"
| "event_type_to_string KeyVerificationReady = ''m.key.verification.ready''"
| "event_type_to_string KeyVerificationDone = ''m.key.verification.done''"
| "event_type_to_string KeyVerificationMac = ''m.key.verification.mac''"
| "event_type_to_string Reaction = ''m.reaction''"
| "event_type_to_string RoomKey = ''m.room_key''"
| "event_type_to_string ForwardedRoomKey = ''m.forwarded_room_key''"
| "event_type_to_string RoomKeyRequest = ''m.room_key_request''"
| "event_type_to_string RoomAliases = ''m.room.aliases''"
| "event_type_to_string RoomAvatar = ''m.room.avatar''"
| "event_type_to_string RoomCanonicalAlias = ''m.room.canonical_alias''"
| "event_type_to_string RoomCreate = ''m.room.create''"
| "event_type_to_string RoomEncrypted = ''m.room.encrypted''"
| "event_type_to_string Dummy = ''m.dummy''"
| "event_type_to_string RoomEncryption = ''m.room.encryption''"
| "event_type_to_string RoomGuestAccess = ''m.room.guest_access''"
| "event_type_to_string RoomHistoryVisibility = ''m.room.history_visibility''"
| "event_type_to_string RoomJoinRules = ''m.room.join_rules''"
| "event_type_to_string RoomMember = ''m.room.member''"
| "event_type_to_string RoomMessage = ''m.room.message''"
| "event_type_to_string RoomName = ''m.room.name''"
| "event_type_to_string RoomPowerLevels = ''m.room.power_levels''"
| "event_type_to_string RoomTopic = ''m.room.topic''"
| "event_type_to_string Widget = ''m.widget''"
| "event_type_to_string VectorWidget = ''im.vector.modular.widgets''"
| "event_type_to_string RoomRedaction = ''m.room.redaction''"
| "event_type_to_string RoomPinnedEvents = ''m.room.pinned_events''"
| "event_type_to_string RoomTombstone = ''m.room.tombstone''"
| "event_type_to_string RoomServerAcl = ''m.room.server_acl''"
| "event_type_to_string Sticker = ''m.sticker''"
| "event_type_to_string PolicyRuleUser = ''m.policy.rule.user''"
| "event_type_to_string PolicyRuleRoom = ''m.policy.rule.room''"
| "event_type_to_string PolicyRuleServer = ''m.policy.rule.server''"
| "event_type_to_string SpaceChild = ''m.space.child''"
| "event_type_to_string SpaceParent = ''m.space.parent''"
| "event_type_to_string Tag = ''m.tag''"
| "event_type_to_string Direct = ''m.direct''"
| "event_type_to_string Presence = ''m.presence''"
| "event_type_to_string PushRules = ''m.push_rules''"
| "event_type_to_string CallInvite = ''m.call.invite''"
| "event_type_to_string CallCandidates = ''m.call.candidates''"
| "event_type_to_string CallAnswer = ''m.call.answer''"
| "event_type_to_string CallHangUp = ''m.call.hangup''"
| "event_type_to_string CallSelectAnswer = ''m.call.select_answer''"
| "event_type_to_string CallReject = ''m.call.reject''"
| "event_type_to_string CallNegotiate = ''m.call.negotiate''"
| "event_type_to_string SecretRequest = ''m.secret.request''"
| "event_type_to_string SecretSend = ''m.secret.send''"
| "event_type_to_string Typing = ''m.typing''"
| "event_type_to_string Receipt = ''m.receipt''"
| "event_type_to_string FullyRead = ''m.fully_read''"
| "event_type_to_string IgnoredUsers = ''m.ignored_user_list''"
| "event_type_to_string NhekoHiddenEvents = ''im.nheko.hidden_events''"
| "event_type_to_string NhekoEventExpiry = ''im.nheko.event_expiry''"
| "event_type_to_string NhekoInvitePermissions = ''im.nheko.invite_permissions''"
| "event_type_to_string ImagePackInRoom = ''im.ponies.room_emotes''"
| "event_type_to_string ImagePackInAccountData = ''im.ponies.user_emotes''"
| "event_type_to_string ImagePackRooms = ''im.ponies.emote_rooms''"
| "event_type_to_string Unsupported = ''''"

section \<open>Message types\<close>

text \<open>The constructors carry the prefix \<open>Msg\<close>, since \<open>EventType\<close> shares some of the names.\<close>

datatype MessageType =
    MsgAudio | MsgEmote | MsgFile | MsgImage | MsgLocation | MsgNotice | MsgText | MsgVideo
  | MsgKeyVerificationRequest | MsgElementEffect | MsgUnknown | MsgRedacted | MsgInvalid

definition getMessageType :: "string \<Rightarrow> MessageType" where
  "getMessageType type =
     (if type = ''m.audio'' then MsgAudio
      else if type = ''m.emote'' then MsgEmote
      else if type = ''m.file'' then MsgFile
      else if type = ''m.image'' then MsgImage
      else if type = ''m.location'' then MsgLocation
      else if type = ''m.notice'' then MsgNotice
      else if type = ''m.text'' then MsgText
      else if type = ''nic.custom.confetti''
        \<or> type = ''nic.custom.fireworks''
        \<or> type = ''io.element.effect.rainfall''
        \<or> type = ''io.element.effect.hearts''
        \<or> type = ''io.element.effect.snowfall''
        \<or> type = ''io.element.effects.space_invaders'' then MsgElementEffect
      else if type = ''m.video'' then MsgVideo
      else if type = ''m.key.verification.request'' then MsgKeyVerificationRequest
      else MsgUnknown)"

section \<open>Error codes\<close>

datatype ErrorCode =
    M_UNRECOGNIZED | M_UNKNOWN | M_FORBIDDEN | M_UNKNOWN_TOKEN | M_BAD_JSON | M_NOT_JSON
  | M_NOT_FOUND | M_LIMIT_EXCEEDED | M_USER_IN_USE | M_INVALID_USERNAME | M_ROOM_IN_USE
  | M_INVALID_ROOM_STATE | M_BAD_PAGINATION | M_THREEPID_IN_USE | M_THREEPID_NOT_FOUND
  | M_SERVER_NOT_TRUSTED | M_MISSING_TOKEN | M_INVALID_SIGNATURE | M_EXCLUSIVE

primrec error_code_to_string :: "ErrorCode \<Rightarrow> string" where
  "error_code_to_string M_UNRECOGNIZED = ''M_UNRECOGNIZED''"
| "error_code_to_string M_FORBIDDEN = ''M_FORBIDDEN''"
| "error_code_to_string M_UNKNOWN_TOKEN = ''M_UNKNOWN_TOKEN''"
| "error_code_to_string M_BAD_JSON = ''M_BAD_JSON''"
| "error_code_to_string M_NOT_JSON = ''M_NOT_JSON''"
| "error_code_to_string M_NOT_FOUND = ''M_NOT_FOUND''"
| "error_code_to_string M_LIMIT_EXCEEDED = ''M_LIMIT_EXCEEDED''"
| "error_code_to_string M_USER_IN_USE = ''M_USER_IN_USE''"
| "error_code_to_string M_INVALID_USERNAME = ''M_INVALID_USERNAME''"
| "error_code_to_string M_ROOM_IN_USE = ''M_ROOM_IN_USE''"
| "error_code_to_string M_INVALID_ROOM_STATE = ''M_INVALID_ROOM_STATE''"
| "error_code_to_string M_BAD_PAGINATION = ''M_BAD_PAGINATION''"
| "error_code_to_string M_THREEPID_IN_USE = ''M_THREEPID_IN_USE''"
| "error_code_to_string M_THREEPID_NOT_FOUND = ''M_THREEPID_NOT_FOUND''"
| "error_code_to_string M_SERVER_NOT_TRUSTED = ''M_SERVER_NOT_TRUSTED''"
| "error_code_to_string M_MISSING_TOKEN = ''M_MISSING_TOKEN''"
| "error_code_to_string M_INVALID_SIGNATURE = ''M_INVALID_SIGNATURE''"
| "error_code_to_string M_EXCLUSIVE = ''M_EXCLUSIVE''"
| "error_code_to_string M_UNKNOWN = ''M_UNKNOWN''"

definition error_code_from_string :: "string \<Rightarrow> ErrorCode" where
  "error_code_from_string code =
     (if code = ''M_FORBIDDEN'' then M_FORBIDDEN
      else if code = ''M_UNKNOWN_TOKEN'' then M_UNKNOWN_TOKEN
      else if code = ''M_BAD_JSON'' then M_BAD_JSON
      else if code = ''M_NOT_JSON'' then M_NOT_JSON
      else if code = ''M_NOT_FOUND'' then M_NOT_FOUND
      else if code = ''M_LIMIT_EXCEEDED'' then M_LIMIT_EXCEEDED
      else if code = ''M_USER_IN_USE'' then M_USER_IN_USE
      else if code = ''M_INVALID_USERNAME'' then M_INVALID_USERNAME
      else if code = ''M_ROOM_IN_USE'' then M_ROOM_IN_USE
      else if code = ''M_INVALID_ROOM_STATE'' then M_INVALID_ROOM_STATE
      else if code = ''M_BAD_PAGINATION'' then M_BAD_PAGINATION
      else if code = ''M_THREEPID_IN_USE'' then M_THREEPID_IN_USE
      else if code = ''M_THREEPID_NOT_FOUND'' then M_THREEPID_NOT_FOUND
      else if code = ''M_SERVER_NOT_TRUSTED'' then M_SERVER_NOT_TRUSTED
      else if code = ''M_MISSING_TOKEN'' then M_MISSING_TOKEN
      else if code = ''M_INVALID_SIGNATURE'' then M_INVALID_SIGNATURE
      else if code = ''M_EXCLUSIVE'' then M_EXCLUSIVE
      else if code = ''M_UNKNOWN'' then M_UNKNOWN
      else M_UNRECOGNIZED)"

section \<open>Properties\<close>

lemma getEventType_to_string: "t \<noteq> Unsupported \<Longrightarrow> getEventType (event_type_to_string t) = Inr t"
  by (cases t) (simp_all add: getEventType_def)

text \<open>A branch of a chain of conditions, without the negated conditions before it.\<close>

lemma if_eqE: "(if c then x else y) = z \<Longrightarrow> (c \<Longrightarrow> x = z \<Longrightarrow> R) \<Longrightarrow> (y = z \<Longrightarrow> R) \<Longrightarrow> R"
  by (auto split: if_splits)

lemma getEventType_inverse:
  "getEventType s = Inr t \<Longrightarrow> t \<noteq> Unsupported \<Longrightarrow> event_type_to_string t = s"
  unfolding getEventType_def by (elim if_eqE) auto

lemma getEventType_Inl: "getEventType s = Inl e \<longleftrightarrow> s = [] \<and> e = Invalid_argument ''Empty event type''"
proof
  show "getEventType s = Inl e \<Longrightarrow> s = [] \<and> e = Invalid_argument ''Empty event type''"
    unfolding getEventType_def by (elim if_eqE) auto
qed (auto simp: getEventType_def)

lemma error_code_roundtrip: "error_code_from_string (error_code_to_string c) = c"
  by (cases c) (simp_all add: error_code_from_string_def)

lemma error_code_inverse: "error_code_from_string s = c \<Longrightarrow> c \<noteq> M_UNRECOGNIZED \<Longrightarrow> error_code_to_string c = s"
  unfolding error_code_from_string_def by (elim if_eqE) auto

text \<open>
  Event types and their names are in bijection: naming a type and reading the name gives the
  type, a name that is recognised is the name of its type, and so every string other than a known
  name reads as \<open>Unsupported\<close>, the empty string excepted, which is the only error.
\<close>

theorem event_type_bijection:
  "(t \<noteq> Unsupported \<longrightarrow> getEventType (event_type_to_string t) = Inr t)
   \<and> (getEventType s = Inr t \<and> t \<noteq> Unsupported \<longrightarrow> event_type_to_string t = s)
   \<and> (getEventType s = Inr Unsupported \<longleftrightarrow> s \<notin> range event_type_to_string)
   \<and> ((\<exists>e. getEventType s = Inl e) \<longleftrightarrow> s = [])"
proof -
  have "getEventType s = Inr Unsupported \<longleftrightarrow> s \<notin> range event_type_to_string"
  proof
    assume u: "getEventType s = Inr Unsupported"
    show "s \<notin> range event_type_to_string"
    proof
      assume "s \<in> range event_type_to_string"
      then obtain t where t: "s = event_type_to_string t" by blast
      show False
      proof (cases "t = Unsupported")
        case True
        with t have "s = []" by simp
        with u show False using getEventType_Inl [of s "Invalid_argument ''Empty event type''"] by simp
      next
        case False
        with t u getEventType_to_string [of t] show False by simp
      qed
    qed
  next
    assume r: "s \<notin> range event_type_to_string"
    then have "s \<noteq> []" using event_type_to_string.simps(63) by (metis rangeI)
    then obtain t where t: "getEventType s = Inr t" using getEventType_Inl [of s] by (cases "getEventType s") auto
    with r getEventType_inverse [OF t] show "getEventType s = Inr Unsupported" by (metis rangeI)
  qed
  then show ?thesis using getEventType_to_string getEventType_inverse getEventType_Inl by auto
qed

theorem event_type_bijection_witness:
  "getEventType ''m.room.member'' = Inr RoomMember \<and> (\<exists>e. getEventType [] = Inl e)"
  using event_type_bijection [of RoomMember "[]"] by simp

text \<open>
  Error codes survive printing and reading; a string that reads as a code other than
  \<open>M_UNRECOGNIZED\<close> is the name of that code, so an unknown code of a server reads as
  \<open>M_UNRECOGNIZED\<close>.
\<close>

theorem error_code_bijection:
  "error_code_from_string (error_code_to_string c) = c
   \<and> (error_code_from_string s = M_UNRECOGNIZED \<longleftrightarrow> s \<notin> error_code_to_string ` (UNIV - {M_UNRECOGNIZED}))"
  using error_code_roundtrip error_code_inverse [of s]
  by (metis DiffD2 DiffI UNIV_I image_iff insertI1 singletonD)

end
