(* ===== verification/Json.thy ===== *)
theory Json
  imports Prelude
begin

text \<open>
  The interface to the JSON library (nlohmann::json, which is not part of the sources). The library
  is a record of operations over an abstract type of JSON values; the definitions that model code
  take such a record as an argument. What the code relies on is the locale \<open>json_library\<close>: the
  documented behaviour of constructors, element access and conversions. Reading a field that was
  written, for every kind of field, is proved once in the locale. The locale is interpreted on a
  datatype of JSON trees, which the witnesses evaluate.
\<close>

section \<open>The operations\<close>

datatype jtype =
    JNull | JObject | JArray | JString | JBoolean | JInteger | JUnsigned | JFloat

text \<open>
  \<open>jset J j k v\<close> is \<open>j[k] = v\<close> and is used on null and object values only (on others the library
  throws); \<open>jpush\<close> is \<open>push_back\<close>; \<open>jof_array\<close> and \<open>jof_object\<close> are the conversions from
  \<open>std::vector\<close> and \<open>std::map\<close>; \<open>jitems\<close> are the members of an object in the order of the
  traversal, \<open>jelems\<close> the elements of an array. The \<open>jget\<close> operations are \<open>get<T>()\<close>.
  A \<open>double\<close>, which the code stores and copies only, is its bit pattern.
  \<open>jdump\<close> throws on strings that are not UTF-8, \<open>jparse\<close> on malformed text.
\<close>

record 'j json_lib =
  jtype_of :: "'j \<Rightarrow> jtype"
  jnull :: 'j
  jstring :: "string \<Rightarrow> 'j"
  jbool :: "bool \<Rightarrow> 'j"
  jint :: "int \<Rightarrow> 'j"
  jof_array :: "'j list \<Rightarrow> 'j"
  jof_object :: "'j smap \<Rightarrow> 'j"
  jcontains :: "'j \<Rightarrow> string \<Rightarrow> bool"
  jat :: "'j \<Rightarrow> string \<Rightarrow> 'j result"
  jitems :: "'j \<Rightarrow> 'j smap"
  jelems :: "'j \<Rightarrow> 'j list"
  jset :: "'j \<Rightarrow> string \<Rightarrow> 'j \<Rightarrow> 'j"
  jerase :: "'j \<Rightarrow> string \<Rightarrow> 'j"
  jpush :: "'j \<Rightarrow> 'j \<Rightarrow> 'j"
  jget_string :: "'j \<Rightarrow> string result"
  jget_bool :: "'j \<Rightarrow> bool result"
  jget_int64 :: "'j \<Rightarrow> int result"
  jget_uint64 :: "'j \<Rightarrow> int result"
  jdouble :: "64 word \<Rightarrow> 'j"
  jget_double :: "'j \<Rightarrow> 64 word result"
  jdump :: "'j \<Rightarrow> string result"
  jparse :: "string \<Rightarrow> 'j result"

abbreviation type_error :: "'a result" where
  "type_error \<equiv> Inl (Json_exn Type_error)"

abbreviation key_error :: "'a result" where
  "key_error \<equiv> Inl (Json_exn Out_of_range_json)"

section \<open>Derived operations\<close>

text \<open>
  \<open>value(key, default)\<close> is documented as \<open>at(key)\<close> with the default when the key is missing;
  conversions to \<open>std::vector\<close> and \<open>std::map\<close> convert the elements of an array and the members
  of an object.
\<close>

definition jvalue :: "'j json_lib \<Rightarrow> ('j \<Rightarrow> 'a result) \<Rightarrow> 'j \<Rightarrow> string \<Rightarrow> 'a \<Rightarrow> 'a result" where
  "jvalue J conv j k d =
     (case jat J j k of
        Inr v \<Rightarrow> conv v
      | Inl e \<Rightarrow> if e = Json_exn Out_of_range_json then Inr d else Inl e)"

definition jget_list :: "'j json_lib \<Rightarrow> ('j \<Rightarrow> 'a result) \<Rightarrow> 'j \<Rightarrow> 'a list result" where
  "jget_list J conv j = (if jtype_of J j = JArray then mapM conv (jelems J j) else type_error)"

definition jget_map :: "'j json_lib \<Rightarrow> ('j \<Rightarrow> 'a result) \<Rightarrow> 'j \<Rightarrow> 'a smap result" where
  "jget_map J conv j =
     (if jtype_of J j = JObject
      then mapM (\<lambda>(k, v). rbind (conv v) (\<lambda>x. Inr (k, x))) (jitems J j)
      else type_error)"

text \<open>\<open>obj.at(k).get<T>()\<close>, and the same for a field that may be missing.\<close>

definition jat_as :: "'j json_lib \<Rightarrow> ('j \<Rightarrow> 'a result) \<Rightarrow> 'j \<Rightarrow> string \<Rightarrow> 'a result" where
  "jat_as J conv j k = rbind (jat J j k) conv"

definition jopt :: "'j json_lib \<Rightarrow> ('j \<Rightarrow> 'a result) \<Rightarrow> 'j \<Rightarrow> string \<Rightarrow> 'a \<Rightarrow> 'a result" where
  "jopt J conv j k d = (if jcontains J j k then jat_as J conv j k else Inr d)"

text \<open>
  A range-based loop over a value: the elements of an array, the members of an object, nothing for
  null, and the value itself for any other.
\<close>

definition jiterate :: "'j json_lib \<Rightarrow> 'j \<Rightarrow> 'j list" where
  "jiterate J j =
     (case jtype_of J j of
        JArray \<Rightarrow> jelems J j
      | JObject \<Rightarrow> map snd (jitems J j)
      | JNull \<Rightarrow> []
      | _ \<Rightarrow> [j])"

text \<open>
  \<open>items()\<close> of any value: the members of an object, the elements of an array under their indices, nothing
  for null, and any other value itself under the empty key.
\<close>

definition jpairs :: "'j json_lib \<Rightarrow> 'j \<Rightarrow> (string \<times> 'j) list" where
  "jpairs J j =
     (case jtype_of J j of
        JObject \<Rightarrow> jitems J j
      | JArray \<Rightarrow> zip (map dec_string [0..<length (jelems J j)]) (jelems J j)
      | JNull \<Rightarrow> []
      | _ \<Rightarrow> [([], j)])"

definition jarray :: "'j json_lib \<Rightarrow> 'j" where
  "jarray J = jof_array J []"

definition jobject :: "'j json_lib \<Rightarrow> 'j" where
  "jobject J = jof_object J []"

definition jstrings :: "'j json_lib \<Rightarrow> string list \<Rightarrow> 'j" where
  "jstrings J xs = jof_array J (map (jstring J) xs)"

definition jof_map :: "'j json_lib \<Rightarrow> ('a \<Rightarrow> 'j) \<Rightarrow> 'a smap \<Rightarrow> 'j" where
  "jof_map J f m = jof_object J (map (\<lambda>(k, v). (k, f v)) m)"

text \<open>\<open>json::empty()\<close>.\<close>

definition jempty :: "'j json_lib \<Rightarrow> 'j \<Rightarrow> bool" where
  "jempty J j =
     (case jtype_of J j of
        JNull \<Rightarrow> True
      | JObject \<Rightarrow> jitems J j = []
      | JArray \<Rightarrow> jelems J j = []
      | _ \<Rightarrow> False)"

text \<open>An optional field: \<open>if (c) obj[k] = v;\<close>\<close>

definition jset_if :: "'j json_lib \<Rightarrow> bool \<Rightarrow> 'j \<Rightarrow> string \<Rightarrow> 'j \<Rightarrow> 'j" where
  "jset_if J c j k v = (if c then jset J j k v else j)"

text \<open>\<open>obj[k1][k2] = v\<close>: the inner value is created as null when it is not there.\<close>

definition jmember :: "'j json_lib \<Rightarrow> 'j \<Rightarrow> string \<Rightarrow> 'j" where
  "jmember J j k = (if jcontains J j k then (case jat J j k of Inr v \<Rightarrow> v | Inl _ \<Rightarrow> jnull J) else jnull J)"

definition jset2 :: "'j json_lib \<Rightarrow> 'j \<Rightarrow> string \<Rightarrow> string \<Rightarrow> 'j \<Rightarrow> 'j" where
  "jset2 J j k1 k2 v = jset J j k1 (jset J (jmember J j k1) k2 v)"

definition is_object_or_null :: "'j json_lib \<Rightarrow> 'j \<Rightarrow> bool" where
  "is_object_or_null J j \<longleftrightarrow> jtype_of J j \<in> {JNull, JObject}"

text \<open>\<open>obj[k] = v\<close> on a value that need not be an object, and \<open>obj[k1][k2] = v\<close>\<close>

definition jassign :: "'j json_lib \<Rightarrow> 'j \<Rightarrow> string \<Rightarrow> 'j \<Rightarrow> 'j result" where
  "jassign J j k v = (if is_object_or_null J j then Inr (jset J j k v) else type_error)"

definition jassign2 :: "'j json_lib \<Rightarrow> 'j \<Rightarrow> string \<Rightarrow> string \<Rightarrow> 'j \<Rightarrow> 'j result" where
  "jassign2 J j k1 k2 v =
     (if is_object_or_null J j then rbind (jassign J (jmember J j k1) k2 v) (\<lambda>w. Inr (jset J j k1 w)) else type_error)"

text \<open>\<open>if (obj.contains(k) && P(obj.at(k))) x = obj.at(k).get<T>()\<close> with a test \<open>P\<close> of the type\<close>

definition jopt_if :: "'j json_lib \<Rightarrow> (jtype \<Rightarrow> bool) \<Rightarrow> ('j \<Rightarrow> 'a result) \<Rightarrow> 'j \<Rightarrow> string \<Rightarrow> 'a \<Rightarrow> 'a result" where
  "jopt_if J P conv j k d =
     (if jcontains J j k \<and> P (jtype_of J (jmember J j k)) then jat_as J conv j k else Inr d)"

abbreviation not_null :: "jtype \<Rightarrow> bool" where
  "not_null t \<equiv> t \<noteq> JNull"

definition jis_number :: "'j json_lib \<Rightarrow> 'j \<Rightarrow> bool" where
  "jis_number J j \<longleftrightarrow> jtype_of J j \<in> {JInteger, JUnsigned, JFloat}"

text \<open>The members of a value as a map, empty for a value that is not an object.\<close>

definition jfields :: "'j json_lib \<Rightarrow> 'j \<Rightarrow> string \<Rightarrow> 'j option" where
  "jfields J j = (if jtype_of J j = JObject then map_of (jitems J j) else Map.empty)"

section \<open>The contract\<close>

locale json_library =
  fixes J :: "'j json_lib"
  assumes type_null: "jtype_of J (jnull J) = JNull"
    and type_string: "jtype_of J (jstring J s) = JString"
    and type_bool: "jtype_of J (jbool J b) = JBoolean"
    and type_int: "jtype_of J (jint J n) = JInteger \<or> jtype_of J (jint J n) = JUnsigned"
    and type_array: "jtype_of J (jof_array J xs) = JArray"
    and type_object: "jtype_of J (jof_object J m) = JObject"
    and type_set: "jtype_of J j \<in> {JNull, JObject} \<Longrightarrow> jtype_of J (jset J j k v) = JObject"
    and type_erase: "jtype_of J j = JObject \<Longrightarrow> jtype_of J (jerase J j k) = JObject"
    and type_push: "jtype_of J j \<in> {JNull, JArray} \<Longrightarrow> jtype_of J (jpush J j v) = JArray"
    and items_sorted: "smap_ok (jitems J j)"
    and items_object: "smap_ok m \<Longrightarrow> jitems J (jof_object J m) = m"
    and items_set: "jtype_of J j = JObject \<Longrightarrow> jitems J (jset J j k v) = map_set k v (jitems J j)"
    and items_set_null: "jtype_of J j = JNull \<Longrightarrow> jitems J (jset J j k v) = [(k, v)]"
    and items_erase: "jtype_of J j = JObject \<Longrightarrow> jitems J (jerase J j k) = filter (\<lambda>(k', _). k' \<noteq> k) (jitems J j)"
    and elems_array: "jelems J (jof_array J xs) = xs"
    and elems_push: "jtype_of J j = JArray \<Longrightarrow> jelems J (jpush J j v) = jelems J j @ [v]"
    and elems_push_null: "jtype_of J j = JNull \<Longrightarrow> jelems J (jpush J j v) = [v]"
    and dump_items: "jtype_of J j = JObject \<Longrightarrow> jtype_of J v = JObject \<Longrightarrow> jitems J j = jitems J v \<Longrightarrow> jdump J j = jdump J v"
    and contains_iff: "jcontains J j k \<longleftrightarrow> jtype_of J j = JObject \<and> map_of (jitems J j) k \<noteq> None"
    and at_eq: "jat J j k = (if jtype_of J j \<noteq> JObject then type_error
      else case map_of (jitems J j) k of None \<Rightarrow> key_error | Some v \<Rightarrow> Inr v)"
    and get_string: "jget_string J (jstring J s) = Inr s"
    and get_string_other: "jtype_of J j \<noteq> JString \<Longrightarrow> jget_string J j = type_error"
    and get_string_ok: "jtype_of J j = JString \<Longrightarrow> \<exists>s. jget_string J j = Inr s"
    and get_bool: "jget_bool J (jbool J b) = Inr b"
    and get_bool_ok: "jtype_of J j = JBoolean \<Longrightarrow> \<exists>b. jget_bool J j = Inr b"
    and get_bool_other: "jtype_of J j \<noteq> JBoolean \<Longrightarrow> jget_bool J j = type_error"
    and get_int64: "- (2 ^ 63) \<le> n \<Longrightarrow> n < 2 ^ 63 \<Longrightarrow> jget_int64 J (jint J n) = Inr n"
    and get_int64_ok: "jtype_of J j \<in> {JInteger, JUnsigned} \<Longrightarrow> \<exists>n. jget_int64 J j = Inr n"
    and type_double: "jtype_of J (jdouble J d) = JFloat"
    and get_double: "jget_double J (jdouble J d) = Inr d"
    and get_uint64: "0 \<le> n \<Longrightarrow> n < 2 ^ 64 \<Longrightarrow> jget_uint64 J (jint J n) = Inr n"
begin

lemmas types [simp] =
  type_null type_string type_bool type_double type_array type_object type_set type_erase type_push

lemma int_not_other [simp]:
  "jtype_of J (jint J n) \<noteq> JObject" "jtype_of J (jint J n) \<noteq> JString" "jtype_of J (jint J n) \<noteq> JArray"
  "jtype_of J (jint J n) \<noteq> JNull" "jtype_of J (jint J n) \<noteq> JBoolean"
  using type_int [of n] by auto

lemma contains_fields: "jcontains J j k \<longleftrightarrow> jfields J j k \<noteq> None"
  by (simp add: contains_iff jfields_def)

lemma at_fields: "jtype_of J j = JObject \<Longrightarrow> jat J j k = (case jfields J j k of None \<Rightarrow> key_error | Some v \<Rightarrow> Inr v)"
  by (simp add: at_eq jfields_def)

lemma value_fields:
  "jtype_of J j = JObject \<Longrightarrow> jvalue J conv j k d = (case jfields J j k of None \<Rightarrow> Inr d | Some v \<Rightarrow> conv v)"
  by (simp add: jvalue_def at_fields split: option.splits)

lemma value_not_object: "jtype_of J j \<noteq> JObject \<Longrightarrow> jvalue J conv j k d = type_error"
  by (simp add: jvalue_def at_eq)

lemma at_as_fields:
  "jtype_of J j = JObject \<Longrightarrow> jat_as J conv j k = (case jfields J j k of None \<Rightarrow> key_error | Some v \<Rightarrow> conv v)"
  by (simp add: jat_as_def at_fields split: option.splits)

lemma opt_fields: "jopt J conv j k d = (case jfields J j k of None \<Rightarrow> Inr d | Some v \<Rightarrow> conv v)"
  by (auto simp: jopt_def jat_as_def contains_fields jfields_def at_eq split: option.splits if_splits)

lemma fields_null [simp]: "jtype_of J j = JNull \<Longrightarrow> jfields J j = Map.empty"
  by (simp add: jfields_def)

lemma fields_object [simp]: "smap_ok m \<Longrightarrow> jfields J (jof_object J m) = map_of m"
  by (simp add: jfields_def items_object)

lemma object_or_null_simps [simp]:
  "is_object_or_null J (jnull J)" "is_object_or_null J (jof_object J m)"
  "is_object_or_null J j \<Longrightarrow> is_object_or_null J (jset J j k v)"
  "is_object_or_null J j \<Longrightarrow> is_object_or_null J (jset_if J c j k v)"
  by (auto simp: is_object_or_null_def jset_if_def)

text \<open>Writing a field updates the map of fields; an optional write does so under its condition.\<close>

lemma type_set' [simp]: "is_object_or_null J j \<Longrightarrow> jtype_of J (jset J j k v) = JObject"
  by (simp add: is_object_or_null_def)

lemma type_set_if [simp]: "jtype_of J j = JObject \<Longrightarrow> jtype_of J (jset_if J c j k v) = JObject"
  by (simp add: jset_if_def)

lemma fields_set [simp]: "is_object_or_null J j \<Longrightarrow> jfields J (jset J j k v) = (jfields J j)(k \<mapsto> v)"
  by (auto simp: is_object_or_null_def jfields_def items_set items_set_null)

lemma assign_object [simp]: "is_object_or_null J j \<Longrightarrow> jassign J j k v = Inr (jset J j k v)"
  by (simp add: jassign_def)

lemma fields_set_if [simp]:
  "is_object_or_null J j \<Longrightarrow> jfields J (jset_if J c j k v) = (if c then (jfields J j)(k \<mapsto> v) else jfields J j)"
  by (simp add: jset_if_def)

lemma fields_erase [simp]: "jtype_of J j = JObject \<Longrightarrow> jfields J (jerase J j k) = (jfields J j)(k := None)"
  by (simp add: jfields_def items_erase map_of_filter_key)

lemma member_fields: "jmember J j k = (case jfields J j k of None \<Rightarrow> jnull J | Some v \<Rightarrow> v)"
  by (auto simp: jmember_def contains_fields jfields_def at_eq split: option.splits if_splits)

lemma opt_if_fields:
  "jopt_if J P conv j k d =
     (case jfields J j k of None \<Rightarrow> Inr d | Some v \<Rightarrow> if P (jtype_of J v) then conv v else Inr d)"
  by (auto simp: jopt_if_def contains_fields member_fields jat_as_def jfields_def at_eq split: option.splits if_splits)

lemma member_set:
  "is_object_or_null J j \<Longrightarrow> jmember J (jset J j k v) k' = (if k' = k then v else jmember J j k')"
  by (simp add: member_fields)

lemma fields_set2 [simp]:
  "is_object_or_null J j \<Longrightarrow>
   jfields J (jset2 J j k1 k2 v) = (jfields J j)(k1 \<mapsto> jset J (jmember J j k1) k2 v)"
  by (simp add: jset2_def)

lemma get_list_strings [simp]: "jget_list J (jget_string J) (jstrings J xs) = Inr xs"
  using mapM_map [of xs "jget_string J" "jstring J" "\<lambda>x. x"]
  by (simp add: jget_list_def jstrings_def elems_array get_string)

lemma get_map_of_map:
  assumes "smap_ok m" and "\<And>v. v \<in> snd ` set m \<Longrightarrow> conv (f v) = Inr v"
  shows "jget_map J conv (jof_map J f m) = Inr m"
proof -
  have "smap_ok (map (\<lambda>(k, v). (k, f v)) m)"
    using assms(1) by (simp add: smap_ok_def comp_def case_prod_beta)
  moreover have "mapM (\<lambda>(k, v). rbind (conv v) (\<lambda>x. Inr (k, x))) (map (\<lambda>(k, v). (k, f v)) m) = Inr (map (\<lambda>x. x) m)"
    using assms(2) by (intro mapM_map) force
  ultimately show ?thesis by (simp add: jget_map_def jof_map_def items_object)
qed

lemma get_map_strings [simp]:
  "smap_ok m \<Longrightarrow> jget_map J (jget_string J) (jof_map J (jstring J) m) = Inr m"
  by (simp add: get_map_of_map get_string)

lemma get_map_map_strings [simp]:
  assumes "smap_ok m" and "\<forall>v \<in> snd ` set m. smap_ok v"
  shows "jget_map J (jget_map J (jget_string J)) (jof_map J (jof_map J (jstring J)) m) = Inr m"
  using assms by (intro get_map_of_map) (auto simp: get_string)

lemmas reads = at_as_fields opt_fields opt_if_fields value_fields

lemmas gets [simp] = get_string get_bool get_int64 get_uint64 get_double

end

section \<open>JSON trees\<close>

datatype json =
    Null
  | Bool bool
  | Num int
  | Float "64 word"
  | Str string
  | Arr "json list"
  | Obj "json smap"

fun tree_type :: "json \<Rightarrow> jtype" where
  "tree_type Null = JNull"
| "tree_type (Bool _) = JBoolean"
| "tree_type (Num n) = (if n < 0 then JInteger else JUnsigned)"
| "tree_type (Float _) = JFloat"
| "tree_type (Str _) = JString"
| "tree_type (Arr _) = JArray"
| "tree_type (Obj _) = JObject"

fun tree_items :: "json \<Rightarrow> json smap" where
  "tree_items (Obj m) = to_smap m"
| "tree_items _ = []"

fun tree_elems :: "json \<Rightarrow> json list" where
  "tree_elems (Arr xs) = xs"
| "tree_elems _ = []"

definition tree_at :: "json \<Rightarrow> string \<Rightarrow> json result" where
  "tree_at j k = (case j of
       Obj m \<Rightarrow> (case map_of m k of None \<Rightarrow> key_error | Some v \<Rightarrow> Inr v)
     | _ \<Rightarrow> type_error)"

definition tree_set :: "json \<Rightarrow> string \<Rightarrow> json \<Rightarrow> json" where
  "tree_set j k v = (case j of Obj m \<Rightarrow> Obj (map_set k v (to_smap m)) | Null \<Rightarrow> Obj [(k, v)] | _ \<Rightarrow> j)"

definition tree_erase :: "json \<Rightarrow> string \<Rightarrow> json" where
  "tree_erase j k = (case j of Obj m \<Rightarrow> Obj (filter (\<lambda>(k', _). k' \<noteq> k) (to_smap m)) | _ \<Rightarrow> j)"

definition tree_push :: "json \<Rightarrow> json \<Rightarrow> json" where
  "tree_push j v = (case j of Arr xs \<Rightarrow> Arr (xs @ [v]) | Null \<Rightarrow> Arr [v] | _ \<Rightarrow> j)"

text \<open>A text format for trees that only the empty array, the empty object and null need in the witnesses.\<close>

definition tree_dump :: "json \<Rightarrow> string result" where
  "tree_dump j = (case j of Null \<Rightarrow> Inr ''null'' | Obj [] \<Rightarrow> Inr ''{}'' | Arr [] \<Rightarrow> Inr ''[]'' | _ \<Rightarrow> Inr ''?'')"

definition tree_parse :: "string \<Rightarrow> json result" where
  "tree_parse s = (if s = ''null'' then Inr Null else if s = ''{}'' then Inr (Obj []) else if s = ''[]'' then Inr (Arr [])
     else Inl (Json_exn Parse_error))"

definition tree_lib :: "json json_lib" where
  "tree_lib =
     \<lparr>jtype_of = tree_type, jnull = Null, jstring = Str, jbool = Bool, jint = Num,
      jof_array = Arr, jof_object = Obj,
      jcontains = (\<lambda>j k. case j of Obj m \<Rightarrow> map_of m k \<noteq> None | _ \<Rightarrow> False),
      jat = tree_at, jitems = tree_items, jelems = tree_elems,
      jset = tree_set, jerase = tree_erase, jpush = tree_push,
      jget_string = (\<lambda>j. case j of Str s \<Rightarrow> Inr s | _ \<Rightarrow> type_error),
      jget_bool = (\<lambda>j. case j of Bool b \<Rightarrow> Inr b | _ \<Rightarrow> type_error),
      jget_int64 = (\<lambda>j. case j of Num n \<Rightarrow> Inr n | _ \<Rightarrow> type_error),
      jget_uint64 = (\<lambda>j. case j of Num n \<Rightarrow> Inr n | _ \<Rightarrow> type_error),
      jdouble = Float, jget_double = (\<lambda>j. case j of Float d \<Rightarrow> Inr d | _ \<Rightarrow> type_error),
      jdump = tree_dump, jparse = tree_parse\<rparr>"

lemma tree_sel:
  "jtype_of tree_lib = tree_type" "jitems tree_lib = tree_items" "jelems tree_lib = tree_elems"
  "jnull tree_lib = Null" "jstring tree_lib = Str" "jbool tree_lib = Bool" "jint tree_lib = Num"
  "jget_string tree_lib (Str s) = Inr s" "jget_bool tree_lib (Bool b) = Inr b" "jget_int64 tree_lib (Num n) = Inr n"
  by (simp_all add: tree_lib_def)

lemmas tree_defs = tree_lib_def tree_at_def tree_set_def tree_erase_def tree_push_def

lemma tree_items_ok: "smap_ok (tree_items j)"
  by (cases j) simp_all

lemma map_set_not_Nil [simp]: "map_set k v m \<noteq> []"
  by (cases m) (auto split: if_splits)

lemma tree_dump_items:
  assumes "tree_type j = JObject" and "tree_type v = JObject" and "tree_items j = tree_items v"
  shows "tree_dump j = tree_dump v"
proof -
  have shape: "\<exists>m. x = Obj m \<and> (m = [] \<longleftrightarrow> tree_items x = [])" if "tree_type x = JObject" for x
  proof (cases x)
    case (Obj m)
    then show ?thesis by (cases m) (auto simp: to_smap_def)
  qed (use that in \<open>auto split: if_splits\<close>)
  obtain m n where "j = Obj m" "v = Obj n" "m = [] \<longleftrightarrow> n = []" using shape assms by metis
  then show ?thesis by (cases m; cases n) (auto simp: tree_dump_def)
qed

interpretation tree: json_library tree_lib
  by unfold_locales (auto simp: tree_defs tree_items_ok dest: tree_dump_items split: json.splits option.splits if_splits)

lemma tree_lib_library: "json_library tree_lib"
  by (rule tree.json_library_axioms)

end
