(* ===== verification/Crypto_Json.thy ===== *)
theory Crypto_Json
  imports Json
begin

text \<open>
  The key structures shared by the crypto endpoints and their JSON form: \<open>lib/structs/common.cpp\<close>
  (device keys, cross-signing keys, encrypted files) and \<open>lib/crypto/types.cpp\<close> (exported
  sessions, identity and one-time keys). Each pair of conversions is shown to be a round trip for
  every JSON library that meets the contract.
\<close>

section \<open>Structures\<close>

type_synonym signatures = "string smap smap"

record DeviceKeys =
  dk_user_id :: string
  dk_device_id :: string
  dk_algorithms :: "string list"
  dk_keys :: "string smap"
  dk_signatures :: signatures
  dk_device_display_name :: string

record CrossSigningKeys =
  csk_user_id :: string
  csk_usage :: "string list"
  csk_keys :: "string smap"
  csk_signatures :: signatures

record JWK =
  jwk_kty :: string
  jwk_key_ops :: "string list"
  jwk_alg :: string
  jwk_k :: string
  jwk_ext :: bool

record EncryptedFile =
  ef_url :: string
  ef_key :: JWK
  ef_iv :: string
  ef_hashes :: "string smap"
  ef_v :: string

record ExportedSession =
  es_sender_claimed_keys :: "string smap"
  es_forwarding_curve25519_key_chain :: "string list"
  es_algorithm :: string
  es_room_id :: string
  es_sender_key :: string
  es_session_id :: string
  es_session_key :: string

record IdentityKeys =
  ik_curve25519 :: string
  ik_ed25519 :: string

section \<open>Conversions of \<open>lib/structs/common.cpp\<close>\<close>

definition jstring_map :: "'j json_lib \<Rightarrow> string smap \<Rightarrow> 'j" where
  "jstring_map J = jof_map J (jstring J)"

definition jget_string_map :: "'j json_lib \<Rightarrow> 'j \<Rightarrow> string smap result" where
  "jget_string_map J = jget_map J (jget_string J)"

definition UnsignedDeviceInfo_from_json :: "'j json_lib \<Rightarrow> 'j \<Rightarrow> string result" where
  "UnsignedDeviceInfo_from_json J obj = jopt J (jget_string J) obj ''device_display_name'' []"

definition UnsignedDeviceInfo_to_json :: "'j json_lib \<Rightarrow> string \<Rightarrow> 'j" where
  "UnsignedDeviceInfo_to_json J name =
     jset_if J (name \<noteq> []) (jnull J) ''device_display_name'' (jstring J name)"

definition DeviceKeys_from_json :: "'j json_lib \<Rightarrow> 'j \<Rightarrow> DeviceKeys result" where
  "DeviceKeys_from_json J obj =
     rbind (jat_as J (jget_string J) obj ''user_id'') (\<lambda>user_id.
     rbind (jat_as J (jget_string J) obj ''device_id'') (\<lambda>device_id.
     rbind (jat_as J (jget_list J (jget_string J)) obj ''algorithms'') (\<lambda>algorithms.
     rbind (jat_as J (jget_string_map J) obj ''keys'') (\<lambda>keys.
     rbind (jopt J (jget_map J (jget_string_map J)) obj ''signatures'' []) (\<lambda>signatures.
     rbind (jopt J (UnsignedDeviceInfo_from_json J) obj ''unsigned'' []) (\<lambda>name.
       Inr \<lparr>dk_user_id = user_id, dk_device_id = device_id, dk_algorithms = algorithms,
            dk_keys = keys, dk_signatures = signatures, dk_device_display_name = name\<rparr>))))))"

definition DeviceKeys_to_json :: "'j json_lib \<Rightarrow> DeviceKeys \<Rightarrow> 'j" where
  "DeviceKeys_to_json J res =
     (let obj = jset J (jnull J) ''user_id'' (jstring J (dk_user_id res));
          obj = jset J obj ''device_id'' (jstring J (dk_device_id res));
          obj = jset J obj ''algorithms'' (jstrings J (dk_algorithms res));
          obj = jset J obj ''keys'' (jstring_map J (dk_keys res));
          obj = jset J obj ''signatures'' (jof_map J (jstring_map J) (dk_signatures res))
      in jset_if J (dk_device_display_name res \<noteq> []) obj ''unsigned''
           (UnsignedDeviceInfo_to_json J (dk_device_display_name res)))"

definition CrossSigningKeys_from_json :: "'j json_lib \<Rightarrow> 'j \<Rightarrow> CrossSigningKeys result" where
  "CrossSigningKeys_from_json J obj =
     rbind (jat_as J (jget_string J) obj ''user_id'') (\<lambda>user_id.
     rbind (jat_as J (jget_list J (jget_string J)) obj ''usage'') (\<lambda>usage.
     rbind (jat_as J (jget_string_map J) obj ''keys'') (\<lambda>keys.
     rbind (jopt J (jget_map J (jget_string_map J)) obj ''signatures'' []) (\<lambda>signatures.
       Inr \<lparr>csk_user_id = user_id, csk_usage = usage, csk_keys = keys, csk_signatures = signatures\<rparr>))))"

definition CrossSigningKeys_to_json :: "'j json_lib \<Rightarrow> CrossSigningKeys \<Rightarrow> 'j" where
  "CrossSigningKeys_to_json J res =
     (let obj = jset J (jnull J) ''user_id'' (jstring J (csk_user_id res));
          obj = jset J obj ''usage'' (jstrings J (csk_usage res));
          obj = jset J obj ''keys'' (jstring_map J (csk_keys res))
      in jset J obj ''signatures'' (jof_map J (jstring_map J) (csk_signatures res)))"

definition JWK_from_json :: "'j json_lib \<Rightarrow> 'j \<Rightarrow> JWK result" where
  "JWK_from_json J obj =
     rbind (jat_as J (jget_string J) obj ''kty'') (\<lambda>kty.
     rbind (jat_as J (jget_list J (jget_string J)) obj ''key_ops'') (\<lambda>key_ops.
     rbind (jat_as J (jget_string J) obj ''alg'') (\<lambda>alg.
     rbind (jat_as J (jget_string J) obj ''k'') (\<lambda>k.
     rbind (jat_as J (jget_bool J) obj ''ext'') (\<lambda>ext.
       Inr \<lparr>jwk_kty = kty, jwk_key_ops = key_ops, jwk_alg = alg, jwk_k = k, jwk_ext = ext\<rparr>)))))"

definition JWK_to_json :: "'j json_lib \<Rightarrow> JWK \<Rightarrow> 'j" where
  "JWK_to_json J res =
     (let obj = jset J (jnull J) ''kty'' (jstring J (jwk_kty res));
          obj = jset J obj ''key_ops'' (jstrings J (jwk_key_ops res));
          obj = jset J obj ''alg'' (jstring J (jwk_alg res));
          obj = jset J obj ''k'' (jstring J (jwk_k res))
      in jset J obj ''ext'' (jbool J (jwk_ext res)))"

definition EncryptedFile_from_json :: "'j json_lib \<Rightarrow> 'j \<Rightarrow> EncryptedFile result" where
  "EncryptedFile_from_json J obj =
     rbind (jat_as J (jget_string J) obj ''url'') (\<lambda>url.
     rbind (jat_as J (JWK_from_json J) obj ''key'') (\<lambda>key.
     rbind (jat_as J (jget_string J) obj ''iv'') (\<lambda>iv.
     rbind (jat_as J (jget_string_map J) obj ''hashes'') (\<lambda>hashes.
     rbind (jat_as J (jget_string J) obj ''v'') (\<lambda>v.
       Inr \<lparr>ef_url = url, ef_key = key, ef_iv = iv, ef_hashes = hashes, ef_v = v\<rparr>)))))"

definition EncryptedFile_to_json :: "'j json_lib \<Rightarrow> EncryptedFile \<Rightarrow> 'j" where
  "EncryptedFile_to_json J res =
     (let obj = jset J (jnull J) ''url'' (jstring J (ef_url res));
          obj = jset J obj ''key'' (JWK_to_json J (ef_key res));
          obj = jset J obj ''iv'' (jstring J (ef_iv res));
          obj = jset J obj ''hashes'' (jstring_map J (ef_hashes res))
      in jset J obj ''v'' (jstring J (ef_v res)))"

section \<open>Conversions of \<open>lib/crypto/types.cpp\<close>\<close>

text \<open>
  The algorithm of an exported session is written but not read back: the field keeps its default,
  the megolm algorithm.
\<close>

definition MEGOLM_ALGO :: string where
  "MEGOLM_ALGO = ''m.megolm.v1.aes-sha2''"

definition ExportedSession_to_json :: "'j json_lib \<Rightarrow> ExportedSession \<Rightarrow> 'j" where
  "ExportedSession_to_json J s =
     (let obj = jset J (jnull J) ''sender_claimed_keys'' (jstring_map J (es_sender_claimed_keys s));
          obj = jset J obj ''forwarding_curve25519_key_chain''
                  (jstrings J (es_forwarding_curve25519_key_chain s));
          obj = jset J obj ''algorithm'' (jstring J (es_algorithm s));
          obj = jset J obj ''room_id'' (jstring J (es_room_id s));
          obj = jset J obj ''sender_key'' (jstring J (es_sender_key s));
          obj = jset J obj ''session_id'' (jstring J (es_session_id s))
      in jset J obj ''session_key'' (jstring J (es_session_key s)))"

definition ExportedSession_from_json :: "'j json_lib \<Rightarrow> 'j \<Rightarrow> ExportedSession result" where
  "ExportedSession_from_json J obj =
     rbind (jat_as J (jget_string J) obj ''room_id'') (\<lambda>room_id.
     rbind (jat_as J (jget_string J) obj ''sender_key'') (\<lambda>sender_key.
     rbind (jat_as J (jget_string J) obj ''session_id'') (\<lambda>session_id.
     rbind (jat_as J (jget_string J) obj ''session_key'') (\<lambda>session_key.
     rbind (jopt J (jget_string_map J) obj ''sender_claimed_keys'' []) (\<lambda>claimed.
     rbind (jopt J (jget_list J (jget_string J)) obj ''forwarding_curve25519_key_chain'' []) (\<lambda>chain.
       Inr \<lparr>es_sender_claimed_keys = claimed, es_forwarding_curve25519_key_chain = chain,
            es_algorithm = MEGOLM_ALGO, es_room_id = room_id, es_sender_key = sender_key,
            es_session_id = session_id, es_session_key = session_key\<rparr>))))))"

definition ExportedSessionKeys_to_json :: "'j json_lib \<Rightarrow> ExportedSession list \<Rightarrow> 'j" where
  "ExportedSessionKeys_to_json J sessions = jof_array J (map (ExportedSession_to_json J) sessions)"

definition is_json_exn :: "exn \<Rightarrow> bool" where
  "is_json_exn e = (case e of Json_exn _ \<Rightarrow> True | _ \<Rightarrow> False)"

definition ExportedSessionKeys_from_json :: "'j json_lib \<Rightarrow> 'j \<Rightarrow> ExportedSession list result" where
  "ExportedSessionKeys_from_json J obj =
     (case jget_list J (ExportedSession_from_json J) obj of
        Inr sessions \<Rightarrow> Inr sessions
      | Inl e \<Rightarrow>
          if is_json_exn e then jat_as J (jget_list J (ExportedSession_from_json J)) obj ''sessions''
          else Inl e)"

definition IdentityKeys_to_json :: "'j json_lib \<Rightarrow> IdentityKeys \<Rightarrow> 'j" where
  "IdentityKeys_to_json J keys =
     jset J (jset J (jnull J) ''ed25519'' (jstring J (ik_ed25519 keys)))
       ''curve25519'' (jstring J (ik_curve25519 keys))"

definition IdentityKeys_from_json :: "'j json_lib \<Rightarrow> 'j \<Rightarrow> IdentityKeys result" where
  "IdentityKeys_from_json J obj =
     rbind (jat_as J (jget_string J) obj ''ed25519'') (\<lambda>ed.
     rbind (jat_as J (jget_string J) obj ''curve25519'') (\<lambda>curve.
       Inr \<lparr>ik_curve25519 = curve, ik_ed25519 = ed\<rparr>))"

definition OneTimeKeys_to_json :: "'j json_lib \<Rightarrow> string smap \<Rightarrow> 'j" where
  "OneTimeKeys_to_json J curve25519 = jset J (jnull J) ''curve25519'' (jstring_map J curve25519)"

definition OneTimeKeys_from_json :: "'j json_lib \<Rightarrow> 'j \<Rightarrow> string smap result" where
  "OneTimeKeys_from_json J obj = jat_as J (jget_string_map J) obj ''curve25519''"

section \<open>Round trips\<close>

definition signatures_ok :: "signatures \<Rightarrow> bool" where
  "signatures_ok m \<longleftrightarrow> smap_ok m \<and> (\<forall>v \<in> snd ` set m. smap_ok v)"

context json_library
begin

lemmas map_defs = jstring_map_def jget_string_map_def signatures_ok_def

lemma DeviceKeys_roundtrip:
  assumes "smap_ok (dk_keys d)" and "signatures_ok (dk_signatures d)"
  shows "DeviceKeys_from_json J (DeviceKeys_to_json J d) = Inr d"
  using assms
  by (cases "dk_device_display_name d = []")
     (simp_all add: DeviceKeys_from_json_def DeviceKeys_to_json_def UnsignedDeviceInfo_from_json_def
        UnsignedDeviceInfo_to_json_def reads map_defs Let_def)

lemma CrossSigningKeys_roundtrip:
  assumes "smap_ok (csk_keys d)" and "signatures_ok (csk_signatures d)"
  shows "CrossSigningKeys_from_json J (CrossSigningKeys_to_json J d) = Inr d"
  using assms
  by (simp add: CrossSigningKeys_from_json_def CrossSigningKeys_to_json_def reads map_defs Let_def)

lemma JWK_roundtrip: "JWK_from_json J (JWK_to_json J k) = Inr k"
  by (simp add: JWK_from_json_def JWK_to_json_def reads Let_def)

lemma EncryptedFile_roundtrip:
  "smap_ok (ef_hashes f) \<Longrightarrow> EncryptedFile_from_json J (EncryptedFile_to_json J f) = Inr f"
  by (simp add: EncryptedFile_from_json_def EncryptedFile_to_json_def reads map_defs JWK_roundtrip Let_def)

lemma ExportedSession_roundtrip:
  "smap_ok (es_sender_claimed_keys s) \<Longrightarrow>
   ExportedSession_from_json J (ExportedSession_to_json J s) = Inr (s\<lparr>es_algorithm := MEGOLM_ALGO\<rparr>)"
  by (simp add: ExportedSession_from_json_def ExportedSession_to_json_def reads map_defs Let_def)

lemma ExportedSessionKeys_list:
  assumes "\<forall>s \<in> set ss. smap_ok (es_sender_claimed_keys s) \<and> es_algorithm s = MEGOLM_ALGO"
  shows "jget_list J (ExportedSession_from_json J) (ExportedSessionKeys_to_json J ss) = Inr ss"
proof -
  have "ExportedSession_from_json J (ExportedSession_to_json J s) = Inr s" if "s \<in> set ss" for s
    using ExportedSession_roundtrip [of s] assms that by (metis ExportedSession.surjective ExportedSession.update_convs(3))
  then show ?thesis
    using mapM_map [of ss "ExportedSession_from_json J" "ExportedSession_to_json J" "\<lambda>x. x"]
    by (simp add: jget_list_def ExportedSessionKeys_to_json_def elems_array)
qed

text \<open>Both formats of an export are read: the array, and the object with the array inside.\<close>

lemma ExportedSessionKeys_roundtrip:
  assumes "\<forall>s \<in> set ss. smap_ok (es_sender_claimed_keys s) \<and> es_algorithm s = MEGOLM_ALGO"
  shows "ExportedSessionKeys_from_json J (ExportedSessionKeys_to_json J ss) = Inr ss
    \<and> ExportedSessionKeys_from_json J (jset J (jnull J) ''sessions'' (ExportedSessionKeys_to_json J ss)) = Inr ss"
proof -
  let ?old = "jset J (jnull J) ''sessions'' (ExportedSessionKeys_to_json J ss)"
  have "jget_list J (ExportedSession_from_json J) ?old = type_error" by (simp add: jget_list_def)
  then show ?thesis
    using ExportedSessionKeys_list [OF assms]
    by (simp add: ExportedSessionKeys_from_json_def is_json_exn_def reads)
qed

lemma IdentityKeys_roundtrip: "IdentityKeys_from_json J (IdentityKeys_to_json J k) = Inr k"
  by (simp add: IdentityKeys_from_json_def IdentityKeys_to_json_def reads)

lemma OneTimeKeys_roundtrip:
  "smap_ok m \<Longrightarrow> OneTimeKeys_from_json J (OneTimeKeys_to_json J m) = Inr m"
  by (simp add: OneTimeKeys_from_json_def OneTimeKeys_to_json_def reads map_defs)

end

end
