(* ===== verification/Power_Levels.thy ===== *)
theory Power_Levels
  imports Json
begin

text \<open>
  The room state that decides permissions: \<open>m.room.create\<close> (\<open>lib/structs/events/create.cpp\<close>) and
  \<open>m.room.power_levels\<close> (\<open>power_levels.cpp\<close>, \<open>power_levels.hpp\<close>), with their JSON form and the
  functions that compute the level of a user, an event type and a notification.
\<close>

section \<open>Room creation\<close>

record PreviousRoom =
  pr_room_id :: string
  pr_event_id :: string

record Create =
  room_type :: "string option"
  federate :: bool
  room_version :: string
  predecessor :: "PreviousRoom option"
  additional_creators :: "string list"

definition PreviousRoom_from_json :: "'j json_lib \<Rightarrow> 'j \<Rightarrow> PreviousRoom result" where
  "PreviousRoom_from_json J obj =
     rbind (jat_as J (jget_string J) obj ''room_id'') (\<lambda>room_id.
     rbind (jvalue J (jget_string J) obj ''event_id'' []) (\<lambda>event_id.
       Inr \<lparr>pr_room_id = room_id, pr_event_id = event_id\<rparr>))"

definition PreviousRoom_to_json :: "'j json_lib \<Rightarrow> PreviousRoom \<Rightarrow> 'j" where
  "PreviousRoom_to_json J p =
     jset_if J (pr_event_id p \<noteq> [])
       (jset J (jnull J) ''room_id'' (jstring J (pr_room_id p)))
       ''event_id'' (jstring J (pr_event_id p))"

text \<open>\<open>obj.contains(k) && obj.at(k).is_string()\<close>\<close>

definition jhas_string :: "'j json_lib \<Rightarrow> 'j \<Rightarrow> string \<Rightarrow> bool" where
  "jhas_string J obj k =
     (jcontains J obj k \<and> (case jat J obj k of Inr v \<Rightarrow> jtype_of J v = JString | Inl _ \<Rightarrow> False))"

definition Create_from_json :: "'j json_lib \<Rightarrow> 'j \<Rightarrow> Create result" where
  "Create_from_json J obj =
     rbind (if jhas_string J obj ''type''
            then rbind (jat_as J (jget_string J) obj ''type'') (\<lambda>t. Inr (Some t))
            else Inr None) (\<lambda>type.
     rbind (jopt J (jget_bool J) obj ''m.federate'' True) (\<lambda>federate.
     rbind (jopt J (jget_string J) obj ''room_version'' ''1'') (\<lambda>room_version.
     rbind (jopt J (\<lambda>v. rbind (PreviousRoom_from_json J v) (\<lambda>p. Inr (Some p))) obj ''predecessor'' None) (\<lambda>predecessor.
     rbind (jopt J (jget_list J (jget_string J)) obj ''additional_creators'' []) (\<lambda>additional_creators.
       Inr \<lparr>room_type = type, federate = federate, room_version = room_version,
            predecessor = predecessor, additional_creators = additional_creators\<rparr>)))))"

definition Create_to_json :: "'j json_lib \<Rightarrow> Create \<Rightarrow> 'j" where
  "Create_to_json J create =
     (let obj = jset J (jnull J) ''m.federate'' (jbool J (federate create));
          obj = jset_if J (room_version create \<noteq> []) obj ''room_version'' (jstring J (room_version create));
          obj = (case room_type create of None \<Rightarrow> obj | Some t \<Rightarrow> jset J obj ''type'' (jstring J t));
          obj = (case predecessor create of None \<Rightarrow> obj
                 | Some p \<Rightarrow> jset J obj ''predecessor'' (PreviousRoom_to_json J p))
      in jset_if J (additional_creators create \<noteq> []) obj ''additional_creators''
           (jstrings J (additional_creators create)))"

definition room_version_creators_with_infinite_power :: "Create \<Rightarrow> bool" where
  "room_version_creators_with_infinite_power c \<longleftrightarrow>
     length (room_version c) > 1 \<and> room_version c \<noteq> ''10'' \<and> room_version c \<noteq> ''11''"

section \<open>Power levels\<close>

text \<open>
  \<open>power_level_t\<close> is \<open>int64_t\<close>: an integer, with the range as part of the invariant
  \<open>PowerLevels_ok\<close>. \<open>Creator\<close> is its maximum.
\<close>

definition int64_max :: int where
  "int64_max = 2 ^ 63 - 1"

definition int64_ok :: "int \<Rightarrow> bool" where
  "int64_ok n \<longleftrightarrow> - (2 ^ 63) \<le> n \<and> n \<le> int64_max"

definition User_level :: int where "User_level = 0"
definition Moderator_level :: int where "Moderator_level = 50"
definition Creator_level :: int where "Creator_level = int64_max"

record PowerLevels =
  pl_ban :: int
  pl_invite :: int
  pl_kick :: int
  pl_redact :: int
  pl_events_default :: int
  pl_users_default :: int
  pl_state_default :: int
  pl_events :: "int smap"
  pl_users :: "int smap"
  pl_notifications :: "int smap"

definition default_PowerLevels :: PowerLevels where
  "default_PowerLevels =
     \<lparr>pl_ban = Moderator_level, pl_invite = Moderator_level, pl_kick = Moderator_level, pl_redact = Moderator_level,
      pl_events_default = User_level, pl_users_default = User_level, pl_state_default = Moderator_level,
      pl_events = [], pl_users = [], pl_notifications = []\<rparr>"

definition PowerLevels_from_json :: "'j json_lib \<Rightarrow> 'j \<Rightarrow> PowerLevels result" where
  "PowerLevels_from_json J obj =
     (let d = default_PowerLevels; level = jget_int64 J; levels = jget_map J (jget_int64 J)
      in rbind (jopt J level obj ''ban'' (pl_ban d)) (\<lambda>ban.
         rbind (jopt J level obj ''invite'' (pl_invite d)) (\<lambda>invite.
         rbind (jopt J level obj ''kick'' (pl_kick d)) (\<lambda>kick.
         rbind (jopt J level obj ''redact'' (pl_redact d)) (\<lambda>redact.
         rbind (jopt J levels obj ''events'' (pl_events d)) (\<lambda>events.
         rbind (jopt J levels obj ''users'' (pl_users d)) (\<lambda>users.
         rbind (jopt J level obj ''events_default'' (pl_events_default d)) (\<lambda>events_default.
         rbind (jopt J level obj ''users_default'' (pl_users_default d)) (\<lambda>users_default.
         rbind (jopt J level obj ''state_default'' (pl_state_default d)) (\<lambda>state_default.
         rbind (jopt J levels obj ''notifications'' (pl_notifications d)) (\<lambda>notifications.
           Inr \<lparr>pl_ban = ban, pl_invite = invite, pl_kick = kick, pl_redact = redact,
                pl_events_default = events_default, pl_users_default = users_default,
                pl_state_default = state_default, pl_events = events, pl_users = users,
                pl_notifications = notifications\<rparr>)))))))))))"

definition PowerLevels_to_json :: "'j json_lib \<Rightarrow> PowerLevels \<Rightarrow> 'j" where
  "PowerLevels_to_json J p =
     (let obj = jset J (jnull J) ''ban'' (jint J (pl_ban p));
          obj = jset J obj ''kick'' (jint J (pl_kick p));
          obj = jset J obj ''invite'' (jint J (pl_invite p));
          obj = jset J obj ''redact'' (jint J (pl_redact p));
          obj = jset_if J (pl_events p \<noteq> []) obj ''events'' (jof_map J (jint J) (pl_events p));
          obj = jset_if J (pl_users p \<noteq> []) obj ''users'' (jof_map J (jint J) (pl_users p));
          obj = jset J obj ''events_default'' (jint J (pl_events_default p));
          obj = jset J obj ''users_default'' (jint J (pl_users_default p));
          obj = jset J obj ''state_default'' (jint J (pl_state_default p))
      in jset_if J (pl_notifications p \<noteq> []) obj ''notifications'' (jof_map J (jint J) (pl_notifications p)))"

definition event_level :: "PowerLevels \<Rightarrow> string \<Rightarrow> int" where
  "event_level p event_type =
     (case map_of (pl_events p) event_type of None \<Rightarrow> pl_events_default p | Some l \<Rightarrow> l)"

definition state_level :: "PowerLevels \<Rightarrow> string \<Rightarrow> int" where
  "state_level p event_type =
     (case map_of (pl_events p) event_type of None \<Rightarrow> pl_state_default p | Some l \<Rightarrow> l)"

text \<open>The create event is passed by its content and its sender.\<close>

definition user_level :: "PowerLevels \<Rightarrow> string \<Rightarrow> Create \<Rightarrow> string \<Rightarrow> int" where
  "user_level p user_id create create_sender =
     (if room_version_creators_with_infinite_power create
         \<and> (create_sender = user_id \<or> user_id \<in> set (additional_creators create)) then Creator_level
      else case map_of (pl_users p) user_id of None \<Rightarrow> pl_users_default p | Some l \<Rightarrow> l)"

definition notification_level :: "PowerLevels \<Rightarrow> string \<Rightarrow> int" where
  "notification_level p key =
     (case map_of (pl_notifications p) key of
        Some l \<Rightarrow> l
      | None \<Rightarrow> if key = ''room'' then 50 else 50)"

section \<open>Lemmas\<close>

definition level_map_ok :: "int smap \<Rightarrow> bool" where
  "level_map_ok m \<longleftrightarrow> smap_ok m \<and> (\<forall>l \<in> snd ` set m. int64_ok l)"

definition PowerLevels_ok :: "PowerLevels \<Rightarrow> bool" where
  "PowerLevels_ok p \<longleftrightarrow>
     int64_ok (pl_ban p) \<and> int64_ok (pl_invite p) \<and> int64_ok (pl_kick p) \<and> int64_ok (pl_redact p)
     \<and> int64_ok (pl_events_default p) \<and> int64_ok (pl_users_default p) \<and> int64_ok (pl_state_default p)
     \<and> level_map_ok (pl_events p) \<and> level_map_ok (pl_users p) \<and> level_map_ok (pl_notifications p)"

lemma map_of_level: "level_map_ok m \<Longrightarrow> map_of m k = Some l \<Longrightarrow> int64_ok l"
  unfolding level_map_ok_def by (metis image_eqI map_of_SomeD snd_conv)

context json_library
begin

lemma get_level: "int64_ok n \<Longrightarrow> jget_int64 J (jint J n) = Inr n"
  by (intro get_int64) (auto simp: int64_ok_def int64_max_def)

lemma get_levels: "level_map_ok m \<Longrightarrow> jget_map J (jget_int64 J) (jof_map J (jint J) m) = Inr m"
  by (intro get_map_of_map) (auto simp: level_map_ok_def get_level)

lemma PowerLevels_to_from:
  "PowerLevels_ok p \<Longrightarrow> PowerLevels_from_json J (PowerLevels_to_json J p) = Inr p"
  unfolding PowerLevels_ok_def
  by (simp add: PowerLevels_from_json_def PowerLevels_to_json_def default_PowerLevels_def
      reads get_level get_levels Let_def)

lemma PowerLevels_defaults: "PowerLevels_from_json J (jobject J) = Inr default_PowerLevels"
  by (simp add: PowerLevels_from_json_def jobject_def smap_ok_def opt_fields default_PowerLevels_def Let_def)

lemma has_string_fields:
  "jhas_string J obj k \<longleftrightarrow> (\<exists>v. jfields J obj k = Some v \<and> jtype_of J v = JString)"
  by (auto simp: jhas_string_def contains_iff at_eq jfields_def split: option.splits)

lemma PreviousRoom_roundtrip: "PreviousRoom_from_json J (PreviousRoom_to_json J p) = Inr p"
  by (cases "pr_event_id p = []") (simp_all add: PreviousRoom_from_json_def PreviousRoom_to_json_def reads)

lemma Create_to_from:
  "Create_from_json J (Create_to_json J c) = Inr (if room_version c = [] then c\<lparr>room_version := ''1''\<rparr> else c)"
  by (cases "room_version c = []"; cases "room_type c"; cases "predecessor c"; cases "additional_creators c = []")
    (simp_all add: Create_from_json_def Create_to_json_def reads has_string_fields PreviousRoom_roundtrip Let_def)

end

section \<open>Properties\<close>

text \<open>
  Power levels survive their JSON form: reading what was written gives the same levels, for
  every JSON library that meets the contract and every content with 64-bit levels; content without
  any field reads as the documented defaults.
\<close>

theorem PowerLevels_roundtrip:
  assumes "json_library J" and "PowerLevels_ok p"
  shows "PowerLevels_from_json J (PowerLevels_to_json J p) = Inr p
    \<and> PowerLevels_from_json J (jobject J) = Inr default_PowerLevels"
  using json_library.PowerLevels_to_from [OF assms] json_library.PowerLevels_defaults [OF assms(1)] by simp

definition sample_levels :: PowerLevels where
  "sample_levels = default_PowerLevels\<lparr>pl_users := [(''@alice:example.com'', 100)], pl_ban := 60\<rparr>"

theorem PowerLevels_roundtrip_witness:
  "PowerLevels_from_json tree_lib (PowerLevels_to_json tree_lib sample_levels) = Inr sample_levels
    \<and> PowerLevels_from_json tree_lib (jobject tree_lib) = Inr default_PowerLevels"
  by (rule PowerLevels_roundtrip [OF tree_lib_library])
     (simp add: sample_levels_def default_PowerLevels_def PowerLevels_ok_def level_map_ok_def smap_ok_def
        int64_ok_def int64_max_def Moderator_level_def User_level_def)



text \<open>
  The create event survives its JSON form when it names a room version, and without a version
  it reads back as version 1.
\<close>

theorem Create_roundtrip:
  assumes "json_library J"
  shows "Create_from_json J (Create_to_json J c) = Inr (if room_version c = [] then c\<lparr>room_version := ''1''\<rparr> else c)"
  by (rule json_library.Create_to_from [OF assms])

theorem Create_roundtrip_witness:
  "Create_from_json tree_lib (Create_to_json tree_lib \<lparr>room_type = Some ''m.space'', federate = False,
     room_version = ''11'', predecessor = None, additional_creators = []\<rparr>)
   = Inr \<lparr>room_type = Some ''m.space'', federate = False, room_version = ''11'', predecessor = None, additional_creators = []\<rparr>"
  using Create_roundtrip [OF tree_lib_library, of "\<lparr>room_type = Some ''m.space'', federate = False,
     room_version = ''11'', predecessor = None, additional_creators = []\<rparr>"] by simp

end
