(* ===== verification/Requests.thy ===== *)
theory Requests
  imports Crypto_Json Power_Levels
begin

text \<open>
  The request payloads (\<open>lib/structs/requests.cpp\<close>, \<open>include/mtx/requests.hpp\<close>) and the payloads
  of user-interactive authentication (\<open>lib/structs/user_interactive.cpp\<close>) as JSON values. A
  \<open>to_json\<close> function starts from the null value that the library passes in.
\<close>

section \<open>Rooms\<close>

datatype Preset = PrivateChat | PublicChat | TrustedPrivateChat

fun presetToString :: "Preset \<Rightarrow> string" where
  "presetToString PrivateChat = ''private_chat''"
| "presetToString PublicChat = ''public_chat''"
| "presetToString TrustedPrivateChat = ''trusted_private_chat''"

datatype RoomVisibility = Private | Public

definition visibilityToString :: "RoomVisibility \<Rightarrow> string" where
  "visibilityToString v = (if v = Private then ''private'' else ''public'')"

definition stringToVisibility :: "string \<Rightarrow> RoomVisibility" where
  "stringToVisibility s = (if s = ''private'' then Private else Public)"

text \<open>The initial state is held as the JSON values of its events (\<open>json(e)\<close> of the variant).\<close>

record 'j CreateRoom =
  cr_name :: string
  cr_topic :: string
  cr_room_alias_name :: string
  cr_invite :: "string list"
  cr_is_direct :: bool
  cr_preset :: Preset
  cr_visibility :: RoomVisibility
  cr_initial_state :: "'j list"
  cr_room_version :: string
  cr_creation_content :: "Create option"

definition CreateRoom_to_json :: "'j json_lib \<Rightarrow> 'j CreateRoom \<Rightarrow> 'j" where
  "CreateRoom_to_json J r =
     (let obj = jset_if J (cr_name r \<noteq> []) (jnull J) ''name'' (jstring J (cr_name r));
          obj = jset_if J (cr_topic r \<noteq> []) obj ''topic'' (jstring J (cr_topic r));
          obj = jset_if J (cr_room_alias_name r \<noteq> []) obj ''room_alias_name'' (jstring J (cr_room_alias_name r));
          obj = jset_if J (cr_invite r \<noteq> []) obj ''invite'' (jstrings J (cr_invite r));
          obj = jset J obj ''is_direct'' (jbool J (cr_is_direct r));
          obj = jset J obj ''preset'' (jstring J (presetToString (cr_preset r)));
          obj = jset J obj ''visibility'' (jstring J (visibilityToString (cr_visibility r)));
          obj = jset_if J (cr_room_version r \<noteq> []) obj ''room_version'' (jstring J (cr_room_version r));
          obj = (case cr_creation_content r of None \<Rightarrow> obj
                 | Some c \<Rightarrow> jset J obj ''creation_content'' (Create_to_json J c));
          arr = foldl (\<lambda>arr ev. jpush J arr (jerase J ev ''sender'')) (jarray J) (cr_initial_state r)
      in jset_if J (cr_initial_state r \<noteq> []) obj ''initial_state'' arr)"

record RoomMembershipChange =
  rmc_user_id :: string
  rmc_reason :: string

definition RoomMembershipChange_to_json :: "'j json_lib \<Rightarrow> RoomMembershipChange \<Rightarrow> 'j" where
  "RoomMembershipChange_to_json J r =
     jset_if J (rmc_reason r \<noteq> []) (jset J (jnull J) ''user_id'' (jstring J (rmc_user_id r)))
       ''reason'' (jstring J (rmc_reason r))"

record TypingNotification =
  tn_typing :: bool
  tn_timeout :: "64 word"

definition TypingNotification_to_json :: "'j json_lib \<Rightarrow> TypingNotification \<Rightarrow> 'j" where
  "TypingNotification_to_json J r =
     jset J (jset J (jnull J) ''typing'' (jbool J (tn_typing r))) ''timeout'' (jint J (uint (tn_timeout r)))"

definition PublicRoomVisibility_to_json :: "'j json_lib \<Rightarrow> RoomVisibility \<Rightarrow> 'j" where
  "PublicRoomVisibility_to_json J visibility =
     jset J (jnull J) ''visibility'' (jstring J (visibilityToString visibility))"

definition PublicRoomsFilter_to_json :: "'j json_lib \<Rightarrow> string \<Rightarrow> 'j" where
  "PublicRoomsFilter_to_json J generic_search_term =
     jset J (jnull J) ''generic_search_term'' (jstring J generic_search_term)"

record PublicRooms =
  pbr_limit :: int
  pbr_since :: string
  pbr_filter :: string
  pbr_include_all_networks :: bool
  pbr_third_party_instance_id :: string

definition PublicRooms_to_json :: "'j json_lib \<Rightarrow> PublicRooms \<Rightarrow> 'j result" where
  "PublicRooms_to_json J r =
     (let obj = jset_if J (pbr_limit r > 0) (jnull J) ''limit'' (jint J (pbr_limit r));
          obj = jset_if J (pbr_since r \<noteq> []) obj ''since'' (jstring J (pbr_since r));
          obj = jset_if J (pbr_filter r \<noteq> []) obj ''filter'' (PublicRoomsFilter_to_json J (pbr_filter r))
      in if pbr_include_all_networks r \<and> pbr_third_party_instance_id r \<noteq> [] then
           Inl (Invalid_argument ''third_party_instance_id can only be set if include_all_networks is false'')
         else if pbr_third_party_instance_id r \<noteq> [] then
           let obj = jset J obj ''third_party_instance_id'' (jstring J (pbr_third_party_instance_id r))
           in Inr (jset J obj ''include_all_networks'' (jbool J False))
         else Inr (jset J obj ''include_all_networks'' (jbool J True)))"

section \<open>Login and account\<close>

datatype login_identifier =
    User (user_name: string)
  | Thirdparty (tp_medium: string) (tp_address: string)
  | PhoneNumber (ph_country: string) (ph_phone: string)

record Login =
  login_type :: string
  login_identifier :: login_identifier
  login_token :: string
  login_password :: string
  login_device_id :: string
  login_initial_device_display_name :: string

definition default_Login :: Login where
  "default_Login =
     \<lparr>login_type = ''m.login.password'', login_identifier = User [], login_token = [], login_password = [],
      login_device_id = [], login_initial_device_display_name = []\<rparr>"

definition identifier_to_json :: "'j json_lib \<Rightarrow> 'j \<Rightarrow> login_identifier \<Rightarrow> 'j" where
  "identifier_to_json J obj i =
     (case i of
        User user \<Rightarrow>
          jset2 J (jset2 J obj ''identifier'' ''type'' (jstring J ''m.id.user''))
            ''identifier'' ''user'' (jstring J user)
      | Thirdparty medium address \<Rightarrow>
          jset2 J (jset2 J (jset2 J obj ''identifier'' ''type'' (jstring J ''m.id.thirdparty''))
            ''identifier'' ''medium'' (jstring J medium)) ''identifier'' ''address'' (jstring J address)
      | PhoneNumber country phone \<Rightarrow>
          jset2 J (jset2 J (jset2 J obj ''identifier'' ''type'' (jstring J ''m.id.phone''))
            ''identifier'' ''country'' (jstring J country)) ''identifier'' ''phone'' (jstring J phone))"

definition Login_to_json :: "'j json_lib \<Rightarrow> Login \<Rightarrow> 'j" where
  "Login_to_json J r =
     (let obj = jset_if J (login_token r \<noteq> []) (jnull J) ''token'' (jstring J (login_token r));
          obj = jset_if J (login_password r \<noteq> []) obj ''password'' (jstring J (login_password r));
          obj = jset_if J (login_device_id r \<noteq> []) obj ''device_id'' (jstring J (login_device_id r));
          obj = jset_if J (login_initial_device_display_name r \<noteq> []) obj ''initial_device_display_name''
                  (jstring J (login_initial_device_display_name r));
          obj = identifier_to_json J obj (login_identifier r)
      in jset J obj ''type'' (jstring J (login_type r)))"

record RequestEmailToken =
  ret_client_secret :: string
  ret_email :: string
  ret_send_attempt :: int

definition RequestEmailToken_to_json :: "'j json_lib \<Rightarrow> RequestEmailToken \<Rightarrow> 'j" where
  "RequestEmailToken_to_json J r =
     (let obj = jset J (jnull J) ''client_secret'' (jstring J (ret_client_secret r));
          obj = jset J obj ''email'' (jstring J (ret_email r))
      in jset J obj ''send_attempt'' (jint J (ret_send_attempt r)))"

record RequestMSISDNToken =
  rmt_client_secret :: string
  rmt_country :: string
  rmt_phone_number :: string
  rmt_send_attempt :: int

definition RequestMSISDNToken_to_json :: "'j json_lib \<Rightarrow> RequestMSISDNToken \<Rightarrow> 'j" where
  "RequestMSISDNToken_to_json J r =
     (let obj = jset J (jnull J) ''client_secret'' (jstring J (rmt_client_secret r));
          obj = jset J obj ''country'' (jstring J (rmt_country r));
          obj = jset J obj ''phone_number'' (jstring J (rmt_phone_number r))
      in jset J obj ''send_attempt'' (jint J (rmt_send_attempt r)))"

record IdentitySubmitToken =
  ist_sid :: string
  ist_client_secret :: string
  ist_token :: string

definition IdentitySubmitToken_to_json :: "'j json_lib \<Rightarrow> IdentitySubmitToken \<Rightarrow> 'j" where
  "IdentitySubmitToken_to_json J r =
     (let obj = jset J (jnull J) ''sid'' (jstring J (ist_sid r));
          obj = jset J obj ''client_secret'' (jstring J (ist_client_secret r))
      in jset J obj ''token'' (jstring J (ist_token r)))"

definition AvatarUrl_to_json :: "'j json_lib \<Rightarrow> string \<Rightarrow> 'j" where
  "AvatarUrl_to_json J avatar_url = jset J (jnull J) ''avatar_url'' (jstring J avatar_url)"

definition DisplayName_to_json :: "'j json_lib \<Rightarrow> string \<Rightarrow> 'j" where
  "DisplayName_to_json J displayname = jset J (jnull J) ''displayname'' (jstring J displayname)"

definition DeviceUpdate_to_json :: "'j json_lib \<Rightarrow> string \<Rightarrow> 'j" where
  "DeviceUpdate_to_json J display_name = jset J (jnull J) ''display_name'' (jstring J display_name)"

text \<open>\<open>Empty::to_json\<close> leaves the null value, so an empty request is sent as \<open>null\<close>.\<close>

definition Empty_to_json :: "'j json_lib \<Rightarrow> 'j" where
  "Empty_to_json J = jnull J"

section \<open>Keys\<close>

record SignedOneTimeKey =
  sk_key :: string
  sk_fallback :: bool
  sk_signatures :: signatures

definition SignedOneTimeKey_to_json :: "'j json_lib \<Rightarrow> SignedOneTimeKey \<Rightarrow> 'j" where
  "SignedOneTimeKey_to_json J r =
     (let obj = jset_if J (sk_fallback r) (jnull J) ''fallback'' (jbool J True);
          obj = jset J obj ''key'' (jstring J (sk_key r))
      in jset J obj ''signatures'' (jof_map J (jstring_map J) (sk_signatures r)))"

datatype one_time_key = Plain_key string | Signed_key SignedOneTimeKey

definition one_time_key_to_json :: "'j json_lib \<Rightarrow> one_time_key \<Rightarrow> 'j" where
  "one_time_key_to_json J k =
     (case k of Plain_key s \<Rightarrow> jstring J s | Signed_key s \<Rightarrow> SignedOneTimeKey_to_json J s)"

record UploadKeys =
  uk_device_keys :: DeviceKeys
  uk_one_time_keys :: "one_time_key smap"
  uk_fallback_keys :: "one_time_key smap"

definition UploadKeys_to_json :: "'j json_lib \<Rightarrow> UploadKeys \<Rightarrow> 'j" where
  "UploadKeys_to_json J r =
     (let obj = jset_if J (dk_user_id (uk_device_keys r) \<noteq> []) (jobject J) ''device_keys''
                  (DeviceKeys_to_json J (uk_device_keys r));
          obj = foldl (\<lambda>obj (key_id, key). jset2 J obj ''one_time_keys'' key_id (one_time_key_to_json J key))
                  obj (uk_one_time_keys r)
      in foldl (\<lambda>obj (key_id, key). jset2 J obj ''fallback_keys'' key_id (one_time_key_to_json J key))
           obj (uk_fallback_keys r))"

record ClaimKeys =
  ck_timeout :: "64 word"
  ck_one_time_keys :: "string smap smap"

definition ClaimKeys_to_json :: "'j json_lib \<Rightarrow> ClaimKeys \<Rightarrow> 'j" where
  "ClaimKeys_to_json J r =
     jset J (jset J (jnull J) ''timeout'' (jint J (uint (ck_timeout r))))
       ''one_time_keys'' (jof_map J (jstring_map J) (ck_one_time_keys r))"

record QueryKeys =
  qk_timeout :: "64 word"
  qk_device_keys :: "string list smap"
  qk_token :: string

definition QueryKeys_to_json :: "'j json_lib \<Rightarrow> QueryKeys \<Rightarrow> 'j" where
  "QueryKeys_to_json J r =
     (let obj = jset J (jnull J) ''timeout'' (jint J (uint (qk_timeout r)));
          obj = jset J obj ''device_keys'' (jof_map J (jstrings J) (qk_device_keys r))
      in jset J obj ''token'' (jstring J (qk_token r)))"

datatype signature_upload = Upload_device DeviceKeys | Upload_cross CrossSigningKeys

definition signature_upload_to_json :: "'j json_lib \<Rightarrow> signature_upload \<Rightarrow> 'j" where
  "signature_upload_to_json J k =
     (case k of Upload_device d \<Rightarrow> DeviceKeys_to_json J d | Upload_cross c \<Rightarrow> CrossSigningKeys_to_json J c)"

definition KeySignaturesUpload_to_json :: "'j json_lib \<Rightarrow> signature_upload smap smap \<Rightarrow> 'j" where
  "KeySignaturesUpload_to_json J signatures =
     foldl (\<lambda>obj (user_id, idToKey).
         foldl (\<lambda>obj (key_id, key). jset2 J obj user_id key_id (signature_upload_to_json J key)) obj idToKey)
       (jnull J) signatures"

record DeviceSigningUpload =
  master_key :: "CrossSigningKeys option"
  self_signing_key :: "CrossSigningKeys option"
  user_signing_key :: "CrossSigningKeys option"

definition jset_opt :: "'j json_lib \<Rightarrow> ('a \<Rightarrow> 'j) \<Rightarrow> 'j \<Rightarrow> string \<Rightarrow> 'a option \<Rightarrow> 'j" where
  "jset_opt J conv obj k x = (case x of None \<Rightarrow> obj | Some v \<Rightarrow> jset J obj k (conv v))"

definition DeviceSigningUpload_to_json :: "'j json_lib \<Rightarrow> DeviceSigningUpload \<Rightarrow> 'j" where
  "DeviceSigningUpload_to_json J r =
     (let obj = jset_opt J (CrossSigningKeys_to_json J) (jnull J) ''master_key'' (master_key r);
          obj = jset_opt J (CrossSigningKeys_to_json J) obj ''self_signing_key'' (self_signing_key r)
      in jset_opt J (CrossSigningKeys_to_json J) obj ''user_signing_key'' (user_signing_key r))"

record 'j PusherData =
  pd_url :: string
  pd_format :: string
  pd_default_payload :: "'j option"

definition PusherData_to_json :: "'j json_lib \<Rightarrow> 'j PusherData \<Rightarrow> 'j" where
  "PusherData_to_json J d =
     (let obj = jset_if J (pd_url d \<noteq> []) (jnull J) ''url'' (jstring J (pd_url d));
          obj = jset_if J (pd_format d \<noteq> []) obj ''format'' (jstring J (pd_format d))
      in jset_opt J (\<lambda>v. v) obj ''default_payload'' (pd_default_payload d))"

record 'j SetPusher =
  sp_pushkey :: string
  sp_kind :: string
  sp_app_id :: string
  sp_app_display_name :: string
  sp_device_display_name :: string
  sp_profile_tag :: string
  sp_lang :: string
  sp_data :: "'j PusherData"
  sp_append :: bool

definition SetPusher_to_json :: "'j json_lib \<Rightarrow> 'j SetPusher \<Rightarrow> 'j" where
  "SetPusher_to_json J r =
     (let obj = jset J (jnull J) ''pushkey'' (jstring J (sp_pushkey r));
          obj = jset J obj ''kind'' (jstring J (sp_kind r));
          obj = jset J obj ''app_id'' (jstring J (sp_app_id r));
          obj = jset J obj ''app_display_name'' (jstring J (sp_app_display_name r));
          obj = jset J obj ''device_display_name'' (jstring J (sp_device_display_name r));
          obj = jset_if J (sp_profile_tag r \<noteq> []) obj ''profile_tag'' (jstring J (sp_profile_tag r));
          obj = jset J obj ''lang'' (jstring J (sp_lang r));
          obj = jset J obj ''data'' (PusherData_to_json J (sp_data r))
      in jset J obj ''append'' (jbool J (sp_append r)))"

section \<open>User-interactive authentication\<close>

record PolicyDescription =
  pol_name :: string
  pol_url :: string

record Policy =
  pol_version :: string
  pol_langToPolicy :: "PolicyDescription smap"

datatype Params = OAuth2Params string | TermsParams "Policy smap" | Raw_params string

record Unauthorized =
  ua_completed :: "string list"
  ua_session :: string
  ua_flows :: "string list list"
  ua_params :: "Params smap"

definition empty_Unauthorized :: Unauthorized where
  "empty_Unauthorized = \<lparr>ua_completed = [], ua_session = [], ua_flows = [], ua_params = []\<rparr>"

definition OAuth2Params_from_json :: "'j json_lib \<Rightarrow> 'j \<Rightarrow> string result" where
  "OAuth2Params_from_json J obj = jvalue J (jget_string J) obj ''uri'' []"

definition PolicyDescription_from_json :: "'j json_lib \<Rightarrow> 'j \<Rightarrow> PolicyDescription result" where
  "PolicyDescription_from_json J obj =
     rbind (jvalue J (jget_string J) obj ''name'' []) (\<lambda>name.
     rbind (jvalue J (jget_string J) obj ''url'' []) (\<lambda>url.
       Inr \<lparr>pol_name = name, pol_url = url\<rparr>))"

text \<open>
  The \<open>std::unordered_map\<close>s are kept as maps in key order, which is the order the members of a JSON
  object are visited in. The constant \<open>operator[]\<close> of the library has no defined behaviour for a
  missing key: \<open>Assertion\<close>.
\<close>

definition Policy_from_json :: "'j json_lib \<Rightarrow> 'j \<Rightarrow> Policy result" where
  "Policy_from_json J obj =
     rbind (jat_as J (jget_string J) obj ''version'') (\<lambda>version.
     rbind (mapM (\<lambda>(k, v). rbind (PolicyDescription_from_json J v) (\<lambda>d. Inr (k, d)))
              (filter (\<lambda>(k, v). k \<noteq> ''version'') (jitems J obj))) (\<lambda>langs.
       Inr \<lparr>pol_version = version, pol_langToPolicy = langs\<rparr>))"

definition jindex :: "'j json_lib \<Rightarrow> 'j \<Rightarrow> string \<Rightarrow> 'j result" where
  "jindex J obj k =
     (if jtype_of J obj \<noteq> JObject then type_error
      else if jcontains J obj k then jat J obj k else Inl Assertion)"

definition TermsParams_from_json :: "'j json_lib \<Rightarrow> 'j \<Rightarrow> Policy smap result" where
  "TermsParams_from_json J obj = rbind (jindex J obj ''policies'') (jget_map J (Policy_from_json J))"

definition Flow_from_json :: "'j json_lib \<Rightarrow> 'j \<Rightarrow> string list result" where
  "Flow_from_json J obj = rbind (jindex J obj ''stages'') (jget_list J (jget_string J))"

definition Params_from_json :: "'j json_lib \<Rightarrow> string \<times> 'j \<Rightarrow> (string \<times> Params) result" where
  "Params_from_json J e =
     (case e of (key, v) \<Rightarrow>
        if key = ''m.login.terms'' then rbind (TermsParams_from_json J v) (\<lambda>p. Inr (key, TermsParams p))
        else if key = ''m.login.oauth2'' then rbind (OAuth2Params_from_json J v) (\<lambda>p. Inr (key, OAuth2Params p))
        else rbind (jdump J v) (\<lambda>p. Inr (key, Raw_params p)))"

definition Unauthorized_from_json :: "'j json_lib \<Rightarrow> 'j \<Rightarrow> Unauthorized result" where
  "Unauthorized_from_json J obj =
     rbind (jopt J (jget_list J (jget_string J)) obj ''completed'' []) (\<lambda>completed.
     rbind (jvalue J (jget_string J) obj ''session'' []) (\<lambda>session.
     rbind (jat_as J (jget_list J (Flow_from_json J)) obj ''flows'') (\<lambda>flows.
     rbind (if jcontains J obj ''params''
            then rbind (jat J obj ''params'') (\<lambda>params. mapM (Params_from_json J) (jitems J params))
            else Inr []) (\<lambda>params.
       Inr \<lparr>ua_completed = completed, ua_session = session, ua_flows = flows, ua_params = params\<rparr>))))"

record ThreePIDCred =
  tpc_sid :: string
  tpc_client_secret :: string
  tpc_id_server :: string
  tpc_id_access_token :: string

datatype auth_content =
    Auth_Password (pw: string) (pw_identifier: login_identifier)
  | Auth_ReCaptcha string
  | Auth_Token string string
  | Auth_EmailIdentity ThreePIDCred
  | Auth_MSISDN ThreePIDCred
  | Auth_OAuth2
  | Auth_Terms
  | Auth_SSO
  | Auth_Dummy
  | Auth_RegistrationToken string
  | Auth_Fallback

record Auth =
  auth_session :: string
  auth_content :: auth_content

definition ThreePIDCred_to_json :: "'j json_lib \<Rightarrow> ThreePIDCred \<Rightarrow> 'j" where
  "ThreePIDCred_to_json J cred =
     (let obj = jset J (jnull J) ''sid'' (jstring J (tpc_sid cred));
          obj = jset J obj ''client_secret'' (jstring J (tpc_client_secret cred));
          obj = jset_if J (tpc_id_server cred \<noteq> []) obj ''id_server'' (jstring J (tpc_id_server cred))
      in jset_if J (tpc_id_server cred \<noteq> []) obj ''id_access_token'' (jstring J (tpc_id_access_token cred)))"

text \<open>
  The password stage identifies the account by a user id or a third-party id; the model uses the
  first two constructors of \<open>login_identifier\<close> for that choice (a phone number does not occur).
\<close>

definition Auth_to_json :: "'j json_lib \<Rightarrow> Auth \<Rightarrow> 'j" where
  "Auth_to_json J auth =
     (let obj = jset J (jnull J) ''session'' (jstring J (auth_session auth));
          typed = (\<lambda>t. jset J obj ''type'' (jstring J t))
      in case auth_content auth of
           Auth_Password password i \<Rightarrow>
             identifier_to_json J (jset J (typed ''m.login.password'') ''password'' (jstring J password)) i
         | Auth_ReCaptcha response \<Rightarrow> jset J (typed ''m.login.recaptcha'') ''response'' (jstring J response)
         | Auth_Token token txn_id \<Rightarrow>
             jset J (jset J (typed ''m.login.token'') ''token'' (jstring J token)) ''txn_id'' (jstring J txn_id)
         | Auth_EmailIdentity cred \<Rightarrow>
             jset J (typed ''m.login.email.identity'') ''threepid_creds'' (ThreePIDCred_to_json J cred)
         | Auth_MSISDN cred \<Rightarrow> jset J (typed ''m.login.msisdn'') ''threepid_creds'' (ThreePIDCred_to_json J cred)
         | Auth_RegistrationToken token \<Rightarrow>
             jset J (typed ''m.login.registration_token'') ''token'' (jstring J token)
         | Auth_OAuth2 \<Rightarrow> typed ''m.login.oauth2''
         | Auth_SSO \<Rightarrow> typed ''m.login.sso''
         | Auth_Terms \<Rightarrow> typed ''m.login.terms''
         | Auth_Dummy \<Rightarrow> typed ''m.login.dummy''
         | Auth_Fallback \<Rightarrow> obj)"

end
