(* ===== verification/Http_Client.thy ===== *)
theory Http_Client
  imports Utils Identifiers Event_Types Requests
begin

text \<open>
  The HTTP client (\<open>lib/http/client.cpp\<close>, \<open>include/mtxclient/http/client.hpp\<close>,
  \<open>client_impl.hpp\<close>): its state, the requests it sends, how a reply of the transport becomes a
  response or a \<open>ClientError\<close>, and the operations that change the state: \<open>set_server\<close>, login,
  logout, registration.

  The transport (coeurl) is not part of the sources: a request is the value handed to it, a reply is
  the value it hands to the callback.
\<close>

section \<open>State\<close>

record Client =
  cl_protocol :: string
  cl_server :: string
  cl_access_token :: string
  cl_user_id :: ID
  cl_device_id :: string
  cl_next_batch_token :: string
  cl_port :: "16 word"

definition set_user :: "ID \<Rightarrow> Client \<Rightarrow> Client" where
  "set_user user c = c\<lparr>cl_user_id := user\<rparr>"

definition set_device_id :: "string \<Rightarrow> Client \<Rightarrow> Client" where
  "set_device_id d c = c\<lparr>cl_device_id := d\<rparr>"

definition set_port :: "16 word \<Rightarrow> Client \<Rightarrow> Client" where
  "set_port p c = c\<lparr>cl_port := p\<rparr>"

definition set_access_token :: "string \<Rightarrow> Client \<Rightarrow> Client" where
  "set_access_token t c = c\<lparr>cl_access_token := t\<rparr>"

definition set_next_batch_token :: "string \<Rightarrow> Client \<Rightarrow> Client" where
  "set_next_batch_token t c = c\<lparr>cl_next_batch_token := t\<rparr>"

definition server_url :: "Client \<Rightarrow> string" where
  "server_url c = cl_protocol c @ ''://'' @ cl_server c @ '':'' @ dec_string (unat (cl_port c))"

definition clear :: "Client \<Rightarrow> Client" where
  "clear c = c\<lparr>cl_device_id := [], cl_access_token := [], cl_next_batch_token := [], cl_server := [], cl_port := 443\<rparr>"

text \<open>
  \<open>std::stoul\<close> on a string of digits, with its exception beyond 64 bits; \<open>set_server\<close> has by then
  assigned the protocol and the server name, so the state is part of the result in every case.
\<close>

definition stoul :: "string \<Rightarrow> nat result" where
  "stoul s = (if dec_value s < 2 ^ 64 then Inr (dec_value s) else Inl (Out_of_range ''stoul''))"

definition set_server :: "string \<Rightarrow> Client \<Rightarrow> exn option \<times> Client" where
  "set_server server_arg c =
     (let c = c\<lparr>cl_protocol := ''https''\<rparr>;
          (server_name, pt) = (if take 8 server_arg = ''https://'' then (drop 8 server_arg, 443)
                               else (server_arg, 443));
          (server_name, pt, c) =
            (if take 7 server_name = ''http://'' then (drop 7 server_name, 80, c\<lparr>cl_protocol := ''http''\<rparr>)
             else (server_name, pt, c));
          server_name =
            (if server_name \<noteq> [] \<and> last server_name = CHR ''/'' then butlast server_name else server_name);
          fallback = (None, c\<lparr>cl_server := server_name, cl_port := pt\<rparr>)
      in if count_list server_name (CHR '':'') = 1 then
           case find_char (CHR '':'') server_name of
             None \<Rightarrow> fallback
           | Some colon_offset \<Rightarrow>
               let c' = c\<lparr>cl_server := take colon_offset server_name\<rparr>;
                   tmp = drop (colon_offset + 1) server_name
               in if is_number tmp then
                    case stoul tmp of
                      Inl e \<Rightarrow> (Some e, c')
                    | Inr n \<Rightarrow> (None, c'\<lparr>cl_port := of_nat n\<rparr>)
                  else fallback
         else fallback)"

text \<open>The constructor: \<open>set_server\<close>, then \<open>set_port\<close> with its argument.\<close>

definition new_Client :: "string \<Rightarrow> 16 word \<Rightarrow> exn option \<times> Client" where
  "new_Client server_arg port_arg =
     (case set_server server_arg
        \<lparr>cl_protocol = [], cl_server = [], cl_access_token = [], cl_user_id = empty_ID, cl_device_id = [],
         cl_next_batch_token = [], cl_port = 443\<rparr> of
        (Some e, c) \<Rightarrow> (Some e, c)
      | (None, c) \<Rightarrow> (None, set_port port_arg c))"

section \<open>Requests\<close>

datatype http_method = GET | PUT | POST | DELETE

record request =
  req_method :: http_method
  req_endpoint :: string
  req_namespace :: string
  req_body :: string
  req_content_type :: string
  req_requires_auth :: bool
  req_redirects :: int

definition http_get' :: "string \<Rightarrow> bool \<Rightarrow> string \<Rightarrow> int \<Rightarrow> request" where
  "http_get' endpoint requires_auth endpoint_namespace num_redirects =
     \<lparr>req_method = GET, req_endpoint = endpoint, req_namespace = endpoint_namespace, req_body = [],
      req_content_type = [], req_requires_auth = requires_auth, req_redirects = num_redirects\<rparr>"

definition http_get :: "string \<Rightarrow> request" where
  "http_get endpoint = http_get' endpoint True ''/_matrix'' 0"

definition http_put :: "string \<Rightarrow> string \<Rightarrow> request" where
  "http_put endpoint body =
     \<lparr>req_method = PUT, req_endpoint = endpoint, req_namespace = ''/_matrix'', req_body = body,
      req_content_type = ''application/json'', req_requires_auth = True, req_redirects = 0\<rparr>"

definition http_post' :: "string \<Rightarrow> string \<Rightarrow> bool \<Rightarrow> string \<Rightarrow> request" where
  "http_post' endpoint body requires_auth content_type =
     \<lparr>req_method = POST, req_endpoint = endpoint, req_namespace = ''/_matrix'', req_body = body,
      req_content_type = content_type, req_requires_auth = requires_auth, req_redirects = 0\<rparr>"

definition http_post :: "string \<Rightarrow> string \<Rightarrow> request" where
  "http_post endpoint body = http_post' endpoint body True ''application/json''"

definition http_delete :: "string \<Rightarrow> request" where
  "http_delete endpoint =
     \<lparr>req_method = DELETE, req_endpoint = endpoint, req_namespace = ''/_matrix'', req_body = [],
      req_content_type = [], req_requires_auth = True, req_redirects = 0\<rparr>"

text \<open>\<open>serialize\<close> of a JSON payload may throw while printing it; a string is sent as it is.\<close>

definition put_json :: "'j json_lib \<Rightarrow> string \<Rightarrow> 'j \<Rightarrow> request result" where
  "put_json J endpoint payload = rbind (jdump J payload) (\<lambda>body. Inr (http_put endpoint body))"

definition post_json :: "'j json_lib \<Rightarrow> string \<Rightarrow> 'j \<Rightarrow> request result" where
  "post_json J endpoint payload = rbind (jdump J payload) (\<lambda>body. Inr (http_post endpoint body))"

section \<open>On the wire\<close>

record wire =
  w_method :: http_method
  w_url :: string
  w_headers :: "string smap"
  w_body :: string
  w_content_type :: string
  w_redirects :: int

definition prepare_headers :: "Client \<Rightarrow> bool \<Rightarrow> string smap" where
  "prepare_headers c requires_auth =
     (let headers = map_set ''User-Agent'' ''mtxclient v0.9.2'' []
      in if requires_auth \<and> cl_access_token c \<noteq> []
         then map_set ''Authorization'' (''Bearer '' @ cl_access_token c) headers
         else headers)"

definition endpoint_to_url :: "Client \<Rightarrow> string \<Rightarrow> string \<Rightarrow> string" where
  "endpoint_to_url c endpoint endpoint_namespace =
     cl_protocol c @ ''://'' @ cl_server c @ '':'' @ dec_string (unat (cl_port c)) @ endpoint_namespace @ endpoint"

definition transmit :: "Client \<Rightarrow> request \<Rightarrow> wire" where
  "transmit c r =
     \<lparr>w_method = req_method r, w_url = endpoint_to_url c (req_endpoint r) (req_namespace r),
      w_headers = prepare_headers c (req_requires_auth r), w_body = req_body r,
      w_content_type = req_content_type r, w_redirects = req_redirects r\<rparr>"

section \<open>Errors\<close>

record Error =
  errcode :: ErrorCode
  error_msg :: string
  unauthorized :: Unauthorized
  retry_after :: int

definition no_Error :: Error where
  "no_Error = \<lparr>errcode = M_UNRECOGNIZED, error_msg = [], unauthorized = empty_Unauthorized, retry_after = 0\<rparr>"

definition LightweightError_from_json :: "'j json_lib \<Rightarrow> 'j \<Rightarrow> (ErrorCode \<times> string) result" where
  "LightweightError_from_json J obj =
     rbind (jvalue J (jget_string J) obj ''errcode'' []) (\<lambda>code.
     rbind (jvalue J (jget_string J) obj ''error'' []) (\<lambda>msg.
       Inr (error_code_from_string code, msg)))"

definition Error_from_json :: "'j json_lib \<Rightarrow> 'j \<Rightarrow> Error result" where
  "Error_from_json J obj =
     rbind (jvalue J (jget_string J) obj ''errcode'' []) (\<lambda>code.
     rbind (jvalue J (jget_string J) obj ''error'' []) (\<lambda>msg.
     rbind (if jcontains J obj ''flows'' then Unauthorized_from_json J obj else Inr empty_Unauthorized) (\<lambda>u.
     rbind (if jcontains J obj ''retry_after_ms'' then jvalue J (jget_uint64 J) obj ''retry_after_ms'' 0
            else Inr 0) (\<lambda>retry.
       Inr \<lparr>errcode = error_code_from_string code, error_msg = msg, unauthorized = u, retry_after = retry\<rparr>))))"

record ClientError =
  matrix_error :: Error
  error_code :: int
  status_code :: int
  parse_error :: string

definition no_ClientError :: ClientError where
  "no_ClientError = \<lparr>matrix_error = no_Error, error_code = 0, status_code = 0, parse_error = []\<rparr>"

section \<open>Replies\<close>

record reply =
  rp_headers :: "string smap"
  rp_body :: string
  rp_error_code :: int
  rp_status :: int

definition deserialize :: "'j json_lib \<Rightarrow> ('j \<Rightarrow> 'r result) \<Rightarrow> string \<Rightarrow> 'r result" where
  "deserialize J conv data = rbind (jparse J data) conv"

definition success_status :: "int \<Rightarrow> bool" where
  "success_status s \<longleftrightarrow> \<not> (s < 200 \<or> s \<ge> 300)"

text \<open>
  \<open>prepare_callback<Response>\<close>: the pair that is passed to the callback, which is called exactly
  once. \<open>dflt\<close> is the default-constructed response, \<open>decode\<close> is \<open>deserialize<Response>\<close> and
  \<open>what\<close> is the text of an exception.
\<close>

definition prepare_callback ::
  "'j json_lib \<Rightarrow> (exn \<Rightarrow> string) \<Rightarrow> 'r \<Rightarrow> (string \<Rightarrow> 'r result) \<Rightarrow> reply \<Rightarrow> 'r \<times> ClientError option" where
  "prepare_callback J what dflt decode r =
     (if rp_error_code r \<noteq> 0 then (dflt, Some (no_ClientError\<lparr>error_code := rp_error_code r\<rparr>))
      else if \<not> success_status (rp_status r) then
        let err = no_ClientError\<lparr>status_code := rp_status r\<rparr>;
            response_data = (case decode (rp_body r) of Inr d \<Rightarrow> d | Inl _ \<Rightarrow> dflt)
        in case deserialize J (Error_from_json J) (rp_body r) of
             Inr me \<Rightarrow> (response_data, Some (err\<lparr>matrix_error := me\<rparr>))
           | Inl e \<Rightarrow>
               (response_data,
                Some (err\<lparr>parse_error := what e @ '' [while parsing error]: '' @ rp_body r, error_code := 42\<rparr>))
      else
        case decode (rp_body r) of
          Inr d \<Rightarrow> (d, None)
        | Inl e \<Rightarrow> (dflt, Some (no_ClientError\<lparr>parse_error := what e @ '': '' @ rp_body r\<rparr>)))"

text \<open>
  The callback of \<open>delete_\<close>. The error structure is not initialised there, so its initial value is
  an argument; an exception that is not one of the JSON library escapes.
\<close>

definition delete_callback ::
  "'j json_lib \<Rightarrow> (exn \<Rightarrow> string) \<Rightarrow> ClientError \<Rightarrow> reply \<Rightarrow> ClientError option result" where
  "delete_callback J what uninit r =
     (if rp_error_code r \<noteq> 0 then Inr (Some (uninit\<lparr>error_code := rp_error_code r\<rparr>))
      else
        let err = uninit\<lparr>status_code := rp_status r\<rparr>
        in if \<not> success_status (status_code err) then
             case deserialize J (Error_from_json J) (rp_body r) of
               Inr me \<Rightarrow> Inr (Some (err\<lparr>matrix_error := me\<rparr>))
             | Inl e \<Rightarrow>
                 if is_json_exn e then Inr (Some (err\<lparr>parse_error := what e @ '': '' @ rp_body r\<rparr>))
                 else Inl e
           else Inr None)"

section \<open>Sessions\<close>

record Session =
  sn_user_id :: ID
  sn_access_token :: string
  sn_device_id :: string

text \<open>
  What the callbacks of \<open>login\<close> and \<open>registration\<close> do to the client, and that of \<open>logout\<close>.
\<close>

definition login_callback :: "Client \<Rightarrow> Session \<Rightarrow> ClientError option \<Rightarrow> Client" where
  "login_callback c resp err =
     (if err = None \<and> sn_access_token resp \<noteq> []
      then c\<lparr>cl_user_id := sn_user_id resp, cl_device_id := sn_device_id resp, cl_access_token := sn_access_token resp\<rparr>
      else c)"

definition logout_callback :: "Client \<Rightarrow> ClientError option \<Rightarrow> Client" where
  "logout_callback c err = (if err = None then clear c else c)"

definition User_from_json :: "'j json_lib \<Rightarrow> 'j \<Rightarrow> ID result" where
  "User_from_json J obj = rbind (jget_string J obj) (parse_id User_id)"

record WellKnown =
  wk_homeserver :: string
  wk_identity_server :: string

definition ServerInformation_from_json :: "'j json_lib \<Rightarrow> 'j \<Rightarrow> string result" where
  "ServerInformation_from_json J obj = jat_as J (jget_string J) obj ''base_url''"

definition WellKnown_from_json :: "'j json_lib \<Rightarrow> 'j \<Rightarrow> WellKnown result" where
  "WellKnown_from_json J obj =
     rbind (jat_as J (ServerInformation_from_json J) obj ''m.homeserver'') (\<lambda>homeserver.
     rbind (jopt J (ServerInformation_from_json J) obj ''m.identity_server'' []) (\<lambda>identity_server.
       Inr \<lparr>wk_homeserver = homeserver, wk_identity_server = identity_server\<rparr>))"

definition Login_from_json :: "'j json_lib \<Rightarrow> 'j \<Rightarrow> (Session \<times> WellKnown option) result" where
  "Login_from_json J obj =
     rbind (jat_as J (User_from_json J) obj ''user_id'') (\<lambda>user.
     rbind (jat_as J (jget_string J) obj ''access_token'') (\<lambda>token.
     rbind (jopt J (jget_string J) obj ''device_id'' []) (\<lambda>device.
     rbind (jopt J (\<lambda>v. if jtype_of J v = JObject
                       then rbind (WellKnown_from_json J v) (\<lambda>w. Inr (Some w)) else Inr None)
              obj ''well_known'' None) (\<lambda>wk.
       Inr (\<lparr>sn_user_id = user, sn_access_token = token, sn_device_id = device\<rparr>, wk)))))"

definition Register_from_json :: "'j json_lib \<Rightarrow> 'j \<Rightarrow> Session result" where
  "Register_from_json J obj =
     rbind (jat_as J (User_from_json J) obj ''user_id'') (\<lambda>user.
     rbind (jat_as J (jget_string J) obj ''access_token'') (\<lambda>token.
     rbind (jat_as J (jget_string J) obj ''device_id'') (\<lambda>device.
       Inr \<lparr>sn_user_id = user, sn_access_token = token, sn_device_id = device\<rparr>)))"

end
