(* ===== verification/Member_Presence.thy ===== *)
theory Member_Presence
  imports Requests
begin

text \<open>
  Membership of rooms (\<open>lib/structs/events/member.cpp\<close>) and presence of users
  (\<open>lib/structs/events/presence.cpp\<close>): the enumerations with their names, and the event contents.
\<close>

section \<open>Membership\<close>

datatype Membership = Join | Invite | Ban | Leave | Knock

fun membershipToString :: "Membership \<Rightarrow> string" where
  "membershipToString Join = ''join''"
| "membershipToString Invite = ''invite''"
| "membershipToString Ban = ''ban''"
| "membershipToString Leave = ''leave''"
| "membershipToString Knock = ''knock''"

definition stringToMembership :: "string \<Rightarrow> Membership" where
  "stringToMembership membership =
     (if membership = ''join'' then Join
      else if membership = ''invite'' then Invite
      else if membership = ''ban'' then Ban
      else if membership = ''leave'' then Leave
      else Knock)"

record Member =
  mem_membership :: Membership
  mem_avatar_url :: string
  mem_display_name :: string
  mem_is_direct :: bool
  mem_reason :: string
  mem_join_authorised_via_users_server :: string

text \<open>The membership of a default-constructed member is the first of the enumeration.\<close>

definition default_Member :: Member where
  "default_Member = \<lparr>mem_membership = Join, mem_avatar_url = [], mem_display_name = [], mem_is_direct = False,
     mem_reason = [], mem_join_authorised_via_users_server = []\<rparr>"

definition Member_from_json :: "'j json_lib \<Rightarrow> 'j \<Rightarrow> Member result" where
  "Member_from_json J obj =
     rbind (jat_as J (jget_string J) obj ''membership'') (\<lambda>membership.
     rbind (jopt_if J not_null (jget_string J) obj ''displayname'' []) (\<lambda>display_name.
     rbind (jopt_if J not_null (jget_string J) obj ''avatar_url'' []) (\<lambda>avatar_url.
     rbind (jopt J (jget_bool J) obj ''is_direct'' False) (\<lambda>is_direct.
     rbind (jopt_if J (\<lambda>t. t = JString) (jget_string J) obj ''reason'' []) (\<lambda>reason.
     rbind (jopt J (jget_string J) obj ''join_authorised_via_users_server'' []) (\<lambda>server.
       Inr \<lparr>mem_membership = stringToMembership membership, mem_avatar_url = avatar_url,
            mem_display_name = display_name, mem_is_direct = is_direct, mem_reason = reason,
            mem_join_authorised_via_users_server = server\<rparr>))))))"

definition Member_to_json :: "'j json_lib \<Rightarrow> Member \<Rightarrow> 'j" where
  "Member_to_json J member =
     (let obj = jset J (jnull J) ''membership'' (jstring J (membershipToString (mem_membership member)));
          obj = jset J obj ''avatar_url'' (jstring J (mem_avatar_url member));
          obj = jset J obj ''displayname'' (jstring J (mem_display_name member));
          obj = jset J obj ''is_direct'' (jbool J (mem_is_direct member));
          obj = jset_if J (mem_reason member \<noteq> []) obj ''reason'' (jstring J (mem_reason member))
      in jset_if J (mem_join_authorised_via_users_server member \<noteq> []) obj ''join_authorised_via_users_server''
           (jstring J (mem_join_authorised_via_users_server member)))"

section \<open>Presence\<close>

datatype PresenceState = online | offline | unavailable

fun presence_to_string :: "PresenceState \<Rightarrow> string" where
  "presence_to_string offline = ''offline''"
| "presence_to_string unavailable = ''unavailable''"
| "presence_to_string online = ''online''"

definition presence_from_string :: "string \<Rightarrow> PresenceState" where
  "presence_from_string str =
     (if str = ''offline'' then offline else if str = ''unavailable'' then unavailable else online)"

record Presence =
  pres_avatar_url :: string
  pres_displayname :: string
  pres_last_active_ago :: int
  pres_presence :: PresenceState
  pres_currently_active :: bool
  pres_status_msg :: string

text \<open>The reader of the status message swallows every exception.\<close>

definition Presence_from_json :: "'j json_lib \<Rightarrow> 'j \<Rightarrow> Presence result" where
  "Presence_from_json J obj =
     rbind (jvalue J (jget_string J) obj ''avatar_url'' []) (\<lambda>avatar_url.
     rbind (jvalue J (jget_string J) obj ''displayname'' []) (\<lambda>displayname.
     rbind (jvalue J (jget_uint64 J) obj ''last_active_ago'' 0) (\<lambda>last_active_ago.
     rbind (jvalue J (jget_string J) obj ''presence'' ''online'') (\<lambda>presence.
     rbind (jvalue J (jget_bool J) obj ''currently_active'' False) (\<lambda>currently_active.
       Inr \<lparr>pres_avatar_url = avatar_url, pres_displayname = displayname, pres_last_active_ago = last_active_ago,
            pres_presence = presence_from_string presence, pres_currently_active = currently_active,
            pres_status_msg = (case jopt J (jget_string J) obj ''status_msg'' [] of Inl _ \<Rightarrow> [] | Inr s \<Rightarrow> s)\<rparr>)))))"

definition Presence_to_json :: "'j json_lib \<Rightarrow> Presence \<Rightarrow> 'j" where
  "Presence_to_json J p =
     (let obj = jset_if J (pres_avatar_url p \<noteq> []) (jnull J) ''avatar_url'' (jstring J (pres_avatar_url p));
          obj = jset_if J (pres_displayname p \<noteq> []) obj ''displayname'' (jstring J (pres_displayname p));
          obj = jset_if J (pres_last_active_ago p \<noteq> 0) obj ''last_active_ago'' (jint J (pres_last_active_ago p));
          obj = jset J obj ''presence'' (jstring J (presence_to_string (pres_presence p)));
          obj = jset_if J (pres_currently_active p) obj ''currently_active'' (jbool J True)
      in jset_if J (pres_status_msg p \<noteq> []) obj ''status_msg'' (jstring J (pres_status_msg p)))"

section \<open>Round trips\<close>

lemma membership_names [simp]: "stringToMembership (membershipToString m) = m"
  by (cases m) (simp_all add: stringToMembership_def)

lemma presence_names [simp]: "presence_from_string (presence_to_string p) = p"
  by (cases p) (simp_all add: presence_from_string_def)

context json_library
begin

lemma Member_roundtrip: "Member_from_json J (Member_to_json J m) = Inr m"
  by (cases m) (simp add: Member_from_json_def Member_to_json_def reads Let_def)

lemma Presence_roundtrip:
  assumes "0 \<le> pres_last_active_ago p" and "pres_last_active_ago p < 2 ^ 64"
  shows "Presence_from_json J (Presence_to_json J p) = Inr p"
  using assms by (cases p) (simp add: Presence_from_json_def Presence_to_json_def reads Let_def)

end

end
