(* ===== verification/Http_Endpoints.thy ===== *)
theory Http_Endpoints
  imports Http_Client Member_Presence
begin

text \<open>
  The endpoints of the client-server API (\<open>lib/http/client.cpp\<close> and the templates of
  \<open>client_impl.hpp\<close>): the request each member function of \<open>Client\<close> hands to the transport.
  A function whose payload has to be printed returns a result, since printing may throw. Payloads
  of structures that are modelled elsewhere or are template parameters are passed as JSON values.
  Callbacks that only forward the response are left out; the endpoints that send further requests
  from their callback are interaction trees (\<open>act\<close>).
\<close>

section \<open>Interaction trees\<close>

datatype 'c act = Send request "reply \<Rightarrow> 'c act" | Return 'c

text \<open>The requests sent and the result, given the replies in order.\<close>

fun run_act :: "'c act \<Rightarrow> reply list \<Rightarrow> request list \<times> 'c option" where
  "run_act (Return x) rs = ([], Some x)"
| "run_act (Send req k) [] = ([req], None)"
| "run_act (Send req k) (r # rs) = (let (reqs, res) = run_act (k r) rs in (req # reqs, res))"

text \<open>
  The parameters of the typed \<open>get<Response>\<close>: the default-constructed response and its
  deserialisation.
\<close>

record 'r response_type =
  rt_default :: 'r
  rt_decode :: "string \<Rightarrow> 'r result"

definition string_type :: "string response_type" where
  "string_type = \<lparr>rt_default = [], rt_decode = Inr\<rparr>"

definition get_act ::
  "'j json_lib \<Rightarrow> (exn \<Rightarrow> string) \<Rightarrow> 'r response_type \<Rightarrow> request
     \<Rightarrow> ('r \<Rightarrow> string smap \<Rightarrow> ClientError option \<Rightarrow> 'c act) \<Rightarrow> 'c act" where
  "get_act J what T req k =
     Send req (\<lambda>r. case prepare_callback J what (rt_default T) (rt_decode T) r of
       (res, err) \<Rightarrow> k res (rp_headers r) err)"

text \<open>\<open>err && (err->status_code == 404 || err->status_code == 400)\<close>\<close>

definition unsupported :: "ClientError option \<Rightarrow> bool" where
  "unsupported err = (case err of None \<Rightarrow> False | Some e \<Rightarrow> status_code e = 404 \<or> status_code e = 400)"

definition not_found :: "ClientError option \<Rightarrow> bool" where
  "not_found err = (case err of None \<Rightarrow> False | Some e \<Rightarrow> status_code e = 404)"

section \<open>Paths\<close>

abbreviation rooms :: "string \<Rightarrow> string" where
  "rooms room_id \<equiv> ''/client/v3/rooms/'' @ url_encode room_id"

definition uid :: "Client \<Rightarrow> string" where
  "uid c = url_encode (id_to_string (cl_user_id c))"

definition pushrules_path :: "string \<Rightarrow> string \<Rightarrow> string \<Rightarrow> string" where
  "pushrules_path scope kind ruleId =
     ''/client/v3/pushrules/'' @ url_encode scope @ ''/'' @ url_encode kind @ ''/'' @ url_encode ruleId"

definition with_query :: "string \<Rightarrow> string smap \<Rightarrow> string" where
  "with_query path params = (if params = [] then path else path @ ''?'' @ query_params params)"

definition emplace_if :: "bool \<Rightarrow> string \<Rightarrow> string \<Rightarrow> string smap \<Rightarrow> string smap" where
  "emplace_if b k v m = (if b then map_emplace k v m else m)"

definition reason_body :: "'j json_lib \<Rightarrow> string \<Rightarrow> 'j" where
  "reason_body J reason = jset_if J (reason \<noteq> []) (jobject J) ''reason'' (jstring J reason)"

section \<open>Login and session\<close>

definition login_request :: "'j json_lib \<Rightarrow> Login \<Rightarrow> request result" where
  "login_request J req =
     rbind (jdump J (Login_to_json J req)) (\<lambda>body.
       Inr (http_post' ''/client/v3/login'' body False ''application/json''))"

definition login_with_device :: "'j json_lib \<Rightarrow> string \<Rightarrow> string \<Rightarrow> string \<Rightarrow> request result" where
  "login_with_device J user password device_name =
     login_request J (default_Login\<lparr>login_identifier := User user, login_password := password,
       login_initial_device_display_name := device_name\<rparr>)"

definition login_with_password :: "'j json_lib \<Rightarrow> string \<Rightarrow> string \<Rightarrow> request result" where
  "login_with_password J user password =
     login_request J (default_Login\<lparr>login_identifier := User user, login_password := password\<rparr>)"

definition get_login :: request where
  "get_login = http_get' ''/client/v3/login'' False ''/_matrix'' 0"

definition login_sso_redirect :: "Client \<Rightarrow> string \<Rightarrow> string \<Rightarrow> string" where
  "login_sso_redirect c redirectUrl idp =
     (let idp_suffix = (if idp = [] then idp else ''/'' @ url_encode idp)
      in cl_protocol c @ ''://'' @ cl_server c @ '':'' @ dec_string (unat (cl_port c))
         @ ''/_matrix/client/v3/login/sso/redirect'' @ idp_suffix @ ''?''
         @ query_params [(''redirectUrl'', redirectUrl)])"

definition well_known :: request where
  "well_known = http_get' ''/matrix/client'' False ''/.well-known'' 30"

definition logout_request :: "'j json_lib \<Rightarrow> request result" where
  "logout_request J = post_json J ''/client/v3/logout'' (Empty_to_json J)"

section \<open>Notifications and push rules\<close>

definition notifications :: "64 word \<Rightarrow> string \<Rightarrow> string \<Rightarrow> request" where
  "notifications limit from only =
     (let params = map_emplace ''limit'' (dec_string (unat limit)) [];
          params = emplace_if (from \<noteq> []) ''from'' from params;
          params = emplace_if (only \<noteq> []) ''only'' only params
      in http_get (''/client/v3/notifications?'' @ query_params params))"

definition get_pushrules :: request where
  "get_pushrules = http_get ''/client/v3/pushrules/''"

definition get_pushrule :: "string \<Rightarrow> string \<Rightarrow> string \<Rightarrow> request" where
  "get_pushrule scope kind ruleId = http_get (pushrules_path scope kind ruleId)"

definition delete_pushrules :: "string \<Rightarrow> string \<Rightarrow> string \<Rightarrow> request" where
  "delete_pushrules scope kind ruleId = http_delete (pushrules_path scope kind ruleId)"

definition put_pushrules ::
  "'j json_lib \<Rightarrow> string \<Rightarrow> string \<Rightarrow> string \<Rightarrow> 'j \<Rightarrow> string \<Rightarrow> string \<Rightarrow> request result" where
  "put_pushrules J scope kind ruleId rule before after =
     (let params = emplace_if (before \<noteq> []) ''before'' before [];
          params = emplace_if (after \<noteq> []) ''after'' after params
      in put_json J (with_query (pushrules_path scope kind ruleId) params) rule)"

definition get_pushrules_enabled :: "string \<Rightarrow> string \<Rightarrow> string \<Rightarrow> request" where
  "get_pushrules_enabled scope kind ruleId = http_get (pushrules_path scope kind ruleId @ ''/enabled'')"

definition put_pushrules_enabled :: "'j json_lib \<Rightarrow> string \<Rightarrow> string \<Rightarrow> string \<Rightarrow> 'j \<Rightarrow> request result" where
  "put_pushrules_enabled J scope kind ruleId enabled =
     put_json J (pushrules_path scope kind ruleId @ ''/enabled'') enabled"

definition get_pushrules_actions :: "string \<Rightarrow> string \<Rightarrow> string \<Rightarrow> request" where
  "get_pushrules_actions scope kind ruleId = http_get (pushrules_path scope kind ruleId @ ''/actions'')"

definition put_pushrules_actions :: "'j json_lib \<Rightarrow> string \<Rightarrow> string \<Rightarrow> string \<Rightarrow> 'j \<Rightarrow> request result" where
  "put_pushrules_actions J scope kind ruleId actions =
     put_json J (pushrules_path scope kind ruleId @ ''/actions'') actions"

section \<open>Profiles and tags\<close>

definition set_avatar_url :: "'j json_lib \<Rightarrow> Client \<Rightarrow> string \<Rightarrow> request result" where
  "set_avatar_url J c avatar_url =
     put_json J (''/client/v3/profile/'' @ uid c @ ''/avatar_url'') (AvatarUrl_to_json J avatar_url)"

definition set_displayname :: "'j json_lib \<Rightarrow> Client \<Rightarrow> string \<Rightarrow> request result" where
  "set_displayname J c displayname =
     put_json J (''/client/v3/profile/'' @ uid c @ ''/displayname'') (DisplayName_to_json J displayname)"

definition get_profile :: "string \<Rightarrow> request" where
  "get_profile user_id = http_get (''/client/v3/profile/'' @ url_encode user_id)"

definition get_avatar_url :: "string \<Rightarrow> request" where
  "get_avatar_url user_id = http_get (''/client/v3/profile/'' @ url_encode user_id @ ''/avatar_url'')"

definition get_tags :: "Client \<Rightarrow> string \<Rightarrow> request" where
  "get_tags c room_id =
     http_get (''/client/v3/user/'' @ uid c @ ''/rooms/'' @ url_encode room_id @ ''/tags'')"

definition put_tag :: "'j json_lib \<Rightarrow> Client \<Rightarrow> string \<Rightarrow> string \<Rightarrow> 'j \<Rightarrow> request result" where
  "put_tag J c room_id tag_name tag =
     put_json J (''/client/v3/user/'' @ uid c @ ''/rooms/'' @ url_encode room_id @ ''/tags/''
       @ url_encode tag_name) tag"

definition delete_tag :: "Client \<Rightarrow> string \<Rightarrow> string \<Rightarrow> request" where
  "delete_tag c room_id tag_name =
     http_delete (''/client/v3/user/'' @ uid c @ ''/rooms/'' @ url_encode room_id @ ''/tags/''
       @ url_encode tag_name)"

section \<open>Rooms\<close>

definition create_room :: "'j json_lib \<Rightarrow> 'j CreateRoom \<Rightarrow> request result" where
  "create_room J room_options = post_json J ''/client/v3/createRoom'' (CreateRoom_to_json J room_options)"

text \<open>The query of \<open>join_room\<close> and \<open>knock_room\<close>: every server under both parameter names.\<close>

definition via_query :: "string list \<Rightarrow> string" where
  "via_query via =
     (case via of
        [] \<Rightarrow> []
      | v # vs \<Rightarrow>
          ''?server_name='' @ url_encode v
          @ concat (map (\<lambda>v. ''&server_name='' @ url_encode v) vs)
          @ concat (map (\<lambda>v. ''&via='' @ url_encode v) via))"

definition join_room_via :: "'j json_lib \<Rightarrow> string \<Rightarrow> string list \<Rightarrow> string \<Rightarrow> request result" where
  "join_room_via J room via reason =
     rbind (jdump J (reason_body J reason)) (\<lambda>body.
       Inr (http_post (''/client/v3/join/'' @ url_encode room @ via_query via) body))"

definition join_room :: "'j json_lib \<Rightarrow> string \<Rightarrow> request result" where
  "join_room J room = join_room_via J room [] []"

definition knock_room :: "'j json_lib \<Rightarrow> string \<Rightarrow> string list \<Rightarrow> string \<Rightarrow> request result" where
  "knock_room J room via reason =
     rbind (jdump J (reason_body J reason)) (\<lambda>body.
       Inr (http_post (''/client/v3/knock/'' @ url_encode room @ via_query via) body))"

definition leave_room :: "'j json_lib \<Rightarrow> string \<Rightarrow> string \<Rightarrow> request result" where
  "leave_room J room_id reason =
     rbind (jdump J (reason_body J reason)) (\<lambda>body. Inr (http_post (rooms room_id @ ''/leave'') body))"

definition membership_change :: "'j json_lib \<Rightarrow> string \<Rightarrow> string \<Rightarrow> string \<Rightarrow> string \<Rightarrow> request result" where
  "membership_change J action room_id user_id reason =
     post_json J (rooms room_id @ action)
       (RoomMembershipChange_to_json J \<lparr>rmc_user_id = user_id, rmc_reason = reason\<rparr>)"

definition invite_user :: "'j json_lib \<Rightarrow> string \<Rightarrow> string \<Rightarrow> string \<Rightarrow> request result" where
  "invite_user J = membership_change J ''/invite''"

definition kick_user :: "'j json_lib \<Rightarrow> string \<Rightarrow> string \<Rightarrow> string \<Rightarrow> request result" where
  "kick_user J = membership_change J ''/kick''"

definition ban_user :: "'j json_lib \<Rightarrow> string \<Rightarrow> string \<Rightarrow> string \<Rightarrow> request result" where
  "ban_user J = membership_change J ''/ban''"

definition unban_user :: "'j json_lib \<Rightarrow> string \<Rightarrow> string \<Rightarrow> string \<Rightarrow> request result" where
  "unban_user J = membership_change J ''/unban''"

record SyncOpts =
  so_filter :: string
  so_since :: string
  so_timeout :: "16 word"
  so_full_state :: bool
  so_set_presence :: "PresenceState option"

definition sync :: "SyncOpts \<Rightarrow> request" where
  "sync opts =
     (let params = emplace_if (so_filter opts \<noteq> []) ''filter'' (so_filter opts) [];
          params = emplace_if (so_since opts \<noteq> []) ''since'' (so_since opts) params;
          params = emplace_if (so_full_state opts) ''full_state'' ''true'' params;
          params = (case so_set_presence opts of None \<Rightarrow> params
                    | Some p \<Rightarrow> map_emplace ''set_presence'' (presence_to_string p) params);
          params = map_emplace ''timeout'' (dec_string (unat (so_timeout opts))) params
      in http_get (''/client/v3/sync?'' @ query_params params))"

definition versions :: request where
  "versions = http_get ''/client/versions''"

definition capabilities :: request where
  "capabilities = http_get ''/client/v3/capabilities''"

section \<open>Media\<close>

definition upload :: "string \<Rightarrow> string \<Rightarrow> string \<Rightarrow> request" where
  "upload data content_type filename =
     http_post' (''/media/v3/upload?'' @ query_params [(''filename'', filename)]) data True content_type"

definition preview_url ::
  "'j json_lib \<Rightarrow> (exn \<Rightarrow> string) \<Rightarrow> 'r response_type \<Rightarrow> int option \<Rightarrow> string \<Rightarrow> ('r \<times> ClientError option) act" where
  "preview_url J what T timestamp url =
     (let params = (case timestamp of None \<Rightarrow> [] | Some ts \<Rightarrow> map_emplace ''ts'' (dec_int ts) []);
          params = map_emplace ''url'' url params
      in get_act J what T (http_get (''/client/v1/media/preview_url?'' @ query_params params))
           (\<lambda>res hdrs err.
              if \<not> unsupported err then Return (res, err)
              else get_act J what T (http_get (''/media/v3/preview_url?'' @ query_params params))
                     (\<lambda>res hdrs err. Return (res, err))))"

text \<open>
  The file name of a \<open>Content-Disposition\<close> header. \<open>find_sub\<close> is \<open>find\<close> of a string,
  \<open>find_char_from\<close> is \<open>find\<close> of a character from a position. The length of the quoted part
  is computed in \<open>size_t\<close>; a missing closing quote is \<open>npos\<close>, the largest value.
\<close>

fun find_sub :: "string \<Rightarrow> string \<Rightarrow> nat option" where
  "find_sub p [] = (if p = [] then Some 0 else None)"
| "find_sub p (c # s) = (if starts_with p (c # s) then Some 0 else map_option Suc (find_sub p s))"

definition find_char_from :: "char \<Rightarrow> nat \<Rightarrow> string \<Rightarrow> nat option" where
  "find_char_from c pos s = map_option (\<lambda>i. pos + i) (find_char c (drop pos s))"

definition npos :: nat where
  "npos = 2 ^ 64 - 1"

definition size_sub :: "nat \<Rightarrow> nat \<Rightarrow> nat" where
  "size_sub a b = (a + 2 ^ 64 - b) mod 2 ^ 64"

definition disposition_filename :: "string \<Rightarrow> string result" where
  "disposition_filename value =
     (case find_sub ''filename'' value of
        None \<Rightarrow> Inr []
      | Some pos \<Rightarrow>
          (case find_char_from (CHR 0x22) pos value of
             Some start \<Rightarrow>
               (let end = (case find_char_from (CHR 0x22) (start + 1) value of Some e \<Rightarrow> e | None \<Rightarrow> npos)
                in substr (start + 1) (Some (size_sub (size_sub end start) 2)) value)
           | None \<Rightarrow>
               (case find_char (CHR ''='') value of
                  Some start \<Rightarrow> substr (start + 1) None value
                | None \<Rightarrow> Inr [])))"

record download_result =
  dl_data :: string
  dl_content_type :: string
  dl_filename :: string
  dl_error :: "ClientError option"

text \<open>The callback of \<open>download\<close>; an exception of \<open>substr\<close> would end the callback.\<close>

definition download_callback :: "string \<Rightarrow> string smap \<Rightarrow> ClientError option \<Rightarrow> download_result result" where
  "download_callback res hdrs err =
     (let content_type = (case map_of hdrs ''Content-Type'' of None \<Rightarrow> [] | Some v \<Rightarrow> v)
      in rbind (case map_of hdrs ''Content-Disposition'' of
                  None \<Rightarrow> Inr []
                | Some v \<Rightarrow> disposition_filename v) (\<lambda>name.
           Inr \<lparr>dl_data = res, dl_content_type = content_type, dl_filename = name, dl_error = err\<rparr>))"

definition download_from ::
  "'j json_lib \<Rightarrow> (exn \<Rightarrow> string) \<Rightarrow> string \<Rightarrow> string
     \<Rightarrow> (string \<Rightarrow> string smap \<Rightarrow> ClientError option \<Rightarrow> 'c) \<Rightarrow> 'c act" where
  "download_from J what srv media_id cb =
     get_act J what string_type
       (http_get' (''/client/v1/media/download/'' @ url_encode srv @ ''/'' @ url_encode media_id) True ''/_matrix'' 3)
       (\<lambda>res hdrs err.
          if \<not> unsupported err then Return (cb res hdrs err)
          else
            get_act J what string_type
              (http_get (''/media/v3/download/'' @ url_encode srv @ ''/'' @ url_encode media_id))
              (\<lambda>res hdrs err. Return (cb res hdrs err)))"

definition download :: "'j json_lib \<Rightarrow> (exn \<Rightarrow> string) \<Rightarrow> string \<Rightarrow> download_result result act" where
  "download J what mxc_url =
     (let url = parse_mxc_url mxc_url
      in download_from J what (mxc_server url) (mxc_media_id url) download_callback)"

record ThumbOpts =
  to_width :: "16 word"
  to_height :: "16 word"
  to_method :: string
  to_mxc_url :: string

definition get_thumbnail ::
  "'j json_lib \<Rightarrow> (exn \<Rightarrow> string) \<Rightarrow> ThumbOpts \<Rightarrow> bool \<Rightarrow> (string \<times> ClientError option) act" where
  "get_thumbnail J what opts try_download =
     (let params = map_emplace ''width'' (dec_string (unat (to_width opts))) [];
          params = map_emplace ''height'' (dec_string (unat (to_height opts))) params;
          params = map_emplace ''method'' (to_method opts) params;
          mxc = parse_mxc_url (to_mxc_url opts);
          api_path = ''/client/v1/media/thumbnail/'' @ mxc_server mxc @ ''/'' @ mxc_media_id mxc @ ''?'' @ query_params params;
          fallback_api_path = ''/media/v3/thumbnail/'' @ mxc_server mxc @ ''/'' @ mxc_media_id mxc @ ''?'' @ query_params params;
          full = download_from J what (mxc_server mxc) (mxc_media_id mxc) (\<lambda>res hdrs err. (res, err))
      in get_act J what string_type (http_get api_path)
           (\<lambda>res hdrs err.
              if \<not> unsupported err then Return (res, err)
              else if try_download \<and> not_found err then full
              else get_act J what string_type (http_get fallback_api_path)
                     (\<lambda>res hdrs err. if try_download \<and> not_found err then full else Return (res, err))))"

section \<open>Typing, presence and events\<close>

definition start_typing :: "'j json_lib \<Rightarrow> Client \<Rightarrow> string \<Rightarrow> 64 word \<Rightarrow> request result" where
  "start_typing J c room_id timeout =
     put_json J (rooms room_id @ ''/typing/'' @ uid c)
       (TypingNotification_to_json J \<lparr>tn_typing = True, tn_timeout = timeout\<rparr>)"

definition stop_typing :: "'j json_lib \<Rightarrow> Client \<Rightarrow> string \<Rightarrow> request result" where
  "stop_typing J c room_id =
     put_json J (rooms room_id @ ''/typing/'' @ uid c)
       (TypingNotification_to_json J \<lparr>tn_typing = False, tn_timeout = 0\<rparr>)"

definition presence_status :: "string \<Rightarrow> request" where
  "presence_status user_id = http_get (''/client/v3/presence/'' @ url_encode user_id @ ''/status'')"

definition put_presence_status :: "'j json_lib \<Rightarrow> Client \<Rightarrow> PresenceState \<Rightarrow> string option \<Rightarrow> request result" where
  "put_presence_status J c state status_msg =
     (let body = jset J (jnull J) ''presence'' (jstring J (presence_to_string state));
          body = jset_opt J (jstring J) body ''status_msg'' status_msg
      in put_json J (''/client/v3/presence/'' @ uid c @ ''/status'') body)"

definition get_event :: "string \<Rightarrow> string \<Rightarrow> request" where
  "get_event room_id event_id = http_get (rooms room_id @ ''/event/'' @ url_encode event_id)"

definition members :: "string \<Rightarrow> string \<Rightarrow> Membership option \<Rightarrow> Membership option \<Rightarrow> request" where
  "members room_id at membership not_membership =
     (let params = emplace_if (at \<noteq> []) ''at'' at [];
          params = (case membership of None \<Rightarrow> params
                    | Some m \<Rightarrow> map_emplace ''membership'' (membershipToString m) params);
          params = (case not_membership of None \<Rightarrow> params
                    | Some m \<Rightarrow> map_emplace ''not_membership'' (membershipToString m) params)
      in http_get (rooms room_id @ ''/members?'' @ query_params params))"

datatype PaginationDirection = Backwards | Forwards

definition direction_to_string :: "PaginationDirection \<Rightarrow> string" where
  "direction_to_string dir = (if dir = Backwards then ''b'' else ''f'')"

record MessagesOpts =
  mo_room_id :: string
  mo_from :: string
  mo_to :: string
  mo_filter :: string
  mo_dir :: PaginationDirection
  mo_limit :: "16 word"

definition messages :: "MessagesOpts \<Rightarrow> request" where
  "messages opts =
     (let params = map_emplace ''dir'' (direction_to_string (mo_dir opts)) [];
          params = emplace_if (mo_from opts \<noteq> []) ''from'' (mo_from opts) params;
          params = emplace_if (mo_to opts \<noteq> []) ''to'' (mo_to opts) params;
          params = emplace_if (mo_limit opts > 0) ''limit'' (dec_string (unat (mo_limit opts))) params;
          params = emplace_if (mo_filter opts \<noteq> []) ''filter'' (mo_filter opts) params
      in http_get (rooms (mo_room_id opts) @ ''/messages?'' @ query_params params))"

definition upload_filter :: "'j json_lib \<Rightarrow> Client \<Rightarrow> 'j \<Rightarrow> request result" where
  "upload_filter J c j = post_json J (''/client/v3/user/'' @ uid c @ ''/filter'') j"

definition read_event :: "'j json_lib \<Rightarrow> string \<Rightarrow> string \<Rightarrow> bool \<Rightarrow> request result" where
  "read_event J room_id event_id hidden =
     (let ev = jstring J event_id;
          body = jset J (jset J (jset J (jobject J) ''m.fully_read'' ev)
                   ''org.matrix.msc2285.read.private'' ev) ''m.read.private'' ev
      in post_json J (rooms room_id @ ''/read_markers'') (jset_if J (\<not> hidden) body ''m.read'' ev))"

text \<open>The transaction id of a redaction is a random token, drawn as in \<open>random_token\<close>.\<close>

definition redact_event ::
  "'j json_lib \<Rightarrow> (int \<Rightarrow> int \<Rightarrow> nat \<Rightarrow> int) \<Rightarrow> string \<Rightarrow> string \<Rightarrow> string \<Rightarrow> request result" where
  "redact_event J draw room_id event_id reason =
     put_json J (rooms room_id @ ''/redact/'' @ url_encode event_id @ ''/''
       @ url_encode (random_token draw 12 True)) (reason_body J reason)"

definition report_event :: "'j json_lib \<Rightarrow> string \<Rightarrow> string \<Rightarrow> string \<Rightarrow> int \<Rightarrow> request result" where
  "report_event J room_id event_id reason score =
     put_json J (''/client/v3/rooms'' @ url_encode room_id @ ''/report/'' @ url_encode event_id)
       (jset_if J (score \<le> 0 \<and> score \<ge> -100) (reason_body J reason) ''score'' (jint J score))"

end
