(* ===== verification/Http_Endpoints2.thy ===== *)
theory Http_Endpoints2
  imports Http_Endpoints
begin

text \<open>
  The second half of the endpoints of \<open>lib/http/client.cpp\<close>: registration and tokens, state and
  account data (also the templates of \<open>client_impl.hpp\<close>), the room directory, devices, keys, key
  backup and secret storage. User-interactive authentication is a state machine.
\<close>

section \<open>User-interactive authentication\<close>

text \<open>
  \<open>registration\<close>, \<open>delete_device\<close>, \<open>delete_devices\<close> and \<open>device_signing_upload\<close> keep the request in
  a handler: it is sent without authentication data first; a reply 401 hands the stages to the
  application, which answers with \<open>next(auth)\<close>, and the request is sent again with the
  authentication data added.
\<close>

datatype ('j, 'r) uia_state =
    Awaiting 'j
  | Prompting Unauthorized
  | Finished 'r "ClientError option"

record ('j, 'r) uia_handler =
  uia_endpoint :: string
  uia_request :: 'j
  uia_requires_auth :: bool
  uia_needs_flows :: bool
  uia_response :: "'r response_type"

definition uia_payload :: "'j json_lib \<Rightarrow> ('j, 'r) uia_handler \<Rightarrow> 'j \<Rightarrow> 'j" where
  "uia_payload J h auth =
     (if jempty J auth then uia_request h else jset J (uia_request h) ''auth'' auth)"

definition uia_start :: "'j json_lib \<Rightarrow> ('j, 'r) uia_handler \<Rightarrow> ('j, 'r) uia_state" where
  "uia_start J h = Awaiting (uia_payload J h (jnull J))"

definition uia_send :: "'j json_lib \<Rightarrow> ('j, 'r) uia_handler \<Rightarrow> 'j \<Rightarrow> request result" where
  "uia_send J h payload =
     rbind (jdump J payload) (\<lambda>body.
       Inr (http_post' (uia_endpoint h) body (uia_requires_auth h) ''application/json''))"

text \<open>
  The condition for a prompt: status 401 and, except for registration, a list of flows that is not
  empty.
\<close>

definition uia_prompts :: "('j, 'r) uia_handler \<Rightarrow> ClientError option \<Rightarrow> bool" where
  "uia_prompts h e =
     (case e of None \<Rightarrow> False
      | Some err \<Rightarrow> status_code err = 401 \<and> (uia_needs_flows h \<longrightarrow> ua_flows (unauthorized (matrix_error err)) \<noteq> []))"

definition uia_reply ::
  "'j json_lib \<Rightarrow> (exn \<Rightarrow> string) \<Rightarrow> ('j, 'r) uia_handler \<Rightarrow> reply \<Rightarrow> ('j, 'r) uia_state" where
  "uia_reply J what h r =
     (case prepare_callback J what (rt_default (uia_response h)) (rt_decode (uia_response h)) r of
        (res, e) \<Rightarrow>
          if uia_prompts h e
          then Prompting (case e of Some err \<Rightarrow> unauthorized (matrix_error err) | None \<Rightarrow> empty_Unauthorized)
          else Finished res e)"

text \<open>The steps: a reply arrives for the pending request; the application answers a prompt.\<close>

inductive uia_step ::
  "'j json_lib \<Rightarrow> (exn \<Rightarrow> string) \<Rightarrow> ('j, 'r) uia_handler \<Rightarrow> ('j, 'r) uia_state \<Rightarrow> ('j, 'r) uia_state \<Rightarrow> bool"
  for J what h where
  reply: "uia_step J what h (Awaiting payload) (uia_reply J what h r)"
| answer: "uia_step J what h (Prompting u) (Awaiting (uia_payload J h (Auth_to_json J auth)))"

inductive_cases uia_stepE: "uia_step J what h s s'"

definition registration ::
  "'j json_lib \<Rightarrow> string \<Rightarrow> string \<Rightarrow> string \<Rightarrow> Session response_type \<Rightarrow> ('j, Session) uia_handler" where
  "registration J user pass initial_device_display_name T =
     (let req = jset J (jset J (jobject J) ''username'' (jstring J user)) ''password'' (jstring J pass);
          req = jset_if J (initial_device_display_name \<noteq> []) req ''initial_device_display_name''
                  (jstring J initial_device_display_name)
      in \<lparr>uia_endpoint = ''/client/v3/register'', uia_request = req, uia_requires_auth = False,
          uia_needs_flows = False, uia_response = T\<rparr>)"

text \<open>What the callback of \<open>registration\<close> does to the client when it is not a prompt.\<close>

definition registration_callback :: "('j, Session) uia_handler \<Rightarrow> Client \<Rightarrow> Session \<Rightarrow> ClientError option \<Rightarrow> Client" where
  "registration_callback h c r e = (if uia_prompts h e then c else login_callback c r e)"

definition delete_device :: "'j json_lib \<Rightarrow> string \<Rightarrow> unit response_type \<Rightarrow> ('j, unit) uia_handler" where
  "delete_device J device_id T =
     \<lparr>uia_endpoint = ''/client/v3/delete_devices'',
      uia_request = jset J (jnull J) ''devices'' (jstrings J [device_id]),
      uia_requires_auth = True, uia_needs_flows = True, uia_response = T\<rparr>"

definition delete_devices :: "'j json_lib \<Rightarrow> string list \<Rightarrow> unit response_type \<Rightarrow> ('j, unit) uia_handler" where
  "delete_devices J device_ids T =
     \<lparr>uia_endpoint = ''/client/v3/delete_devices'',
      uia_request = jset J (jnull J) ''devices'' (jstrings J device_ids),
      uia_requires_auth = True, uia_needs_flows = True, uia_response = T\<rparr>"

definition device_signing_upload ::
  "'j json_lib \<Rightarrow> DeviceSigningUpload \<Rightarrow> unit response_type \<Rightarrow> ('j, unit) uia_handler" where
  "device_signing_upload J deviceKeys T =
     \<lparr>uia_endpoint = ''/client/v3/keys/device_signing/upload'',
      uia_request = DeviceSigningUpload_to_json J deviceKeys,
      uia_requires_auth = True, uia_needs_flows = True, uia_response = T\<rparr>"

section \<open>Registration and tokens\<close>

definition registration_flows :: "'j json_lib \<Rightarrow> request result" where
  "registration_flows J =
     rbind (jdump J (jobject J)) (\<lambda>body.
       Inr (http_post' ''/client/v3/register'' body False ''application/json''))"

definition registration_token_validity :: "string \<Rightarrow> request" where
  "registration_token_validity token =
     http_get (''/client/v1/register/m.login.registration_token/validity?'' @ query_params [(''token'', token)])"

definition register_email_request_token :: "'j json_lib \<Rightarrow> RequestEmailToken \<Rightarrow> request result" where
  "register_email_request_token J r =
     post_json J ''/client/v3/register/email/requestToken'' (RequestEmailToken_to_json J r)"

definition register_username_available :: "string \<Rightarrow> request" where
  "register_username_available username =
     http_get (''/client/v3/register/available?username='' @ url_encode username)"

definition verify_email_request_token :: "'j json_lib \<Rightarrow> RequestEmailToken \<Rightarrow> request result" where
  "verify_email_request_token J r =
     post_json J ''/client/v3/account/password/email/requestToken'' (RequestEmailToken_to_json J r)"

definition register_phone_request_token :: "'j json_lib \<Rightarrow> RequestMSISDNToken \<Rightarrow> request result" where
  "register_phone_request_token J r =
     post_json J ''/client/v3/register/msisdn/requestToken'' (RequestMSISDNToken_to_json J r)"

definition verify_phone_request_token :: "'j json_lib \<Rightarrow> RequestMSISDNToken \<Rightarrow> request result" where
  "verify_phone_request_token J r =
     post_json J ''/client/v3/account/password/msisdn/requestToken'' (RequestMSISDNToken_to_json J r)"

text \<open>The only request to a URL that is not built from the client's server.\<close>

definition validate_submit_token :: "'j json_lib \<Rightarrow> Client \<Rightarrow> string \<Rightarrow> IdentitySubmitToken \<Rightarrow> wire result" where
  "validate_submit_token J c url r =
     rbind (jdump J (IdentitySubmitToken_to_json J r)) (\<lambda>body.
       Inr \<lparr>w_method = POST, w_url = url, w_headers = prepare_headers c False, w_body = body,
            w_content_type = ''application/json'', w_redirects = 0\<rparr>)"

section \<open>Messages, state and account data\<close>

text \<open>
  The event type of a payload is a compile-time constant of its class and is passed as an
  \<open>EventType\<close>; the payload is its JSON value.
\<close>

definition generate_txn_id :: "(int \<Rightarrow> int \<Rightarrow> nat \<Rightarrow> int) \<Rightarrow> string" where
  "generate_txn_id draw = random_token draw 32 False"

definition send_room_message_txn ::
  "'j json_lib \<Rightarrow> EventType \<Rightarrow> string \<Rightarrow> string \<Rightarrow> 'j \<Rightarrow> request result" where
  "send_room_message_txn J event_type room_id txn_id payload =
     put_json J (rooms room_id @ ''/send/'' @ event_type_to_string event_type @ ''/'' @ url_encode txn_id) payload"

definition send_room_message ::
  "'j json_lib \<Rightarrow> (int \<Rightarrow> int \<Rightarrow> nat \<Rightarrow> int) \<Rightarrow> EventType \<Rightarrow> string \<Rightarrow> 'j \<Rightarrow> request result" where
  "send_room_message J draw event_type room_id payload =
     send_room_message_txn J event_type room_id (generate_txn_id draw) payload"

definition send_state_event_typed ::
  "'j json_lib \<Rightarrow> EventType \<Rightarrow> string \<Rightarrow> string \<Rightarrow> 'j \<Rightarrow> request result" where
  "send_state_event_typed J event_type room_id state_key payload =
     put_json J (rooms room_id @ ''/state/'' @ event_type_to_string event_type @ ''/'' @ url_encode state_key) payload"

definition send_state_event ::
  "'j json_lib \<Rightarrow> string \<Rightarrow> string \<Rightarrow> string \<Rightarrow> 'j \<Rightarrow> request result" where
  "send_state_event J room_id event_type state_key payload =
     put_json J (rooms room_id @ ''/state/'' @ url_encode event_type @ ''/'' @ url_encode state_key) payload"

definition get_state :: "string \<Rightarrow> request" where
  "get_state room_id = http_get (rooms room_id @ ''/state'')"

definition get_state_event :: "string \<Rightarrow> string \<Rightarrow> string \<Rightarrow> request" where
  "get_state_event room_id type state_key =
     http_get (rooms room_id @ ''/state/'' @ url_encode type @ ''/'' @ url_encode state_key)"

definition get_state_event_typed :: "EventType \<Rightarrow> string \<Rightarrow> string \<Rightarrow> request" where
  "get_state_event_typed event_type room_id state_key =
     get_state_event room_id (event_type_to_string event_type) state_key"

definition enable_encryption :: "'j json_lib \<Rightarrow> string \<Rightarrow> 'j \<Rightarrow> request result" where
  "enable_encryption J room event = send_state_event_typed J RoomEncryption room [] event"

definition put_room_account_data :: "'j json_lib \<Rightarrow> Client \<Rightarrow> string \<Rightarrow> string \<Rightarrow> 'j \<Rightarrow> request result" where
  "put_room_account_data J c room_id type payload =
     put_json J (''/client/v3/user/'' @ uid c @ ''/rooms/'' @ url_encode room_id @ ''/account_data/'' @ type) payload"

definition put_account_data :: "'j json_lib \<Rightarrow> Client \<Rightarrow> string \<Rightarrow> 'j \<Rightarrow> request result" where
  "put_account_data J c type payload =
     put_json J (''/client/v3/user/'' @ uid c @ ''/account_data/'' @ type) payload"

definition get_room_account_data :: "Client \<Rightarrow> string \<Rightarrow> string \<Rightarrow> request" where
  "get_room_account_data c room_id type =
     http_get (''/client/v3/user/'' @ uid c @ ''/rooms/'' @ url_encode room_id @ ''/account_data/'' @ type)"

definition get_account_data :: "Client \<Rightarrow> string \<Rightarrow> request" where
  "get_account_data c type = http_get (''/client/v3/user/'' @ uid c @ ''/account_data/'' @ type)"

definition send_to_device :: "'j json_lib \<Rightarrow> string \<Rightarrow> string \<Rightarrow> 'j \<Rightarrow> request result" where
  "send_to_device J event_type txn_id body =
     put_json J (''/client/v3/sendToDevice/'' @ url_encode event_type @ ''/'' @ url_encode txn_id) body"

text \<open>
  The typed form builds \<open>j["messages"][user][device] = message\<close> from a map of maps; the outer map
  is ordered by the id string of the user.
\<close>

definition device_messages :: "'j json_lib \<Rightarrow> (ID \<times> 'j smap) list \<Rightarrow> 'j" where
  "device_messages J msgs =
     foldl (\<lambda>j (user, deviceToMessage).
         foldl (\<lambda>j (deviceid, message).
             jset J j ''messages'' (jset2 J (jmember J j ''messages'') (id_to_string user) deviceid message))
           j deviceToMessage)
       (jnull J) msgs"

definition send_to_device_typed ::
  "'j json_lib \<Rightarrow> EventType \<Rightarrow> string \<Rightarrow> (ID \<times> 'j smap) list \<Rightarrow> request result" where
  "send_to_device_typed J event_type txid msgs =
     send_to_device J (event_type_to_string event_type) txid (device_messages J msgs)"

section \<open>Room directory\<close>

definition alias_path :: "string \<Rightarrow> string" where
  "alias_path alias = ''/client/v3/directory/room/'' @ url_encode alias"

definition resolve_room_alias :: "string \<Rightarrow> request" where
  "resolve_room_alias alias = http_get (alias_path alias)"

definition add_room_alias :: "'j json_lib \<Rightarrow> string \<Rightarrow> string \<Rightarrow> request result" where
  "add_room_alias J alias roomid =
     put_json J (alias_path alias) (jset J (jobject J) ''room_id'' (jstring J roomid))"

definition delete_room_alias :: "string \<Rightarrow> request" where
  "delete_room_alias alias = http_delete (alias_path alias)"

definition list_room_aliases :: "string \<Rightarrow> request" where
  "list_room_aliases room_id = http_get (rooms room_id @ ''/aliases'')"

definition get_room_visibility :: "string \<Rightarrow> request" where
  "get_room_visibility room_id = http_get (''/client/v3/directory/list/room/'' @ url_encode room_id)"

definition put_room_visibility :: "'j json_lib \<Rightarrow> string \<Rightarrow> RoomVisibility \<Rightarrow> request result" where
  "put_room_visibility J room_id req =
     put_json J (''/client/v3/directory/list/room/'' @ url_encode room_id) (PublicRoomVisibility_to_json J req)"

definition post_public_rooms :: "'j json_lib \<Rightarrow> PublicRooms \<Rightarrow> string \<Rightarrow> request result" where
  "post_public_rooms J req srv =
     (let api_path = ''/client/v3/publicRooms''
            @ (if srv \<noteq> [] then ''?'' @ query_params [(''server'', srv)] else [])
      in rbind (PublicRooms_to_json J req) (post_json J api_path))"

definition set_if :: "bool \<Rightarrow> string \<Rightarrow> string \<Rightarrow> string smap \<Rightarrow> string smap" where
  "set_if b k v m = (if b then map_set k v m else m)"

definition get_public_rooms :: "string \<Rightarrow> 64 word \<Rightarrow> string \<Rightarrow> request" where
  "get_public_rooms srv limit since =
     (let params = set_if (srv \<noteq> []) ''server'' srv [];
          params = set_if (limit > 0) ''limit'' (dec_string (unat limit)) params;
          params = set_if (since \<noteq> []) ''since'' since params
      in http_get (with_query ''/client/v3/publicRooms'' params))"

definition get_hierarchy :: "string \<Rightarrow> string \<Rightarrow> 64 word \<Rightarrow> 64 word \<Rightarrow> bool \<Rightarrow> request" where
  "get_hierarchy room_id from limit max_depth suggested_only =
     (let params = set_if (limit > 0) ''limit'' (dec_string (unat limit)) [];
          params = set_if (max_depth > 0) ''max_depth'' (dec_string (unat max_depth)) params;
          params = set_if suggested_only ''suggested_only'' ''true'' params;
          params = set_if (from \<noteq> []) ''from'' from params
      in http_get (with_query (''/client/v1/rooms/'' @ url_encode room_id @ ''/hierarchy'') params))"

text \<open>
  \<open>get_summary\<close>: when the summary endpoint is missing, an alias is resolved first and the first room
  of the hierarchy is the answer. \<open>Chunk\<close>, \<open>Room\<close> and \<open>Rooms\<close> are the three response types.
\<close>

definition get_summary ::
  "'j json_lib \<Rightarrow> (exn \<Rightarrow> string) \<Rightarrow> 'r response_type \<Rightarrow> string response_type \<Rightarrow> 'r list response_type
     \<Rightarrow> string \<Rightarrow> string list \<Rightarrow> ('r \<times> ClientError option) act" where
  "get_summary J what Chunk Room Rooms room_id via =
     (let query = (case via of [] \<Rightarrow> []
            | v # vs \<Rightarrow> ''?via='' @ url_encode v @ concat (map (\<lambda>v. ''&via='' @ url_encode v) vs));
          api_path = ''/client/unstable/im.nheko.summary/rooms/'' @ url_encode room_id @ ''/summary'' @ query;
          first = (\<lambda>rid. get_act J what Rooms (get_hierarchy rid [] 1 0 False)
            (\<lambda>res hdrs err. case res of [] \<Rightarrow> Return (rt_default Chunk, err) | r # _ \<Rightarrow> Return (r, err)))
      in get_act J what Chunk (http_get api_path)
           (\<lambda>res hdrs err.
              if \<not> unsupported err then Return (res, err)
              else if room_id \<noteq> [] \<and> room_id ! 0 = CHR ''#'' then
                get_act J what Room (resolve_room_alias room_id)
                  (\<lambda>room hdrs err. if room = [] then Return (rt_default Chunk, err) else first room)
              else first room_id))"

section \<open>Devices and keys\<close>

definition query_devices :: request where
  "query_devices = http_get ''/client/v3/devices''"

definition get_device :: "string \<Rightarrow> request" where
  "get_device device_id = http_get (''/client/v3/devices/'' @ url_encode device_id)"

definition set_device_name :: "'j json_lib \<Rightarrow> string \<Rightarrow> string \<Rightarrow> request result" where
  "set_device_name J device_id display_name =
     put_json J (''/client/v3/devices/'' @ url_encode device_id) (DeviceUpdate_to_json J display_name)"

definition upload_keys :: "'j json_lib \<Rightarrow> UploadKeys \<Rightarrow> request result" where
  "upload_keys J req = post_json J ''/client/v3/keys/upload'' (UploadKeys_to_json J req)"

definition keys_signatures_upload :: "'j json_lib \<Rightarrow> signature_upload smap smap \<Rightarrow> request result" where
  "keys_signatures_upload J req =
     post_json J ''/client/v3/keys/signatures/upload'' (KeySignaturesUpload_to_json J req)"

definition query_keys :: "'j json_lib \<Rightarrow> QueryKeys \<Rightarrow> request result" where
  "query_keys J req = post_json J ''/client/v3/keys/query'' (QueryKeys_to_json J req)"

definition claim_keys :: "'j json_lib \<Rightarrow> ClaimKeys \<Rightarrow> request result" where
  "claim_keys J req = post_json J ''/client/v3/keys/claim'' (ClaimKeys_to_json J req)"

definition key_changes :: "string \<Rightarrow> string \<Rightarrow> request" where
  "key_changes from to =
     (let params = emplace_if (from \<noteq> []) ''from'' from [];
          params = emplace_if (to \<noteq> []) ''to'' to params
      in http_get (''/client/v3/keys/changes?'' @ query_params params))"

section \<open>Key backup and secret storage\<close>

definition backup_version_current :: request where
  "backup_version_current = http_get ''/client/v3/room_keys/version''"

definition backup_version :: "string \<Rightarrow> request" where
  "backup_version version = http_get (''/client/v3/room_keys/version/'' @ url_encode version)"

definition update_backup_version :: "'j json_lib \<Rightarrow> string \<Rightarrow> 'j \<Rightarrow> request result" where
  "update_backup_version J version data = put_json J (''/client/v3/room_keys/version/'' @ url_encode version) data"

definition post_backup_version :: "'j json_lib \<Rightarrow> string \<Rightarrow> string \<Rightarrow> request result" where
  "post_backup_version J algorithm auth_data =
     rbind (jparse J auth_data) (\<lambda>auth.
       post_json J ''/client/v3/room_keys/version''
         (jset J (jset J (jobject J) ''algorithm'' (jstring J algorithm)) ''auth_data'' auth))"

definition room_keys_path :: "string \<Rightarrow> string \<Rightarrow> string" where
  "room_keys_path rest version =
     ''/client/v3/room_keys/keys'' @ rest @ ''?'' @ query_params [(''version'', version)]"

definition room_keys_all :: "string \<Rightarrow> request" where
  "room_keys_all version = http_get (room_keys_path [] version)"

definition room_keys_room :: "string \<Rightarrow> string \<Rightarrow> request" where
  "room_keys_room version room_id = http_get (room_keys_path (''/'' @ url_encode room_id) version)"

definition room_keys_session :: "string \<Rightarrow> string \<Rightarrow> string \<Rightarrow> request" where
  "room_keys_session version room_id session_id =
     http_get (room_keys_path (''/'' @ url_encode room_id @ ''/'' @ url_encode session_id) version)"

definition put_room_keys_all :: "'j json_lib \<Rightarrow> string \<Rightarrow> 'j \<Rightarrow> request result" where
  "put_room_keys_all J version keys = put_json J (room_keys_path [] version) keys"

definition put_room_keys_room :: "'j json_lib \<Rightarrow> string \<Rightarrow> string \<Rightarrow> 'j \<Rightarrow> request result" where
  "put_room_keys_room J version room_id keys =
     put_json J (room_keys_path (''/'' @ url_encode room_id) version) keys"

definition put_room_keys_session :: "'j json_lib \<Rightarrow> string \<Rightarrow> string \<Rightarrow> string \<Rightarrow> 'j \<Rightarrow> request result" where
  "put_room_keys_session J version room_id session_id keys =
     put_json J (room_keys_path (''/'' @ url_encode room_id @ ''/'' @ url_encode session_id) version) keys"

definition secret_storage_secret :: "Client \<Rightarrow> string \<Rightarrow> request" where
  "secret_storage_secret c secret_id =
     http_get (''/client/v3/user/'' @ uid c @ ''/account_data/'' @ url_encode secret_id)"

definition secret_storage_key :: "Client \<Rightarrow> string \<Rightarrow> request" where
  "secret_storage_key c key_id =
     http_get (''/client/v3/user/'' @ uid c @ ''/account_data/m.secret_storage.key.'' @ url_encode key_id)"

definition upload_secret_storage_secret :: "'j json_lib \<Rightarrow> Client \<Rightarrow> string \<Rightarrow> 'j \<Rightarrow> request result" where
  "upload_secret_storage_secret J c secret_id secret =
     put_json J (''/client/v3/user/'' @ uid c @ ''/account_data/'' @ url_encode secret_id) secret"

definition upload_secret_storage_key :: "'j json_lib \<Rightarrow> Client \<Rightarrow> string \<Rightarrow> 'j \<Rightarrow> request result" where
  "upload_secret_storage_key J c key_id desc =
     put_json J (''/client/v3/user/'' @ uid c @ ''/account_data/m.secret_storage.key.'' @ url_encode key_id) desc"

definition set_secret_storage_default_key :: "'j json_lib \<Rightarrow> Client \<Rightarrow> string \<Rightarrow> request result" where
  "set_secret_storage_default_key J c key_id =
     put_json J (''/client/v3/user/'' @ uid c @ ''/account_data/m.secret_storage.default_key'')
       (jset J (jobject J) ''key'' (jstring J key_id))"

section \<open>Others\<close>

definition get_turn_server :: request where
  "get_turn_server = http_get ''/client/v3/voip/turnServer''"

definition set_pusher :: "'j json_lib \<Rightarrow> 'j SetPusher \<Rightarrow> request result" where
  "set_pusher J req = post_json J ''/client/v3/pushers/set'' (SetPusher_to_json J req)"

definition search_user_directory :: "'j json_lib \<Rightarrow> string \<Rightarrow> int \<Rightarrow> request result" where
  "search_user_directory J search_term limit =
     post_json J ''/client/v3/user_directory/search''
       (jset_if J (limit \<ge> 0) (jset J (jobject J) ''search_term'' (jstring J search_term)) ''limit'' (jint J limit))"

end
