(* ===== verification/Http_Props.thy ===== *)
theory Http_Props
  imports Http_Endpoints2
begin

text \<open>
  Properties of the HTTP client: server URLs, headers and sessions, the translation of replies,
  the paths of the endpoints, the media fallbacks and user-interactive authentication.
\<close>

section \<open>Server URLs\<close>

definition scheme_protocol :: "string \<Rightarrow> string" where
  "scheme_protocol scheme = (if scheme = ''http://'' then ''http'' else ''https'')"

definition scheme_port :: "string \<Rightarrow> 16 word" where
  "scheme_port scheme = (if scheme = ''http://'' then 80 else 443)"

lemma dec_string_no_char: "c \<in> {CHR '':'', CHR ''/''} \<Longrightarrow> c \<notin> set (dec_string n)"
  using dec_string_digits [of n] by auto

lemma is_number_dec_string: "is_number (dec_string n)"
  using dec_string_digits [of n]
  by (auto simp: is_number_def find_None_iff isdigit_def less_eq_char_def)

lemma split_at_colon:
  "CHR '':'' \<notin> set xs \<Longrightarrow> CHR '':'' \<notin> set ys \<Longrightarrow> xs @ CHR '':'' # r = ys @ CHR '':'' # t \<Longrightarrow> xs = ys \<and> r = t"
  by (induction xs arbitrary: ys) (case_tac ys; auto)+

lemma not_scheme_port:
  assumes "CHR '':'' \<notin> set host" and "CHR ''/'' \<noteq> hd r" and "r \<noteq> []"
  shows "take 7 (host @ CHR '':'' # r) \<noteq> ''http://''" and "take 8 (host @ CHR '':'' # r) \<noteq> ''https://''"
proof -
  have no: "host @ CHR '':'' # r \<noteq> p @ CHR '':'' # CHR ''/'' # t" if "CHR '':'' \<notin> set p" for p t
    using split_at_colon [OF assms(1) that, of r "CHR ''/'' # t"] assms(2,3) by auto
  show "take 7 (host @ CHR '':'' # r) \<noteq> ''http://''"
  proof
    assume "take 7 (host @ CHR '':'' # r) = ''http://''"
    then obtain t where "host @ CHR '':'' # r = ''http://'' @ t"
      using append_take_drop_id [of 7 "host @ CHR '':'' # r"] by metis
    then show False using no [of "''http''" "CHR ''/'' # t"] by simp
  qed
  show "take 8 (host @ CHR '':'' # r) \<noteq> ''https://''"
  proof
    assume "take 8 (host @ CHR '':'' # r) = ''https://''"
    then obtain t where "host @ CHR '':'' # r = ''https://'' @ t"
      using append_take_drop_id [of 8 "host @ CHR '':'' # r"] by metis
    then show False using no [of "''https''" "CHR ''/'' # t"] by simp
  qed
qed

lemma not_scheme_plain:
  assumes "CHR '':'' \<notin> set s"
  shows "take 7 s \<noteq> ''http://''" and "take 8 s \<noteq> ''https://''"
proof -
  have "CHR '':'' \<notin> set (take n s)" for n using assms in_set_takeD by metis
  then show "take 7 s \<noteq> ''http://''" and "take 8 s \<noteq> ''https://''"
    using list.set_intros by (metis list.set_intros(1,2))+
qed

text \<open>\<open>set_server\<close> after the scheme has been removed.\<close>

definition set_server_name :: "string \<Rightarrow> 16 word \<Rightarrow> Client \<Rightarrow> exn option \<times> Client" where
  "set_server_name server_name pt c =
     (let server_name =
            (if server_name \<noteq> [] \<and> last server_name = CHR ''/'' then butlast server_name else server_name);
          fallback = (None, c\<lparr>cl_server := server_name, cl_port := pt\<rparr>)
      in if count_list server_name (CHR '':'') = 1 then
           case find_char (CHR '':'') server_name of
             None \<Rightarrow> fallback
           | Some colon_offset \<Rightarrow>
               let c' = c\<lparr>cl_server := take colon_offset server_name\<rparr>;
                   tmp = drop (colon_offset + 1) server_name
               in if is_number tmp then
                    case stoul tmp of
                      Inl e \<Rightarrow> (Some e, c')
                    | Inr n \<Rightarrow> (None, c'\<lparr>cl_port := of_nat n\<rparr>)
                  else fallback
         else fallback)"

lemma set_server_scheme:
  assumes "scheme \<in> {[], ''https://'', ''http://''}"
    and "take 7 s \<noteq> ''http://''" and "take 8 s \<noteq> ''https://''"
  shows "set_server (scheme @ s) c = set_server_name s (scheme_port scheme) (c\<lparr>cl_protocol := scheme_protocol scheme\<rparr>)"
  using assms
  by (elim insertE) (simp_all add: set_server_def set_server_name_def scheme_port_def scheme_protocol_def Let_def
      split: option.split sum.split)

lemma set_server_name_port:
  assumes "CHR '':'' \<notin> set host" and "slash \<in> {[], ''/''}"
  shows "set_server_name (host @ CHR '':'' # dec_string n @ slash) pt c
    = (if n < 2 ^ 64 then (None, c\<lparr>cl_server := host, cl_port := of_nat n\<rparr>)
       else (Some (Out_of_range ''stoul''), c\<lparr>cl_server := host\<rparr>))"
proof -
  let ?s = "host @ CHR '':'' # dec_string n"
  have colon: "CHR '':'' \<notin> set (dec_string n)" and "CHR ''/'' \<notin> set (dec_string n)"
    using dec_string_no_char by blast+
  then have "last ?s \<noteq> CHR ''/''" by (metis dec_string_not_Nil last_appendR last_in_set list.distinct(1) last_ConsR)
  then have strip: "(if ?s @ slash \<noteq> [] \<and> last (?s @ slash) = CHR ''/'' then butlast (?s @ slash) else ?s @ slash) = ?s"
    using assms(2) by (auto simp: butlast_append)
  have count: "count_list ?s (CHR '':'') = 1" using assms(1) colon by (simp add: count_notin)
  have "set_server_name (?s @ slash) pt c
    = (if n < 2 ^ 64 then (None, c\<lparr>cl_server := host, cl_port := of_nat n\<rparr>)
       else (Some (Out_of_range ''stoul''), c\<lparr>cl_server := host\<rparr>))"
    unfolding set_server_name_def strip Let_def
    using count assms(1) by (simp add: is_number_dec_string stoul_def)
  then show ?thesis by simp
qed

lemma set_server_name_plain:
  assumes "CHR '':'' \<notin> set host" and "slash \<in> {[], ''/''}" and "host = [] \<or> last host \<noteq> CHR ''/''"
  shows "set_server_name (host @ slash) pt c = (None, c\<lparr>cl_server := host, cl_port := pt\<rparr>)"
proof -
  have strip: "(if host @ slash \<noteq> [] \<and> last (host @ slash) = CHR ''/'' then butlast (host @ slash) else host @ slash) = host"
    using assms(2,3) by (auto simp: butlast_append)
  show ?thesis unfolding set_server_name_def strip Let_def using assms(1) by (simp add: count_notin)
qed

text \<open>
  C34. \<open>set_server\<close> on a host name with an optional scheme, port and trailing slash: the scheme
  picks the protocol and the default port, a port in the text wins over it (taken modulo 65536),
  and a number beyond 64 bits raises \<open>std::out_of_range\<close> after the protocol and the host have
  already been assigned.
\<close>

theorem set_server_correct:
  assumes "CHR '':'' \<notin> set host" and "scheme \<in> {[], ''https://'', ''http://''}" and "slash \<in> {[], ''/''}"
  shows "set_server (scheme @ host @ '':'' @ dec_string n @ slash) c
      = (if n < 2 ^ 64
         then (None, c\<lparr>cl_protocol := scheme_protocol scheme, cl_server := host, cl_port := of_nat n\<rparr>)
         else (Some (Out_of_range ''stoul''), c\<lparr>cl_protocol := scheme_protocol scheme, cl_server := host\<rparr>))
    \<and> (host = [] \<or> last host \<noteq> CHR ''/'' \<longrightarrow>
        set_server (scheme @ host @ slash) c
      = (None, c\<lparr>cl_protocol := scheme_protocol scheme, cl_server := host, cl_port := scheme_port scheme\<rparr>))"
proof -
  have "CHR ''/'' \<notin> set (dec_string n)" using dec_string_no_char by blast
  then have "CHR ''/'' \<noteq> hd (dec_string n @ slash)" by (metis dec_string_not_Nil hd_append2 hd_in_set)
  note ns = not_scheme_port [OF assms(1) this]
  have "CHR '':'' \<notin> set (host @ slash)" using assms(1,3) by auto
  note np = not_scheme_plain [OF this]
  show ?thesis
    using set_server_scheme [OF assms(2) ns, of c] set_server_name_port [OF assms(1,3)]
      set_server_scheme [OF assms(2) np, of c] set_server_name_plain [OF assms(1,3)]
    by simp
qed

definition c0 :: Client where
  "c0 = \<lparr>cl_protocol = ''https'', cl_server = ''example.com'', cl_access_token = ''secret'', cl_user_id = empty_ID,
     cl_device_id = ''DEV'', cl_next_batch_token = [], cl_port = 443\<rparr>"

lemma dec_string_8008: "dec_string 8008 = ''8008''"
  by (simp add: dec_string.simps digit_def char_of_def bit_Suc_0_iff)

theorem set_server_correct_witness:
  "set_server ''http://localhost:8008/'' c0 = (None, c0\<lparr>cl_protocol := ''http'', cl_server := ''localhost'', cl_port := 8008\<rparr>)
   \<and> set_server ''https://matrix.org/'' c0 = (None, c0\<lparr>cl_protocol := ''https'', cl_server := ''matrix.org'', cl_port := 443\<rparr>)"
proof
  show "set_server ''http://localhost:8008/'' c0 = (None, c0\<lparr>cl_protocol := ''http'', cl_server := ''localhost'', cl_port := 8008\<rparr>)"
    using set_server_correct [of "''localhost''" "''http://''" "''/''" 8008 c0]
    by (simp add: scheme_protocol_def dec_string_8008)
  show "set_server ''https://matrix.org/'' c0 = (None, c0\<lparr>cl_protocol := ''https'', cl_server := ''matrix.org'', cl_port := 443\<rparr>)"
    using set_server_correct [of "''matrix.org''" "''https://''" "''/''" 0 c0]
    by (simp add: scheme_protocol_def scheme_port_def)
qed

section \<open>Headers and sessions\<close>

lemma headers_authorization:
  "map_of (prepare_headers c auth) ''Authorization''
     = (if auth \<and> cl_access_token c \<noteq> [] then Some (''Bearer '' @ cl_access_token c) else None)"
  by (simp add: prepare_headers_def Let_def)

text \<open>
  C8. The access token goes out with a request exactly when the endpoint requires authentication
  and a token is set; the requests of login, of the login flows, of the server discovery, of the
  registration flows and of a registration never carry it. After a successful login or registration
  authenticated requests carry the new token, after a failed one the token is unchanged, and after a
  logout that succeeded no request carries a token.
\<close>

theorem access_token_use:
  "map_of (w_headers (transmit c r)) ''Authorization''
      = (if req_requires_auth r \<and> cl_access_token c \<noteq> [] then Some (''Bearer '' @ cl_access_token c) else None)
   \<and> (\<forall>req. login_request J l = Inr req \<or> req \<in> {get_login, well_known} \<or> registration_flows J = Inr req
        \<or> uia_send J (registration J user pass name T) payload = Inr req
        \<longrightarrow> map_of (w_headers (transmit c req)) ''Authorization'' = None)
   \<and> (sn_access_token s \<noteq> [] \<longrightarrow>
        map_of (w_headers (transmit (login_callback c s None) (http_get path))) ''Authorization''
          = Some (''Bearer '' @ sn_access_token s))
   \<and> login_callback c s (Some e) = c
   \<and> map_of (w_headers (transmit (logout_callback c None) r)) ''Authorization'' = None
   \<and> logout_callback c (Some e) = c"
  by (auto simp: transmit_def headers_authorization login_request_def get_login_def well_known_def
      http_get'_def http_post'_def http_get_def registration_flows_def uia_send_def registration_def
      login_callback_def logout_callback_def clear_def rbind_eq_Inr Let_def)

theorem access_token_use_witness:
  "map_of (w_headers (transmit c0 get_login)) ''Authorization'' = None
   \<and> map_of (w_headers (transmit c0 (http_get ''/client/v3/devices''))) ''Authorization'' = Some ''Bearer secret''"
  using access_token_use [of c0 "http_get ''/client/v3/devices''" tree_lib]
    access_token_use [of c0 get_login tree_lib]
  by (simp add: c0_def http_get_def http_get'_def)

text \<open>
  A successful logout removes the token, the device, the sync token and the server, but keeps
  the user id and the protocol; a later \<open>set_server\<close> and login bring back a usable session.
\<close>

theorem logout_clears:
  "logout_callback c None
     = c\<lparr>cl_device_id := [], cl_access_token := [], cl_next_batch_token := [], cl_server := [], cl_port := 443\<rparr>
   \<and> cl_user_id (logout_callback c None) = cl_user_id c \<and> cl_protocol (logout_callback c None) = cl_protocol c"
  by (simp add: logout_callback_def clear_def)

section \<open>Replies\<close>

text \<open>
  C6. What the callback of a typed request receives. There is no error exactly when the transport
  succeeded, the status is 2xx and the body could be read, and then the response is what the body
  says. A transport error is reported with its code. A status outside 2xx is reported with the
  status and the error structure of the body, or as a parse error with code 42 when the body is not
  one.
\<close>

theorem prepare_callback_correct:
  assumes "prepare_callback J what dflt decode r = (res, err)"
  shows "(err = None \<longleftrightarrow> rp_error_code r = 0 \<and> 200 \<le> rp_status r \<and> rp_status r < 300 \<and> (\<exists>x. decode (rp_body r) = Inr x))
   \<and> (err = None \<longrightarrow> decode (rp_body r) = Inr res)
   \<and> (rp_error_code r \<noteq> 0 \<longrightarrow> err = Some (no_ClientError\<lparr>error_code := rp_error_code r\<rparr>) \<and> res = dflt)
   \<and> (rp_error_code r = 0 \<and> (rp_status r < 200 \<or> 300 \<le> rp_status r) \<longrightarrow>
        (\<exists>e. err = Some e \<and> status_code e = rp_status r
           \<and> (case deserialize J (Error_from_json J) (rp_body r) of
                Inr me \<Rightarrow> matrix_error e = me \<and> error_code e = 0 \<and> parse_error e = []
              | Inl _ \<Rightarrow> matrix_error e = no_Error \<and> error_code e = 42)))"
proof (cases "rp_error_code r = 0")
  case False
  then show ?thesis using assms by (auto simp: prepare_callback_def)
next
  case True
  show ?thesis
  proof (cases "success_status (rp_status r)")
    case s: True
    then show ?thesis using assms True
      by (auto simp: prepare_callback_def success_status_def split: sum.splits)
  next
    case s: False
    then show ?thesis using assms True
      by (cases "deserialize J (Error_from_json J) (rp_body r)")
         (auto simp: prepare_callback_def success_status_def no_ClientError_def Let_def)
  qed
qed

definition ok_reply :: reply where
  "ok_reply = \<lparr>rp_headers = [], rp_body = ''body'', rp_error_code = 0, rp_status = 200\<rparr>"

theorem prepare_callback_correct_witness:
  "prepare_callback tree_lib (\<lambda>_. []) [] Inr ok_reply = (''body'', None)
   \<and> (\<exists>x. (Inr (rp_body ok_reply) :: string result) = Inr x)"
proof -
  have "prepare_callback tree_lib (\<lambda>_. []) [] Inr ok_reply = (''body'', None)"
    by (simp add: prepare_callback_def ok_reply_def success_status_def)
  from prepare_callback_correct [OF this] this show ?thesis by simp
qed

section \<open>Paths\<close>

lemma url_encode_inject [simp]: "url_encode a = url_encode b \<longleftrightarrow> a = b"
  by (metis url_decode_encode)

lemma url_encode_no_slash [simp]: "CHR ''/'' \<notin> set (url_encode s)"
  by (rule url_encode_excludes) simp

text \<open>An encoded segment ends at the next slash, so equal paths have equal segments.\<close>

lemma split_at_slash:
  "CHR ''/'' \<notin> set xs \<Longrightarrow> CHR ''/'' \<notin> set ys \<Longrightarrow>
   xs @ CHR ''/'' # r = ys @ CHR ''/'' # t \<longleftrightarrow> xs = ys \<and> r = t"
  by (induction xs arbitrary: ys) (case_tac ys; auto)+

lemma segment_eq [simp]:
  "url_encode a @ CHR ''/'' # r = url_encode b @ CHR ''/'' # t \<longleftrightarrow> a = b \<and> r = t"
  by (simp add: split_at_slash)

lemma segment_end [simp]:
  "url_encode a @ CHR ''/'' # r \<noteq> url_encode b" "url_encode b \<noteq> url_encode a @ CHR ''/'' # r"
  by (metis in_set_conv_decomp url_encode_no_slash)+

text \<open>
  C35. Encoding keeps the segments of a path apart: two calls of these endpoints build the same
  request only for the same room, event type, state key, event, tag and transaction, whatever
  characters (slashes, question marks) the arguments hold.
\<close>

theorem endpoint_paths_injective:
  "(get_state_event room type key = get_state_event room' type' key' \<longleftrightarrow> room = room' \<and> type = type' \<and> key = key')
   \<and> (get_event room ev = get_event room' ev' \<longleftrightarrow> room = room' \<and> ev = ev')
   \<and> (delete_tag c room tag = delete_tag c room' tag' \<longleftrightarrow> room = room' \<and> tag = tag')
   \<and> (delete_pushrules scope kind rule = delete_pushrules scope' kind' rule' \<longleftrightarrow> scope = scope' \<and> kind = kind' \<and> rule = rule')
   \<and> (resolve_room_alias a = resolve_room_alias a' \<longleftrightarrow> a = a')
   \<and> get_event room ev \<noteq> get_state_event room' type' key'"
  by (simp add: get_state_event_def get_event_def delete_tag_def delete_pushrules_def pushrules_path_def
      resolve_room_alias_def alias_path_def http_get_def http_get'_def http_delete_def)

section \<open>Media\<close>

abbreviation outcome :: "'j json_lib \<Rightarrow> (exn \<Rightarrow> string) \<Rightarrow> 'r response_type \<Rightarrow> reply \<Rightarrow> 'r \<times> ClientError option" where
  "outcome J what T r \<equiv> prepare_callback J what (rt_default T) (rt_decode T) r"

lemma run_get_act [simp]:
  "fst (run_act (get_act J what T req k) (r # rs))
     = req # fst (run_act (k (fst (outcome J what T r)) (rp_headers r) (snd (outcome J what T r))) rs)"
  "snd (run_act (get_act J what T req k) (r # rs))
     = snd (run_act (k (fst (outcome J what T r)) (rp_headers r) (snd (outcome J what T r))) rs)"
  "run_act (get_act J what T req k) [] = ([req], None)"
  by (simp_all add: get_act_def case_prod_beta)

lemma run_download:
  "length (fst (run_act (download_from J what srv m cb) rs)) \<le> 2"
  "2 \<le> length rs \<Longrightarrow> snd (run_act (download_from J what srv m cb) rs) \<noteq> None"
  by (cases rs; cases "tl rs"; auto simp: download_from_def simp del: not_None_eq)+

lemma run_thumbnail:
  "length (fst (run_act (get_thumbnail J what opts try_download) rs)) \<le> 4"
  "4 \<le> length rs \<Longrightarrow> snd (run_act (get_thumbnail J what opts try_download) rs) \<noteq> None"
proof -
  have d: "length (fst (run_act (download_from J what s m cb) rs)) \<le> Suc (Suc 0)"
    "length (fst (run_act (download_from J what s m cb) rs)) \<le> Suc (Suc (Suc 0))"
    for s m rs and cb :: "string \<Rightarrow> string smap \<Rightarrow> ClientError option \<Rightarrow> string \<times> ClientError option"
    using run_download(1) [of J what s m cb rs] by auto
  show "length (fst (run_act (get_thumbnail J what opts try_download) rs)) \<le> 4"
    by (cases rs; cases "tl rs") (auto simp: get_thumbnail_def Let_def d numeral_eq_Suc)
  show "4 \<le> length rs \<Longrightarrow> snd (run_act (get_thumbnail J what opts try_download) rs) \<noteq> None"
    by (cases rs; cases "tl rs") (auto simp: get_thumbnail_def Let_def simp del: not_None_eq intro!: run_download(2))
qed

text \<open>
  C36. The media endpoints end: whatever the server replies, a download sends at most two requests
  and a thumbnail at most four, and once that many replies have arrived the callback has been
  called. The first reply to a download is final unless it is an HTTP 400 or 404.
\<close>

theorem media_requests_bounded:
  "length (fst (run_act (get_thumbnail J what opts try_download) rs)) \<le> 4
   \<and> length (fst (run_act (download J what mxc) rs)) \<le> 2
   \<and> (4 \<le> length rs \<longrightarrow> (snd (run_act (get_thumbnail J what opts try_download) rs) \<noteq> None))
   \<and> (2 \<le> length rs \<longrightarrow> (snd (run_act (download J what mxc) rs) \<noteq> None))
   \<and> (rp_error_code r \<noteq> 0 \<or> rp_status r \<notin> {400, 404} \<longrightarrow>
        length (fst (run_act (download J what mxc) (r # rs))) = 1)"
proof -
  have "rp_error_code r \<noteq> 0 \<or> rp_status r \<notin> {400, 404} \<Longrightarrow> \<not> unsupported (snd (outcome J what string_type r))"
    by (auto simp: unsupported_def prepare_callback_def no_ClientError_def Let_def split: sum.splits option.splits)
  then have "rp_error_code r \<noteq> 0 \<or> rp_status r \<notin> {400, 404} \<longrightarrow> length (fst (run_act (download J what mxc) (r # rs))) = 1"
    by (auto simp: download_def download_from_def Let_def)
  then show ?thesis by (simp add: run_thumbnail run_download download_def Let_def del: One_nat_def not_None_eq)
qed

theorem media_requests_bounded_witness:
  "length (fst (run_act (download tree_lib (\<lambda>_. []) ''mxc://localhost/abc'') [ok_reply])) = 1
   \<and> (snd (run_act (download tree_lib (\<lambda>_. []) ''mxc://localhost/abc'') [ok_reply, ok_reply]) \<noteq> None)"
  using media_requests_bounded [of tree_lib "\<lambda>_. []" _ _ "[ok_reply, ok_reply]" "''mxc://localhost/abc''"]
    media_requests_bounded [of tree_lib "\<lambda>_. []" _ _ "[]" "''mxc://localhost/abc''" ok_reply]
  by (simp add: ok_reply_def)

lemma size_sub_le: "b \<le> a \<Longrightarrow> a < 2 ^ 64 \<Longrightarrow> size_sub a b = a - b"
proof -
  assume "b \<le> a" and "a < 2 ^ 64"
  then have "a + 2 ^ 64 - b = (a - b) + 2 ^ 64" and "a - b < 2 ^ 64" by linarith+
  then show ?thesis by (simp only: size_sub_def mod_add_self2 mod_less)
qed

text \<open>
  The file name of a download. A name in quotes loses its last character, and an empty name in
  quotes yields the closing quote; a name without quotes is returned whole.
\<close>

theorem download_filename:
  assumes "CHR 0x22 \<notin> set name" and "length name < 2 ^ 32"
  shows "disposition_filename (''inline; filename='' @ [CHR 0x22] @ name @ [CHR 0x22])
      = Inr (if name = [] then [CHR 0x22] else butlast name)
    \<and> disposition_filename (''inline; filename='' @ name) = Inr name"
proof -
  let ?p = "''inline; filename=''" and ?q = "[CHR 0x22] @ name @ [CHR 0x22]"
  have pos: "find_sub ''filename'' (?p @ s) = Some 8" for s by (simp add: starts_with_def)
  have start: "find_char_from (CHR 0x22) 8 (?p @ ?q) = Some 17" by (simp add: find_char_from_def)
  have d: "drop 18 (?p @ ?q) = name @ [CHR 0x22]" by simp
  have fin: "find_char_from (CHR 0x22) 18 (?p @ ?q) = Some (18 + length name)"
    unfolding find_char_from_def d using assms(1) by simp
  have sub: "size_sub (size_sub (18 + length name) 17) 2 = (if name = [] then npos else length name - 1)"
  proof (cases "name = []")
    case True
    then show ?thesis by (simp add: size_sub_def npos_def)
  next
    case False
    then have "2 \<le> 1 + length name" by (cases name) simp_all
    moreover have "18 + length name < 2 ^ 64" using assms(2) by simp
    ultimately show ?thesis using False by (simp add: size_sub_le)
  qed
  have "disposition_filename (?p @ ?q) = substr 18 (Some (size_sub (size_sub (18 + length name) 17) 2)) (?p @ ?q)"
    unfolding disposition_filename_def pos using start fin by simp
  also have "\<dots> = Inr (if name = [] then [CHR 0x22] else butlast name)"
    unfolding sub substr_def d by (simp add: npos_def butlast_conv_take)
  finally have quoted: "disposition_filename (?p @ ?q) = Inr (if name = [] then [CHR 0x22] else butlast name)" .
  have "find_char_from (CHR 0x22) 8 (?p @ name) = None" using assms(1) by (simp add: find_char_from_def)
  moreover have "find_char (CHR ''='') (?p @ name) = Some 16" by simp
  ultimately have "disposition_filename (?p @ name) = Inr name"
    unfolding disposition_filename_def pos by (simp add: substr_def)
  with quoted show ?thesis by simp
qed

theorem download_filename_witness:
  "disposition_filename (''inline; filename='' @ [CHR 0x22] @ ''text.txt'' @ [CHR 0x22]) = Inr ''text.tx''"
  using download_filename [of "''text.txt''"] by simp

section \<open>User-interactive authentication\<close>

text \<open>
  The contract of a handler: every payload it sends carries the fields of the original request, and
  the data of a stage once a stage was prompted.
\<close>

definition uia_ok :: "'j json_lib \<Rightarrow> ('j, 'r) uia_handler \<Rightarrow> ('j, 'r) uia_state \<Rightarrow> bool" where
  "uia_ok J h s =
     (case s of
        Awaiting p \<Rightarrow> p = uia_request h \<or> (\<exists>auth. p = jset J (uia_request h) ''auth'' (Auth_to_json J auth))
      | Prompting u \<Rightarrow> uia_needs_flows h \<longrightarrow> ua_flows u \<noteq> []
      | Finished res err \<Rightarrow> \<not> uia_prompts h err)"

context json_library
begin

lemma Auth_session: "\<exists>j. jtype_of J (Auth_to_json J auth) = JObject \<and> jfields J (Auth_to_json J auth) ''session'' = Some j"
  by (auto simp: Auth_to_json_def identifier_to_json_def jset2_def Let_def split: auth_content.split login_identifier.split)

lemma Auth_not_empty: "\<not> jempty J (Auth_to_json J auth)"
  using Auth_session [of auth] by (auto simp: jempty_def jfields_def)

lemma null_empty: "jempty J (jnull J)"
  by (simp add: jempty_def)

lemma uia_start_ok: "uia_ok J h (uia_start J h)"
  by (simp add: uia_ok_def uia_start_def uia_payload_def null_empty)

lemma uia_step_ok: "uia_step J what h s s' \<Longrightarrow> uia_ok J h s'"
  by (erule uia_stepE)
     (auto simp: uia_ok_def uia_reply_def uia_payload_def Auth_not_empty uia_prompts_def
        split: prod.splits option.splits)

lemma uia_reachable_ok: "(uia_step J what h)\<^sup>*\<^sup>* (uia_start J h) s \<Longrightarrow> uia_ok J h s"
  by (induction rule: rtranclp_induct) (auto intro: uia_start_ok uia_step_ok)

end

text \<open>
  C13. User-interactive authentication keeps the request: in every reachable state a pending payload
  has all fields of the original request, and differs from it only in the field \<open>auth\<close>, which holds
  the data of the stage the application answered; the application is prompted only with stages to
  choose from (except for registration), and the handler ends only with a reply that is not a
  prompt.
\<close>

theorem uia_keeps_request:
  assumes "json_library J" and "is_object_or_null J (uia_request h)"
    and "(uia_step J what h)\<^sup>*\<^sup>* (uia_start J h) s"
  shows "uia_ok J h s
    \<and> (\<forall>p. s = Awaiting p \<longrightarrow>
         (\<forall>k. k \<noteq> ''auth'' \<longrightarrow> jfields J p k = jfields J (uia_request h) k))"
proof -
  have ok: "uia_ok J h s" using json_library.uia_reachable_ok [OF assms(1,3)] .
  moreover have "jfields J p k = jfields J (uia_request h) k" if "s = Awaiting p" and "k \<noteq> ''auth''" for p k
    using ok that json_library.fields_set [OF assms(1,2)] by (auto simp: uia_ok_def)
  ultimately show ?thesis by blast
qed

definition sample_uia :: "(json, Session) uia_handler" where
  "sample_uia = registration tree_lib ''alice'' ''pw'' []
     \<lparr>rt_default = \<lparr>sn_user_id = empty_ID, sn_access_token = [], sn_device_id = []\<rparr>,
      rt_decode = deserialize tree_lib (Register_from_json tree_lib)\<rparr>"

definition dummy_auth :: Auth where
  "dummy_auth = \<lparr>auth_session = ''s'', auth_content = Auth_Dummy\<rparr>"

theorem uia_keeps_request_witness:
  "uia_ok tree_lib sample_uia (Awaiting (uia_payload tree_lib sample_uia (Auth_to_json tree_lib dummy_auth)))"
proof -
  let ?r = "\<lparr>rp_headers = [], rp_body = ''{}'', rp_error_code = 0, rp_status = 401\<rparr>"
  have "uia_reply tree_lib (\<lambda>_. []) sample_uia ?r = Prompting empty_Unauthorized"
    by (simp add: uia_reply_def prepare_callback_def success_status_def deserialize_def Error_from_json_def
        uia_prompts_def sample_uia_def registration_def no_ClientError_def tree_lib_def tree_parse_def
        tree_at_def jvalue_def Let_def)
  then have "uia_step tree_lib (\<lambda>_. []) sample_uia (uia_start tree_lib sample_uia) (Prompting empty_Unauthorized)"
    unfolding uia_start_def by (metis uia_step.reply)
  then have run: "(uia_step tree_lib (\<lambda>_. []) sample_uia)\<^sup>*\<^sup>* (uia_start tree_lib sample_uia)
      (Awaiting (uia_payload tree_lib sample_uia (Auth_to_json tree_lib dummy_auth)))"
    by (meson r_into_rtranclp rtranclp.rtrancl_into_rtrancl uia_step.answer)
  have "is_object_or_null tree_lib (uia_request sample_uia)"
    by (simp add: sample_uia_def registration_def jobject_def jset_if_def)
  from uia_keeps_request [OF tree_lib_library this run] show ?thesis by blast
qed

end
