(* ===== verification/Http_Transport.thy ===== *)
theory Http_Transport
  imports Http_Client
begin

text \<open>
  The settings that the client passes on to its transport (\<open>lib/http/client.cpp\<close>) and the printed form of
  the errors that callbacks receive (\<open>include/mtxclient/http/errors.hpp\<close>).
\<close>

section \<open>Settings of the transport\<close>

text \<open>
  The private part of the client owns the object of the transport. Its methods only call into that
  object, so the state is the sequence of these calls.
\<close>

datatype coeurl_call =
    Set_verify_peer bool
  | Connection_timeout int
  | Shutdown
  | Alt_svc_cache_path string
  | Close bool

record ClientPrivate =
  pv_calls :: "coeurl_call list"

definition coeurl_call :: "coeurl_call \<Rightarrow> ClientPrivate \<Rightarrow> ClientPrivate" where
  "coeurl_call call p = p\<lparr>pv_calls := pv_calls p @ [call]\<rparr>"

text \<open>The whole constructor: the transport is configured after the server and the port are set.\<close>

definition construct_Client :: "string \<Rightarrow> 16 word \<Rightarrow> exn option \<times> Client \<times> ClientPrivate" where
  "construct_Client server_arg port_arg =
     (case new_Client server_arg port_arg of
        (Some e, c) \<Rightarrow> (Some e, c, \<lparr>pv_calls = []\<rparr>)
      | (None, c) \<Rightarrow> (None, c, coeurl_call (Connection_timeout 60) (coeurl_call (Set_verify_peer True) \<lparr>pv_calls = []\<rparr>)))"

definition shutdown :: "ClientPrivate \<Rightarrow> ClientPrivate" where
  "shutdown = coeurl_call Shutdown"

definition alt_svc_cache_path :: "string \<Rightarrow> ClientPrivate \<Rightarrow> ClientPrivate" where
  "alt_svc_cache_path path = coeurl_call (Alt_svc_cache_path path)"

definition verify_certificates :: "bool \<Rightarrow> ClientPrivate \<Rightarrow> ClientPrivate" where
  "verify_certificates enabled = coeurl_call (Set_verify_peer enabled)"

definition close :: "bool \<Rightarrow> ClientPrivate \<Rightarrow> ClientPrivate" where
  "close force = coeurl_call (Close force)"

text \<open>Whether the transport verifies certificates is decided by the last call.\<close>

fun verifies :: "coeurl_call list \<Rightarrow> bool option \<Rightarrow> bool option" where
  "verifies [] v = v"
| "verifies (Set_verify_peer b # calls) v = verifies calls (Some b)"
| "verifies (_ # calls) v = verifies calls v"

lemma verifies_append [simp]: "verifies (xs @ ys) v = verifies ys (verifies xs v)"
  by (induction xs v rule: verifies.induct) simp_all

lemma verifies_settings [simp]:
  "verifies (pv_calls (verify_certificates b p)) v = Some b"
  "verifies (pv_calls (shutdown p)) v = verifies (pv_calls p) v"
  "verifies (pv_calls (alt_svc_cache_path s p)) v = verifies (pv_calls p) v"
  "verifies (pv_calls (close f p)) v = verifies (pv_calls p) v"
  by (simp_all add: verify_certificates_def shutdown_def alt_svc_cache_path_def close_def coeurl_call_def)

theorem certificates_verified:
  "construct_Client server_arg port_arg = (None, c, p) \<Longrightarrow> verifies (pv_calls p) None = Some True"
  by (auto simp: construct_Client_def coeurl_call_def split: prod.splits option.splits)

section \<open>Printing errors\<close>

text \<open>The switches of a format specification: what is printed even if it is empty.\<close>

record error_format =
  print_network_error :: bool
  print_http_error :: bool
  print_parser_error :: bool
  print_matrix_error :: bool

definition default_format :: error_format where
  "default_format = \<lparr>print_network_error = False, print_http_error = False, print_parser_error = False,
     print_matrix_error = False\<rparr>"

text \<open>
  The specification ends at the brace; what is left is returned. The check after the loop never fails,
  because the loop only ends at a brace or at the end of the text.
\<close>

fun parse_format :: "error_format \<Rightarrow> string \<Rightarrow> (error_format \<times> string) result" where
  "parse_format f [] = Inr (f, [])"
| "parse_format f (c # it) =
     (if c = CHR ''}'' then Inr (f, c # it)
      else if c = CHR ''n'' then parse_format (f\<lparr>print_network_error := True\<rparr>) it
      else if c = CHR ''h'' then parse_format (f\<lparr>print_http_error := True\<rparr>) it
      else if c = CHR ''p'' then parse_format (f\<lparr>print_parser_error := True\<rparr>) it
      else if c = CHR ''m'' then parse_format (f\<lparr>print_matrix_error := True\<rparr>) it
      else Inl (Runtime_error ''invalid format specifier for mtx error''))"

definition comma_unless_first :: "string \<Rightarrow> bool \<Rightarrow> string" where
  "comma_unless_first out prepend_comma = (if prepend_comma then out @ '', '' else out)"

text \<open>
  The text of a network error is that of the transport. The last part is guarded by the switch of the
  parser, as in the code, and does not set \<open>prepend_comma\<close>.
\<close>

definition format_ClientError :: "(int \<Rightarrow> string) \<Rightarrow> error_format \<Rightarrow> ClientError \<Rightarrow> string" where
  "format_ClientError error_code_string f e =
     (let prepend_comma = False;
          out = ''('';
          (out, prepend_comma) =
            (if print_network_error f \<or> error_code e \<noteq> 0
             then (out @ ''connection: '' @ error_code_string (error_code e), True) else (out, prepend_comma));
          (out, prepend_comma) =
            (if print_http_error f \<or> (status_code e \<noteq> 0 \<and> (status_code e < 200 \<or> status_code e \<ge> 300))
             then (comma_unless_first out prepend_comma @ ''http: '' @ dec_int (status_code e), True)
             else (out, prepend_comma));
          (out, prepend_comma) =
            (if print_parser_error f \<or> parse_error e \<noteq> []
             then (comma_unless_first out prepend_comma @ ''parser: '' @ parse_error e, True) else (out, prepend_comma));
          out =
            (if print_parser_error f \<or> (errcode (matrix_error e) \<noteq> M_UNRECOGNIZED \<and> error_msg (matrix_error e) \<noteq> [])
             then comma_unless_first out prepend_comma @ ''matrix: '' @ error_code_to_string (errcode (matrix_error e))
                  @ '':'' @ [CHR 0x27] @ error_msg (matrix_error e) @ [CHR 0x27]
             else out)
      in out @ '')'')"

definition format_optional_error :: "(int \<Rightarrow> string) \<Rightarrow> error_format \<Rightarrow> ClientError option \<Rightarrow> string" where
  "format_optional_error error_code_string f c =
     (case c of None \<Rightarrow> ''(no error)'' | Some e \<Rightarrow> format_ClientError error_code_string f e)"

text \<open>The switch for the matrix error is read but never used.\<close>

lemma matrix_switch_unused: "format_ClientError s (f\<lparr>print_matrix_error := b\<rparr>) e = format_ClientError s f e"
  by (simp add: format_ClientError_def)

lemma format_specification:
  assumes "set spec \<subseteq> {CHR ''n'', CHR ''h'', CHR ''p'', CHR ''m''}"
  shows "parse_format f (spec @ CHR ''}'' # rest) = Inr (\<lparr>
     print_network_error = print_network_error f \<or> CHR ''n'' \<in> set spec,
     print_http_error = print_http_error f \<or> CHR ''h'' \<in> set spec,
     print_parser_error = print_parser_error f \<or> CHR ''p'' \<in> set spec,
     print_matrix_error = print_matrix_error f \<or> CHR ''m'' \<in> set spec\<rparr>, CHR ''}'' # rest)"
  using assms by (induction spec arbitrary: f) auto

text \<open>An empty pair of brackets is printed exactly for an error without any part.\<close>

lemma format_empty:
  "format_ClientError s default_format e = ''()'' \<longleftrightarrow>
     error_code e = 0 \<and> (status_code e = 0 \<or> 200 \<le> status_code e \<and> status_code e < 300) \<and> parse_error e = []
     \<and> (errcode (matrix_error e) = M_UNRECOGNIZED \<or> error_msg (matrix_error e) = [])"
  by (auto simp: format_ClientError_def default_format_def comma_unless_first_def Let_def)

lemma format_not_none: "format_ClientError s f e \<noteq> ''(no error)''"
  by (auto simp: format_ClientError_def comma_unless_first_def Let_def)

lemma callback_error_visible:
  assumes "prepare_callback J what dflt decode r = (response, Some e)" and "rp_error_code r \<noteq> 0 \<or> rp_status r \<noteq> 0"
  shows "format_ClientError s default_format e \<noteq> ''()''"
  using assms
  by (auto simp: format_empty prepare_callback_def success_status_def no_ClientError_def Let_def split: if_splits sum.splits)

text \<open>
  C19. Errors are visible. The error that the callback of a typed request receives is never printed as
  an empty pair of brackets, provided that the reply has a status or the transport reports an error; a
  success is printed as such. The switches of a format are those that the specification names.
\<close>

theorem errors_are_visible:
  assumes "prepare_callback J what dflt decode r = (response, err)" and "rp_error_code r \<noteq> 0 \<or> rp_status r \<noteq> 0"
    and "set spec \<subseteq> {CHR ''n'', CHR ''h'', CHR ''p'', CHR ''m''}"
  shows "format_optional_error s default_format err \<noteq> ''()''
    \<and> (format_optional_error s default_format err = ''(no error)'' \<longrightarrow> err = None)
    \<and> (\<exists>f. parse_format default_format (spec @ ''}'') = Inr (f, ''}'')
         \<and> (print_network_error f \<longleftrightarrow> CHR ''n'' \<in> set spec) \<and> (print_http_error f \<longleftrightarrow> CHR ''h'' \<in> set spec)
         \<and> (print_parser_error f \<longleftrightarrow> CHR ''p'' \<in> set spec))"
proof (intro conjI)
  show "format_optional_error s default_format err \<noteq> ''()''"
    using callback_error_visible [of J what dflt decode r response] assms(1,2)
    by (cases err) (simp_all add: format_optional_error_def)
  show "format_optional_error s default_format err = ''(no error)'' \<longrightarrow> err = None"
    using format_not_none by (cases err) (simp_all add: format_optional_error_def)
qed (use format_specification [OF assms(3), of default_format "[]"] in \<open>simp add: default_format_def\<close>)

theorem errors_are_visible_witness:
  "format_optional_error (\<lambda>_. ''timeout'') default_format
     (snd (prepare_callback tree_lib (\<lambda>_. ''e'') () (\<lambda>_. Inr ()) \<lparr>rp_headers = [], rp_body = ''{}'', rp_error_code = 28, rp_status = 0\<rparr>))
     \<noteq> ''()''"
proof -
  obtain response err where r: "prepare_callback tree_lib (\<lambda>_. ''e'') () (\<lambda>_. Inr ())
      \<lparr>rp_headers = [], rp_body = ''{}'', rp_error_code = 28, rp_status = 0\<rparr> = (response, err)" by (cases "prepare_callback tree_lib (\<lambda>_. ''e'') () (\<lambda>_. Inr ())
      \<lparr>rp_headers = [], rp_body = ''{}'', rp_error_code = 28, rp_status = 0\<rparr>")
  show ?thesis using errors_are_visible [OF r, of "''h''" "\<lambda>_. ''timeout''"] by (simp add: r)
qed

end
