(* ===== verification/Relations.thy ===== *)
theory Relations
  imports Requests
begin

text \<open>
  Relations between events and mentions (\<open>lib/structs/events/common.cpp\<close>): parsing relations from the
  content of an event, writing them, and applying an edit. A handler in \<open>parse_relations\<close> that names
  the type of JSON values instead of the exception type catches nothing, so the exceptions of the
  library are part of the result.
\<close>

section \<open>Mentions\<close>

record Mentions =
  mn_user_ids :: "string list"
  mn_room :: bool

definition Mentions_from_json :: "'j json_lib \<Rightarrow> 'j \<Rightarrow> Mentions result" where
  "Mentions_from_json J obj =
     rbind (jvalue J (jget_bool J) obj ''room'' False) (\<lambda>room.
     rbind (jvalue J (jget_list J (jget_string J)) obj ''user_ids'' []) (\<lambda>user_ids.
       Inr \<lparr>mn_user_ids = user_ids, mn_room = room\<rparr>))"

definition Mentions_to_json :: "'j json_lib \<Rightarrow> Mentions \<Rightarrow> 'j" where
  "Mentions_to_json J info =
     jset_if J (mn_user_ids info \<noteq> []) (jset_if J (mn_room info) (jobject J) ''room'' (jbool J True))
       ''user_ids'' (jstrings J (mn_user_ids info))"

definition parse_mentions :: "'j json_lib \<Rightarrow> 'j \<Rightarrow> Mentions option result" where
  "parse_mentions J content =
     jopt J (\<lambda>v. rbind (Mentions_from_json J v) (\<lambda>m. Inr (Some m))) content ''m.mentions'' None"

definition add_mentions :: "'j json_lib \<Rightarrow> 'j \<Rightarrow> Mentions option \<Rightarrow> 'j" where
  "add_mentions J content m = jset_opt J (Mentions_to_json J) content ''m.mentions'' m"

section \<open>Relations\<close>

datatype RelationType =
    Rel_Annotation | Rel_Reference | Rel_Replace | Rel_InReplyTo | Rel_Thread | Rel_Unsupported

fun RelationType_name :: "RelationType \<Rightarrow> string" where
  "RelationType_name Rel_Annotation = ''m.annotation''"
| "RelationType_name Rel_Reference = ''m.reference''"
| "RelationType_name Rel_Replace = ''m.replace''"
| "RelationType_name Rel_InReplyTo = ''im.nheko.relations.v1.in_reply_to''"
| "RelationType_name Rel_Thread = ''m.thread''"
| "RelationType_name Rel_Unsupported = ''unsupported''"

definition RelationType_to_json :: "'j json_lib \<Rightarrow> RelationType \<Rightarrow> 'j" where
  "RelationType_to_json J t = jstring J (RelationType_name t)"

definition RelationType_from_json :: "'j json_lib \<Rightarrow> 'j \<Rightarrow> RelationType result" where
  "RelationType_from_json J obj =
     rbind (jget_string J obj) (\<lambda>s.
       Inr (if s = ''m.annotation'' then Rel_Annotation
            else if s = ''m.reference'' then Rel_Reference
            else if s = ''m.replace'' then Rel_Replace
            else if s = ''im.nheko.relations.v1.in_reply_to'' \<or> s = ''m.in_reply_to'' then Rel_InReplyTo
            else if s = ''m.thread'' then Rel_Thread
            else Rel_Unsupported))"

record Relation =
  rel_type :: RelationType
  rel_event_id :: string
  rel_key :: "string option"
  is_fallback :: bool

definition empty_Relation :: Relation where
  "empty_Relation = \<lparr>rel_type = Rel_Unsupported, rel_event_id = [], rel_key = None, is_fallback = False\<rparr>"

record Relations =
  relations :: "Relation list"
  synthesized :: bool

definition Relation_from_json :: "'j json_lib \<Rightarrow> 'j \<Rightarrow> Relation result" where
  "Relation_from_json J obj =
     rbind (jopt J (RelationType_from_json J) obj ''rel_type'' Rel_Unsupported) (\<lambda>t.
     rbind (jopt J (jget_string J) obj ''event_id'' []) (\<lambda>event_id.
     rbind (jopt J (\<lambda>v. rbind (jget_string J v) (\<lambda>k. Inr (Some k))) obj ''key'' None) (\<lambda>key.
     rbind (jopt J (jget_bool J) obj ''im.nheko.relations.v1.is_fallback'' False) (\<lambda>fallback.
       Inr \<lparr>rel_type = t, rel_event_id = event_id, rel_key = key, is_fallback = fallback\<rparr>))))"

definition Relation_to_json :: "'j json_lib \<Rightarrow> Relation \<Rightarrow> 'j" where
  "Relation_to_json J r =
     (let obj = jset J (jnull J) ''rel_type'' (RelationType_to_json J (rel_type r));
          obj = jset J obj ''event_id'' (jstring J (rel_event_id r));
          obj = jset_opt J (jstring J) obj ''key'' (rel_key r)
      in jset_if J (is_fallback r) obj ''im.nheko.relations.v1.is_fallback'' (jbool J True))"

text \<open>\<open>it != obj.end() && *it == s\<close> for a string \<open>s\<close>\<close>

definition jmember_is :: "'j json_lib \<Rightarrow> 'j \<Rightarrow> string \<Rightarrow> string \<Rightarrow> bool" where
  "jmember_is J obj k s =
     (jcontains J obj k \<and>
      (case jat J obj k of Inr v \<Rightarrow> jtype_of J v = JString \<and> jget_string J v = Inr s | Inl _ \<Rightarrow> False))"

definition reply_event_id :: "'j json_lib \<Rightarrow> 'j \<Rightarrow> string result" where
  "reply_event_id J relates_to =
     rbind (jat J relates_to ''m.in_reply_to'') (\<lambda>r. jat_as J (jget_string J) r ''event_id'')"

definition parse_relates_to :: "'j json_lib \<Rightarrow> 'j \<Rightarrow> 'j \<Rightarrow> Relations result" where
  "parse_relates_to J content relates_to =
     (if jcontains J relates_to ''m.in_reply_to'' then
        rbind (reply_event_id J relates_to) (\<lambda>event_id.
          let r = empty_Relation\<lparr>rel_event_id := event_id, rel_type := Rel_InReplyTo\<rparr>
          in if jmember_is J relates_to ''rel_type'' ''m.thread'' \<and> jcontains J relates_to ''event_id'' then
               rbind (jvalue J (jget_bool J) relates_to ''is_falling_back'' False) (\<lambda>fb.
               rbind (Relation_from_json J relates_to) (\<lambda>thread.
                 Inr \<lparr>relations = [thread, r\<lparr>is_fallback := fb\<rparr>], synthesized = True\<rparr>))
             else Inr \<lparr>relations = [r], synthesized = True\<rparr>)
      else
        rbind (Relation_from_json J relates_to) (\<lambda>r.
          let secondRel = jmember J (jmember J content ''m.new_content'') ''m.relates_to''
          in if rel_type r = Rel_Replace \<and> jcontains J content ''m.new_content''
                \<and> jcontains J (jmember J content ''m.new_content'') ''m.relates_to'' then
               if jcontains J secondRel ''m.in_reply_to'' then
                 rbind (reply_event_id J secondRel) (\<lambda>_.
                   Inr \<lparr>relations = [r, empty_Relation], synthesized = True\<rparr>)
               else
                 rbind (Relation_from_json J secondRel) (\<lambda>r2.
                   Inr \<lparr>relations = [r, r2], synthesized = True\<rparr>)
             else Inr \<lparr>relations = [r], synthesized = True\<rparr>))"

definition parse_relations :: "'j json_lib \<Rightarrow> 'j \<Rightarrow> Relations result" where
  "parse_relations J content =
     (if jcontains J content ''im.nheko.relations.v1.relations'' then
        rbind (jat_as J (jget_list J (Relation_from_json J)) content ''im.nheko.relations.v1.relations'') (\<lambda>rels.
          Inr \<lparr>relations = rels, synthesized = False\<rparr>)
      else if jcontains J content ''m.relates_to'' then
        rbind (jat J content ''m.relates_to'') (parse_relates_to J content)
      else Inr \<lparr>relations = [], synthesized = False\<rparr>)"

text \<open>The last relation of each of the three sorts.\<close>

definition last_matching :: "(Relation \<Rightarrow> bool) \<Rightarrow> Relation list \<Rightarrow> Relation option" where
  "last_matching P rs = foldl (\<lambda>acc r. if P r then Some r else acc) None rs"

definition add_relates_to :: "'j json_lib \<Rightarrow> 'j \<Rightarrow> Relation list \<Rightarrow> 'j" where
  "add_relates_to J content rels =
     (let edit = last_matching (\<lambda>r. rel_type r = Rel_Replace) rels;
          reply = last_matching (\<lambda>r. rel_type r = Rel_InReplyTo) rels;
          not_edit = last_matching (\<lambda>r. rel_type r \<noteq> Rel_Replace \<and> rel_type r \<noteq> Rel_InReplyTo) rels;
          content = jset_opt J (Relation_to_json J) content ''m.relates_to'' not_edit;
          content = (case reply of None \<Rightarrow> content
            | Some r \<Rightarrow>
                let relates_to = jset2 J (jmember J content ''m.relates_to'') ''m.in_reply_to'' ''event_id''
                      (jstring J (rel_event_id r));
                    in_thread = (case not_edit of None \<Rightarrow> False | Some n \<Rightarrow> rel_type n = Rel_Thread);
                    relates_to = jset_if J (is_fallback r \<and> in_thread) relates_to ''is_falling_back'' (jbool J True)
                in jset J content ''m.relates_to'' relates_to)
      in case edit of None \<Rightarrow> content
         | Some e \<Rightarrow>
             let content = (if not_edit \<noteq> None
                   then jset2 J content ''m.new_content'' ''m.relates_to'' (jmember J content ''m.relates_to'')
                   else content)
             in jset J content ''m.relates_to'' (Relation_to_json J e))"

definition nheko_relations :: string where
  "nheko_relations = ''im.nheko.relations.v1.relations''"

definition push_relation :: "'j json_lib \<Rightarrow> 'j \<Rightarrow> Relation \<Rightarrow> 'j" where
  "push_relation J content r =
     (if rel_type r \<noteq> Rel_Unsupported
      then jset J content nheko_relations (jpush J (jmember J content nheko_relations) (Relation_to_json J r))
      else content)"

definition add_relations :: "'j json_lib \<Rightarrow> 'j \<Rightarrow> Relations \<Rightarrow> 'j" where
  "add_relations J content rels =
     (if relations rels = [] then content
      else
        let content = add_relates_to J content (relations rels)
        in if synthesized rels then content
           else foldl (push_relation J) content (relations rels))"

definition return_first_relation_matching :: "RelationType \<Rightarrow> Relations \<Rightarrow> bool \<Rightarrow> string option" where
  "return_first_relation_matching t rels include_fallback =
     map_option rel_event_id
       (find (\<lambda>r. rel_type r = t \<and> (include_fallback \<or> \<not> is_fallback r)) (relations rels))"

definition reply_to :: "Relations \<Rightarrow> bool \<Rightarrow> string option" where
  "reply_to = return_first_relation_matching Rel_InReplyTo"

definition replaces :: "Relations \<Rightarrow> bool \<Rightarrow> string option" where
  "replaces = return_first_relation_matching Rel_Replace"

definition references :: "Relations \<Rightarrow> bool \<Rightarrow> string option" where
  "references = return_first_relation_matching Rel_Reference"

definition thread :: "Relations \<Rightarrow> bool \<Rightarrow> string option" where
  "thread = return_first_relation_matching Rel_Thread"

definition annotates :: "Relations \<Rightarrow> bool \<Rightarrow> Relation option" where
  "annotates rels include_fallback =
     find (\<lambda>r. rel_type r = Rel_Annotation \<and> (include_fallback \<or> \<not> is_fallback r)) (relations rels)"

text \<open>\<open>if (content.contains(k)) content[k] = "* " + content[k].get<std::string>()\<close>\<close>

definition star_field :: "'j json_lib \<Rightarrow> string \<Rightarrow> 'j \<Rightarrow> 'j result" where
  "star_field J k content =
     (if jcontains J content k
      then rbind (jat_as J (jget_string J) content k) (\<lambda>s. Inr (jset J content k (jstring J (''* '' @ s))))
      else Inr content)"

definition copied_to_edit :: "string \<Rightarrow> bool" where
  "copied_to_edit k \<longleftrightarrow> k \<noteq> ''m.relates_to'' \<and> k \<noteq> ''im.nheko.relations.v1.relations'' \<and> k \<noteq> ''m.new_content''"

definition edit_field :: "'j json_lib \<Rightarrow> 'j \<Rightarrow> string \<times> 'j \<Rightarrow> 'j" where
  "edit_field J c e =
     (case e of (k, v) \<Rightarrow> if copied_to_edit k then jset2 J c ''m.new_content'' k v else c)"

definition apply_relations :: "'j json_lib \<Rightarrow> 'j \<Rightarrow> Relations \<Rightarrow> 'j result" where
  "apply_relations J content rels =
     (let content = add_relations J content rels
      in if replaces rels True \<noteq> None then
           let content = foldl (edit_field J) content (jitems J content)
           in rbind (star_field J ''body'' content) (star_field J ''formatted_body'')
         else Inr content)"

section \<open>Lemmas\<close>

context json_library
begin

lemma RelationType_roundtrip: "RelationType_from_json J (RelationType_to_json J t) = Inr t"
  by (cases t) (simp_all add: RelationType_from_json_def RelationType_to_json_def)

lemma Relation_object [simp]: "jtype_of J (Relation_to_json J r) = JObject"
  by (auto simp: Relation_to_json_def jset_opt_def Let_def split: option.split)

lemma Relation_fields:
  "jfields J (Relation_to_json J r) = (\<lambda>k.
     if k = ''rel_type'' then Some (RelationType_to_json J (rel_type r))
     else if k = ''event_id'' then Some (jstring J (rel_event_id r))
     else if k = ''key'' then map_option (jstring J) (rel_key r)
     else if k = ''im.nheko.relations.v1.is_fallback'' \<and> is_fallback r then Some (jbool J True)
     else None)"
  by (auto simp: Relation_to_json_def jset_opt_def Let_def fun_eq_iff split: option.split)

text \<open>A relation is read from any object that agrees with its JSON form on the four fields.\<close>

lemma Relation_from_fields:
  assumes "jfields J obj ''rel_type'' = Some (RelationType_to_json J (rel_type r))"
    and "jfields J obj ''event_id'' = Some (jstring J (rel_event_id r))"
    and "jfields J obj ''key'' = map_option (jstring J) (rel_key r)"
    and "jfields J obj ''im.nheko.relations.v1.is_fallback'' = (if is_fallback r then Some (jbool J True) else None)"
  shows "Relation_from_json J obj = Inr r"
  using assms by (cases "rel_key r") (simp_all add: Relation_from_json_def opt_fields RelationType_roundtrip)

lemma Relation_roundtrip: "Relation_from_json J (Relation_to_json J r) = Inr r"
  by (rule Relation_from_fields) (simp_all add: Relation_fields)

lemma Mentions_roundtrip: "Mentions_from_json J (Mentions_to_json J m) = Inr m"
  by (cases "mn_user_ids m = []"; cases "mn_room m")
     (simp_all add: Mentions_from_json_def Mentions_to_json_def value_fields jobject_def smap_ok_def)

lemma member_is_fields: "jmember_is J obj k s \<longleftrightarrow> (\<exists>v. jfields J obj k = Some v \<and> jtype_of J v = JString \<and> jget_string J v = Inr s)"
  by (auto simp: jmember_is_def contains_iff at_eq jfields_def split: option.splits)

lemma at_fields': "jat J j k = (case jfields J j k of
    Some v \<Rightarrow> Inr v | None \<Rightarrow> if jtype_of J j = JObject then key_error else type_error)"
  by (auto simp: at_eq jfields_def split: option.splits)

lemma object_or_null: "jtype_of J j = JObject \<Longrightarrow> is_object_or_null J j"
  by (simp add: is_object_or_null_def)

lemma set_opt_object [simp]: "jtype_of J c = JObject \<Longrightarrow> jtype_of J (jset_opt J conv c k x) = JObject"
  by (cases x) (simp_all add: jset_opt_def)

lemma set2_object [simp]: "is_object_or_null J c \<Longrightarrow> jtype_of J (jset2 J c k1 k2 v) = JObject"
  by (simp add: jset2_def)

lemma add_relates_to_object: "jtype_of J c = JObject \<Longrightarrow> jtype_of J (add_relates_to J c rels) = JObject"
  by (simp add: add_relates_to_def Let_def object_or_null split: option.split)

lemma add_relates_to_other:
  assumes "jtype_of J c = JObject" and "k \<noteq> ''m.relates_to''" and "k \<noteq> ''m.new_content''"
  shows "jfields J (add_relates_to J c rels) k = jfields J c k"
  using assms by (auto simp: add_relates_to_def jset_opt_def Let_def object_or_null split: option.split)

lemma push_relations:
  assumes "jtype_of J c = JObject" and "jtype_of J (jmember J c nheko_relations) \<in> {JNull, JArray}"
    and "\<forall>r \<in> set rs. rel_type r \<noteq> Rel_Unsupported"
  defines "old \<equiv> (if jtype_of J (jmember J c nheko_relations) = JNull then [] else jelems J (jmember J c nheko_relations))"
  shows "jtype_of J (foldl (push_relation J) c rs) = JObject
    \<and> (rs \<noteq> [] \<longrightarrow> jtype_of J (jmember J (foldl (push_relation J) c rs) nheko_relations) = JArray
         \<and> jelems J (jmember J (foldl (push_relation J) c rs) nheko_relations) = old @ map (Relation_to_json J) rs
         \<and> jcontains J (foldl (push_relation J) c rs) nheko_relations)"
  using assms(1-3) unfolding old_def
proof (induction rs arbitrary: c)
  case (Cons r rs)
  let ?c = "push_relation J c r"
  have c: "?c = jset J c nheko_relations (jpush J (jmember J c nheko_relations) (Relation_to_json J r))"
    using Cons.prems by (simp add: push_relation_def)
  have t: "jtype_of J ?c = JObject" using Cons.prems by (simp add: c object_or_null)
  have m: "jmember J ?c nheko_relations = jpush J (jmember J c nheko_relations) (Relation_to_json J r)"
    using Cons.prems by (simp add: c member_set object_or_null)
  have ta: "jtype_of J (jmember J ?c nheko_relations) = JArray" using Cons.prems by (simp add: m)
  have e: "jelems J (jmember J ?c nheko_relations)
      = (if jtype_of J (jmember J c nheko_relations) = JNull then [] else jelems J (jmember J c nheko_relations)) @ [Relation_to_json J r]"
    using Cons.prems by (auto simp: m elems_push elems_push_null)
  have k: "jcontains J ?c nheko_relations" using Cons.prems by (simp add: c contains_fields object_or_null)
  show ?case using Cons.IH [of ?c] Cons.prems t ta e k by (cases rs) auto
qed simp

lemma relations_roundtrip:
  assumes "jtype_of J c = JObject" and "jfields J c nheko_relations = None"
    and "\<not> synthesized rels" and "relations rels \<noteq> []" and "\<forall>r \<in> set (relations rels). rel_type r \<noteq> Rel_Unsupported"
  shows "parse_relations J (add_relations J c rels) = Inr rels"
proof -
  let ?c = "add_relates_to J c (relations rels)"
  let ?d = "foldl (push_relation J) ?c (relations rels)"
  have o: "jtype_of J ?c = JObject" by (rule add_relates_to_object [OF assms(1)])
  have "jfields J ?c nheko_relations = None"
    using add_relates_to_other [OF assms(1)] assms(2) by (simp add: nheko_relations_def)
  then have n: "jmember J ?c nheko_relations = jnull J" by (simp add: member_fields)
  note p = push_relations [OF o _ assms(5), unfolded n, simplified]
  have d: "jtype_of J (jmember J ?d nheko_relations) = JArray" "jcontains J ?d nheko_relations"
    "jelems J (jmember J ?d nheko_relations) = map (Relation_to_json J) (relations rels)"
    using p assms(4) by auto
  obtain v where v: "jfields J ?d nheko_relations = Some v" using d(2) by (auto simp: contains_fields)
  then have m: "jmember J ?d nheko_relations = v" by (simp add: member_fields)
  have "mapM (Relation_from_json J) (map (Relation_to_json J) (relations rels)) = Inr (map (\<lambda>x. x) (relations rels))"
    by (rule mapM_map) (rule Relation_roundtrip)
  then have "jat_as J (jget_list J (Relation_from_json J)) ?d nheko_relations = Inr (relations rels)"
    using d v m by (simp add: jat_as_def at_fields' jget_list_def)
  moreover have "add_relations J c rels = ?d" using assms(3,4) by (simp add: add_relations_def Let_def)
  ultimately show ?thesis using d(2) assms(3) by (simp add: parse_relations_def nheko_relations_def)
qed

text \<open>The forms of \<open>m.relates_to\<close>: one relation, a reply, a reply in a thread, an edit.\<close>

lemmas relates_simps = add_relations_def add_relates_to_def last_matching_def parse_relations_def
  parse_relates_to_def reply_event_id_def jset_opt_def Let_def object_or_null contains_fields at_fields' at_as_fields
  member_fields Relation_fields value_fields

lemma relates_one:
  assumes "jtype_of J c = JObject" and "jfields J c nheko_relations = None" and "jfields J c ''m.new_content'' = None"
    and "rel_type r \<noteq> Rel_InReplyTo"
  shows "parse_relations J (add_relations J c \<lparr>relations = [r], synthesized = True\<rparr>)
    = Inr \<lparr>relations = [r], synthesized = True\<rparr>"
  using assms by (cases "rel_type r") (simp_all add: relates_simps nheko_relations_def Relation_roundtrip)

lemma relates_reply:
  assumes "jtype_of J c = JObject" and "jfields J c nheko_relations = None" and "jfields J c ''m.relates_to'' = None"
  shows "parse_relations J (add_relations J c \<lparr>relations = [empty_Relation\<lparr>rel_type := Rel_InReplyTo, rel_event_id := e\<rparr>], synthesized = True\<rparr>)
    = Inr \<lparr>relations = [empty_Relation\<lparr>rel_type := Rel_InReplyTo, rel_event_id := e\<rparr>], synthesized = True\<rparr>"
  using assms by (simp add: relates_simps nheko_relations_def empty_Relation_def member_is_fields jset_if_def jset2_def)

lemma relates_thread:
  assumes "jtype_of J c = JObject" and "jfields J c nheko_relations = None" and "rel_type t = Rel_Thread"
  shows "parse_relations J (add_relations J c
      \<lparr>relations = [t, empty_Relation\<lparr>rel_type := Rel_InReplyTo, rel_event_id := e, is_fallback := fb\<rparr>], synthesized = True\<rparr>)
    = Inr \<lparr>relations = [t, empty_Relation\<lparr>rel_type := Rel_InReplyTo, rel_event_id := e, is_fallback := fb\<rparr>], synthesized = True\<rparr>"
proof -
  define rt where "rt = jset_if J fb (jset2 J (Relation_to_json J t) ''m.in_reply_to'' ''event_id'' (jstring J e)) ''is_falling_back'' (jbool J True)"
  have ot: "jtype_of J rt = JObject" by (simp add: rt_def object_or_null)
  have f: "jfields J rt = (jfields J (Relation_to_json J t))(''m.in_reply_to'' \<mapsto> jset J (jnull J) ''event_id'' (jstring J e),
      ''is_falling_back'' := (if fb then Some (jbool J True) else None))"
    by (auto simp: rt_def object_or_null jset2_def member_fields Relation_fields fun_eq_iff)
  have thread: "Relation_from_json J rt = Inr t"
    by (rule Relation_from_fields) (simp_all add: f Relation_fields)
  have "add_relations J c \<lparr>relations = [t, empty_Relation\<lparr>rel_type := Rel_InReplyTo, rel_event_id := e, is_fallback := fb\<rparr>], synthesized = True\<rparr>
      = jset J (jset J c ''m.relates_to'' (Relation_to_json J t)) ''m.relates_to'' rt"
    using assms by (simp add: add_relations_def add_relates_to_def last_matching_def empty_Relation_def jset_opt_def
        Let_def rt_def member_set object_or_null)
  then show ?thesis
    using assms thread ot by (simp add: parse_relations_def parse_relates_to_def reply_event_id_def contains_fields at_fields'
        at_as_fields value_fields nheko_relations_def object_or_null f Relation_fields member_is_fields
        RelationType_to_json_def empty_Relation_def Let_def)
qed

text \<open>The reply of an edit is dropped when it is written.\<close>

lemma relates_edit_reply:
  assumes "jtype_of J c = JObject" and "jfields J c nheko_relations = None" and "jfields J c ''m.new_content'' = None"
    and "rel_type r = Rel_Replace" and "rel_type q = Rel_InReplyTo"
  shows "parse_relations J (add_relations J c \<lparr>relations = [r, q], synthesized = True\<rparr>)
    = Inr \<lparr>relations = [r], synthesized = True\<rparr>"
  using assms by (simp add: relates_simps nheko_relations_def Relation_roundtrip jset2_def jset_if_def)

text \<open>A received edit whose new content is a reply: the reply is not reported.\<close>

lemma parse_edit_reply:
  assumes "jtype_of J c = JObject" and "jfields J c nheko_relations = None"
    and "jfields J c ''m.relates_to'' = Some (Relation_to_json J r)" and "rel_type r = Rel_Replace"
    and "jfields J c ''m.new_content'' = Some n" and "jfields J n ''m.relates_to'' = Some rt"
    and "jfields J rt ''m.in_reply_to'' = Some q" and "jfields J q ''event_id'' = Some (jstring J e)"
  shows "parse_relations J c = Inr \<lparr>relations = [r, empty_Relation], synthesized = True\<rparr>"
  using assms by (simp add: parse_relations_def parse_relates_to_def reply_event_id_def contains_fields at_fields'
      member_fields jat_as_def nheko_relations_def Relation_fields Relation_roundtrip Let_def)

lemma edit_fields:
  assumes "jtype_of J c = JObject" and "is_object_or_null J (jmember J c ''m.new_content'')" and "smap_ok m"
  shows "jtype_of J (foldl (edit_field J) c m) = JObject
    \<and> jfields J (jmember J (foldl (edit_field J) c m) ''m.new_content'')
        = (\<lambda>k. if copied_to_edit k \<and> map_of m k \<noteq> None then map_of m k else jfields J (jmember J c ''m.new_content'') k)
    \<and> (\<forall>k. k \<noteq> ''m.new_content'' \<longrightarrow> jfields J (foldl (edit_field J) c m) k = jfields J c k)"
  using assms
proof (induction m arbitrary: c)
  case (Cons p m)
  obtain k v where p: "p = (k, v)" by (cases p)
  define c' where "c' = edit_field J c (k, v)"
  have eq: "foldl (edit_field J) c (p # m) = foldl (edit_field J) c' m" by (simp add: p c'_def)
  have ok: "smap_ok m" and fresh: "map_of m k = None"
    using Cons.prems(3) by (auto simp: smap_ok_def p map_of_eq_None_iff)
  have c: "jtype_of J c' = JObject" using Cons.prems by (simp add: c'_def edit_field_def object_or_null)
  have n: "jmember J c' ''m.new_content'' = (if copied_to_edit k then jset J (jmember J c ''m.new_content'') k v
      else jmember J c ''m.new_content'')"
    using Cons.prems by (simp add: c'_def edit_field_def jset2_def member_set object_or_null)
  have n': "is_object_or_null J (jmember J c' ''m.new_content'')" using Cons.prems by (simp add: n)
  have o: "\<forall>k'. k' \<noteq> ''m.new_content'' \<longrightarrow> jfields J c' k' = jfields J c k'"
    using Cons.prems by (simp add: c'_def edit_field_def object_or_null)
  show ?case unfolding eq using Cons.IH [OF c n' ok] Cons.prems o fresh by (auto simp: n p fun_eq_iff)
qed auto

lemma items_fields: "jtype_of J c = JObject \<Longrightarrow> map_of (jitems J c) = jfields J c"
  by (simp add: jfields_def)

lemma star_field_string:
  assumes "jtype_of J c = JObject" and "jfields J c k = Some (jstring J b)"
  shows "star_field J k c = Inr (jset J c k (jstring J (''* '' @ b)))"
  using assms by (simp add: star_field_def contains_fields at_as_fields)

lemma star_field_missing: "jfields J c k = None \<Longrightarrow> star_field J k c = Inr c"
  by (simp add: star_field_def contains_fields)

text \<open>What an edit is written as: the starred texts outside, the content inside, and the relation.\<close>

lemma apply_edit_written:
  assumes c: "jtype_of J c = JObject" "jfields J c nheko_relations = None" "jfields J c ''m.new_content'' = None"
      "jfields J c ''m.relates_to'' = None" "jfields J c ''body'' = Some (jstring J b)"
    and fb: "jfields J c ''formatted_body'' = None \<or> jfields J c ''formatted_body'' = Some (jstring J f)"
    and r: "rel_type r = Rel_Replace"
  shows "\<exists>d n. apply_relations J c \<lparr>relations = [r], synthesized = True\<rparr> = Inr d \<and> jtype_of J d = JObject
    \<and> jfields J d ''body'' = Some (jstring J (''* '' @ b))
    \<and> jfields J d ''m.new_content'' = Some n \<and> jtype_of J n = JObject \<and> jfields J n = jfields J c
    \<and> jfields J d ''m.relates_to'' = Some (Relation_to_json J r) \<and> jfields J d nheko_relations = None"
proof -
  let ?rels = "\<lparr>relations = [r], synthesized = True\<rparr>"
  define c1 where "c1 = jset J c ''m.relates_to'' (Relation_to_json J r)"
  have c1: "add_relations J c ?rels = c1"
    using r by (simp add: c1_def add_relations_def add_relates_to_def last_matching_def jset_opt_def Let_def)
  have o1: "jtype_of J c1 = JObject" using c by (simp add: c1_def object_or_null)
  have f1: "jfields J c1 = (jfields J c)(''m.relates_to'' \<mapsto> Relation_to_json J r)"
    using c by (simp add: c1_def object_or_null)
  have "jmember J c1 ''m.new_content'' = jnull J" using c by (simp add: member_fields f1)
  define c2 where "c2 = foldl (edit_field J) c1 (jitems J c1)"
  note e = edit_fields [OF o1 _ items_sorted [of c1], unfolded \<open>jmember J c1 ''m.new_content'' = jnull J\<close>, simplified]
  have o2: "jtype_of J c2 = JObject" using e by (simp add: c2_def)
  define n where "n = jmember J c2 ''m.new_content''"
  have n2: "jfields J n = jfields J c"
    using e c by (auto simp: n_def c2_def items_fields [OF o1] f1 copied_to_edit_def nheko_relations_def fun_eq_iff)
  then have "jfields J n ''body'' \<noteq> None" using c by simp
  then have on: "jtype_of J n = JObject" by (auto simp: jfields_def split: if_splits)
  have nf: "jfields J c2 ''m.new_content'' = Some n"
  proof (cases "jfields J c2 ''m.new_content''")
    case None
    then have "n = jnull J" by (simp add: n_def member_fields)
    then show ?thesis using on by simp
  qed (simp add: n_def member_fields)
  have f2: "jfields J c2 k = jfields J c1 k" if "k \<noteq> ''m.new_content''" for k using e that by (simp add: c2_def)
  have b2: "jfields J c2 ''body'' = Some (jstring J b)"
    and fb2: "jfields J c2 ''formatted_body'' = jfields J c ''formatted_body''"
    using f2 c by (simp_all add: f1)
  define d1 where "d1 = jset J c2 ''body'' (jstring J (''* '' @ b))"
  have d1: "jtype_of J d1 = JObject" "jfields J d1 = (jfields J c2)(''body'' \<mapsto> jstring J (''* '' @ b))"
    using o2 by (simp_all add: d1_def object_or_null)
  obtain d where d: "star_field J ''formatted_body'' d1 = Inr d" "jtype_of J d = JObject"
      "\<forall>k. k \<noteq> ''formatted_body'' \<longrightarrow> jfields J d k = jfields J d1 k"
  proof (cases "jfields J c ''formatted_body'' = None")
    case True
    then have "star_field J ''formatted_body'' d1 = Inr d1" using fb2 by (intro star_field_missing) (simp add: d1)
    then show ?thesis using that [of d1] d1 by simp
  next
    case False
    then have "jfields J d1 ''formatted_body'' = Some (jstring J f)" using fb fb2 by (auto simp: d1)
    then show ?thesis using star_field_string [OF d1(1)] that d1(1) by (simp add: object_or_null)
  qed
  have "replaces ?rels True = Some (rel_event_id r)"
    using r by (simp add: replaces_def return_first_relation_matching_def)
  then have app: "apply_relations J c ?rels = Inr d"
    using star_field_string [OF o2 b2] d(1) by (simp add: apply_relations_def c1 d1_def Let_def flip: c2_def)
  have "jfields J d ''m.relates_to'' = Some (Relation_to_json J r)" and "jfields J d nheko_relations = None"
    and "jfields J d ''body'' = Some (jstring J (''* '' @ b))" and "jfields J d ''m.new_content'' = Some n"
    using f2 c d(3) nf by (simp_all add: d1 f1 nheko_relations_def)
  then show ?thesis using app d(2) on n2 by blast
qed

lemma apply_edit:
  assumes c: "jtype_of J c = JObject" "jfields J c nheko_relations = None" "jfields J c ''m.new_content'' = None"
      "jfields J c ''m.relates_to'' = None" "jfields J c ''body'' = Some (jstring J b)" "jfields J c ''formatted_body'' = None"
    and r: "rel_type r = Rel_Replace"
  shows "\<exists>d. apply_relations J c \<lparr>relations = [r], synthesized = True\<rparr> = Inr d
    \<and> jfields J d ''body'' = Some (jstring J (''* '' @ b))
    \<and> jfields J (jmember J d ''m.new_content'') = jfields J c
    \<and> parse_relations J d = Inr \<lparr>relations = [r], synthesized = True\<rparr>"
proof -
  obtain d n where d: "apply_relations J c \<lparr>relations = [r], synthesized = True\<rparr> = Inr d" "jtype_of J d = JObject"
      "jfields J d ''body'' = Some (jstring J (''* '' @ b))"
      "jfields J d ''m.new_content'' = Some n" "jtype_of J n = JObject" "jfields J n = jfields J c"
      "jfields J d ''m.relates_to'' = Some (Relation_to_json J r)" "jfields J d nheko_relations = None"
    using apply_edit_written [OF c(1-5) disjI1 [OF c(6)] r] by blast
  then have "parse_relations J d = Inr \<lparr>relations = [r], synthesized = True\<rparr>"
    using c by (simp add: parse_relations_def parse_relates_to_def contains_fields at_fields' nheko_relations_def
        Relation_fields Relation_roundtrip member_fields Let_def)
  then show ?thesis using d by (simp add: member_fields)
qed

end

section \<open>Properties\<close>


definition sample_content :: json where
  "sample_content = Obj [(''body'', Str ''hi''), (''msgtype'', Str ''m.text'')]"

definition sample_edit :: Relation where
  "sample_edit = \<lparr>rel_type = Rel_Replace, rel_event_id = ''$e'', rel_key = None, is_fallback = False\<rparr>"

definition sample_reply :: Relation where
  "sample_reply = \<lparr>rel_type = Rel_InReplyTo, rel_event_id = ''$q'', rel_key = None, is_fallback = False\<rparr>"

lemma sample_content_fields:
  "jtype_of tree_lib sample_content = JObject" "jfields tree_lib sample_content nheko_relations = None"
  "jfields tree_lib sample_content ''m.new_content'' = None" "jfields tree_lib sample_content ''m.relates_to'' = None"
  "jfields tree_lib sample_content ''body'' = Some (jstring tree_lib ''hi'')"
  "jfields tree_lib sample_content ''formatted_body'' = None"
  by (simp_all add: sample_content_def jfields_def tree_lib_def nheko_relations_def)




text \<open>
  C40. The reply of an edit is lost, in both directions: written in the standard form, an edit that is
  also a reply reads back as the edit alone; and a received edit whose new content replies to an event
  parses to the edit and an empty relation, so that \<open>reply_to\<close> finds nothing.
\<close>

theorem edit_loses_reply:
  assumes "json_library J" and "jtype_of J c = JObject" and "jfields J c nheko_relations = None"
    and "jfields J c ''m.new_content'' = None" and "rel_type r = Rel_Replace" and "rel_type q = Rel_InReplyTo"
    and "jtype_of J d = JObject" and "jfields J d nheko_relations = None"
    and "jfields J d ''m.relates_to'' = Some (Relation_to_json J r)"
    and "jfields J d ''m.new_content'' = Some n" and "jfields J n ''m.relates_to'' = Some rt"
    and "jfields J rt ''m.in_reply_to'' = Some ir" and "jfields J ir ''event_id'' = Some (jstring J e)"
  shows "parse_relations J (add_relations J c \<lparr>relations = [r, q], synthesized = True\<rparr>) = Inr \<lparr>relations = [r], synthesized = True\<rparr>
    \<and> (\<exists>rels. parse_relations J d = Inr rels \<and> reply_to rels True = None)"
  using json_library.relates_edit_reply [OF assms(1-6)] json_library.parse_edit_reply [OF assms(1,7-9,5,10-13)] assms(5)
  by (simp add: reply_to_def return_first_relation_matching_def empty_Relation_def)

definition sample_in_reply :: json where
  "sample_in_reply = Obj [(''event_id'', Str ''$q'')]"

definition sample_received :: json where
  "sample_received = Obj [(''m.new_content'', Obj [(''m.relates_to'', Obj [(''m.in_reply_to'', sample_in_reply)])]),
     (''m.relates_to'', Relation_to_json tree_lib sample_edit)]"

theorem edit_loses_reply_witness:
  "\<exists>rels. parse_relations tree_lib sample_received = Inr rels \<and> reply_to rels True = None"
proof -
  note ex = edit_loses_reply [OF tree_lib_library sample_content_fields(1-3), of sample_edit sample_reply sample_received
      "Obj [(''m.relates_to'', Obj [(''m.in_reply_to'', sample_in_reply)])]" "Obj [(''m.in_reply_to'', sample_in_reply)]"
      sample_in_reply "''$q''"]
  show ?thesis
    by (rule ex [THEN conjunct2])
       (simp_all add: sample_edit_def sample_reply_def sample_received_def sample_in_reply_def jfields_def tree_lib_def nheko_relations_def)
qed

end
