(* ===== verification/Push_Rules.thy ===== *)
theory Push_Rules
  imports Relations
begin

text \<open>
  The data model of push rules (\<open>include/mtx/pushrules.hpp\<close>) and its JSON form
  (\<open>lib/structs/pushrules.cpp\<close>): conditions, actions, rules and rule sets.
\<close>

section \<open>Data\<close>

text \<open>\<open>std::variant<std::string, std::int64_t, bool, std::nullptr_t>\<close>\<close>

datatype non_compound_json_value =
    NString string
  | NInt int
  | NBool bool
  | NNull

record PushCondition =
  cond_kind :: string
  cond_key :: string
  cond_pattern :: string
  cond_value :: "non_compound_json_value option"
  cond_is :: string
  cond_rel_type :: RelationType
  cond_include_fallback :: bool

datatype Action =
    notify
  | dont_notify
  | coalesce
  | set_tweak_sound string
  | set_tweak_highlight bool

record PushRule =
  rule_default :: bool
  rule_enabled :: bool
  rule_actions :: "Action list"
  rule_id :: string
  rule_pattern :: string
  rule_conditions :: "PushCondition list"

record Ruleset =
  rs_override :: "PushRule list"
  rs_content :: "PushRule list"
  rs_room :: "PushRule list"
  rs_sender :: "PushRule list"
  rs_underride :: "PushRule list"

definition empty_Ruleset :: Ruleset where
  "empty_Ruleset = \<lparr>rs_override = [], rs_content = [], rs_room = [], rs_sender = [], rs_underride = []\<rparr>"

section \<open>JSON\<close>

definition to_non_compound_json_value :: "'j json_lib \<Rightarrow> 'j \<Rightarrow> non_compound_json_value option result" where
  "to_non_compound_json_value J val =
     (case jtype_of J val of
        JString \<Rightarrow> rbind (jget_string J val) (\<lambda>s. Inr (Some (NString s)))
      | JNull \<Rightarrow> Inr (Some NNull)
      | JBoolean \<Rightarrow> rbind (jget_bool J val) (\<lambda>b. Inr (Some (NBool b)))
      | JInteger \<Rightarrow> rbind (jget_int64 J val) (\<lambda>n. Inr (Some (NInt n)))
      | JUnsigned \<Rightarrow> rbind (jget_int64 J val) (\<lambda>n. Inr (Some (NInt n)))
      | _ \<Rightarrow> Inr None)"

fun non_compound_to_json :: "'j json_lib \<Rightarrow> non_compound_json_value \<Rightarrow> 'j" where
  "non_compound_to_json J (NString s) = jstring J s"
| "non_compound_to_json J (NInt n) = jint J n"
| "non_compound_to_json J (NBool b) = jbool J b"
| "non_compound_to_json J NNull = jnull J"

definition PushCondition_to_json :: "'j json_lib \<Rightarrow> PushCondition \<Rightarrow> 'j" where
  "PushCondition_to_json J c =
     (let obj = jset J (jnull J) ''kind'' (jstring J (cond_kind c));
          obj = jset_if J (cond_key c \<noteq> []) obj ''key'' (jstring J (cond_key c));
          obj = jset_if J (cond_pattern c \<noteq> []) obj ''pattern'' (jstring J (cond_pattern c));
          obj = jset_if J (cond_is c \<noteq> []) obj ''is'' (jstring J (cond_is c));
          obj = jset_if J (cond_rel_type c \<noteq> Rel_Unsupported) obj ''rel_type'' (RelationType_to_json J (cond_rel_type c))
      in jset_opt J (non_compound_to_json J) obj ''value'' (cond_value c))"

definition PushCondition_from_json :: "'j json_lib \<Rightarrow> 'j \<Rightarrow> PushCondition result" where
  "PushCondition_from_json J obj =
     rbind (rbind (jindex J obj ''kind'') (jget_string J)) (\<lambda>kind.
     rbind (jvalue J (jget_string J) obj ''key'' []) (\<lambda>key.
     rbind (jvalue J (jget_string J) obj ''pattern'' []) (\<lambda>pattern.
     rbind (jvalue J (jget_string J) obj ''is'' []) (\<lambda>is_count.
     rbind (jvalue J (RelationType_from_json J) obj ''rel_type'' Rel_Unsupported) (\<lambda>rel.
     rbind (jvalue J (jget_bool J) obj ''include_fallback'' False) (\<lambda>fallback.
     rbind (jopt J (to_non_compound_json_value J) obj ''value'' None) (\<lambda>val.
       Inr \<lparr>cond_kind = kind, cond_key = key, cond_pattern = pattern, cond_value = val, cond_is = is_count,
            cond_rel_type = rel, cond_include_fallback = fallback\<rparr>)))))))"

text \<open>\<open>coalesce\<close> has no case: the value stays null.\<close>

fun Action_to_json :: "'j json_lib \<Rightarrow> Action \<Rightarrow> 'j" where
  "Action_to_json J notify = jstring J ''notify''"
| "Action_to_json J dont_notify = jstring J ''dont_notify''"
| "Action_to_json J (set_tweak_sound v) =
     jset J (jset J (jnull J) ''set_tweak'' (jstring J ''sound'')) ''value'' (jstring J v)"
| "Action_to_json J (set_tweak_highlight v) =
     jset_if J (v = False) (jset J (jnull J) ''set_tweak'' (jstring J ''highlight'')) ''value'' (jbool J False)"
| "Action_to_json J coalesce = jnull J"

text \<open>\<open>action\<close> is the value before: a default-constructed \<open>Action\<close> is \<open>notify\<close>.\<close>

definition jis_string :: "'j json_lib \<Rightarrow> 'j \<Rightarrow> string \<Rightarrow> bool" where
  "jis_string J j s \<longleftrightarrow> jtype_of J j = JString \<and> jget_string J j = Inr s"

definition Action_from_json :: "'j json_lib \<Rightarrow> 'j \<Rightarrow> Action \<Rightarrow> Action result" where
  "Action_from_json J obj action =
     (if jtype_of J obj = JString then
        Inr (if jis_string J obj ''notify'' then notify
             else if jis_string J obj ''dont_notify'' then dont_notify
             else action)
      else if jcontains J obj ''set_tweak'' then
        (if jmember_is J obj ''set_tweak'' ''sound'' then
           rbind (jvalue J (jget_string J) obj ''value'' ''default'') (\<lambda>v. Inr (set_tweak_sound v))
         else if jmember_is J obj ''set_tweak'' ''highlight'' then
           rbind (jvalue J (jget_bool J) obj ''value'' True) (\<lambda>v. Inr (set_tweak_highlight v))
         else Inr action)
      else Inr action)"

definition get_Action :: "'j json_lib \<Rightarrow> 'j \<Rightarrow> Action result" where
  "get_Action J obj = Action_from_json J obj notify"

definition Actions_to_json :: "'j json_lib \<Rightarrow> Action list \<Rightarrow> 'j" where
  "Actions_to_json J acts = jset J (jnull J) ''actions'' (jof_array J (map (Action_to_json J) acts))"

definition Actions_from_json :: "'j json_lib \<Rightarrow> 'j \<Rightarrow> Action list result" where
  "Actions_from_json J obj = rbind (jindex J obj ''actions'') (jget_list J (get_Action J))"

text \<open>\<open>for (x : xs) obj[k].push_back(x)\<close>\<close>

definition jpush_all :: "'j json_lib \<Rightarrow> 'j \<Rightarrow> string \<Rightarrow> 'j list \<Rightarrow> 'j" where
  "jpush_all J obj k xs = foldl (\<lambda>obj x. jset J obj k (jpush J (jmember J obj k) x)) obj xs"

definition PushRule_to_json :: "'j json_lib \<Rightarrow> PushRule \<Rightarrow> 'j" where
  "PushRule_to_json J rule =
     (let obj = jset_if J (rule_default rule) (jnull J) ''default'' (jbool J (rule_default rule));
          obj = jset_if J (\<not> rule_enabled rule) obj ''enabled'' (jbool J (rule_enabled rule));
          obj = jpush_all J obj ''actions'' (map (Action_to_json J) (rule_actions rule));
          obj = jset_if J (rule_id rule \<noteq> []) obj ''rule_id'' (jstring J (rule_id rule));
          obj = jset_if J (rule_pattern rule \<noteq> []) obj ''pattern'' (jstring J (rule_pattern rule))
      in jpush_all J obj ''conditions'' (map (PushCondition_to_json J) (rule_conditions rule)))"

text \<open>\<open>if (obj.contains(k)) for (x : obj[k]) xs.push_back(x.get<T>())\<close>\<close>

definition jeach :: "'j json_lib \<Rightarrow> ('j \<Rightarrow> 'a result) \<Rightarrow> 'j \<Rightarrow> string \<Rightarrow> 'a list result" where
  "jeach J conv obj k = jopt J (\<lambda>v. mapM conv (jiterate J v)) obj k []"

definition PushRule_from_json :: "'j json_lib \<Rightarrow> 'j \<Rightarrow> PushRule result" where
  "PushRule_from_json J obj =
     rbind (jvalue J (jget_string J) obj ''rule_id'' []) (\<lambda>rule_id.
     rbind (jvalue J (jget_bool J) obj ''default'' False) (\<lambda>default.
     rbind (jvalue J (jget_bool J) obj ''enabled'' True) (\<lambda>enabled.
     rbind (jeach J (get_Action J) obj ''actions'') (\<lambda>actions.
     rbind (jvalue J (jget_string J) obj ''pattern'' []) (\<lambda>pattern.
     rbind (jeach J (PushCondition_from_json J) obj ''conditions'') (\<lambda>conditions.
       Inr \<lparr>rule_default = default, rule_enabled = enabled, rule_actions = actions, rule_id = rule_id,
            rule_pattern = pattern, rule_conditions = conditions\<rparr>))))))"

definition rules_to_json :: "'j json_lib \<Rightarrow> PushRule list \<Rightarrow> 'j" where
  "rules_to_json J rules = jof_array J (map (PushRule_to_json J) rules)"

definition Ruleset_to_json :: "'j json_lib \<Rightarrow> Ruleset \<Rightarrow> 'j" where
  "Ruleset_to_json J s =
     (let obj = jset J (jnull J) ''override'' (rules_to_json J (rs_override s));
          obj = jset J obj ''content'' (rules_to_json J (rs_content s));
          obj = jset J obj ''room'' (rules_to_json J (rs_room s));
          obj = jset J obj ''sender'' (rules_to_json J (rs_sender s))
      in jset J obj ''underride'' (rules_to_json J (rs_underride s)))"

definition Ruleset_from_json :: "'j json_lib \<Rightarrow> 'j \<Rightarrow> Ruleset result" where
  "Ruleset_from_json J obj =
     rbind (jeach J (PushRule_from_json J) obj ''override'') (\<lambda>override.
     rbind (jeach J (PushRule_from_json J) obj ''content'') (\<lambda>content.
     rbind (jeach J (PushRule_from_json J) obj ''room'') (\<lambda>room.
     rbind (jeach J (PushRule_from_json J) obj ''sender'') (\<lambda>sender.
     rbind (jeach J (PushRule_from_json J) obj ''underride'') (\<lambda>underride.
       Inr \<lparr>rs_override = override, rs_content = content, rs_room = room, rs_sender = sender,
            rs_underride = underride\<rparr>)))))"

definition GlobalRuleset_to_json :: "'j json_lib \<Rightarrow> Ruleset \<Rightarrow> 'j" where
  "GlobalRuleset_to_json J s = jset J (jnull J) ''global'' (Ruleset_to_json J s)"

definition GlobalRuleset_from_json :: "'j json_lib \<Rightarrow> 'j \<Rightarrow> Ruleset result" where
  "GlobalRuleset_from_json J obj = rbind (jindex J obj ''global'') (Ruleset_from_json J)"

definition Enabled_to_json :: "'j json_lib \<Rightarrow> bool \<Rightarrow> 'j" where
  "Enabled_to_json J enabled = jset J (jnull J) ''enabled'' (jbool J enabled)"

definition Enabled_from_json :: "'j json_lib \<Rightarrow> 'j \<Rightarrow> bool result" where
  "Enabled_from_json J obj = jvalue J (jget_bool J) obj ''enabled'' True"

section \<open>What a rule set becomes when it is written and read\<close>

text \<open>
  Written actions lose \<open>coalesce\<close>, written conditions lose \<open>include_fallback\<close>; all the rest is kept,
  for rules that have an id and integers of 64 bits.
\<close>

definition stored_action :: "Action \<Rightarrow> Action" where
  "stored_action a = (if a = coalesce then notify else a)"

definition stored_condition :: "PushCondition \<Rightarrow> PushCondition" where
  "stored_condition c = c\<lparr>cond_include_fallback := False\<rparr>"

definition stored_rule :: "PushRule \<Rightarrow> PushRule" where
  "stored_rule r = r\<lparr>rule_actions := map stored_action (rule_actions r),
     rule_conditions := map stored_condition (rule_conditions r)\<rparr>"

definition stored_Ruleset :: "Ruleset \<Rightarrow> Ruleset" where
  "stored_Ruleset s = \<lparr>rs_override = map stored_rule (rs_override s), rs_content = map stored_rule (rs_content s),
     rs_room = map stored_rule (rs_room s), rs_sender = map stored_rule (rs_sender s),
     rs_underride = map stored_rule (rs_underride s)\<rparr>"

fun non_compound_ok :: "non_compound_json_value \<Rightarrow> bool" where
  "non_compound_ok (NInt n) \<longleftrightarrow> - (2 ^ 63) \<le> n \<and> n < 2 ^ 63"
| "non_compound_ok _ \<longleftrightarrow> True"

definition condition_ok :: "PushCondition \<Rightarrow> bool" where
  "condition_ok c \<longleftrightarrow> pred_option non_compound_ok (cond_value c)"

definition rule_ok :: "PushRule \<Rightarrow> bool" where
  "rule_ok r \<longleftrightarrow> rule_id r \<noteq> [] \<and> list_all condition_ok (rule_conditions r)"

definition Ruleset_ok :: "Ruleset \<Rightarrow> bool" where
  "Ruleset_ok s \<longleftrightarrow>
     list_all rule_ok (rs_override s @ rs_content s @ rs_room s @ rs_sender s @ rs_underride s)"

context json_library
begin

lemma get_non_compound:
  "non_compound_ok v \<Longrightarrow> to_non_compound_json_value J (non_compound_to_json J v) = Inr (Some v)"
proof (cases v)
  case (NInt n)
  assume "non_compound_ok v"
  then show ?thesis using type_int [of n] by (auto simp: NInt to_non_compound_json_value_def)
qed (simp_all add: to_non_compound_json_value_def)

lemma index_fields:
  "jtype_of J j = JObject \<Longrightarrow> jindex J j k = (case jfields J j k of None \<Rightarrow> Inl Assertion | Some v \<Rightarrow> Inr v)"
  by (simp add: jindex_def contains_fields at_fields split: option.split)

lemma fields_set_opt [simp]:
  "is_object_or_null J j \<Longrightarrow>
   jfields J (jset_opt J f j k x) = (case x of None \<Rightarrow> jfields J j | Some v \<Rightarrow> (jfields J j)(k \<mapsto> f v))"
  by (simp add: jset_opt_def split: option.split)

lemma type_set_opt [simp]: "jtype_of J j = JObject \<Longrightarrow> jtype_of J (jset_opt J f j k x) = JObject"
  by (simp add: jset_opt_def split: option.split)

lemma PushCondition_roundtrip:
  assumes "condition_ok c"
  shows "PushCondition_from_json J (PushCondition_to_json J c) = Inr (stored_condition c)"
proof -
  have "jopt J (to_non_compound_json_value J) (PushCondition_to_json J c) ''value'' None = Inr (cond_value c)"
    using assms by (cases "cond_value c")
      (auto simp: PushCondition_to_json_def condition_ok_def reads get_non_compound Let_def)
  moreover have "RelationType_from_json J (RelationType_to_json J t) = Inr t" for t
    by (cases t) (simp_all add: RelationType_from_json_def RelationType_to_json_def)
  ultimately show ?thesis
    by (simp add: PushCondition_from_json_def stored_condition_def)
      (simp add: PushCondition_to_json_def reads index_fields Let_def split: option.split)
qed

lemma Action_roundtrip: "get_Action J (Action_to_json J a) = Inr (stored_action a)"
proof (cases a)
  case (set_tweak_highlight v)
  then show ?thesis
    by (cases v) (simp_all add: get_Action_def Action_from_json_def stored_action_def contains_fields
        jmember_is_def at_fields reads)
qed (simp_all add: get_Action_def Action_from_json_def stored_action_def jis_string_def contains_fields
        jmember_is_def at_fields reads)

lemma iterate_array [simp]: "jtype_of J j = JArray \<Longrightarrow> jiterate J j = jelems J j"
  by (simp add: jiterate_def)

lemma push_list:
  assumes "is_object_or_null J obj" and "xs \<noteq> []" and "jfields J obj k = None"
  shows "\<exists>v. jtype_of J (jpush_all J obj k xs) = JObject \<and> jtype_of J v = JArray \<and> jelems J v = xs
    \<and> jfields J (jpush_all J obj k xs) = (jfields J obj)(k \<mapsto> v)"
  using assms(2)
proof (induction xs rule: rev_induct)
  case (snoc x xs)
  define pushed where "pushed = jpush_all J obj k xs"
  have step: "jpush_all J obj k (xs @ [x]) = jset J pushed k (jpush J (jmember J pushed k) x)"
    by (simp add: jpush_all_def pushed_def)
  show ?case
  proof (cases "xs = []")
    case True
    then have "pushed = obj" by (simp add: jpush_all_def pushed_def)
    then show ?thesis unfolding step using assms(1,3) True
      by (intro exI [of _ "jpush J (jmember J pushed k) x"]) (simp add: member_fields elems_push_null)
  next
    case False
    with snoc.IH obtain v where "jtype_of J pushed = JObject" "jtype_of J v = JArray" "jelems J v = xs"
      "jfields J pushed = (jfields J obj)(k \<mapsto> v)" unfolding pushed_def by blast
    then show ?thesis unfolding step
      by (intro exI [of _ "jpush J (jmember J pushed k) x"]) (simp add: member_fields is_object_or_null_def elems_push)
  qed
qed simp

lemma push_each:
  assumes "is_object_or_null J obj" and "jfields J obj k = None"
    and "\<And>x. x \<in> set xs \<Longrightarrow> conv (f x) = Inr (h x)"
  shows "is_object_or_null J (jpush_all J obj k (map f xs))"
    and "jtype_of J obj = JObject \<Longrightarrow> jtype_of J (jpush_all J obj k (map f xs)) = JObject"
    and "k' \<noteq> k \<Longrightarrow> jfields J (jpush_all J obj k (map f xs)) k' = jfields J obj k'"
    and "(case jfields J (jpush_all J obj k (map f xs)) k of None \<Rightarrow> Inr [] | Some v \<Rightarrow> mapM conv (jiterate J v))
      = Inr (map h xs)"
proof -
  have "xs = [] \<or> (\<exists>v. jtype_of J (jpush_all J obj k (map f xs)) = JObject \<and> jtype_of J v = JArray
    \<and> jelems J v = map f xs \<and> jfields J (jpush_all J obj k (map f xs)) = (jfields J obj)(k \<mapsto> v))"
    using push_list [OF assms(1) _ assms(2), of "map f xs"] by auto
  moreover have "mapM conv (map f xs) = Inr (map h xs)" using assms(3) by (intro mapM_map)
  ultimately show "is_object_or_null J (jpush_all J obj k (map f xs))"
    and "jtype_of J obj = JObject \<Longrightarrow> jtype_of J (jpush_all J obj k (map f xs)) = JObject"
    and "k' \<noteq> k \<Longrightarrow> jfields J (jpush_all J obj k (map f xs)) k' = jfields J obj k'"
    and "(case jfields J (jpush_all J obj k (map f xs)) k of None \<Rightarrow> Inr [] | Some v \<Rightarrow> mapM conv (jiterate J v))
      = Inr (map h xs)"
    using assms(1,2) by (auto simp: jpush_all_def is_object_or_null_def)
qed

lemma PushRule_roundtrip:
  assumes "rule_ok r"
  shows "PushRule_from_json J (PushRule_to_json J r) = Inr (stored_rule r)"
proof -
  define o1 where "o1 = jset_if J (\<not> rule_enabled r)
    (jset_if J (rule_default r) (jnull J) ''default'' (jbool J (rule_default r))) ''enabled'' (jbool J (rule_enabled r))"
  define o2 where "o2 = jpush_all J o1 ''actions'' (map (Action_to_json J) (rule_actions r))"
  define o3 where "o3 = jset_if J (rule_pattern r \<noteq> []) (jset J o2 ''rule_id'' (jstring J (rule_id r)))
    ''pattern'' (jstring J (rule_pattern r))"
  define o4 where "o4 = jpush_all J o3 ''conditions'' (map (PushCondition_to_json J) (rule_conditions r))"
  have o4: "PushRule_to_json J r = o4"
    using assms by (simp add: PushRule_to_json_def o1_def o2_def o3_def o4_def rule_ok_def jset_if_def)
  have "is_object_or_null J o1" "jfields J o1 ''actions'' = None" by (simp_all add: o1_def)
  note a = push_each [OF this, where f = "Action_to_json J" and conv = "get_Action J" and h = stored_action
      and xs = "rule_actions r", OF Action_roundtrip, folded o2_def]
  have "jtype_of J o3 = JObject" "jfields J o3 ''conditions'' = None"
    using a(1) by (simp_all add: o3_def a(3) o1_def)
  moreover have "PushCondition_from_json J (PushCondition_to_json J c) = Inr (stored_condition c)"
    if "c \<in> set (rule_conditions r)" for c
    using that assms by (intro PushCondition_roundtrip) (auto simp: rule_ok_def list_all_iff)
  ultimately have c: "jtype_of J o4 = JObject" "\<And>k'. k' \<noteq> ''conditions'' \<Longrightarrow> jfields J o4 k' = jfields J o3 k'"
    "(case jfields J o4 ''conditions'' of None \<Rightarrow> Inr [] | Some v \<Rightarrow> mapM (PushCondition_from_json J) (jiterate J v))
      = Inr (map stored_condition (rule_conditions r))"
    using push_each [where obj = o3 and k = "''conditions''" and f = "PushCondition_to_json J"
        and conv = "PushCondition_from_json J" and h = stored_condition and xs = "rule_conditions r", folded o4_def]
    by (simp_all add: is_object_or_null_def)
  have f: "jfields J o4 ''actions'' = jfields J o2 ''actions''" "jfields J o4 ''rule_id'' = Some (jstring J (rule_id r))"
    "jfields J o4 ''pattern'' = (if rule_pattern r \<noteq> [] then Some (jstring J (rule_pattern r)) else None)"
    "jfields J o4 ''default'' = (if rule_default r then Some (jbool J True) else None)"
    "jfields J o4 ''enabled'' = (if rule_enabled r then None else Some (jbool J False))"
    using a(1) a(3) by (simp_all add: c(2) o3_def o1_def)
  show ?thesis
    using c(1,3) a(4) by (simp add: o4 PushRule_from_json_def jeach_def reads f stored_rule_def)
qed

lemma rules_field:
  assumes "jtype_of J obj = JObject" and "jfields J obj k = Some (rules_to_json J rs)" and "list_all rule_ok rs"
  shows "jeach J (PushRule_from_json J) obj k = Inr (map stored_rule rs)"
  using assms mapM_map [of rs "PushRule_from_json J" "PushRule_to_json J" stored_rule]
  by (simp add: jeach_def reads rules_to_json_def elems_array PushRule_roundtrip list_all_iff)

lemma Ruleset_roundtrip:
  assumes "Ruleset_ok s"
  shows "Ruleset_from_json J (Ruleset_to_json J s) = Inr (stored_Ruleset s)"
  using assms rules_field [of "Ruleset_to_json J s"]
  by (simp add: Ruleset_ok_def Ruleset_from_json_def Ruleset_to_json_def stored_Ruleset_def Let_def)

lemma GlobalRuleset_roundtrip:
  assumes "Ruleset_ok s"
  shows "GlobalRuleset_from_json J (GlobalRuleset_to_json J s) = Inr (stored_Ruleset s)"
  using Ruleset_roundtrip [OF assms]
  by (simp add: GlobalRuleset_from_json_def GlobalRuleset_to_json_def index_fields)

lemma Actions_roundtrip: "Actions_from_json J (Actions_to_json J acts) = Inr (map stored_action acts)"
  using mapM_map [of acts "get_Action J" "Action_to_json J" stored_action]
  by (simp add: Actions_from_json_def Actions_to_json_def index_fields jget_list_def elems_array Action_roundtrip)

lemma unknown_action:
  assumes "s \<noteq> ''notify''" and "s \<noteq> ''dont_notify''"
  shows "get_Action J (jstring J s) = Inr notify"
  using assms by (simp add: get_Action_def Action_from_json_def jis_string_def)

end

section \<open>Properties\<close>

text \<open>
  C31. A push rule set survives its JSON form, for rules with an id and 64-bit integers, except that
  the action \<open>coalesce\<close> becomes \<open>notify\<close> and the flag \<open>include_fallback\<close> of a condition is
  dropped; a list of actions does too, and an action string that is neither \<open>notify\<close> nor
  \<open>dont_notify\<close> is read as \<open>notify\<close>.
\<close>

theorem push_rules_read_back:
  assumes "json_library J" and "Ruleset_ok s" and "a \<noteq> ''notify''" and "a \<noteq> ''dont_notify''"
  shows "GlobalRuleset_from_json J (GlobalRuleset_to_json J s) = Inr (stored_Ruleset s)
    \<and> Actions_from_json J (Actions_to_json J acts) = Inr (map stored_action acts)
    \<and> get_Action J (jstring J a) = Inr notify"
  using json_library.GlobalRuleset_roundtrip [OF assms(1,2)] json_library.Actions_roundtrip [OF assms(1)]
    json_library.unknown_action [OF assms(1,3,4)] by simp

definition sample_condition :: PushCondition where
  "sample_condition = \<lparr>cond_kind = ''im.nheko.msc3664.related_event_match'', cond_key = ''sender'',
     cond_pattern = ''@me:x'', cond_value = Some (NInt 7), cond_is = [], cond_rel_type = Rel_InReplyTo,
     cond_include_fallback = True\<rparr>"

definition sample_rule :: PushRule where
  "sample_rule = \<lparr>rule_default = False, rule_enabled = True, rule_actions = [coalesce, set_tweak_highlight True],
     rule_id = ''.reply'', rule_pattern = [], rule_conditions = [sample_condition]\<rparr>"

theorem push_rules_read_back_witness:
  "GlobalRuleset_from_json tree_lib (GlobalRuleset_to_json tree_lib (empty_Ruleset\<lparr>rs_override := [sample_rule]\<rparr>))
     = Inr (empty_Ruleset\<lparr>rs_override := [sample_rule\<lparr>rule_actions := [notify, set_tweak_highlight True],
         rule_conditions := [sample_condition\<lparr>cond_include_fallback := False\<rparr>]\<rparr>]\<rparr>)"
proof -
  have "Ruleset_ok (empty_Ruleset\<lparr>rs_override := [sample_rule]\<rparr>)"
    by (simp add: Ruleset_ok_def empty_Ruleset_def rule_ok_def sample_rule_def condition_ok_def sample_condition_def)
  from push_rules_read_back [OF tree_lib_library this, of "''coalesce''" "[]"] show ?thesis
    by (simp add: stored_Ruleset_def empty_Ruleset_def stored_rule_def stored_action_def sample_rule_def
        stored_condition_def)
qed

end
