(* ===== verification/Push_Eval.thy ===== *)
theory Push_Eval
  imports Push_Rules Power_Levels
begin

text \<open>
  The push rule evaluator of \<open>lib/structs/pushrules.cpp\<close>: events flattened to maps from paths to
  values, rules compiled to lists of conditions, and the evaluation in the order of priority. The
  regular expression library (RE2, which is not part of the sources) is the record \<open>re2_lib\<close>, and
  what the code relies on of it is the locale \<open>re2_library\<close>.
\<close>

section \<open>Regular expressions\<close>

record regex =
  re_source :: string
  re_case_sensitive :: bool

text \<open>\<open>QuoteMeta(s)\<close>, \<open>GlobalReplace(s, re, rewrite)\<close>, \<open>PartialMatch(text, re)\<close>, \<open>FullMatch(text, re)\<close>\<close>

record re2_lib =
  QuoteMeta :: "string \<Rightarrow> string"
  GlobalReplace :: "string \<Rightarrow> string \<Rightarrow> string \<Rightarrow> string"
  PartialMatch :: "string \<Rightarrow> regex \<Rightarrow> bool"
  FullMatch :: "string \<Rightarrow> regex \<Rightarrow> bool"

section \<open>Flattened events\<close>

datatype push_json_value =
    PValue non_compound_json_value
  | PArray "non_compound_json_value list"

type_synonym flat_event = "string \<rightharpoonup> push_json_value"

text \<open>A dot in a key is written with a backslash before it.\<close>

fun escape_key :: "string \<Rightarrow> string" where
  "escape_key [] = []"
| "escape_key (c # s) = (if c = CHR ''.'' then CHR 0x5C # c # escape_key s else c # escape_key s)"

definition mentions_path :: string where
  "mentions_path = ''content.m'' @ [CHR 0x5C] @ ''.mentions''"

text \<open>The elements of an array that are no compound values.\<close>

definition flatten_array :: "'j json_lib \<Rightarrow> 'j list \<Rightarrow> non_compound_json_value list result" where
  "flatten_array J vs =
     rbind (mapM (to_non_compound_json_value J) vs) (\<lambda>xs. Inr (map the (filter (\<lambda>x. x \<noteq> None) xs)))"

definition flatten_scalar :: "'j json_lib \<Rightarrow> 'j \<Rightarrow> flat_event \<Rightarrow> string \<Rightarrow> flat_event result" where
  "flatten_scalar J value result path =
     rbind (to_non_compound_json_value J value) (\<lambda>x.
       Inr (case x of None \<Rightarrow> result | Some v \<Rightarrow> result(path \<mapsto> PValue v)))"

function flatten_impl :: "'j json_lib \<Rightarrow> 'j \<Rightarrow> flat_event \<Rightarrow> string \<Rightarrow> nat \<Rightarrow> flat_event result" where
  "flatten_impl J value result path depth =
     (if depth > 100 then Inr result
      else if jtype_of J value = JObject then
        (let result = (if path = mentions_path then result(path \<mapsto> PValue NNull) else result);
             prefix = (if path = [] then [] else path @ ''.'')
         in foldM (\<lambda>(k, v) result. flatten_impl J v result (prefix @ escape_key k) (depth + 1)) (jitems J value) result)
      else if jtype_of J value = JArray then
        rbind (flatten_array J (jelems J value)) (\<lambda>arr. Inr (result(path \<mapsto> PArray arr)))
      else flatten_scalar J value result path)"
  by pat_completeness auto

termination
  by (relation "measure (\<lambda>(J, value, result, path, depth). 101 - depth)") auto

declare flatten_impl.simps [simp del]

definition flatten_event :: "'j json_lib \<Rightarrow> 'j \<Rightarrow> flat_event result" where
  "flatten_event J j = flatten_impl J j Map.empty [] 0"

section \<open>Compiled rules\<close>

record PatternCondition =
  pc_pattern :: "regex option"
  pc_field :: string

definition PatternCondition_matches :: "re2_lib \<Rightarrow> PatternCondition \<Rightarrow> flat_event \<Rightarrow> bool" where
  "PatternCondition_matches R c ev =
     (case ev (pc_field c) of
        None \<Rightarrow> False
      | Some val \<Rightarrow>
          (case (pc_pattern c, val) of
             (Some pat, PValue (NString s)) \<Rightarrow>
               if pc_field c = ''content.body'' then PartialMatch R s pat else FullMatch R s pat
           | _ \<Rightarrow> True))"

record ValueCondition =
  vc_value :: non_compound_json_value
  vc_field :: string

definition IsCondition_matches :: "ValueCondition \<Rightarrow> flat_event \<Rightarrow> bool" where
  "IsCondition_matches c ev =
     (case ev (vc_field c) of None \<Rightarrow> False | Some v \<Rightarrow> v = PValue (vc_value c))"

definition ContainsCondition_matches :: "ValueCondition \<Rightarrow> flat_event \<Rightarrow> bool" where
  "ContainsCondition_matches c ev =
     (case ev (vc_field c) of Some (PArray arr) \<Rightarrow> vc_value c \<in> set arr | _ \<Rightarrow> False)"

record RelatedEventCondition =
  re_ev_match :: PatternCondition
  re_rel_type :: RelationType
  re_include_fallbacks :: bool

datatype Comp = Eq | Lt | Le | Ge | Gt

record MemberCountCondition =
  mc_count :: nat
  mc_op :: Comp

record OptimizedRule =
  or_patterns :: "PatternCondition list"
  or_is :: "ValueCondition list"
  or_contains :: "ValueCondition list"
  or_no_mentions_field :: bool
  or_related_event_patterns :: "RelatedEventCondition list"
  or_membercounts :: "MemberCountCondition list"
  or_notification_levels :: "string list"
  or_check_displayname :: bool
  or_actions :: "Action list"

definition empty_OptimizedRule :: OptimizedRule where
  "empty_OptimizedRule =
     \<lparr>or_patterns = [], or_is = [], or_contains = [], or_no_mentions_field = False,
      or_related_event_patterns = [], or_membercounts = [], or_notification_levels = [],
      or_check_displayname = False, or_actions = []\<rparr>"

record RoomContext =
  user_display_name :: string
  member_count :: nat
  power_levels :: PowerLevels
  room_create :: Create
  room_create_sender :: string

record RelatedEvents =
  fallbacks :: "flat_event list"
  related :: "flat_event list"

type_synonym related_events = "RelationType \<rightharpoonup> RelatedEvents"

definition member_count_matches :: "MemberCountCondition \<Rightarrow> nat \<Rightarrow> bool" where
  "member_count_matches c n =
     (case mc_op c of
        Eq \<Rightarrow> n = mc_count c
      | Le \<Rightarrow> n \<le> mc_count c
      | Ge \<Rightarrow> n \<ge> mc_count c
      | Lt \<Rightarrow> n < mc_count c
      | Gt \<Rightarrow> n > mc_count c)"

text \<open>\<open>std::get<std::string>\<close> throws when the sender is another value.\<close>

definition levels_match :: "string list \<Rightarrow> flat_event \<Rightarrow> RoomContext \<Rightarrow> bool result" where
  "levels_match levels ev ctx =
     (if levels = [] then Inr True
      else case ev ''sender'' of
        None \<Rightarrow> Inr False
      | Some (PValue (NString sender)) \<Rightarrow>
          (let sender_level = user_level (power_levels ctx) sender (room_create ctx) (room_create_sender ctx)
           in Inr (list_all (\<lambda>n. \<not> sender_level < notification_level (power_levels ctx) n) levels))
      | Some _ \<Rightarrow> Inl Bad_variant_access)"

definition related_event_matches :: "re2_lib \<Rightarrow> RelatedEventCondition \<Rightarrow> related_events \<Rightarrow> bool" where
  "related_event_matches R c rels =
     (let hit = (\<lambda>e. pc_field (re_ev_match c) = [] \<or> pc_pattern (re_ev_match c) = None
                     \<or> PatternCondition_matches R (re_ev_match c) e)
      in case rels (re_rel_type c) of
           None \<Rightarrow> False
         | Some rel_ev \<Rightarrow> list_ex hit (related rel_ev)
                            \<or> (re_include_fallbacks c \<and> list_ex hit (fallbacks rel_ev)))"

definition word_regex :: "string \<Rightarrow> regex" where
  "word_regex pat = \<lparr>re_source = ''('' @ [CHR 0x5C] @ ''W|^)'' @ pat @ ''('' @ [CHR 0x5C] @ ''W|$)'', re_case_sensitive = False\<rparr>"

definition displayname_matches :: "re2_lib \<Rightarrow> flat_event \<Rightarrow> RoomContext \<Rightarrow> bool" where
  "displayname_matches R ev ctx =
     (user_display_name ctx \<noteq> [] \<and>
      (case ev ''content.body'' of
         Some (PValue (NString body)) \<Rightarrow> PartialMatch R body (word_regex (QuoteMeta R (user_display_name ctx)))
       | _ \<Rightarrow> False))"

definition OptimizedRule_matches ::
    "re2_lib \<Rightarrow> OptimizedRule \<Rightarrow> flat_event \<Rightarrow> RoomContext \<Rightarrow> related_events \<Rightarrow> bool result" where
  "OptimizedRule_matches R r ev ctx rels =
     (if or_no_mentions_field r \<and> ev mentions_path \<noteq> None then Inr False
      else if \<not> list_all (\<lambda>c. member_count_matches c (member_count ctx)) (or_membercounts r) then Inr False
      else rbind (levels_match (or_notification_levels r) ev ctx) (\<lambda>levels.
        Inr (levels
          \<and> list_all (\<lambda>c. PatternCondition_matches R c ev) (or_patterns r)
          \<and> list_all (\<lambda>c. IsCondition_matches c ev) (or_is r)
          \<and> list_all (\<lambda>c. ContainsCondition_matches c ev) (or_contains r)
          \<and> list_all (\<lambda>c. related_event_matches R c rels) (or_related_event_patterns r)
          \<and> (or_check_displayname r \<longrightarrow> displayname_matches R ev ctx))))"

section \<open>Compiling rules\<close>

definition construct_re_from_pattern :: "re2_lib \<Rightarrow> string \<Rightarrow> string \<Rightarrow> regex" where
  "construct_re_from_pattern R pat field =
     (let pat = QuoteMeta R pat;
          pat = GlobalReplace R pat [CHR 0x5C, CHR ''*''] ''.*'';
          pat = GlobalReplace R pat [CHR 0x5C, CHR ''?''] ''.''
      in if field = ''content.body'' then word_regex pat
         else \<lparr>re_source = pat, re_case_sensitive = False\<rparr>)"

text \<open>
  \<open>std::from_chars\<close> into a \<open>size_t\<close> that is zero: the digits at the start, and the variable is left
  as it is when there is none or the number does not fit.
\<close>

definition is_digit :: "char \<Rightarrow> bool" where
  "is_digit c \<longleftrightarrow> 48 \<le> (of_char c :: nat) \<and> (of_char c :: nat) \<le> 57"

definition from_chars :: "string \<Rightarrow> nat" where
  "from_chars s =
     (let ds = takeWhile is_digit s
      in if ds \<noteq> [] \<and> dec_value ds < 2 ^ 64 then dec_value ds else 0)"

definition parse_member_count :: "string \<Rightarrow> MemberCountCondition" where
  "parse_member_count s =
     (let (cmp, rest) =
        (if starts_with ''=='' s then (Eq, drop 2 s)
         else if starts_with ''>='' s then (Ge, drop 2 s)
         else if starts_with ''<='' s then (Le, drop 2 s)
         else if starts_with ''<'' s then (Lt, drop 1 s)
         else if starts_with ''>'' s then (Gt, drop 1 s)
         else (Eq, s))
      in \<lparr>mc_count = from_chars rest, mc_op = cmp\<rparr>)"

definition related_condition :: "re2_lib \<Rightarrow> PushCondition \<Rightarrow> RelatedEventCondition" where
  "related_condition R c =
     \<lparr>re_ev_match =
        (if cond_key c \<noteq> [] \<and> cond_pattern c \<noteq> []
         then \<lparr>pc_pattern = Some (construct_re_from_pattern R (cond_pattern c) (cond_key c)), pc_field = cond_key c\<rparr>
         else \<lparr>pc_pattern = None, pc_field = []\<rparr>),
      re_rel_type = cond_rel_type c, re_include_fallbacks = cond_include_fallback c\<rparr>"

text \<open>A condition that the code does not know gives \<open>None\<close>: the rule is skipped.\<close>

definition add_condition :: "re2_lib \<Rightarrow> OptimizedRule \<Rightarrow> PushCondition \<Rightarrow> OptimizedRule option" where
  "add_condition R rule c =
     (if cond_kind c = ''event_match'' then
        Some (rule\<lparr>or_patterns := or_patterns rule
          @ [\<lparr>pc_pattern = Some (construct_re_from_pattern R (cond_pattern c) (cond_key c)), pc_field = cond_key c\<rparr>]\<rparr>)
      else if cond_kind c = ''event_property_is'' \<and> cond_value c \<noteq> None then
        Some (rule\<lparr>or_is := or_is rule @ [\<lparr>vc_value = the (cond_value c), vc_field = cond_key c\<rparr>]\<rparr>)
      else if cond_kind c = ''event_property_contains'' \<and> cond_value c \<noteq> None then
        Some (rule\<lparr>or_contains := or_contains rule @ [\<lparr>vc_value = the (cond_value c), vc_field = cond_key c\<rparr>]\<rparr>)
      else if cond_kind c = ''im.nheko.msc3664.related_event_match'' then
        (if cond_rel_type c \<noteq> Rel_Unsupported then
           Some (rule\<lparr>or_related_event_patterns := or_related_event_patterns rule
             @ [related_condition R c]\<rparr>)
         else None)
      else if cond_kind c = ''contains_display_name'' then Some (rule\<lparr>or_check_displayname := True\<rparr>)
      else if cond_kind c = ''room_member_count'' then
        Some (rule\<lparr>or_membercounts := or_membercounts rule @ [parse_member_count (cond_is c)]\<rparr>)
      else if cond_kind c = ''sender_notification_permission'' then
        Some (rule\<lparr>or_notification_levels := or_notification_levels rule @ [cond_key c]\<rparr>)
      else None)"

fun add_conditions :: "re2_lib \<Rightarrow> OptimizedRule \<Rightarrow> PushCondition list \<Rightarrow> OptimizedRule option" where
  "add_conditions R rule [] = Some rule"
| "add_conditions R rule (c # cs) =
     (case add_condition R rule c of None \<Rightarrow> None | Some rule \<Rightarrow> add_conditions R rule cs)"

definition legacy_mention_rules :: "string list" where
  "legacy_mention_rules = [''.m.rule.contains_display_name'', ''.m.rule.roomnotif'', ''.m.rule.contains_user_name'']"

definition add_conditions_to_rule ::
    "re2_lib \<Rightarrow> bool \<Rightarrow> OptimizedRule \<Rightarrow> PushCondition list \<Rightarrow> string \<Rightarrow> OptimizedRule option" where
  "add_conditions_to_rule R server_supports_mentions rule conditions rid =
     (let rule = (if server_supports_mentions \<and> rid \<in> set legacy_mention_rules
                  then rule\<lparr>or_no_mentions_field := True\<rparr> else rule)
      in add_conditions R rule conditions)"

record OptimizedRules =
  o_override :: "OptimizedRule list"
  o_room :: "string \<rightharpoonup> OptimizedRule"
  o_sender :: "string \<rightharpoonup> OptimizedRule"
  o_content :: "OptimizedRule list"
  o_underride :: "OptimizedRule list"

definition compile_rules :: "re2_lib \<Rightarrow> bool \<Rightarrow> PushRule list \<Rightarrow> OptimizedRule list" where
  "compile_rules R mentions rules =
     List.map_filter (\<lambda>r. if \<not> rule_enabled r then None
       else add_conditions_to_rule R mentions (empty_OptimizedRule\<lparr>or_actions := rule_actions r\<rparr>)
              (rule_conditions r) (rule_id r)) rules"

definition compile_keyed :: "string \<Rightarrow> PushRule list \<Rightarrow> (string \<rightharpoonup> OptimizedRule)" where
  "compile_keyed sigil rules =
     foldl (\<lambda>m r. if \<not> rule_enabled r then m
       else if \<not> starts_with sigil (rule_id r) then m
       else m(rule_id r \<mapsto> empty_OptimizedRule\<lparr>or_actions := rule_actions r\<rparr>)) Map.empty rules"

definition content_condition :: "string \<Rightarrow> PushCondition" where
  "content_condition pat =
     \<lparr>cond_kind = ''event_match'', cond_key = ''content.body'', cond_pattern = pat, cond_value = None,
      cond_is = [], cond_rel_type = Rel_Unsupported, cond_include_fallback = False\<rparr>"

definition compile_content :: "re2_lib \<Rightarrow> bool \<Rightarrow> PushRule list \<Rightarrow> OptimizedRule list" where
  "compile_content R mentions rules =
     List.map_filter (\<lambda>r. if \<not> rule_enabled r then None
       else if rule_pattern r = [] then None
       else add_conditions_to_rule R mentions (empty_OptimizedRule\<lparr>or_actions := rule_actions r\<rparr>)
              [content_condition (rule_pattern r)] (rule_id r)) rules"

definition PushRuleEvaluator :: "re2_lib \<Rightarrow> Ruleset \<Rightarrow> OptimizedRules" where
  "PushRuleEvaluator R rules =
     (let server_supports_mentions = list_ex (\<lambda>r. rule_id r = ''.m.rule.is_user_mention'') (rs_override rules)
      in \<lparr>o_override = compile_rules R server_supports_mentions (rs_override rules),
          o_room = compile_keyed ''!'' (rs_room rules),
          o_sender = compile_keyed ''@'' (rs_sender rules),
          o_content = compile_content R server_supports_mentions (rs_content rules),
          o_underride = compile_rules R server_supports_mentions (rs_underride rules)\<rparr>)"

section \<open>Evaluation\<close>

text \<open>The first rule of a list that matches.\<close>

fun first_match :: "(OptimizedRule \<Rightarrow> bool result) \<Rightarrow> OptimizedRule list \<Rightarrow> OptimizedRule option result" where
  "first_match f [] = Inr None"
| "first_match f (r # rs) = rbind (f r) (\<lambda>b. if b then Inr (Some r) else first_match f rs)"

definition add_related :: "'j json_lib \<Rightarrow> Relation \<times> 'j \<Rightarrow> related_events \<Rightarrow> related_events result" where
  "add_related J p rels =
     (case p of (rel, ev) \<Rightarrow>
        if rel_type rel = Rel_Unsupported then Inr rels
        else rbind (flatten_event J ev) (\<lambda>flat.
          let old = (case rels (rel_type rel) of None \<Rightarrow> \<lparr>fallbacks = [], related = []\<rparr> | Some e \<Rightarrow> e)
          in Inr (rels(rel_type rel \<mapsto>
               (if is_fallback rel then old\<lparr>fallbacks := fallbacks old @ [flat]\<rparr>
                else old\<lparr>related := related old @ [flat]\<rparr>)))))"

text \<open>The event and the related events are given by their JSON form.\<close>

definition push_evaluate ::
    "'j json_lib \<Rightarrow> re2_lib \<Rightarrow> OptimizedRules \<Rightarrow> 'j \<Rightarrow> RoomContext \<Rightarrow> (Relation \<times> 'j) list \<Rightarrow> Action list result" where
  "push_evaluate J R rules event_json ctx relatedEvents =
     rbind (flatten_event J event_json) (\<lambda>flat.
     rbind (foldM (add_related J) relatedEvents Map.empty) (\<lambda>rels.
     let first = first_match (\<lambda>r. OptimizedRule_matches R r flat ctx rels)
     in rbind (first (o_override rules)) (\<lambda>hit. case hit of Some r \<Rightarrow> Inr (or_actions r) | None \<Rightarrow>
        rbind (first (o_content rules)) (\<lambda>hit. case hit of Some r \<Rightarrow> Inr (or_actions r) | None \<Rightarrow>
        rbind (jvalue J (jget_string J) event_json ''room_id'' []) (\<lambda>room_id.
        case o_room rules room_id of Some r \<Rightarrow> Inr (or_actions r) | None \<Rightarrow>
        rbind (jvalue J (jget_string J) event_json ''sender'' []) (\<lambda>sender.
        case o_sender rules sender of Some r \<Rightarrow> Inr (or_actions r) | None \<Rightarrow>
        rbind (first (o_underride rules)) (\<lambda>hit. case hit of Some r \<Rightarrow> Inr (or_actions r) | None \<Rightarrow> Inr [])))))))"

end
