(* ===== verification/Push_Flatten.thy ===== *)
theory Push_Flatten
  imports Push_Eval
begin

text \<open>
  Flattened events: the map that \<open>flatten_event\<close> builds holds exactly the values of an event, each
  under its dotted path, for events whose keys are not empty and have no backslash. With a backslash
  in a key two paths may be the same.
\<close>

section \<open>Paths\<close>

fun path_ext :: "string \<Rightarrow> string list \<Rightarrow> string" where
  "path_ext p [] = p"
| "path_ext p (k # ks) = path_ext ((if p = [] then [] else p @ ''.'') @ escape_key k) ks"

fun at_path :: "'j json_lib \<Rightarrow> 'j \<Rightarrow> string list \<Rightarrow> 'j option" where
  "at_path J j [] = Some j"
| "at_path J j (k # ks) = (case jfields J j k of None \<Rightarrow> None | Some v \<Rightarrow> at_path J v ks)"

definition scalar :: "'j json_lib \<Rightarrow> 'j \<Rightarrow> non_compound_json_value option" where
  "scalar J v = (case to_non_compound_json_value J v of Inr x \<Rightarrow> x | Inl _ \<Rightarrow> None)"

text \<open>
  What an event holds at a path: nothing for an object, but null for the object of mentions; the
  elements of an array that are no compound values; a string, an integer, a truth value or null.
\<close>

definition leaf :: "'j json_lib \<Rightarrow> string \<Rightarrow> 'j \<Rightarrow> push_json_value option" where
  "leaf J path w =
     (if jtype_of J w = JObject then if path = mentions_path then Some (PValue NNull) else None
      else if jtype_of J w = JArray then Some (PArray (map the (filter (\<lambda>x. x \<noteq> None) (map (scalar J) (jelems J w)))))
      else map_option PValue (scalar J w))"

text \<open>The keys of the first \<open>n\<close> levels are not empty and have no backslash.\<close>

definition key_ok :: "string \<Rightarrow> bool" where
  "key_ok k \<longleftrightarrow> k \<noteq> [] \<and> CHR 0x5C \<notin> set k"

fun keys_ok :: "'j json_lib \<Rightarrow> nat \<Rightarrow> 'j \<Rightarrow> bool" where
  "keys_ok J 0 j \<longleftrightarrow> True"
| "keys_ok J (Suc n) j \<longleftrightarrow> jtype_of J j = JObject \<longrightarrow> list_all (\<lambda>(k, v). key_ok k \<and> keys_ok J n v) (jitems J j)"

definition entry :: "'j json_lib \<Rightarrow> nat \<Rightarrow> 'j \<Rightarrow> string \<Rightarrow> string list \<Rightarrow> push_json_value option" where
  "entry J d j p ks =
     (if d + length ks \<le> 100 then Option.bind (at_path J j ks) (leaf J (path_ext p ks)) else None)"

text \<open>What a map holds after a run: every entry below, and elsewhere what it held before.\<close>

definition holds_entries :: "'j json_lib \<Rightarrow> nat \<Rightarrow> 'j \<Rightarrow> string \<Rightarrow> flat_event \<Rightarrow> flat_event \<Rightarrow> bool" where
  "holds_entries J d j p r m \<longleftrightarrow>
     (\<forall>ks x. entry J d j p ks = Some x \<longrightarrow> m (path_ext p ks) = Some x)
     \<and> (\<forall>q. (\<forall>ks. entry J d j p ks \<noteq> None \<longrightarrow> q \<noteq> path_ext p ks) \<longrightarrow> m q = r q)"

lemma path_ext_append: "p \<noteq> [] \<Longrightarrow> path_ext p ks = p @ concat (map (\<lambda>k. ''.'' @ escape_key k) ks)"
  by (induction ks arbitrary: p) auto

lemma escape_key_Nil [simp]: "escape_key k = [] \<longleftrightarrow> k = []"
  by (cases k) auto

lemma escape_key_inj:
  assumes "escape_key k @ t = escape_key k' @ t'" and "CHR 0x5C \<notin> set k" and "CHR 0x5C \<notin> set k'"
    and "t = [] \<or> hd t = CHR ''.''" and "t' = [] \<or> hd t' = CHR ''.''"
  shows "k = k'"
  using assms
proof (induction k arbitrary: k')
  case Nil
  then show ?case by (cases k') (auto split: if_splits)
next
  case (Cons c k)
  then show ?case by (cases k') (auto split: if_splits)
qed

lemma path_ext_inj:
  assumes "key_ok k" and "key_ok k'" and "path_ext (pre @ escape_key k) ks = path_ext (pre @ escape_key k') ks'"
  shows "k = k'"
proof -
  define t where "t ks = concat (map (\<lambda>k. ''.'' @ escape_key k) ks)" for ks
  have tail: "t ks = [] \<or> hd (t ks) = CHR ''.''" for ks by (cases ks) (simp_all add: t_def)
  have "escape_key k @ t ks = escape_key k' @ t ks'"
    using assms by (simp add: path_ext_append key_ok_def t_def)
  from escape_key_inj [OF this _ _ tail tail] show ?thesis using assms(1,2) by (simp add: key_ok_def)
qed

lemma path_ext_longer: "key_ok k \<Longrightarrow> path_ext ((if p = [] then [] else p @ ''.'') @ escape_key k) ks \<noteq> p"
  by (auto simp: path_ext_append key_ok_def)

context json_library
begin

lemma scalar_total: "to_non_compound_json_value J v = Inr (scalar J v)"
proof -
  have "\<exists>x. to_non_compound_json_value J v = Inr x"
    using get_string_ok [of v] get_bool_ok [of v] get_int64_ok [of v]
    by (auto simp: to_non_compound_json_value_def split: jtype.split)
  then show ?thesis by (auto simp: scalar_def)
qed

text \<open>A value that is no object adds its leaf and nothing else.\<close>

lemma flatten_leaf:
  assumes "jtype_of J j \<noteq> JObject" and "d \<le> 100"
  shows "flatten_impl J j r p d = Inr (case leaf J p j of None \<Rightarrow> r | Some x \<Rightarrow> r(p \<mapsto> x))"
proof -
  have "mapM (to_non_compound_json_value J) vs = Inr (map (scalar J) vs)" for vs
    by (intro mapM_eq scalar_total)
  then show ?thesis using assms
    by (cases "scalar J j") (simp_all add: flatten_impl.simps [of J j r p d] flatten_array_def flatten_scalar_def scalar_total leaf_def)
qed

lemma at_path_leaf: "jtype_of J j \<noteq> JObject \<Longrightarrow> at_path J j ks = (if ks = [] then Some j else None)"
  by (cases ks) (simp_all add: jfields_def)

lemma flatten_items:
  assumes "distinct (map fst its)" and "\<forall>(k, v) \<in> set its. key_ok k"
    and step: "\<And>k v r. (k, v) \<in> set its \<Longrightarrow> \<exists>m. f (k, v) r = Inr m \<and> holds_entries J d v (pre @ escape_key k) r m"
  shows "\<exists>m. foldM f its r = Inr m
    \<and> (\<forall>(k, v) \<in> set its. \<forall>ks x. entry J d v (pre @ escape_key k) ks = Some x \<longrightarrow> m (path_ext (pre @ escape_key k) ks) = Some x)
    \<and> (\<forall>q. (\<forall>(k, v) \<in> set its. \<forall>ks. entry J d v (pre @ escape_key k) ks \<noteq> None
           \<longrightarrow> q \<noteq> path_ext (pre @ escape_key k) ks) \<longrightarrow> m q = r q)"
  using assms
proof (induction its arbitrary: r)
  case (Cons p its)
  obtain k v where p: "p = (k, v)" by (cases p)
  obtain m1 where m1: "f (k, v) r = Inr m1" and h: "holds_entries J d v (pre @ escape_key k) r m1"
    using Cons.prems(3) [of k v r] by (auto simp: p)
  obtain m where m: "foldM f its m1 = Inr m"
    and e: "\<forall>(k, v) \<in> set its. \<forall>ks x. entry J d v (pre @ escape_key k) ks = Some x \<longrightarrow> m (path_ext (pre @ escape_key k) ks) = Some x"
    and o': "\<forall>q. (\<forall>(k, v) \<in> set its. \<forall>ks. entry J d v (pre @ escape_key k) ks \<noteq> None
        \<longrightarrow> q \<noteq> path_ext (pre @ escape_key k) ks) \<longrightarrow> m q = m1 q"
    using Cons.IH [of m1] Cons.prems by auto
  have fresh: "m (path_ext (pre @ escape_key k) ks) = m1 (path_ext (pre @ escape_key k) ks)" for ks
  proof -
    have "k' \<noteq> k \<and> key_ok k'" if "(k', v') \<in> set its" for k' v'
      using that Cons.prems(1,2) by (force simp: p)
    then have "\<forall>(k', v') \<in> set its. \<forall>ks'. path_ext (pre @ escape_key k) ks \<noteq> path_ext (pre @ escape_key k') ks'"
      using Cons.prems(2) path_ext_inj by (fastforce simp: p)
    with o' show ?thesis by blast
  qed
  show ?case
    using m1 m e o' h fresh by (auto simp: p holds_entries_def)
qed simp

lemma entry_Nil: "d \<le> 100 \<Longrightarrow> entry J d j p [] = leaf J p j"
  by (simp add: entry_def)

lemma entry_Cons:
  "entry J d j p (k # ks) =
     (case jfields J j k of None \<Rightarrow> None | Some v \<Rightarrow> entry J (Suc d) v ((if p = [] then [] else p @ ''.'') @ escape_key k) ks)"
  by (simp add: entry_def split: option.split)

lemma holds_leaf:
  assumes "jtype_of J j \<noteq> JObject" and "d \<le> 100"
  shows "holds_entries J d j p r (case leaf J p j of None \<Rightarrow> r | Some x \<Rightarrow> r(p \<mapsto> x))"
proof -
  have "entry J d j p ks = (if ks = [] then leaf J p j else None)" for ks
    using assms by (cases ks) (simp_all add: entry_Nil entry_Cons jfields_def)
  then show ?thesis by (auto simp: holds_entries_def split: option.split if_splits)
qed

lemma holds_object:
  assumes "jtype_of J j = JObject" and "d \<le> 100" and "\<forall>(k, v) \<in> set (jitems J j). key_ok k"
    and pre: "pre = (if p = [] then [] else p @ ''.'')" and r': "r' = (if p = mentions_path then r(p \<mapsto> PValue NNull) else r)"
    and e: "\<forall>(k, v) \<in> set (jitems J j). \<forall>ks x. entry J (Suc d) v (pre @ escape_key k) ks = Some x
        \<longrightarrow> m (path_ext (pre @ escape_key k) ks) = Some x"
    and o': "\<forall>q. (\<forall>(k, v) \<in> set (jitems J j). \<forall>ks. entry J (Suc d) v (pre @ escape_key k) ks \<noteq> None
        \<longrightarrow> q \<noteq> path_ext (pre @ escape_key k) ks) \<longrightarrow> m q = r' q"
  shows "holds_entries J d j p r m"
  unfolding holds_entries_def
proof (intro conjI allI impI)
  have item: "(k, v) \<in> set (jitems J j) \<longleftrightarrow> jfields J j k = Some v" for k v
    using assms(1) smap_ok_distinct [OF items_sorted] by (simp add: jfields_def)
  have "p \<noteq> path_ext (pre @ escape_key k) ks" if "(k, v) \<in> set (jitems J j)" for k v ks
    using that assms(3) path_ext_longer [of k p ks] unfolding pre by fastforce
  then have mp: "m p = r' p" using o' by blast
  fix ks x assume x: "entry J d j p ks = Some x"
  show "m (path_ext p ks) = Some x"
  proof (cases ks)
    case Nil
    then show ?thesis using x mp assms(1,2) by (auto simp: entry_Nil leaf_def r' split: if_splits)
  next
    case (Cons k ks')
    then obtain v where "jfields J j k = Some v" and v: "entry J (Suc d) v (pre @ escape_key k) ks' = Some x"
      using x by (auto simp: entry_Cons pre split: option.splits)
    then have "(k, v) \<in> set (jitems J j)" by (simp add: item)
    with e v have "m (path_ext (pre @ escape_key k) ks') = Some x" by blast
    then show ?thesis by (simp add: Cons pre)
  qed
next
  fix q assume q: "\<forall>ks. entry J d j p ks \<noteq> None \<longrightarrow> q \<noteq> path_ext p ks"
  have item: "jfields J j k = Some v" if "(k, v) \<in> set (jitems J j)" for k v
    using that assms(1) smap_ok_distinct [OF items_sorted] by (simp add: jfields_def)
  have "q \<noteq> path_ext (pre @ escape_key k) ks"
    if "(k, v) \<in> set (jitems J j)" "entry J (Suc d) v (pre @ escape_key k) ks \<noteq> None" for k v ks
    using q [rule_format, of "k # ks"] that item [OF that(1)] by (simp add: entry_Cons pre)
  then have "m q = r' q" using o' by blast
  moreover have "r' q = r q"
    using q [rule_format, of "[]"] assms(1,2) by (auto simp: r' entry_Nil leaf_def)
  ultimately show "m q = r q" by simp
qed

lemma flatten_holds:
  assumes "keys_ok J (101 - d) j"
  shows "\<exists>m. flatten_impl J j r p d = Inr m \<and> holds_entries J d j p r m"
  using assms
proof (induction "101 - d" arbitrary: d j r p)
  case 0
  then show ?case by (auto simp: flatten_impl.simps [of J j r p d] holds_entries_def entry_def)
next
  case (Suc n)
  then have d: "d \<le> 100" and n: "n = 101 - Suc d" "101 - d = Suc n" by simp_all
  show ?case
  proof (cases "jtype_of J j = JObject")
    case False
    then show ?thesis using d by (simp add: flatten_leaf holds_leaf)
  next
    case True
    define pre where "pre = (if p = [] then [] else p @ ''.'')"
    define r' where "r' = (if p = mentions_path then r(p \<mapsto> PValue NNull) else r)"
    define f where "f = (\<lambda>(k, v) r. flatten_impl J v r (pre @ escape_key k) (Suc d))"
    have keys: "\<forall>(k, v) \<in> set (jitems J j). key_ok k \<and> keys_ok J n v"
      using Suc.prems True by (simp add: n(2) list_all_iff)
    have run: "flatten_impl J j r p d = foldM f (jitems J j) r'"
      using True d by (simp add: flatten_impl.simps [of J j r p d] f_def pre_def r'_def Let_def)
    have step: "\<exists>m. f (k, v) s = Inr m \<and> holds_entries J (Suc d) v (pre @ escape_key k) s m"
      if "(k, v) \<in> set (jitems J j)" for k v s
      using that keys Suc.hyps(1) [OF n(1), of v s "pre @ escape_key k"] by (auto simp: f_def n(1))
    have ok: "\<forall>(k, v) \<in> set (jitems J j). key_ok k" using keys by blast
    from flatten_items [OF smap_ok_distinct [OF items_sorted] ok step, of r'] show ?thesis
      unfolding run using holds_object [OF True d ok pre_def r'_def] by blast
  qed
qed

lemma flatten_event_holds:
  assumes "keys_ok J 101 e"
  shows "\<exists>m. flatten_event J e = Inr m \<and> holds_entries J 0 e [] Map.empty m"
  unfolding flatten_event_def using flatten_holds [of 0 e Map.empty "[]"] assms by simp

lemma flatten_event_field:
  assumes "keys_ok J 101 e" and "flatten_event J e = Inr m" and "jfields J e k = Some (jstring J s)"
  shows "m (escape_key k) = Some (PValue (NString s))"
proof -
  have "entry J 0 e [] [k] = Some (PValue (NString s))"
    using assms(3) by (simp add: entry_def leaf_def scalar_def to_non_compound_json_value_def)
  then show ?thesis using flatten_event_holds [OF assms(1)] assms(2) unfolding holds_entries_def by fastforce
qed

end

section \<open>Properties\<close>

text \<open>
  C15. Flattening is total and exact: for an event whose keys are not empty and have no backslash,
  down to depth 100, the flattened event holds the value at every path of at most 100 keys under the
  dotted path with escaped dots, and it holds nothing else.
\<close>

theorem flatten_event_correct:
  assumes "json_library J" and "keys_ok J 101 e"
  shows "\<exists>m. flatten_event J e = Inr m
    \<and> (\<forall>q x. m q = Some x \<longleftrightarrow>
         (\<exists>ks w. length ks \<le> 100 \<and> q = path_ext [] ks \<and> at_path J e ks = Some w \<and> leaf J q w = Some x))"
proof -
  obtain m where m: "flatten_event J e = Inr m" and "holds_entries J 0 e [] Map.empty m"
    using json_library.flatten_event_holds [OF assms] by blast
  then have at_entry: "\<And>ks x. entry J 0 e [] ks = Some x \<Longrightarrow> m (path_ext [] ks) = Some x"
    and elsewhere: "\<forall>q. (\<forall>ks. entry J 0 e [] ks \<noteq> None \<longrightarrow> q \<noteq> path_ext [] ks) \<longrightarrow> m q = None"
    by (simp_all add: holds_entries_def)
  have "\<exists>ks. q = path_ext [] ks \<and> entry J 0 e [] ks = Some x" if x: "m q = Some x" for q x
  proof (rule ccontr)
    assume none: "\<not> ?thesis"
    have "entry J 0 e [] ks = None" if "q = path_ext [] ks" for ks
      using that none x at_entry [of ks] by (cases "entry J 0 e [] ks") auto
    with elsewhere x show False by fastforce
  qed
  with at_entry have "m q = Some x \<longleftrightarrow> (\<exists>ks. q = path_ext [] ks \<and> entry J 0 e [] ks = Some x)" for q x
    by blast
  then show ?thesis using m by (auto simp: entry_def bind_eq_Some_conv split: if_splits)
qed

lemma keys_ok_numeral:
  "keys_ok J (numeral n) j \<longleftrightarrow>
     jtype_of J j = JObject \<longrightarrow> list_all (\<lambda>(k, v). key_ok k \<and> keys_ok J (pred_numeral n) v) (jitems J j)"
  by (simp add: numeral_eq_Suc)

definition sample_event :: json where
  "sample_event = Obj [(''content'', Obj [(''m.mentions'', Obj [(''user_ids'', Arr [Str ''@a:x'', Obj []])])]), (''sender'', Str ''@b:x'')]"

theorem flatten_event_correct_witness:
  "\<exists>m. flatten_event tree_lib sample_event = Inr m
    \<and> m ''sender'' = Some (PValue (NString ''@b:x''))
    \<and> m (mentions_path @ ''.user_ids'') = Some (PArray [NString ''@a:x''])"
proof -
  have "keys_ok tree_lib 101 sample_event"
    by (simp add: keys_ok_numeral sample_event_def key_ok_def smap_ok_def tree_sel)
  from flatten_event_correct [OF tree_lib_library this] obtain m where m: "flatten_event tree_lib sample_event = Inr m"
    and iff: "\<And>q x. m q = Some x \<longleftrightarrow> (\<exists>ks w. length ks \<le> 100 \<and> q = path_ext [] ks
      \<and> at_path tree_lib sample_event ks = Some w \<and> leaf tree_lib q w = Some x)"
    by (elim exE conjE) simp
  have "m ''sender'' = Some (PValue (NString ''@b:x''))"
    unfolding iff by (intro exI [of _ "[''sender'']"] exI [of _ "Str ''@b:x''"])
      (simp add: sample_event_def leaf_def scalar_def to_non_compound_json_value_def jfields_def tree_sel smap_ok_def)
  moreover have "m (mentions_path @ ''.user_ids'') = Some (PArray [NString ''@a:x''])"
    unfolding iff
    by (intro exI [of _ "[''content'', ''m.mentions'', ''user_ids'']"] exI [of _ "Arr [Str ''@a:x'', Obj []]"])
      (simp add: sample_event_def leaf_def scalar_def to_non_compound_json_value_def jfields_def tree_sel smap_ok_def mentions_path_def)
  ultimately show ?thesis using m by blast
qed

text \<open>
  Without the condition on the keys two values may share a path: a backslash in a key is not
  escaped, so the value of \<open>{"a\\": {"b": 1}}\<close> is overwritten by that of \<open>{"a.b": 2}\<close> or the reverse,
  in the order of the keys.
\<close>

theorem flatten_collision:
  "path_ext [] [[CHR ''a'', CHR 0x5C], ''b''] = path_ext [] [''a.b'']
   \<and> (\<exists>m. flatten_event tree_lib (Obj [(''a.b'', Num 2), ([CHR ''a'', CHR 0x5C], Obj [(''b'', Num 1)])]) = Inr m
        \<and> m ([CHR ''a'', CHR 0x5C, CHR ''.'', CHR ''b'']) = Some (PValue (NInt 1)))"
  (is "_ \<and> (\<exists>m. flatten_event tree_lib (Obj ?ab) = _ \<and> _)")
proof -
  have obj: "flatten_impl tree_lib (Obj m) r p d =
      foldM (\<lambda>(k, v) r. flatten_impl tree_lib v r ((if p = [] then [] else p @ ''.'') @ escape_key k) (Suc d)) (to_smap m) r"
    and num: "flatten_impl tree_lib (Num n) r p d = Inr (r(p \<mapsto> PValue (NInt n)))"
    if "d \<le> 100" "p \<noteq> mentions_path" for d p m n r
    using that by (simp_all add: flatten_impl.simps [of tree_lib _ r p d] flatten_scalar_def to_non_compound_json_value_def tree_sel)
  have items: "to_smap ?ab = ?ab" "to_smap [(''b'', Num 1)] = [(''b'', Num 1)]"
    by (simp_all add: to_smap_def less_char_def)
  have "flatten_event tree_lib (Obj ?ab) = Inr [[CHR ''a'', CHR 0x5C, CHR ''.'', CHR ''b''] \<mapsto> PValue (NInt 1)]"
    unfolding flatten_event_def by (simp add: obj num items mentions_path_def)
  then show ?thesis by simp
qed

end
