(* ===== verification/Push_Props.thy ===== *)
theory Push_Props
  imports Push_Flatten
begin

text \<open>
  What the push rule evaluator computes. The reference is stated on the rules as they were received:
  the first enabled rule of the highest kind whose conditions are all known and all hold decides. The
  compiled evaluator computes the same actions.
\<close>

section \<open>The reference evaluation\<close>

definition condition_known :: "PushCondition \<Rightarrow> bool" where
  "condition_known c \<longleftrightarrow>
     cond_kind c \<in> {''event_match'', ''contains_display_name'', ''room_member_count'', ''sender_notification_permission''}
     \<or> cond_kind c \<in> {''event_property_is'', ''event_property_contains''} \<and> cond_value c \<noteq> None
     \<or> cond_kind c = ''im.nheko.msc3664.related_event_match'' \<and> cond_rel_type c \<noteq> Rel_Unsupported"

text \<open>A pattern holds of a field that is there and, if it is text, matches.\<close>

definition pattern_holds :: "re2_lib \<Rightarrow> string \<Rightarrow> string \<Rightarrow> flat_event \<Rightarrow> bool" where
  "pattern_holds R pat field ev =
     (case ev field of
        None \<Rightarrow> False
      | Some (PValue (NString s)) \<Rightarrow>
          (if field = ''content.body'' then PartialMatch R s (construct_re_from_pattern R pat field)
           else FullMatch R s (construct_re_from_pattern R pat field))
      | Some _ \<Rightarrow> True)"

definition array_contains :: "non_compound_json_value \<Rightarrow> string \<Rightarrow> flat_event \<Rightarrow> bool" where
  "array_contains v field ev = (case ev field of Some (PArray arr) \<Rightarrow> v \<in> set arr | _ \<Rightarrow> False)"

definition sender_may_notify :: "string \<Rightarrow> flat_event \<Rightarrow> RoomContext \<Rightarrow> bool" where
  "sender_may_notify key ev ctx =
     (case ev ''sender'' of
        Some (PValue (NString s)) \<Rightarrow>
          notification_level (power_levels ctx) key
            \<le> user_level (power_levels ctx) s (room_create ctx) (room_create_sender ctx)
      | _ \<Rightarrow> False)"

definition some_related :: "re2_lib \<Rightarrow> PushCondition \<Rightarrow> related_events \<Rightarrow> bool" where
  "some_related R c rels =
     (case rels (cond_rel_type c) of
        None \<Rightarrow> False
      | Some e \<Rightarrow> \<exists>ev \<in> set (related e) \<union> (if cond_include_fallback c then set (fallbacks e) else {}).
                   cond_key c = [] \<or> cond_pattern c = [] \<or> pattern_holds R (cond_pattern c) (cond_key c) ev)"

definition condition_holds ::
    "re2_lib \<Rightarrow> flat_event \<Rightarrow> RoomContext \<Rightarrow> related_events \<Rightarrow> PushCondition \<Rightarrow> bool" where
  "condition_holds R ev ctx rels c =
     (if cond_kind c = ''event_match'' then pattern_holds R (cond_pattern c) (cond_key c) ev
      else if cond_kind c = ''event_property_is'' then ev (cond_key c) = map_option PValue (cond_value c)
      else if cond_kind c = ''event_property_contains'' then
        array_contains (the (cond_value c)) (cond_key c) ev
      else if cond_kind c = ''im.nheko.msc3664.related_event_match'' then some_related R c rels
      else if cond_kind c = ''contains_display_name'' then displayname_matches R ev ctx
      else if cond_kind c = ''room_member_count'' then
        member_count_matches (parse_member_count (cond_is c)) (member_count ctx)
      else sender_may_notify (cond_key c) ev ctx)"

text \<open>
  On a server that knows mentions the old mention rules are off for events with an \<open>m.mentions\<close>
  object.
\<close>

definition mention_rule_off :: "bool \<Rightarrow> string \<Rightarrow> flat_event \<Rightarrow> bool" where
  "mention_rule_off mentions rid ev \<longleftrightarrow> mentions \<and> rid \<in> set legacy_mention_rules \<and> ev mentions_path \<noteq> None"

definition rule_applies ::
    "re2_lib \<Rightarrow> bool \<Rightarrow> flat_event \<Rightarrow> RoomContext \<Rightarrow> related_events \<Rightarrow> PushCondition list \<Rightarrow> PushRule \<Rightarrow> bool" where
  "rule_applies R mentions ev ctx rels conds r \<longleftrightarrow>
     rule_enabled r \<and> list_all condition_known conds \<and> list_all (condition_holds R ev ctx rels) conds
     \<and> \<not> mention_rule_off mentions (rule_id r) ev"

definition reference_actions ::
    "re2_lib \<Rightarrow> Ruleset \<Rightarrow> flat_event \<Rightarrow> string \<Rightarrow> string \<Rightarrow> RoomContext \<Rightarrow> related_events \<Rightarrow> Action list" where
  "reference_actions R rs ev room sender ctx rels =
     (let mentions = (\<exists>r \<in> set (rs_override rs). rule_id r = ''.m.rule.is_user_mention'');
          applies = (\<lambda>r. rule_applies R mentions ev ctx rels (rule_conditions r) r);
          content = (\<lambda>r. rule_pattern r \<noteq> [] \<and> rule_applies R mentions ev ctx rels [content_condition (rule_pattern r)] r);
          keyed = (\<lambda>sigil key r. rule_enabled r \<and> rule_id r = key \<and> starts_with sigil key);
          candidates = filter applies (rs_override rs) @ filter content (rs_content rs)
            @ take 1 (filter (keyed ''!'' room) (rev (rs_room rs)))
            @ take 1 (filter (keyed ''@'' sender) (rev (rs_sender rs)))
            @ filter applies (rs_underride rs)
      in case candidates of [] \<Rightarrow> [] | r # _ \<Rightarrow> rule_actions r)"

section \<open>Compiled conditions\<close>

definition sender_text :: "flat_event \<Rightarrow> bool" where
  "sender_text ev \<longleftrightarrow> (case ev ''sender'' of None \<Rightarrow> True | Some (PValue (NString _)) \<Rightarrow> True | Some _ \<Rightarrow> False)"

definition or_holds :: "re2_lib \<Rightarrow> OptimizedRule \<Rightarrow> flat_event \<Rightarrow> RoomContext \<Rightarrow> related_events \<Rightarrow> bool" where
  "or_holds R r ev ctx rels \<longleftrightarrow>
     \<not> (or_no_mentions_field r \<and> ev mentions_path \<noteq> None)
     \<and> list_all (\<lambda>c. member_count_matches c (member_count ctx)) (or_membercounts r)
     \<and> list_all (\<lambda>n. sender_may_notify n ev ctx) (or_notification_levels r)
     \<and> list_all (\<lambda>c. PatternCondition_matches R c ev) (or_patterns r)
     \<and> list_all (\<lambda>c. IsCondition_matches c ev) (or_is r)
     \<and> list_all (\<lambda>c. ContainsCondition_matches c ev) (or_contains r)
     \<and> list_all (\<lambda>c. related_event_matches R c rels) (or_related_event_patterns r)
     \<and> (or_check_displayname r \<longrightarrow> displayname_matches R ev ctx)"

lemma levels_match_iff:
  "sender_text ev \<Longrightarrow> levels_match levels ev ctx = Inr (list_all (\<lambda>n. sender_may_notify n ev ctx) levels)"
  by (cases levels) (auto simp: levels_match_def sender_text_def sender_may_notify_def not_less Let_def list_all_iff
      split: option.splits push_json_value.splits non_compound_json_value.splits)

lemma matches_iff: "sender_text ev \<Longrightarrow> OptimizedRule_matches R r ev ctx rels = Inr (or_holds R r ev ctx rels)"
  by (auto simp: OptimizedRule_matches_def or_holds_def levels_match_iff)

lemma pattern_compiled:
  "PatternCondition_matches R \<lparr>pc_pattern = Some (construct_re_from_pattern R pat field), pc_field = field\<rparr> ev
    \<longleftrightarrow> pattern_holds R pat field ev"
  by (auto simp: PatternCondition_matches_def pattern_holds_def
      split: option.splits push_json_value.splits non_compound_json_value.splits)

lemma related_compiled: "related_event_matches R (related_condition R c) rels \<longleftrightarrow> some_related R c rels"
  by (auto simp: related_event_matches_def related_condition_def some_related_def pattern_compiled list_ex_iff Let_def
      split: option.split)

lemma add_condition_None: "add_condition R rule c = None \<longleftrightarrow> \<not> condition_known c"
  by (auto simp: add_condition_def condition_known_def)

lemma add_condition_holds:
  assumes "add_condition R rule c = Some rule'"
  shows "or_holds R rule' ev ctx rels \<longleftrightarrow> or_holds R rule ev ctx rels \<and> condition_holds R ev ctx rels c"
    and "or_actions rule' = or_actions rule"
proof -
  have val: "IsCondition_matches \<lparr>vc_value = v, vc_field = k\<rparr> ev \<longleftrightarrow> ev k = Some (PValue v)" for v k
    by (auto simp: IsCondition_matches_def split: option.split)
  have con: "ContainsCondition_matches \<lparr>vc_value = v, vc_field = k\<rparr> ev \<longleftrightarrow> array_contains v k ev" for v k
    by (simp add: ContainsCondition_matches_def array_contains_def split: option.split push_json_value.split)
  show "or_holds R rule' ev ctx rels \<longleftrightarrow> or_holds R rule ev ctx rels \<and> condition_holds R ev ctx rels c"
    using assms unfolding add_condition_def
    by (auto split: if_splits)
       (simp_all add: or_holds_def condition_holds_def pattern_compiled val con related_compiled)
  show "or_actions rule' = or_actions rule"
    using assms by (auto simp: add_condition_def split: if_splits)
qed

lemma add_conditions_holds:
  "case add_conditions R rule cs of
     None \<Rightarrow> \<not> list_all condition_known cs
   | Some rule' \<Rightarrow> list_all condition_known cs \<and> or_actions rule' = or_actions rule
       \<and> (or_holds R rule' ev ctx rels \<longleftrightarrow> or_holds R rule ev ctx rels \<and> list_all (condition_holds R ev ctx rels) cs)"
proof (induction cs arbitrary: rule)
  case (Cons c cs)
  show ?case
  proof (cases "add_condition R rule c")
    case None
    then have "\<not> condition_known c" by (simp add: add_condition_None)
    then show ?thesis by (simp add: None)
  next
    case (Some rule1)
    then have "condition_known c" using add_condition_None [of R rule c] by simp
    then show ?thesis using Cons.IH [of rule1] add_condition_holds [OF Some]
      by (auto simp: Some split: option.splits)
  qed
qed simp

section \<open>Compiled rule sets\<close>

text \<open>What it means that a compiled list of rules stands for a list of received rules.\<close>

definition compiles_to ::
    "re2_lib \<Rightarrow> flat_event \<Rightarrow> RoomContext \<Rightarrow> related_events \<Rightarrow> (PushRule \<Rightarrow> bool) \<Rightarrow> PushRule list \<Rightarrow> OptimizedRule list \<Rightarrow> bool" where
  "compiles_to R ev ctx rels applies rs os \<longleftrightarrow>
     map rule_actions (filter applies rs) = map or_actions (filter (\<lambda>r. or_holds R r ev ctx rels) os)"

lemma add_conditions_to_rule_holds:
  "case add_conditions_to_rule R mentions (empty_OptimizedRule\<lparr>or_actions := acts\<rparr>) cs rid of
     None \<Rightarrow> \<not> list_all condition_known cs
   | Some r \<Rightarrow> list_all condition_known cs \<and> or_actions r = acts
       \<and> (or_holds R r ev ctx rels \<longleftrightarrow> list_all (condition_holds R ev ctx rels) cs \<and> \<not> mention_rule_off mentions rid ev)"
proof -
  define r0 where "r0 = (if mentions \<and> rid \<in> set legacy_mention_rules
    then empty_OptimizedRule\<lparr>or_actions := acts, or_no_mentions_field := True\<rparr> else empty_OptimizedRule\<lparr>or_actions := acts\<rparr>)"
  have "or_holds R r0 ev ctx rels \<longleftrightarrow> \<not> mention_rule_off mentions rid ev" "or_actions r0 = acts"
    by (auto simp: r0_def or_holds_def empty_OptimizedRule_def mention_rule_off_def)
  moreover have "add_conditions_to_rule R mentions (empty_OptimizedRule\<lparr>or_actions := acts\<rparr>) cs rid = add_conditions R r0 cs"
    by (simp add: add_conditions_to_rule_def r0_def)
  ultimately show ?thesis
    using add_conditions_holds [where R = R and rule = r0 and cs = cs and ev = ev and ctx = ctx and rels = rels] by (auto split: option.splits)
qed

lemma compile_rules_correct:
  "compiles_to R ev ctx rels (\<lambda>r. rule_applies R mentions ev ctx rels (rule_conditions r) r) rs (compile_rules R mentions rs)"
proof (induction rs)
  case (Cons r rs)
  then show ?case
    using add_conditions_to_rule_holds [where R = R and mentions = mentions and acts = "rule_actions r" and cs = "rule_conditions r"
        and rid = "rule_id r" and ev = ev and ctx = ctx and rels = rels]
    by (auto simp: compiles_to_def compile_rules_def rule_applies_def map_filter_simps split: option.splits)
qed (simp add: compiles_to_def compile_rules_def map_filter_simps)

lemma compile_content_correct:
  "compiles_to R ev ctx rels
     (\<lambda>r. rule_pattern r \<noteq> [] \<and> rule_applies R mentions ev ctx rels [content_condition (rule_pattern r)] r)
     rs (compile_content R mentions rs)"
proof (induction rs)
  case (Cons r rs)
  then show ?case
    using add_conditions_to_rule_holds [where R = R and mentions = mentions and acts = "rule_actions r" and cs = "[content_condition (rule_pattern r)]"
        and rid = "rule_id r" and ev = ev and ctx = ctx and rels = rels]
    by (auto simp: compiles_to_def compile_content_def rule_applies_def map_filter_simps split: option.splits)
qed (simp add: compiles_to_def compile_content_def map_filter_simps)

lemma compile_keyed_correct:
  "map_option or_actions (compile_keyed sigil rs key)
   = (case filter (\<lambda>r. rule_enabled r \<and> rule_id r = key \<and> starts_with sigil key) (rev rs) of
        [] \<Rightarrow> None | r # _ \<Rightarrow> Some (rule_actions r))"
  by (induction rs rule: rev_induct) (auto simp: compile_keyed_def empty_OptimizedRule_def split: list.split)

lemma first_match_filter:
  assumes "sender_text ev"
  shows "first_match (\<lambda>r. OptimizedRule_matches R r ev ctx rels) os
    = Inr (case filter (\<lambda>r. or_holds R r ev ctx rels) os of [] \<Rightarrow> None | r # _ \<Rightarrow> Some r)"
  by (induction os) (auto simp: matches_iff [OF assms])

context json_library
begin

lemma add_related_total:
  assumes "\<forall>(rel, ev) \<in> set evs. rel_type rel \<noteq> Rel_Unsupported \<longrightarrow> keys_ok J 101 ev"
  shows "\<exists>rels'. foldM (add_related J) evs rels = Inr rels'"
  using assms
proof (induction evs arbitrary: rels)
  case (Cons p evs)
  obtain rel ev where p: "p = (rel, ev)" by (cases p)
  have "\<exists>r. add_related J p rels = Inr r"
    using Cons.prems flatten_event_holds [of ev] by (auto simp: p add_related_def Let_def)
  then show ?case using Cons by auto
qed simp

lemma evaluate_reference:
  assumes "keys_ok J 101 e" and "jtype_of J e = JObject"
    and "jfields J e ''room_id'' = Some (jstring J room)" and "jfields J e ''sender'' = Some (jstring J sender)"
    and "flatten_event J e = Inr ev" and "foldM (add_related J) evs Map.empty = Inr rels"
  shows "push_evaluate J R (PushRuleEvaluator R rs) e ctx evs = Inr (reference_actions R rs ev room sender ctx rels)"
proof -
  define mentions where "mentions = list_ex (\<lambda>r. rule_id r = ''.m.rule.is_user_mention'') (rs_override rs)"
  have "ev ''sender'' = Some (PValue (NString sender))"
    using flatten_event_field [OF assms(1,5,4)] by simp
  then have "sender_text ev" by (simp add: sender_text_def)
  note first = first_match_filter [OF this, where R = R and ctx = ctx and rels = rels]
  have acts: "(case filter P rs @ rest of [] \<Rightarrow> [] | r # _ \<Rightarrow> rule_actions r)
      = (case filter Q os of [] \<Rightarrow> (case rest of [] \<Rightarrow> [] | r # _ \<Rightarrow> rule_actions r) | r # _ \<Rightarrow> or_actions r)"
    if "map rule_actions (filter P rs) = map or_actions (filter Q os)" for P Q rs os rest
    using that by (cases "filter P rs"; cases "filter Q os") auto
  have last: "(case filter P rs of [] \<Rightarrow> [] | r # _ \<Rightarrow> rule_actions r) = (case filter Q os of [] \<Rightarrow> [] | r # _ \<Rightarrow> or_actions r)"
    if "map rule_actions (filter P rs) = map or_actions (filter Q os)" for P Q rs os
    using that by (cases "filter P rs"; cases "filter Q os") auto
  have keyed: "(case take 1 (filter P (rev rs)) @ rest of [] \<Rightarrow> [] | r # _ \<Rightarrow> rule_actions r)
      = (case m of None \<Rightarrow> (case rest of [] \<Rightarrow> [] | r # _ \<Rightarrow> rule_actions r) | Some r \<Rightarrow> or_actions r)"
    if "map_option or_actions m = (case filter P (rev rs) of [] \<Rightarrow> None | r # _ \<Rightarrow> Some (rule_actions r))" for P rs m rest
    using that by (cases "filter P (rev rs)"; cases m) auto
  note lists = compile_rules_correct [where R = R and ev = ev and ctx = ctx and rels = rels, unfolded compiles_to_def]
    compile_content_correct [where R = R and ev = ev and ctx = ctx and rels = rels, unfolded compiles_to_def]
  have "reference_actions R rs ev room sender ctx rels =
    (case filter (\<lambda>r. or_holds R r ev ctx rels) (compile_rules R mentions (rs_override rs)) of r # _ \<Rightarrow> or_actions r | [] \<Rightarrow>
     case filter (\<lambda>r. or_holds R r ev ctx rels) (compile_content R mentions (rs_content rs)) of r # _ \<Rightarrow> or_actions r | [] \<Rightarrow>
     case compile_keyed ''!'' (rs_room rs) room of Some r \<Rightarrow> or_actions r | None \<Rightarrow>
     case compile_keyed ''@'' (rs_sender rs) sender of Some r \<Rightarrow> or_actions r | None \<Rightarrow>
     case filter (\<lambda>r. or_holds R r ev ctx rels) (compile_rules R mentions (rs_underride rs)) of r # _ \<Rightarrow> or_actions r | [] \<Rightarrow> [])"
    unfolding reference_actions_def Let_def list_ex_iff [symmetric] mentions_def [symmetric]
      acts [OF lists(1)] acts [OF lists(2)] keyed [OF compile_keyed_correct]
      last [OF lists(1)]
    by simp
  then show ?thesis
    using assms(2-6) by (simp add: push_evaluate_def PushRuleEvaluator_def mentions_def first reads Let_def split: list.split option.split)
qed

end

section \<open>Patterns\<close>

text \<open>
  The documented behaviour of RE2 that patterns rely on: quoting puts a backslash before every
  character that is no letter, digit, underscore or part of a multibyte character; a replacement
  of the expressions for a literal star and question mark replaces those characters; and a quoted
  string matches the string itself.
\<close>

definition re_word_char :: "char \<Rightarrow> bool" where
  "re_word_char c \<longleftrightarrow> c \<in> {CHR ''a''..CHR ''z''} \<or> c \<in> {CHR ''A''..CHR ''Z''} \<or> c \<in> {CHR ''0''..CHR ''9''}
     \<or> c = CHR ''_'' \<or> 128 \<le> (of_char c :: nat)"

definition quote_char :: "char \<Rightarrow> string" where
  "quote_char c = (if re_word_char c then [c] else if c = CHR 0x00 then [CHR 0x5C] @ ''x00'' else [CHR 0x5C, c])"

definition subst_char :: "char \<Rightarrow> string \<Rightarrow> string \<Rightarrow> string" where
  "subst_char d w s = concat (map (\<lambda>c. if c = d then w else [c]) s)"

locale re2_library =
  fixes R :: re2_lib
  assumes quote: "QuoteMeta R s = concat (map quote_char s)"
    and replace_star: "GlobalReplace R s [CHR 0x5C, CHR ''*''] w = subst_char (CHR ''*'') w s"
    and replace_quest: "GlobalReplace R s [CHR 0x5C, CHR ''?''] w = subst_char (CHR ''?'') w s"
    and quoted_matches: "FullMatch R s \<lparr>re_source = QuoteMeta R s, re_case_sensitive = cs\<rparr>"

definition glob_char :: "char \<Rightarrow> string" where
  "glob_char c = (if c = CHR ''*'' then [CHR 0x5C] @ ''.*'' else if c = CHR ''?'' then [CHR 0x5C] @ ''.'' else quote_char c)"

lemma subst_char_concat: "subst_char d w (concat (map f s)) = concat (map (\<lambda>c. subst_char d w (f c)) s)"
  by (induction s) (simp_all add: subst_char_def)

lemma glob_char_subst:
  "subst_char (CHR ''?'') ''.'' (subst_char (CHR ''*'') ''.*'' (quote_char c)) = glob_char c"
  by (auto simp: subst_char_def glob_char_def quote_char_def re_word_char_def)

context re2_library
begin

lemma pattern_source:
  assumes "field \<noteq> ''content.body''"
  shows "construct_re_from_pattern R pat field = \<lparr>re_source = concat (map glob_char pat), re_case_sensitive = False\<rparr>"
  using assms by (simp add: construct_re_from_pattern_def Let_def quote replace_star replace_quest subst_char_concat glob_char_subst)

lemma body_source: "construct_re_from_pattern R pat ''content.body'' = word_regex (concat (map glob_char pat))"
  by (simp add: construct_re_from_pattern_def Let_def quote replace_star replace_quest subst_char_concat glob_char_subst)

lemma plain_pattern:
  assumes "CHR ''*'' \<notin> set pat" and "CHR ''?'' \<notin> set pat"
  shows "concat (map glob_char pat) = QuoteMeta R pat"
  using assms unfolding quote by (intro arg_cong [where f = concat] map_cong) (auto simp: glob_char_def)

lemma plain_pattern_matches:
  assumes "CHR ''*'' \<notin> set pat" and "CHR ''?'' \<notin> set pat" and "field \<noteq> ''content.body''"
    and "ev field = Some (PValue (NString pat))"
  shows "pattern_holds R pat field ev"
  using assms quoted_matches [of pat] by (simp add: pattern_holds_def pattern_source plain_pattern)

end

text \<open>A library that knows quoted strings only.\<close>

definition literal_re2 :: re2_lib where
  "literal_re2 =
     \<lparr>QuoteMeta = (\<lambda>s. concat (map quote_char s)),
      GlobalReplace = (\<lambda>s re w. subst_char (last re) w s),
      PartialMatch = (\<lambda>s re. re_source re = re_source (word_regex (concat (map quote_char s)))),
      FullMatch = (\<lambda>s re. re_source re = concat (map quote_char s))\<rparr>"

interpretation literal: re2_library literal_re2
  by unfold_locales (simp_all add: literal_re2_def)

lemma literal_re2_library: "re2_library literal_re2"
  by (rule literal.re2_library_axioms)

section \<open>Member counts\<close>

lemma from_chars_dec:
  "from_chars (dec_string n) = (if n < 2 ^ 64 then n else 0)"
proof -
  have "takeWhile is_digit (dec_string n) = dec_string n"
    using dec_string_digits [of n] by (simp add: takeWhile_eq_all_conv is_digit_def)
  then show ?thesis unfolding from_chars_def Let_def by (simp only: dec_value_string) simp
qed

lemma dec_string_no_prefix:
  "\<not> starts_with [c] (dec_string n)" "\<not> starts_with (c # s) (dec_string n)" if "c \<in> {CHR ''='', CHR ''<'', CHR ''>''}"
  using that dec_string_digits [of n] by (cases "dec_string n"; force simp: starts_with_def)+

section \<open>Properties\<close>

text \<open>
  C1. The evaluator computes the reference: for an event with a room id and a sender, whose keys can
  be flattened faithfully, and any related events and rules, the compiled rules give the actions of
  the first enabled rule, in the order override, content, room, sender, underride, whose conditions
  are all known and hold; no rule gives no action. Rules for rooms and senders apply to the id they
  name, the last one of several.
\<close>

theorem push_evaluate_correct:
  assumes "json_library J" and "keys_ok J 101 e" and "jtype_of J e = JObject"
    and "jfields J e ''room_id'' = Some (jstring J room)" and "jfields J e ''sender'' = Some (jstring J sender)"
    and "\<forall>(rel, ev) \<in> set evs. rel_type rel \<noteq> Rel_Unsupported \<longrightarrow> keys_ok J 101 ev"
  shows "\<exists>ev rels. flatten_event J e = Inr ev \<and> foldM (add_related J) evs Map.empty = Inr rels
    \<and> push_evaluate J R (PushRuleEvaluator R rs) e ctx evs = Inr (reference_actions R rs ev room sender ctx rels)"
proof -
  obtain ev where "flatten_event J e = Inr ev"
    using json_library.flatten_event_holds [OF assms(1,2)] by blast
  moreover obtain rels where "foldM (add_related J) evs Map.empty = Inr rels"
    using json_library.add_related_total [OF assms(1,6)] by blast
  ultimately show ?thesis
    using json_library.evaluate_reference [OF assms(1-5)] by blast
qed

definition sample_message :: json where
  "sample_message = Obj [(''content'', Obj [(''body'', Str ''hi'')]), (''room_id'', Str ''!r:x''), (''sender'', Str ''@b:x'')]"

definition sample_rules :: Ruleset where
  "sample_rules = empty_Ruleset
     \<lparr>rs_override := [sample_rule, sample_rule\<lparr>rule_enabled := False, rule_conditions := [], rule_actions := [dont_notify]\<rparr>],
      rs_room := [sample_rule\<lparr>rule_id := ''!r:x'', rule_actions := [set_tweak_sound ''ping'']\<rparr>],
      rs_sender := [sample_rule\<lparr>rule_id := ''@b:x'', rule_actions := [dont_notify]\<rparr>]\<rparr>"

theorem push_evaluate_correct_witness:
  "\<forall>ctx. push_evaluate tree_lib literal_re2 (PushRuleEvaluator literal_re2 sample_rules) sample_message ctx []
     = Inr [set_tweak_sound ''ping'']"
proof
  fix ctx
  have "keys_ok tree_lib 101 sample_message"
    by (simp add: keys_ok_numeral sample_message_def key_ok_def smap_ok_def tree_sel)
  moreover have "jtype_of tree_lib sample_message = JObject" "jfields tree_lib sample_message ''room_id'' = Some (jstring tree_lib ''!r:x'')"
    "jfields tree_lib sample_message ''sender'' = Some (jstring tree_lib ''@b:x'')"
    by (simp_all add: sample_message_def jfields_def tree_sel smap_ok_def)
  ultimately obtain ev where "push_evaluate tree_lib literal_re2 (PushRuleEvaluator literal_re2 sample_rules) sample_message ctx []
      = Inr (reference_actions literal_re2 sample_rules ev ''!r:x'' ''@b:x'' ctx Map.empty)"
    using push_evaluate_correct [OF tree_lib_library, of sample_message "''!r:x''" "''@b:x''" "[]" literal_re2 sample_rules ctx]
    by auto
  moreover have "reference_actions literal_re2 sample_rules ev ''!r:x'' ''@b:x'' ctx Map.empty = [set_tweak_sound ''ping'']"
    by (simp add: reference_actions_def sample_rules_def empty_Ruleset_def sample_rule_def sample_condition_def
        rule_applies_def condition_holds_def some_related_def starts_with_def)
  ultimately show "push_evaluate tree_lib literal_re2 (PushRuleEvaluator literal_re2 sample_rules) sample_message ctx []
     = Inr [set_tweak_sound ''ping'']" by simp
qed



text \<open>
  C33. A member count condition compares with the number it names: with \<open>==\<close> or no operator for
  equality and the four orderings; a number of more than 64 bits is read as zero.
\<close>

theorem member_count_condition:
  assumes "n < 2 ^ 64" and "k \<ge> 2 ^ 64"
  shows "(member_count_matches (parse_member_count (dec_string n)) m \<longleftrightarrow> m = n)
    \<and> (member_count_matches (parse_member_count (''=='' @ dec_string n)) m \<longleftrightarrow> m = n)
    \<and> (member_count_matches (parse_member_count (''<'' @ dec_string n)) m \<longleftrightarrow> m < n)
    \<and> (member_count_matches (parse_member_count (''<='' @ dec_string n)) m \<longleftrightarrow> m \<le> n)
    \<and> (member_count_matches (parse_member_count (''>'' @ dec_string n)) m \<longleftrightarrow> m > n)
    \<and> (member_count_matches (parse_member_count (''>='' @ dec_string n)) m \<longleftrightarrow> m \<ge> n)
    \<and> (member_count_matches (parse_member_count (dec_string k)) m \<longleftrightarrow> m = 0)"
proof -
  have no: "\<not> starts_with (c # s) (dec_string i)" if "c \<in> {CHR ''='', CHR ''<'', CHR ''>''}" for c s i
    using that by (rule dec_string_no_prefix(2))
  show ?thesis
    using assms by (simp add: parse_member_count_def member_count_matches_def from_chars_dec no starts_with_simps)
qed

theorem member_count_condition_witness:
  "member_count_matches (parse_member_count (''>='' @ dec_string 3)) 5"
  using member_count_condition [of 3 "2 ^ 64" 5] by simp

end
