(* ===== verification/Crypto_Utils.thy ===== *)
theory Crypto_Utils
  imports Base64 Base58 Crypto_Json
begin

unbundle bit_operations_syntax

text \<open>
  The cryptographic helpers of \<open>lib/crypto/utils.cpp\<close>: encrypted files, the secret storage with its
  passphrases and recovery keys, and the key file format. The primitives of OpenSSL, which is not part
  of the sources, are the record \<open>openssl\<close>; what the code relies on of them is the locale
  \<open>openssl_library\<close>.
\<close>

section \<open>OpenSSL\<close>

text \<open>
  \<open>rand n\<close> is one call of \<open>RAND_bytes\<close> (\<open>None\<close>: it failed and left the buffer), and \<open>entropy\<close> are the
  calls of one operation. \<open>aes_ctr key iv\<close> is the cipher AES-256 in counter mode, \<open>hkdf_derive\<close> the
  output of \<open>EVP_PKEY_derive\<close> for a buffer of 64 bytes; the other fields of the derivation say whether
  a call succeeds. \<open>pbkdf2\<close> is \<open>PKCS5_PBKDF2_HMAC\<close> with SHA-512, \<open>sha256_digest\<close> the digest when all
  calls succeed.
\<close>

type_synonym rand = "nat \<Rightarrow> BinaryBuf option"
type_synonym entropy = "nat \<Rightarrow> rand"

record openssl =
  aes_ctr :: "BinaryBuf \<Rightarrow> BinaryBuf \<Rightarrow> BinaryBuf \<Rightarrow> BinaryBuf"
  hkdf_init :: bool
  hkdf_set_md :: bool
  hkdf_set_salt :: "BinaryBuf \<Rightarrow> bool"
  hkdf_set_key :: "BinaryBuf \<Rightarrow> bool"
  hkdf_add_info :: "BinaryBuf \<Rightarrow> bool"
  hkdf_derive :: "BinaryBuf \<Rightarrow> BinaryBuf \<Rightarrow> BinaryBuf \<Rightarrow> BinaryBuf option"
  hmac_sha256 :: "BinaryBuf \<Rightarrow> BinaryBuf \<Rightarrow> BinaryBuf"
  sha256_digest :: "string \<Rightarrow> string option"
  pbkdf2_sha512 :: "string \<Rightarrow> BinaryBuf \<Rightarrow> nat \<Rightarrow> nat \<Rightarrow> BinaryBuf option"

section \<open>Buffers\<close>

definition to_binary_buf :: "string \<Rightarrow> BinaryBuf" where
  "to_binary_buf s = map byte_of_char s"

definition buf_to_string :: "BinaryBuf \<Rightarrow> string" where
  "buf_to_string b = map char_of_byte b"

text \<open>The result of \<open>RAND_bytes\<close> is not looked at: a failure leaves zeros.\<close>

definition create_buffer :: "rand \<Rightarrow> nat \<Rightarrow> BinaryBuf" where
  "create_buffer r nbytes =
     (case r nbytes of None \<Rightarrow> replicate nbytes 0 | Some b \<Rightarrow> take nbytes (b @ replicate nbytes 0))"

text \<open>Bit 63 of the vector, counted from the end, is the highest bit of byte 8.\<close>

definition iv_mask :: byte where
  "iv_mask = NOT (push_bit 7 1)"

definition compatible_iv :: "BinaryBuf \<Rightarrow> BinaryBuf result" where
  "compatible_iv iv = (if 8 < length iv then Inr (iv[8 := iv ! 8 AND iv_mask]) else Inl Assertion)"

section \<open>Primitives\<close>

text \<open>
  The cipher reads 32 bytes of the key and 16 of the initialisation vector from the buffers it is
  given, and its length is an \<open>int\<close>: outside of that the access is out of bounds. The output buffer
  is overwritten and cut to the length of the text.
\<close>

definition AES_CTR_256_Encrypt :: "openssl \<Rightarrow> string \<Rightarrow> BinaryBuf \<Rightarrow> BinaryBuf \<Rightarrow> BinaryBuf result" where
  "AES_CTR_256_Encrypt L plaintext key iv =
     (if length key < 32 \<or> length iv < 16 \<or> 2 ^ 31 \<le> length plaintext then Inl Assertion
      else Inr (aes_ctr L (take 32 key) (take 16 iv) (to_binary_buf plaintext)))"

definition AES_CTR_256_Decrypt :: "openssl \<Rightarrow> string \<Rightarrow> BinaryBuf \<Rightarrow> BinaryBuf \<Rightarrow> BinaryBuf result" where
  "AES_CTR_256_Decrypt L ciphertext key iv =
     (if length key < 32 \<or> length iv < 16 \<or> 2 ^ 31 \<le> length ciphertext then Inl Assertion
      else Inr (aes_ctr L (take 32 key) (take 16 iv) (to_binary_buf ciphertext)))"

record HkdfKeys =
  hk_aes :: BinaryBuf
  hk_mac :: BinaryBuf

definition HKDF_SHA256 :: "openssl \<Rightarrow> BinaryBuf \<Rightarrow> BinaryBuf \<Rightarrow> BinaryBuf \<Rightarrow> HkdfKeys result" where
  "HKDF_SHA256 L key salt info =
     (if \<not> hkdf_init L then Inl (Runtime_error ''HKDF: failed derive init'')
      else if \<not> hkdf_set_md L then Inl (Runtime_error ''HKDF: failed to set digest'')
      else if \<not> hkdf_set_salt L salt then Inl (Runtime_error ''HKDF: failed to set salt'')
      else if \<not> hkdf_set_key L key then Inl (Runtime_error ''HKDF: failed to set key'')
      else if \<not> hkdf_add_info L info then Inl (Runtime_error ''HKDF: failed to set info'')
      else case hkdf_derive L key salt info of
        None \<Rightarrow> Inl (Runtime_error ''HKDF: failed derive'')
      | Some buf \<Rightarrow>
          if length buf \<noteq> 64 then Inl (Runtime_error ''Invalid HKDF size!'')
          else Inr \<lparr>hk_aes = take 32 buf, hk_mac = drop 32 buf\<rparr>)"

definition HMAC_SHA256 :: "openssl \<Rightarrow> BinaryBuf \<Rightarrow> BinaryBuf \<Rightarrow> BinaryBuf" where
  "HMAC_SHA256 L hmacKey data = hmac_sha256 L hmacKey data"

definition sha256 :: "openssl \<Rightarrow> string \<Rightarrow> string result" where
  "sha256 L data =
     (case sha256_digest L data of None \<Rightarrow> Inl (Runtime_error ''sha256 failed!'') | Some h \<Rightarrow> Inr h)"

text \<open>The result of the derivation is not looked at either.\<close>

definition PBKDF2_HMAC_SHA_512 :: "openssl \<Rightarrow> string \<Rightarrow> BinaryBuf \<Rightarrow> nat \<Rightarrow> nat \<Rightarrow> BinaryBuf" where
  "PBKDF2_HMAC_SHA_512 L pass salt iterations keylen =
     (case pbkdf2_sha512 L pass salt iterations keylen of None \<Rightarrow> replicate keylen 0 | Some out \<Rightarrow> out)"

section \<open>Encrypted files\<close>

definition decrypt_file :: "openssl \<Rightarrow> string \<Rightarrow> EncryptedFile \<Rightarrow> BinaryBuf result" where
  "decrypt_file L ciphertext info =
     (if ef_v info \<noteq> ''v2'' then Inl (Invalid_argument ''Unsupported encrypted file version'')
      else if jwk_kty (ef_key info) \<noteq> ''oct'' then Inl (Invalid_argument ''Unsupported key type'')
      else if jwk_alg (ef_key info) \<noteq> ''A256CTR'' then Inl (Invalid_argument ''Unsupported algorithm'')
      else rbind (sha256 L ciphertext) (\<lambda>digest.
        case map_of (ef_hashes info) ''sha256'' of
          None \<Rightarrow> Inl (Out_of_range ''map::at'')
        | Some hash \<Rightarrow>
            if bin2base64_unpadded digest \<noteq> hash then
              Inl (Invalid_argument (''sha256 of encrypted file does not match the ciphertext, expected '' @ [CHR 39]
                @ bin2base64_unpadded digest @ [CHR 39] @ '', got '' @ [CHR 39] @ hash @ [CHR 39]))
            else AES_CTR_256_Decrypt L ciphertext (to_binary_buf (base642bin_urlsafe_unpadded (jwk_k (ef_key info))))
                   (to_binary_buf (base642bin_unpadded (ef_iv info)))))"

text \<open>The counter half of the vector is zero.\<close>

definition file_iv :: "BinaryBuf \<Rightarrow> BinaryBuf" where
  "file_iv iv = take 8 (iv[8 := iv ! 8 AND iv_mask]) @ replicate 8 0"

definition encrypt_file :: "openssl \<Rightarrow> entropy \<Rightarrow> string \<Rightarrow> (BinaryBuf \<times> EncryptedFile) result" where
  "encrypt_file L ent plaintext =
     (let key = create_buffer (ent 0) 32;
          iv = file_iv (create_buffer (ent 1) 16)
      in rbind (AES_CTR_256_Encrypt L plaintext key iv) (\<lambda>cyphertext.
         rbind (sha256 L (buf_to_string cyphertext)) (\<lambda>digest.
           Inr (cyphertext,
             \<lparr>ef_url = [],
              ef_key = \<lparr>jwk_kty = ''oct'', jwk_key_ops = [''encrypt'', ''decrypt''], jwk_alg = ''A256CTR'',
                        jwk_k = bin2base64_urlsafe_unpadded (buf_to_string key), jwk_ext = True\<rparr>,
              ef_iv = bin2base64_unpadded (buf_to_string iv),
              ef_hashes = [(''sha256'', bin2base64_unpadded digest)],
              ef_v = ''v2''\<rparr>))))"

section \<open>Secret storage\<close>

record AesHmacSha2EncryptedData =
  ed_iv :: string
  ed_ciphertext :: string
  ed_mac :: string

record PBKDF2 =
  pb_algorithm :: string
  pb_salt :: string
  pb_iterations :: nat
  pb_bits :: nat

record AesHmacSha2KeyDescription =
  kd_name :: string
  kd_algorithm :: string
  kd_passphrase :: "PBKDF2 option"
  kd_iv :: string
  kd_mac :: string
  kd_signatures :: signatures

text \<open>The check at the end of both functions that restore a key: 32 zero bytes encrypted with it.\<close>

definition key_check_mac :: "openssl \<Rightarrow> BinaryBuf \<Rightarrow> string \<Rightarrow> BinaryBuf result" where
  "key_check_mac L key iv =
     rbind (HKDF_SHA256 L key (replicate 32 0) []) (\<lambda>testKeys.
     rbind (AES_CTR_256_Encrypt L (replicate 32 (CHR 0x00)) (hk_aes testKeys) (to_binary_buf (base642bin iv))) (\<lambda>encrypted.
       Inr (HMAC_SHA256 L (hk_mac testKeys) encrypted)))"

definition verify_key :: "openssl \<Rightarrow> BinaryBuf \<Rightarrow> AesHmacSha2KeyDescription \<Rightarrow> BinaryBuf option result" where
  "verify_key L decryptionKey parameters =
     rbind (key_check_mac L decryptionKey (kd_iv parameters)) (\<lambda>mac.
       Inr (if mac \<noteq> to_binary_buf (base642bin (kd_mac parameters)) then None else Some decryptionKey))"

definition key_from_passphrase :: "openssl \<Rightarrow> string \<Rightarrow> AesHmacSha2KeyDescription \<Rightarrow> BinaryBuf option result" where
  "key_from_passphrase L password parameters =
     (case kd_passphrase parameters of
        None \<Rightarrow> Inl (Invalid_argument ''no passphrase to derive key from'')
      | Some p \<Rightarrow>
          if pb_algorithm p \<noteq> ''m.pbkdf2'' then Inl (Invalid_argument ''invalid pbkdf algorithm'')
          else verify_key L (PBKDF2_HMAC_SHA_512 L password (to_binary_buf (pb_salt p)) (pb_iterations p) (pb_bits p div 8))
                 parameters)"

definition xor_bytes :: "BinaryBuf \<Rightarrow> byte" where
  "xor_bytes bs = foldl (XOR) 0 bs"

definition key_from_recoverykey :: "openssl \<Rightarrow> string \<Rightarrow> AesHmacSha2KeyDescription \<Rightarrow> BinaryBuf option result" where
  "key_from_recoverykey L recoverykey parameters =
     (let tempKey = to_binary_buf (base582bin recoverykey)
      in if length tempKey < 3 \<or> tempKey ! 0 \<noteq> 0x8b \<or> tempKey ! 1 \<noteq> 0x01 then Inr None
         else if xor_bytes (butlast tempKey) \<noteq> last tempKey then Inr None
         else verify_key L (drop 2 (butlast tempKey)) parameters)"

definition key_to_recoverykey :: "BinaryBuf \<Rightarrow> string result" where
  "key_to_recoverykey key =
     (let parity = foldl (XOR) (0x8b XOR 0x01) key
      in bin2base58 (buf_to_string ([0x8b, 0x01] @ key @ [parity])))"

text \<open>A wrong MAC gives the empty string.\<close>

definition secret_decrypt :: "openssl \<Rightarrow> AesHmacSha2EncryptedData \<Rightarrow> BinaryBuf \<Rightarrow> string \<Rightarrow> string result" where
  "secret_decrypt L data decryptionKey key_name =
     rbind (HKDF_SHA256 L decryptionKey (replicate 32 0) (to_binary_buf key_name)) (\<lambda>keys.
       let keyMac = HMAC_SHA256 L (hk_mac keys) (to_binary_buf (base642bin (ed_ciphertext data)))
       in if keyMac \<noteq> to_binary_buf (base642bin (ed_mac data)) then Inr []
          else rbind (AES_CTR_256_Decrypt L (base642bin (ed_ciphertext data)) (hk_aes keys) (to_binary_buf (base642bin (ed_iv data))))
                 (\<lambda>decryptedSecret. Inr (buf_to_string decryptedSecret)))"

definition secret_encrypt :: "openssl \<Rightarrow> entropy \<Rightarrow> string \<Rightarrow> BinaryBuf \<Rightarrow> string \<Rightarrow> AesHmacSha2EncryptedData result" where
  "secret_encrypt L ent data decryptionKey key_name =
     rbind (compatible_iv (create_buffer (ent 0) 16)) (\<lambda>iv.
     rbind (HKDF_SHA256 L decryptionKey (replicate 32 0) (to_binary_buf key_name)) (\<lambda>keys.
     rbind (AES_CTR_256_Encrypt L data (hk_aes keys) iv) (\<lambda>ciphertext.
       Inr \<lparr>ed_iv = bin2base64 (buf_to_string iv),
            ed_ciphertext = bin2base64 (buf_to_string ciphertext),
            ed_mac = bin2base64 (buf_to_string (HMAC_SHA256 L (hk_mac keys) ciphertext))\<rparr>)))"

section \<open>Key files\<close>

definition HEADER_LINE :: string where
  "HEADER_LINE = ''-----BEGIN MEGOLM SESSION DATA-----''"

definition TRAILER_LINE :: string where
  "TRAILER_LINE = ''-----END MEGOLM SESSION DATA-----''"

text \<open>\<open>s.find(p)\<close>\<close>

fun find_str :: "string \<Rightarrow> string \<Rightarrow> nat option" where
  "find_str p [] = (if p = [] then Some 0 else None)"
| "find_str p (c # s) = (if starts_with p (c # s) then Some 0 else map_option Suc (find_str p s))"

lemma find_str_Some: "find_str p s = Some i \<Longrightarrow> i + length p \<le> length s \<and> starts_with p (drop i s)"
proof (induction s arbitrary: i)
  case (Cons c s)
  show ?case
  proof (cases "starts_with p (c # s)")
    case True
    then have "length p \<le> length (c # s)" unfolding starts_with_def by (metis length_take min.cobounded1)
    then show ?thesis using Cons.prems True by simp
  next
    case False
    then show ?thesis using Cons by auto
  qed
qed (simp add: starts_with_def split: if_splits)

lemma find_str_shorter:
  assumes "find_str p s = Some i" and "p \<noteq> []"
  shows "length (take i s @ drop (i + length p) s) < length s"
proof -
  have "i + length p \<le> length s" "0 < length p" using find_str_Some [OF assms(1)] assms(2) by simp_all
  then show ?thesis unfolding length_append length_take length_drop by linarith
qed

text \<open>The loop does not end for an empty pattern; the three patterns of its callers are not empty.\<close>

function remove_substrs :: "string \<Rightarrow> string \<Rightarrow> string" where
  "remove_substrs s p =
     (case find_str p s of
        None \<Rightarrow> s
      | Some i \<Rightarrow> if p = [] then s else remove_substrs (take i s @ drop (i + length p) s) p)"
  by pat_completeness auto

termination
  using find_str_shorter by (relation "measure (\<lambda>(s, p). length s)") (simp_all del: length_append)

declare remove_substrs.simps [simp del]

definition unpack_key_file :: "string \<Rightarrow> string" where
  "unpack_key_file data =
     remove_substrs (remove_substrs (remove_substrs data HEADER_LINE) TRAILER_LINE) [CHR 0x0A]"

definition uint8_to_uint32 :: "byte list \<Rightarrow> 32 word" where
  "uint8_to_uint32 b =
     push_bit 24 (ucast (b ! 0)) OR push_bit 16 (ucast (b ! 1)) OR push_bit 8 (ucast (b ! 2)) OR ucast (b ! 3)"

definition uint32_to_uint8 :: "32 word \<Rightarrow> byte list" where
  "uint32_to_uint8 u =
     (let b3 = ucast u; u = drop_bit 8 u; b2 = ucast u; u = drop_bit 8 u; b1 = ucast u; b0 = ucast (drop_bit 8 u)
      in [b0, b1, b2, b3])"

end
