(* ===== verification/Crypto_Props.thy ===== *)
theory Crypto_Props
  imports Crypto_Utils
begin

unbundle bit_operations_syntax

text \<open>
  What the cryptographic helpers guarantee, for every library that meets the contract of OpenSSL:
  encrypted files and secrets can be decrypted, changed files are rejected, recovery keys are
  checked, and key files are unpacked.
\<close>

section \<open>The contract\<close>

text \<open>
  Counter mode adds a key stream, so that the same operation decrypts; the derivations and digests
  have their documented sizes.
\<close>

locale openssl_library =
  fixes L :: openssl
  assumes aes_involution: "aes_ctr L k iv (aes_ctr L k iv x) = x"
    and aes_length: "length (aes_ctr L k iv x) = length x"
    and hkdf_calls: "hkdf_init L" "hkdf_set_md L" "hkdf_set_salt L salt" "k \<noteq> [] \<Longrightarrow> hkdf_set_key L k" "hkdf_add_info L info"
    and hkdf_output: "k \<noteq> [] \<Longrightarrow> \<exists>buf. hkdf_derive L k salt info = Some buf \<and> length buf = 64"
    and sha256_succeeds: "\<exists>h. sha256_digest L s = Some h"
    and hmac_length: "length (hmac_sha256 L k d) = 32"
    and pbkdf2_length: "pbkdf2_sha512 L pass salt n l = Some b \<Longrightarrow> length b = l"

section \<open>Buffers\<close>

lemma buf_string_inverses [simp]: "to_binary_buf (buf_to_string b) = b" "buf_to_string (to_binary_buf s) = s"
  by (simp_all add: to_binary_buf_def buf_to_string_def comp_def)

lemma buf_string_length [simp]: "length (to_binary_buf s) = length s" "length (buf_to_string b) = length b"
  by (simp_all add: to_binary_buf_def buf_to_string_def)

lemma create_buffer_length [simp]: "length (create_buffer r n) = n"
  by (auto simp: create_buffer_def split: option.split)

lemma bit_iv_mask: "bit (b AND iv_mask) n \<longleftrightarrow> bit b n \<and> n \<noteq> 7"
proof -
  have "bit iv_mask n \<longleftrightarrow> n < 8 \<and> n \<noteq> 7"
    unfolding iv_mask_def bit_not_iff_eq bit_push_bit_iff bit_1_iff by auto
  then show ?thesis using byte_bit_lt [of b n] by (auto simp: bit_and_iff)
qed

lemma file_iv_length [simp]: "length iv = 16 \<Longrightarrow> length (file_iv iv) = 16"
  by (simp add: file_iv_def)

section \<open>Xor\<close>

lemma foldl_xor: "foldl (XOR) a bs = a XOR xor_bytes (bs :: BinaryBuf)"
  unfolding xor_bytes_def
proof (induction bs arbitrary: a)
  case (Cons b bs)
  show ?case using Cons.IH [of "a XOR b"] Cons.IH [of b] by (simp add: xor.assoc)
qed simp

lemma xor_bytes_simps [simp]:
  "xor_bytes [] = 0" "xor_bytes (b # bs) = b XOR xor_bytes bs"
  by (simp add: xor_bytes_def) (simp add: xor_bytes_def [of "b # bs"] foldl_xor)

lemma xor_bytes_append [simp]: "xor_bytes (as @ bs) = xor_bytes as XOR xor_bytes bs"
  by (induction as) (simp_all add: xor.assoc)

context openssl_library
begin

lemma encrypt_decrypt:
  assumes "32 \<le> length key" and "16 \<le> length iv" and "length s < 2 ^ 31"
  shows "\<exists>c. AES_CTR_256_Encrypt L s key iv = Inr c \<and> length c = length s
    \<and> AES_CTR_256_Decrypt L (buf_to_string c) key iv = Inr (to_binary_buf s)"
  using assms by (simp add: AES_CTR_256_Encrypt_def AES_CTR_256_Decrypt_def aes_length aes_involution)

lemma hkdf_total:
  assumes "k \<noteq> []"
  shows "\<exists>keys. HKDF_SHA256 L k salt info = Inr keys \<and> length (hk_aes keys) = 32 \<and> length (hk_mac keys) = 32"
  using hkdf_output [OF assms, of salt info] hkdf_calls assms by (auto simp: HKDF_SHA256_def)

lemma pbkdf2_total [simp]: "length (PBKDF2_HMAC_SHA_512 L pass salt n l) = l"
  by (simp add: PBKDF2_HMAC_SHA_512_def pbkdf2_length split: option.split)

lemma sha256_total: "\<exists>h. sha256 L s = Inr h"
  using sha256_succeeds [of s] by (auto simp: sha256_def)

text \<open>A file that was encrypted decrypts to what it was; other ciphertexts are rejected.\<close>

lemma file_encrypt_decrypt:
  assumes "length s < 2 ^ 31"
  shows "\<exists>c info. encrypt_file L ent s = Inr (c, info) \<and> length c = length s
    \<and> decrypt_file L (buf_to_string c) info = Inr (to_binary_buf s)
    \<and> (\<forall>c'. sha256 L c' \<noteq> sha256 L (buf_to_string c) \<longrightarrow> (\<exists>msg. decrypt_file L c' info = Inl (Invalid_argument msg)))"
proof -
  define key where "key = create_buffer (ent 0) 32"
  define iv where "iv = file_iv (create_buffer (ent 1) 16)"
  have "32 \<le> length key" "16 \<le> length iv" by (simp_all add: key_def iv_def)
  then obtain c where c: "AES_CTR_256_Encrypt L s key iv = Inr c" "length c = length s"
      "AES_CTR_256_Decrypt L (buf_to_string c) key iv = Inr (to_binary_buf s)"
    using encrypt_decrypt assms by blast
  obtain h where h: "sha256 L (buf_to_string c) = Inr h" using sha256_total by blast
  have other: "bin2base64_unpadded h' \<noteq> bin2base64_unpadded h" if "h' \<noteq> h" for h'
    using that base64_inverses(2) by metis
  define info where "info = \<lparr>ef_url = [], ef_key = \<lparr>jwk_kty = ''oct'', jwk_key_ops = [''encrypt'', ''decrypt''],
      jwk_alg = ''A256CTR'', jwk_k = bin2base64_urlsafe_unpadded (buf_to_string key), jwk_ext = True\<rparr>,
      ef_iv = bin2base64_unpadded (buf_to_string iv), ef_hashes = [(''sha256'', bin2base64_unpadded h)], ef_v = ''v2''\<rparr>"
  have "encrypt_file L ent s = Inr (c, info)"
    unfolding encrypt_file_def Let_def key_def [symmetric] iv_def [symmetric] by (simp add: info_def c(1) h)
  moreover have "decrypt_file L (buf_to_string c) info = Inr (to_binary_buf s)"
    using c(3) by (simp add: decrypt_file_def info_def h)
  moreover have "\<exists>msg. decrypt_file L c' info = Inl (Invalid_argument msg)" if "sha256 L c' \<noteq> Inr h" for c'
    using that sha256_total [of c'] other by (auto simp: decrypt_file_def info_def)
  ultimately show ?thesis using c(2) h by auto
qed

lemma secret_encrypt_decrypt:
  assumes "length s < 2 ^ 31" and "k \<noteq> []"
  shows "\<exists>d. secret_encrypt L ent s k name = Inr d \<and> secret_decrypt L d k name = Inr s"
proof -
  obtain keys where keys: "HKDF_SHA256 L k (replicate 32 0) (to_binary_buf name) = Inr keys" "length (hk_aes keys) = 32"
    using hkdf_total [OF assms(2)] by blast
  obtain iv where iv: "compatible_iv (create_buffer (ent 0) 16) = Inr iv" "length iv = 16"
    by (simp add: compatible_iv_def)
  obtain c where "AES_CTR_256_Encrypt L s (hk_aes keys) iv = Inr c"
      "AES_CTR_256_Decrypt L (buf_to_string c) (hk_aes keys) iv = Inr (to_binary_buf s)"
    using encrypt_decrypt [of "hk_aes keys" iv s] keys(2) iv(2) assms(1) by auto
  then show ?thesis by (simp add: secret_encrypt_def secret_decrypt_def keys iv)
qed

text \<open>A key passes the check of a description whose MAC was computed with it.\<close>

lemma verify_own_mac:
  assumes "k \<noteq> []" and "16 \<le> length (base642bin (kd_iv desc))"
  shows "\<exists>mac. key_check_mac L k (kd_iv desc) = Inr mac
    \<and> verify_key L k (desc\<lparr>kd_mac := bin2base64 (buf_to_string mac)\<rparr>) = Inr (Some k)"
proof -
  obtain keys where keys: "HKDF_SHA256 L k (replicate 32 0) [] = Inr keys" "length (hk_aes keys) = 32"
    using hkdf_total [OF assms(1)] by blast
  with assms(2) obtain c where "AES_CTR_256_Encrypt L (replicate 32 (CHR 0x00)) (hk_aes keys) (to_binary_buf (base642bin (kd_iv desc))) = Inr c"
    using encrypt_decrypt [of "hk_aes keys" "to_binary_buf (base642bin (kd_iv desc))" "replicate 32 (CHR 0x00)"] by auto
  then show ?thesis by (simp add: key_check_mac_def verify_key_def keys)
qed

end

section \<open>Recovery keys\<close>

lemma recoverykey_roundtrip:
  "\<exists>r. key_to_recoverykey k = Inr r \<and> key_from_recoverykey L r desc = verify_key L k desc"
proof -
  let ?buf = "[0x8b, 0x01] @ k @ [foldl (XOR) (0x8b XOR 0x01) k]"
  have "char_of_byte 0x8b \<noteq> CHR 0x00" by code_simp
  then have "be_value (buf_to_string ?buf) \<noteq> 0" by (simp add: be_value_eq_0_iff buf_to_string_def)
  from base58_roundtrip_nonzero [OF this] bin2base58_nonzero [OF this] obtain r where
    "bin2base58 (buf_to_string ?buf) = Inr r" "base582bin r = buf_to_string ?buf" by auto
  moreover have "(139 :: byte) XOR (1 XOR x) = 138 XOR x" for x by (simp flip: xor.assoc)
  ultimately show ?thesis
    by (intro exI [of _ r]) (simp add: key_to_recoverykey_def key_from_recoverykey_def foldl_xor butlast_append)
qed

text \<open>A key file whose bytes fail the parity is never accepted, whatever the description says.\<close>

lemma recoverykey_parity:
  assumes "xor_bytes (to_binary_buf (base582bin r)) \<noteq> 0"
  shows "key_from_recoverykey L r desc = Inr None"
proof -
  let ?b = "to_binary_buf (base582bin r)"
  have "?b \<noteq> []" using assms by auto
  from arg_cong [OF append_butlast_last_id [OF this], of xor_bytes]
  have "xor_bytes ?b = xor_bytes (butlast ?b) XOR last ?b" by (simp only: xor_bytes_append xor_bytes_simps) simp
  with assms show ?thesis by (auto simp: key_from_recoverykey_def Let_def)
qed

section \<open>Key files\<close>

lemma starts_with_length: "starts_with p s \<Longrightarrow> length p \<le> length s"
  unfolding starts_with_def by (metis length_take min.cobounded1)

lemma find_str_None:
  "c \<notin> set a \<Longrightarrow> length b \<le> length p \<Longrightarrow> find_str (c # p) (a @ b) = None"
proof (induction a)
  case Nil
  have "find_str (c # p) b = None" if "length b \<le> length p" for b
    using that starts_with_length [of "c # p"] by (induction b) force+
  then show ?case using Nil by simp
qed (simp add: starts_with_simps)

lemma find_str_first: "c \<notin> set a \<Longrightarrow> find_str (c # p) (a @ (c # p) @ b) = Some (length a)"
  by (induction a) (auto simp: starts_with_simps starts_with_def)

lemma remove_none: "find_str p s = None \<Longrightarrow> remove_substrs s p = s"
  by (simp add: remove_substrs.simps [of s p])

lemma remove_one:
  assumes "c \<notin> set a" and "find_str (c # p) (a @ b) = None"
  shows "remove_substrs (a @ (c # p) @ b) (c # p) = a @ b"
  using find_str_first [OF assms(1), of p b] remove_none [OF assms(2)]
  by (simp add: remove_substrs.simps [of "a @ c # p @ b" "c # p"])

lemma find_str_char: "find_str [c] s = None \<longleftrightarrow> c \<notin> set s"
  by (induction s) (auto simp: starts_with_simps)

lemma remove_substrs_clean: "p \<noteq> [] \<Longrightarrow> find_str p (remove_substrs s p) = None"
proof (induction s p rule: remove_substrs.induct)
  case (1 s p)
  show ?case
  proof (cases "find_str p s")
    case None
    then show ?thesis by (simp add: remove_none)
  next
    case (Some i)
    then show ?thesis using 1 by (simp add: remove_substrs.simps [of s p])
  qed
qed

lemma remove_char_front: "c \<notin> set s \<Longrightarrow> remove_substrs (c # s @ [c]) [c] = s"
  using remove_one [of c "[]" "[]" "s @ [c]"] remove_one [of c s "[]" "[]"]
proof -
  assume c: "c \<notin> set s"
  have "remove_substrs (s @ [c]) [c] = s" using remove_one [of c s "[]" "[]"] c by (simp add: find_str_char)
  moreover have "find_str [c] (c # s @ [c]) = Some 0" by (simp add: starts_with_simps)
  ultimately show ?thesis by (simp add: remove_substrs.simps [of "c # s @ [c]"])
qed

text \<open>The header and trailer start with a dash, which base64 does not use.\<close>

lemma unpack_framed:
  assumes "CHR ''-'' \<notin> set b" and "CHR 0x0A \<notin> set b"
  shows "unpack_key_file (HEADER_LINE @ [CHR 0x0A] @ b @ [CHR 0x0A] @ TRAILER_LINE) = b"
    and "unpack_key_file b = b"
proof -
  obtain h where h: "HEADER_LINE = CHR ''-'' # h" "length h = 34" by (simp add: HEADER_LINE_def)
  obtain t where t: "TRAILER_LINE = CHR ''-'' # t" "length TRAILER_LINE = 33" by (simp add: TRAILER_LINE_def)
  let ?a = "[CHR 0x0A] @ b @ [CHR 0x0A]"
  have dash: "CHR ''-'' \<notin> set ?a" using assms(1) by simp
  have "remove_substrs (HEADER_LINE @ ?a @ TRAILER_LINE) HEADER_LINE = ?a @ TRAILER_LINE"
    using remove_one [of "CHR ''-''" "[]" h "?a @ TRAILER_LINE"] find_str_None [OF dash, of TRAILER_LINE h] t(2) h by simp
  moreover have "remove_substrs (?a @ TRAILER_LINE) TRAILER_LINE = ?a"
    using remove_one [OF dash, of t "[]"] find_str_None [OF dash, of "[]" t] t(1) by simp
  moreover have "remove_substrs ?a [CHR 0x0A] = b" using remove_char_front [OF assms(2)] by simp
  ultimately show "unpack_key_file (HEADER_LINE @ [CHR 0x0A] @ b @ [CHR 0x0A] @ TRAILER_LINE) = b"
    by (simp add: unpack_key_file_def)
  show "unpack_key_file b = b"
    using find_str_None [OF assms(1), of "[]" h] find_str_None [OF assms(1), of "[]" t] assms(2)
    by (simp add: unpack_key_file_def remove_none h(1) t(1) find_str_char)
qed

lemma unpack_no_newline: "CHR 0x0A \<notin> set (unpack_key_file s)"
  using remove_substrs_clean [of "[CHR 0x0A]"] by (simp add: unpack_key_file_def find_str_char)

lemma base64_no_frame: "CHR ''-'' \<notin> set (bin2base64 s)" "CHR 0x0A \<notin> set (bin2base64 s)"
proof -
  have "CHR ''-'' \<notin> insert (CHR ''='') (set base64_alphabet)" "CHR 0x0A \<notin> insert (CHR ''='') (set base64_alphabet)"
    by (simp_all add: base64_alphabet_def)
  then show "CHR ''-'' \<notin> set (bin2base64 s)" "CHR 0x0A \<notin> set (bin2base64 s)"
    using bin2base64_chars [of s] by blast+
qed

lemma uint32_roundtrip: "uint8_to_uint32 (uint32_to_uint8 u) = u"
proof (rule bit_word_eqI)
  fix n assume "n < LENGTH(32)"
  then show "bit (uint8_to_uint32 (uint32_to_uint8 u)) n = bit u n"
    by (cases "n < 8"; cases "n < 16"; cases "n < 24")
       (auto simp: uint8_to_uint32_def uint32_to_uint8_def Let_def bit_simps)
qed

section \<open>A library for the witnesses\<close>

definition sample_ssl :: openssl where
  "sample_ssl =
     \<lparr>aes_ctr = (\<lambda>k iv. map (\<lambda>b. b XOR xor_bytes k XOR xor_bytes iv)),
      hkdf_init = True, hkdf_set_md = True, hkdf_set_salt = (\<lambda>_. True), hkdf_set_key = (\<lambda>_. True),
      hkdf_add_info = (\<lambda>_. True),
      hkdf_derive = (\<lambda>k salt info. Some (replicate 64 (xor_bytes (k @ info)))),
      hmac_sha256 = (\<lambda>k d. replicate 32 (xor_bytes (k @ d))),
      sha256_digest = (\<lambda>s. Some s),
      pbkdf2_sha512 = (\<lambda>pass salt n l. Some (replicate l (xor_bytes (to_binary_buf pass))))\<rparr>"

interpretation sample: openssl_library sample_ssl
  by unfold_locales (auto simp: sample_ssl_def xor.assoc comp_def)

lemma sample_ssl_library: "openssl_library sample_ssl"
  by (rule sample.openssl_library_axioms)

definition sample_description :: AesHmacSha2KeyDescription where
  "sample_description =
     \<lparr>kd_name = ''key'', kd_algorithm = ''m.secret_storage.v1.aes-hmac-sha2'', kd_passphrase = None,
      kd_iv = bin2base64 (replicate 16 (CHR ''x'')), kd_mac = [], kd_signatures = []\<rparr>"

section \<open>Properties\<close>

text \<open>
  C2. Encrypted files: encryption of a file below the size limit succeeds, whatever random bytes it
  draws, the ciphertext has the length of the file and decrypts to the file, and a ciphertext with
  another SHA-256 digest is rejected with an exception.
\<close>

theorem file_roundtrip:
  assumes "openssl_library L" and "length s < 2 ^ 31"
  shows "\<exists>c info. encrypt_file L ent s = Inr (c, info) \<and> length c = length s
    \<and> decrypt_file L (buf_to_string c) info = Inr (to_binary_buf s)
    \<and> (\<forall>c'. sha256 L c' \<noteq> sha256 L (buf_to_string c) \<longrightarrow> (\<exists>msg. decrypt_file L c' info = Inl (Invalid_argument msg)))"
  by (rule openssl_library.file_encrypt_decrypt [OF assms])

theorem file_roundtrip_witness:
  "\<exists>c info. encrypt_file sample_ssl (\<lambda>_ _. None) ''hello'' = Inr (c, info)
    \<and> decrypt_file sample_ssl (buf_to_string c) info = Inr (to_binary_buf ''hello'')"
  using file_roundtrip [OF sample_ssl_library, of "''hello''" "\<lambda>_ _. None"] by auto



text \<open>
  C27. Recovery keys: the recovery key of a key leads back to the check of that key, a key whose
  description was made with it is found again, and a string whose decoded bytes do not have parity
  zero is never accepted.
\<close>

theorem recovery_key_correct:
  assumes "openssl_library L" and "k \<noteq> []" and "16 \<le> length (base642bin (kd_iv desc))"
    and "xor_bytes (to_binary_buf (base582bin bad)) \<noteq> 0"
  shows "\<exists>r mac. key_to_recoverykey k = Inr r
    \<and> (\<forall>d. key_from_recoverykey L r d = verify_key L k d)
    \<and> key_check_mac L k (kd_iv desc) = Inr mac
    \<and> key_from_recoverykey L r (desc\<lparr>kd_mac := bin2base64 (buf_to_string mac)\<rparr>) = Inr (Some k)
    \<and> key_from_recoverykey L bad desc = Inr None"
proof -
  obtain r where r: "key_to_recoverykey k = Inr r" using recoverykey_roundtrip by blast
  then have "key_from_recoverykey L r d = verify_key L k d" for d using recoverykey_roundtrip [of k L d] by simp
  moreover obtain mac where "key_check_mac L k (kd_iv desc) = Inr mac"
      "verify_key L k (desc\<lparr>kd_mac := bin2base64 (buf_to_string mac)\<rparr>) = Inr (Some k)"
    using openssl_library.verify_own_mac [OF assms(1-3)] by blast
  ultimately show ?thesis using r recoverykey_parity [OF assms(4)] by auto
qed

theorem recovery_key_correct_witness:
  "\<exists>r. key_to_recoverykey [1, 2, 3] = Inr r \<and> key_from_recoverykey sample_ssl ''2'' sample_description = Inr None"
proof -
  have "digits_le b 1 = [1]" if "2 \<le> b" for b using that by (simp add: digits_le.simps [of b])
  then have "base582bin ''2'' = [char_of (1::nat)]"
    using decode_base58_digits [of 1 0] by (simp add: base58_alphabet_def)
  then have "xor_bytes (to_binary_buf (base582bin ''2'')) \<noteq> 0" by (simp add: to_binary_buf_def byte_of_char_def)
  then show ?thesis
    using recovery_key_correct [OF sample_ssl_library, of "[1, 2, 3]" sample_description "''2''"]
    by (auto simp: sample_description_def)
qed

text \<open>
  Key files: the base64 text of an export is found between its header and trailer line and
  is left alone without them, and no line break is left in any file.
\<close>

theorem key_file_unpacked:
  "unpack_key_file (HEADER_LINE @ [CHR 0x0A] @ bin2base64 s @ [CHR 0x0A] @ TRAILER_LINE) = bin2base64 s
   \<and> unpack_key_file (bin2base64 s) = bin2base64 s
   \<and> CHR 0x0A \<notin> set (unpack_key_file file)"
  using unpack_framed [OF base64_no_frame] unpack_no_newline by simp

end
