(* ===== verification/Key_Export.thy ===== *)
theory Key_Export
  imports Crypto_Props
begin

unbundle bit_operations_syntax

text \<open>
  The export format of session keys (\<open>encrypt_exported_sessions\<close> and \<open>decrypt_exported_sessions\<close> of
  \<open>lib/crypto/client.cpp\<close>): a version byte, salt, initialisation vector, number of rounds, ciphertext
  and a MAC over all of it.
\<close>

definition pwhash_SALTBYTES :: nat where
  "pwhash_SALTBYTES = 16"

definition AES_BLOCK_SIZE :: nat where
  "AES_BLOCK_SIZE = 16"

definition SHA256_DIGEST_LENGTH :: nat where
  "SHA256_DIGEST_LENGTH = 32"

definition export_rounds :: "32 word" where
  "export_rounds = 100000"

text \<open>The default length of the derived key is 64.\<close>

definition encrypt_exported_sessions ::
    "openssl \<Rightarrow> 'j json_lib \<Rightarrow> entropy \<Rightarrow> ExportedSession list \<Rightarrow> string \<Rightarrow> string result" where
  "encrypt_exported_sessions L J ent keys pass =
     rbind (jdump J (ExportedSessionKeys_to_json J keys)) (\<lambda>plaintext.
       let nonce = create_buffer (ent 0) AES_BLOCK_SIZE;
           nonce = nonce[8 := nonce ! 8 AND iv_mask];
           salt = create_buffer (ent 1) pwhash_SALTBYTES;
           buf = PBKDF2_HMAC_SHA_512 L pass salt (unat export_rounds) 64;
           aes256 = take 32 buf;
           hmac256 = take 32 (drop 32 buf)
       in rbind (AES_CTR_256_Encrypt L plaintext aes256 nonce) (\<lambda>ciphertext.
            let out = [0x01] @ salt @ nonce @ uint32_to_uint8 export_rounds @ ciphertext
            in Inr (buf_to_string (out @ HMAC_SHA256 L hmac256 out))))"

definition export_exn :: "string \<Rightarrow> 'a result" where
  "export_exn msg = Inl (Crypto_exception ''decrypt_exported_sessions'' msg)"

definition decrypt_exported_sessions ::
    "openssl \<Rightarrow> 'j json_lib \<Rightarrow> string \<Rightarrow> string \<Rightarrow> ExportedSession list result" where
  "decrypt_exported_sessions L J data pass =
     (let binary = to_binary_buf (base642bin (unpack_key_file data))
      in if length binary < 1 + pwhash_SALTBYTES + AES_BLOCK_SIZE + 4 + SHA256_DIGEST_LENGTH + 2 then
           export_exn ''Invalid session file: too short''
         else if binary ! 0 \<noteq> 0x01 then export_exn ''Unsupported backup file format.''
         else
           let salt = take pwhash_SALTBYTES (drop 1 binary);
               iv = take AES_BLOCK_SIZE (drop (1 + pwhash_SALTBYTES) binary);
               rounds_end = 1 + pwhash_SALTBYTES + AES_BLOCK_SIZE + 4;
               rounds = uint8_to_uint32 (take 4 (drop (1 + pwhash_SALTBYTES + AES_BLOCK_SIZE) binary));
               json_end = length binary - SHA256_DIGEST_LENGTH;
               json = drop rounds_end (take json_end binary);
               hmac = drop json_end binary;
               buf = PBKDF2_HMAC_SHA_512 L pass salt (unat rounds) 64;
               aes256 = take 32 buf;
               hmac256 = take 32 (drop 32 buf)
           in if HMAC_SHA256 L hmac256 (take json_end binary) \<noteq> hmac then export_exn ''HMAC doesn't match''
              else rbind (AES_CTR_256_Decrypt L (buf_to_string json) aes256 iv) (\<lambda>decrypted.
                   rbind (jparse J (buf_to_string decrypted)) (ExportedSessionKeys_from_json J)))"

section \<open>The file is read back\<close>

lemma uint32_to_uint8_length [simp]: "length (uint32_to_uint8 u) = 4"
  by (simp add: uint32_to_uint8_def Let_def)

text \<open>Reading a file that is laid out as the format says.\<close>

lemma decrypt_exported_layout:
  assumes "length salt = 16" and "length iv = 16" and "length mac = 32" and "2 \<le> length c"
    and "out = [0x01] @ salt @ iv @ uint32_to_uint8 rounds @ c"
    and "unpack_key_file data = bin2base64 (buf_to_string (out @ mac))"
    and "buf = PBKDF2_HMAC_SHA_512 L pass salt (unat rounds) 64"
  shows "decrypt_exported_sessions L J data pass =
    (if HMAC_SHA256 L (take 32 (drop 32 buf)) out \<noteq> mac then export_exn ''HMAC doesn't match''
     else rbind (AES_CTR_256_Decrypt L (buf_to_string c) (take 32 buf) iv) (\<lambda>decrypted.
            rbind (jparse J (buf_to_string decrypted)) (ExportedSessionKeys_from_json J)))"
proof -
  let ?b = "out @ mac"
  note sizes = pwhash_SALTBYTES_def AES_BLOCK_SIZE_def SHA256_DIGEST_LENGTH_def
  have "take (length ?b - 32) ?b = out" "drop (length ?b - 32) ?b = mac" using assms(3) by simp_all
  moreover have "drop 1 ?b = salt @ iv @ uint32_to_uint8 rounds @ c @ mac" by (simp add: assms(5))
  then have "take 16 (drop 1 ?b) = salt" using assms(1) by simp
  moreover have "drop 17 ?b = iv @ uint32_to_uint8 rounds @ c @ mac" by (simp add: assms(1,5) drop_Cons')
  then have "take 16 (drop 17 ?b) = iv" using assms(2) by simp
  moreover have "drop 33 ?b = uint32_to_uint8 rounds @ c @ mac" by (simp add: assms(1,2,5) drop_Cons')
  then have "take 4 (drop 33 ?b) = uint32_to_uint8 rounds" by simp
  moreover have "drop 37 out = c" by (simp add: assms(1,2,5) drop_Cons')
  moreover have "\<not> length ?b < 71" "?b ! 0 = 0x01" using assms(1-5) by simp_all
  ultimately show ?thesis
    unfolding decrypt_exported_sessions_def sizes assms(6) base64_inverses buf_string_inverses Let_def assms(7)
    by (simp add: uint32_roundtrip)
qed

context openssl_library
begin

lemma export_encrypts:
  assumes "jdump J (ExportedSessionKeys_to_json J ss) = Inr plain" and "length plain < 2 ^ 31"
  shows "\<exists>salt iv c mac buf. encrypt_exported_sessions L J ent ss pass
      = Inr (buf_to_string (([0x01] @ salt @ iv @ uint32_to_uint8 export_rounds @ c) @ mac))
    \<and> length salt = 16 \<and> length iv = 16 \<and> length mac = 32 \<and> length c = length plain
    \<and> buf = PBKDF2_HMAC_SHA_512 L pass salt (unat export_rounds) 64
    \<and> mac = HMAC_SHA256 L (take 32 (drop 32 buf)) ([0x01] @ salt @ iv @ uint32_to_uint8 export_rounds @ c)
    \<and> AES_CTR_256_Decrypt L (buf_to_string c) (take 32 buf) iv = Inr (to_binary_buf plain)"
proof -
  define iv0 where "iv0 = create_buffer (ent 0) 16"
  define iv where "iv = iv0[8 := iv0 ! 8 AND iv_mask]"
  define salt where "salt = create_buffer (ent 1) 16"
  define buf where "buf = PBKDF2_HMAC_SHA_512 L pass salt (unat export_rounds) 64"
  have len: "length iv = 16" "length salt = 16" "length buf = 64" by (simp_all add: iv_def iv0_def salt_def buf_def)
  then obtain c where c: "AES_CTR_256_Encrypt L plain (take 32 buf) iv = Inr c" "length c = length plain"
      "AES_CTR_256_Decrypt L (buf_to_string c) (take 32 buf) iv = Inr (to_binary_buf plain)"
    using encrypt_decrypt [of "take 32 buf" iv plain] assms(2) by auto
  define out where "out = [0x01] @ salt @ iv @ uint32_to_uint8 export_rounds @ c"
  have "encrypt_exported_sessions L J ent ss pass = Inr (buf_to_string (out @ HMAC_SHA256 L (take 32 (drop 32 buf)) out))"
    unfolding encrypt_exported_sessions_def assms(1) rbind_Inr Let_def pwhash_SALTBYTES_def AES_BLOCK_SIZE_def
      iv0_def [symmetric] iv_def [symmetric] salt_def [symmetric] buf_def [symmetric] c(1) out_def by simp
  then show ?thesis
    unfolding out_def using len c(2,3) buf_def hmac_length [of "take 32 (drop 32 buf)"] unfolding HMAC_SHA256_def by blast
qed

end

section \<open>Properties\<close>

text \<open>
  C11. Exported sessions: the export of sessions, base64 encoded, with or without the header and
  trailer lines, decrypts with the same passphrase to the sessions, whatever random bytes were drawn;
  a file that is too short is rejected, and so is every file of the right layout whose MAC is not the
  MAC of the rest.
\<close>

theorem exported_sessions_roundtrip:
  assumes "openssl_library L" and "json_library J"
    and "jdump J (ExportedSessionKeys_to_json J ss) = Inr plain" and "jparse J plain = Inr (ExportedSessionKeys_to_json J ss)"
    and "2 \<le> length plain" and "length plain < 2 ^ 31"
    and "\<forall>s \<in> set ss. smap_ok (es_sender_claimed_keys s) \<and> es_algorithm s = MEGOLM_ALGO"
    and "length (base642bin (unpack_key_file short)) < 71"
    and "length salt = 16" and "length iv = 16" and "length mac = 32" and "2 \<le> length c"
    and "HMAC_SHA256 L (take 32 (drop 32 (PBKDF2_HMAC_SHA_512 L pass salt (unat rounds) 64)))
           ([0x01] @ salt @ iv @ uint32_to_uint8 rounds @ c) \<noteq> mac"
  shows "\<exists>f. encrypt_exported_sessions L J ent ss pass = Inr f
    \<and> decrypt_exported_sessions L J (bin2base64 f) pass = Inr ss
    \<and> decrypt_exported_sessions L J (HEADER_LINE @ [CHR 0x0A] @ bin2base64 f @ [CHR 0x0A] @ TRAILER_LINE) pass = Inr ss
    \<and> decrypt_exported_sessions L J short pass = export_exn ''Invalid session file: too short''
    \<and> decrypt_exported_sessions L J (bin2base64 (buf_to_string (([0x01] @ salt @ iv @ uint32_to_uint8 rounds @ c) @ mac))) pass
        = export_exn ''HMAC doesn't match''"
proof -
  obtain s i x m buf where enc: "encrypt_exported_sessions L J ent ss pass
        = Inr (buf_to_string (([0x01] @ s @ i @ uint32_to_uint8 export_rounds @ x) @ m))"
    and len: "length s = 16" "length i = 16" "length m = 32" "length x = length plain"
    and buf: "buf = PBKDF2_HMAC_SHA_512 L pass s (unat export_rounds) 64"
    and m: "m = HMAC_SHA256 L (take 32 (drop 32 buf)) ([0x01] @ s @ i @ uint32_to_uint8 export_rounds @ x)"
    and dec: "AES_CTR_256_Decrypt L (buf_to_string x) (take 32 buf) i = Inr (to_binary_buf plain)"
    using openssl_library.export_encrypts [OF assms(1,3,6), of ent pass] by blast
  have "ExportedSessionKeys_from_json J (ExportedSessionKeys_to_json J ss) = Inr ss"
    using json_library.ExportedSessionKeys_roundtrip [OF assms(2,7)] by blast
  then have read: "decrypt_exported_sessions L J f pass = Inr ss"
    if "unpack_key_file f = bin2base64 (buf_to_string (([0x01] @ s @ i @ uint32_to_uint8 export_rounds @ x) @ m))" for f
    using decrypt_exported_layout [OF len(1-3) _ refl that buf, of J] assms(4,5) len(4) m dec by simp
  have "decrypt_exported_sessions L J short pass = export_exn ''Invalid session file: too short''"
    using assms(8) by (simp add: decrypt_exported_sessions_def pwhash_SALTBYTES_def AES_BLOCK_SIZE_def SHA256_DIGEST_LENGTH_def)
  moreover have "decrypt_exported_sessions L J (bin2base64 (buf_to_string (([0x01] @ salt @ iv @ uint32_to_uint8 rounds @ c) @ mac))) pass
      = export_exn ''HMAC doesn't match''"
    using decrypt_exported_layout [OF assms(9-12) refl unpack_framed(2) [OF base64_no_frame] refl,
        where L = L and J = J and pass = pass] assms(13) by simp
  ultimately show ?thesis
    using enc read unpack_framed [OF base64_no_frame] by blast
qed

theorem exported_sessions_roundtrip_witness:
  "\<exists>f. encrypt_exported_sessions sample_ssl tree_lib (\<lambda>_ _. None) [] ''pass'' = Inr f
    \<and> decrypt_exported_sessions sample_ssl tree_lib (bin2base64 f) ''pass'' = Inr []"
proof -
  have dump: "jdump tree_lib (ExportedSessionKeys_to_json tree_lib []) = Inr ''[]''"
    "jparse tree_lib ''[]'' = Inr (ExportedSessionKeys_to_json tree_lib [])"
    by (simp_all add: tree_lib_def tree_dump_def tree_parse_def ExportedSessionKeys_to_json_def)
  have "HMAC_SHA256 sample_ssl k out \<noteq> 0 # replicate 31 1" for k out
  proof
    assume "HMAC_SHA256 sample_ssl k out = 0 # replicate 31 1"
    then have "replicate 32 (xor_bytes (k @ out)) = 0 # replicate 31 1" by (simp add: HMAC_SHA256_def sample_ssl_def)
    from arg_cong [OF this, of "\<lambda>b. (b ! 0, b ! 1)"] show False by auto
  qed
  then show ?thesis
    using exported_sessions_roundtrip [OF sample_ssl_library tree_lib_library dump, of "[]" "replicate 16 0" "replicate 16 0"
        "0 # replicate 31 1" "[0, 0]" "''pass''" 1 "\<lambda>_ _. None"]
    by (auto simp: unpack_key_file_def remove_none HEADER_LINE_def TRAILER_LINE_def base642bin_def decode_base64_def)
qed

end
