(* ===== verification/Olm_Client.thy ===== *)
theory Olm_Client
  imports Key_Export Requests
begin

unbundle bit_operations_syntax

text \<open>
  The olm client of \<open>lib/crypto/client.cpp\<close> and \<open>include/mtxclient/crypto/client.hpp\<close>: accounts,
  keys and their signatures, sessions, short authentication strings, cross-signing and secret storage
  setup. The functions of libolm, which is not part of the sources, are the record \<open>olm_lib\<close>.
\<close>

section \<open>libolm\<close>

text \<open>
  Objects of libolm are values of abstract types: accounts, olm sessions, inbound and outbound group
  sessions, SAS objects and signing keys. A function that may return \<open>olm_error()\<close> gives \<open>None\<close> for it;
  a function that changes an object returns the new one. Where a function fills a buffer whose length
  the library gives, the field is the content of the buffer; where its only documented failure is a
  buffer that is too small, the field is total. \<open>olm_account\<close> and \<open>olm_sas_object\<close> are objects as they
  are allocated.
\<close>

record ('acc, 'ses, 'inb, 'outb, 'sas, 'pk) olm_lib =
  olm_account :: 'acc
  olm_create_account_random_length :: nat
  olm_create_account :: "BinaryBuf \<Rightarrow> 'acc option"
  olm_pickle_account :: "'acc \<Rightarrow> string \<Rightarrow> string option"
  olm_unpickle_account :: "string \<Rightarrow> string \<Rightarrow> 'acc option"
  olm_account_identity_keys :: "'acc \<Rightarrow> string option"
  olm_account_sign :: "'acc \<Rightarrow> string \<Rightarrow> string"
  olm_account_generate_one_time_keys_random_length :: "'acc \<Rightarrow> nat \<Rightarrow> nat"
  olm_account_generate_one_time_keys :: "'acc \<Rightarrow> nat \<Rightarrow> BinaryBuf \<Rightarrow> ('acc \<times> nat) option"
  olm_account_generate_fallback_key_random_length :: "'acc \<Rightarrow> nat"
  olm_account_generate_fallback_key :: "'acc \<Rightarrow> BinaryBuf \<Rightarrow> 'acc option"
  olm_account_one_time_keys :: "'acc \<Rightarrow> string option"
  olm_account_unpublished_fallback_key :: "'acc \<Rightarrow> string option"
  olm_account_mark_keys_as_published :: "'acc \<Rightarrow> 'acc"
  olm_account_forget_old_fallback_key :: "'acc \<Rightarrow> 'acc"
  olm_init_outbound_group_session_random_length :: nat
  olm_init_outbound_group_session :: "BinaryBuf \<Rightarrow> 'outb option"
  olm_init_inbound_group_session :: "string \<Rightarrow> 'inb option"
  olm_import_inbound_group_session :: "string \<Rightarrow> 'inb option"
  olm_group_decrypt_max_plaintext_length :: "'inb \<Rightarrow> string \<Rightarrow> nat option"
  olm_group_decrypt :: "'inb \<Rightarrow> string \<Rightarrow> ('inb \<times> BinaryBuf \<times> 32 word) option"
  olm_group_encrypt :: "'outb \<Rightarrow> string \<Rightarrow> ('outb \<times> BinaryBuf) option"
  olm_decrypt_max_plaintext_length :: "'ses \<Rightarrow> nat \<Rightarrow> string \<Rightarrow> nat option"
  olm_decrypt :: "'ses \<Rightarrow> nat \<Rightarrow> string \<Rightarrow> ('ses \<times> BinaryBuf) option"
  olm_encrypt_random_length :: "'ses \<Rightarrow> nat"
  olm_encrypt_message_type :: "'ses \<Rightarrow> nat"
  olm_encrypt :: "'ses \<Rightarrow> string \<Rightarrow> BinaryBuf \<Rightarrow> ('ses \<times> BinaryBuf) option"
  olm_create_inbound_session_from :: "'acc \<Rightarrow> string \<Rightarrow> BinaryBuf \<Rightarrow> 'ses option"
  olm_create_inbound_session :: "'acc \<Rightarrow> BinaryBuf \<Rightarrow> 'ses option"
  olm_remove_one_time_keys :: "'acc \<Rightarrow> 'ses \<Rightarrow> 'acc option"
  olm_create_outbound_session_random_length :: nat
  olm_create_outbound_session :: "'acc \<Rightarrow> string \<Rightarrow> string \<Rightarrow> BinaryBuf \<Rightarrow> 'ses option"
  olm_matches_inbound_session :: "'ses \<Rightarrow> string \<Rightarrow> nat option"
  olm_matches_inbound_session_from :: "'ses \<Rightarrow> string \<Rightarrow> string \<Rightarrow> nat option"
  olm_session_id :: "'ses \<Rightarrow> string"
  olm_outbound_group_session_id :: "'outb \<Rightarrow> string"
  olm_outbound_group_session_key :: "'outb \<Rightarrow> string"
  olm_inbound_group_session_first_known_index :: "'inb \<Rightarrow> 32 word"
  olm_export_inbound_group_session :: "'inb \<Rightarrow> 32 word \<Rightarrow> string option"
  olm_create_sas_random_length :: nat
  olm_create_sas :: "BinaryBuf \<Rightarrow> 'sas option"
  olm_sas_get_pubkey :: "'sas \<Rightarrow> string option"
  olm_sas_set_their_key :: "'sas \<Rightarrow> BinaryBuf \<Rightarrow> 'sas option"
  olm_sas_generate_bytes :: "'sas \<Rightarrow> BinaryBuf \<Rightarrow> nat \<Rightarrow> BinaryBuf option"
  olm_sas_calculate_mac :: "'sas \<Rightarrow> BinaryBuf \<Rightarrow> BinaryBuf \<Rightarrow> string option"
  olm_sas_calculate_mac_fixed_base64 :: "'sas \<Rightarrow> BinaryBuf \<Rightarrow> BinaryBuf \<Rightarrow> string option"
  olm_pk_signing_seed_length :: nat
  olm_pk_signing_key_from_seed :: "string \<Rightarrow> ('pk \<times> string) option"
  olm_pk_sign :: "'pk \<Rightarrow> BinaryBuf \<Rightarrow> string option"
  olm_pk_private_key_length :: nat
  olm_pk_key_length :: nat
  olm_pk_key_from_private :: "BinaryBuf \<Rightarrow> string option"
  olm_pk_encrypt_random_length :: nat
  olm_pk_encrypt :: "string \<Rightarrow> string \<Rightarrow> BinaryBuf \<Rightarrow> (string \<times> string \<times> string) option"
  olm_pk_decrypt :: "BinaryBuf \<Rightarrow> string \<Rightarrow> string \<Rightarrow> string \<Rightarrow> string option"
  olm_ed25519_verify :: "string \<Rightarrow> string \<Rightarrow> string \<Rightarrow> nat"

text \<open>\<open>if (ret == olm_error()) throw olm_exception(func, ...)\<close>\<close>

definition or_throw :: "string \<Rightarrow> 'a option \<Rightarrow> 'a result" where
  "or_throw func x = (case x of None \<Rightarrow> Inl (Olm_exception func) | Some v \<Rightarrow> Inr v)"

section \<open>The account\<close>

record 'acc OlmClient =
  oc_user_id :: string
  oc_device_id :: string
  oc_account :: "'acc option"

definition new_OlmClient :: "string \<Rightarrow> string \<Rightarrow> 'acc OlmClient" where
  "new_OlmClient user_id device_id = \<lparr>oc_user_id = user_id, oc_device_id = device_id, oc_account = None\<rparr>"

text \<open>A null account handed to libolm is an invalid access.\<close>

definition the_account :: "'acc OlmClient \<Rightarrow> 'acc result" where
  "the_account c = (case oc_account c of None \<Rightarrow> Inl Assertion | Some a \<Rightarrow> Inr a)"

definition create_new_account ::
    "('acc, 'ses, 'inb, 'outb, 'sas, 'pk) olm_lib \<Rightarrow> rand \<Rightarrow> 'acc OlmClient \<Rightarrow> 'acc OlmClient \<times> unit result" where
  "create_new_account M r c =
     (case olm_create_account M (create_buffer r (olm_create_account_random_length M)) of
        None \<Rightarrow> (c\<lparr>oc_account := Some (olm_account M)\<rparr>, Inl (Olm_exception ''create_new_account''))
      | Some a \<Rightarrow> (c\<lparr>oc_account := Some a\<rparr>, Inr ()))"

definition restore_account ::
    "('acc, 'ses, 'inb, 'outb, 'sas, 'pk) olm_lib \<Rightarrow> string \<Rightarrow> string \<Rightarrow> 'acc OlmClient \<Rightarrow> 'acc OlmClient \<times> unit result" where
  "restore_account M saved_data key c =
     (case olm_unpickle_account M key saved_data of
        None \<Rightarrow> (c, Inl (Olm_exception ''unpickle''))
      | Some a \<Rightarrow> (c\<lparr>oc_account := Some a\<rparr>, Inr ()))"

definition save_account :: "('acc, 'ses, 'inb, 'outb, 'sas, 'pk) olm_lib \<Rightarrow> 'acc OlmClient \<Rightarrow> string \<Rightarrow> string result" where
  "save_account M c key =
     (case oc_account c of None \<Rightarrow> Inr [] | Some a \<Rightarrow> or_throw ''pickle'' (olm_pickle_account M a key))"

definition identity_keys ::
    "('acc, 'ses, 'inb, 'outb, 'sas, 'pk) olm_lib \<Rightarrow> 'j json_lib \<Rightarrow> 'acc OlmClient \<Rightarrow> IdentityKeys result" where
  "identity_keys M J c =
     (case oc_account c of
        None \<Rightarrow> Inl (Olm_exception ''identity_keys'')
      | Some a \<Rightarrow>
          rbind (or_throw ''identity_keys'' (olm_account_identity_keys M a)) (\<lambda>s.
          rbind (jparse J s) (IdentityKeys_from_json J)))"

definition sign_message :: "('acc, 'ses, 'inb, 'outb, 'sas, 'pk) olm_lib \<Rightarrow> 'acc OlmClient \<Rightarrow> string \<Rightarrow> string result" where
  "sign_message M c msg = rbind (the_account c) (\<lambda>a. Inr (olm_account_sign M a msg))"

definition olm_algorithms :: "string list" where
  "olm_algorithms = [''m.olm.v1.curve25519-aes-sha2'', ''m.megolm.v1.aes-sha2'']"

definition device_key_map :: "string \<Rightarrow> IdentityKeys \<Rightarrow> string smap" where
  "device_key_map device_id keys =
     map_set (''ed25519:'' @ device_id) (ik_ed25519 keys)
       (map_set (''curve25519:'' @ device_id) (ik_curve25519 keys) [])"

definition sign_identity_keys ::
    "('acc, 'ses, 'inb, 'outb, 'sas, 'pk) olm_lib \<Rightarrow> 'j json_lib \<Rightarrow> 'acc OlmClient \<Rightarrow> string result" where
  "sign_identity_keys M J c =
     rbind (identity_keys M J c) (\<lambda>keys.
       let body = jof_object J (to_smap
             [(''algorithms'', jstrings J olm_algorithms),
              (''user_id'', jstring J (oc_user_id c)),
              (''device_id'', jstring J (oc_device_id c)),
              (''keys'', jstring_map J (device_key_map (oc_device_id c) keys))])
       in rbind (jdump J body) (sign_message M c))"

text \<open>The keys that were generated stay in the account when the fallback key fails.\<close>

definition generate_one_time_keys ::
    "('acc, 'ses, 'inb, 'outb, 'sas, 'pk) olm_lib \<Rightarrow> entropy \<Rightarrow> nat \<Rightarrow> bool \<Rightarrow> 'acc OlmClient \<Rightarrow> 'acc OlmClient \<times> nat result" where
  "generate_one_time_keys M ent n generate_fallback c =
     (case the_account c of
        Inl e \<Rightarrow> (c, Inl e)
      | Inr a \<Rightarrow>
          (case olm_account_generate_one_time_keys M a n
                  (create_buffer (ent 0) (olm_account_generate_one_time_keys_random_length M a n)) of
             None \<Rightarrow> (c, Inl (Olm_exception ''generate_one_time_keys''))
           | Some (a, ret) \<Rightarrow>
               if generate_fallback then
                 (case olm_account_generate_fallback_key M a
                         (create_buffer (ent 1) (olm_account_generate_fallback_key_random_length M a)) of
                    None \<Rightarrow> (c\<lparr>oc_account := Some a\<rparr>, Inl (Olm_exception ''generate_fallback_keys''))
                  | Some a \<Rightarrow> (c\<lparr>oc_account := Some a\<rparr>, Inr ret))
               else (c\<lparr>oc_account := Some a\<rparr>, Inr ret)))"

definition one_time_keys ::
    "('acc, 'ses, 'inb, 'outb, 'sas, 'pk) olm_lib \<Rightarrow> 'j json_lib \<Rightarrow> 'acc OlmClient \<Rightarrow> string smap result" where
  "one_time_keys M J c =
     rbind (the_account c) (\<lambda>a.
     rbind (or_throw ''one_time_keys'' (olm_account_one_time_keys M a)) (\<lambda>s.
     rbind (jparse J s) (OneTimeKeys_from_json J)))"

definition unpublished_fallback_keys ::
    "('acc, 'ses, 'inb, 'outb, 'sas, 'pk) olm_lib \<Rightarrow> 'j json_lib \<Rightarrow> 'acc OlmClient \<Rightarrow> string smap result" where
  "unpublished_fallback_keys M J c =
     rbind (the_account c) (\<lambda>a.
     rbind (or_throw ''unpublished_fallback_keys'' (olm_account_unpublished_fallback_key M a)) (\<lambda>s.
     rbind (jparse J s) (OneTimeKeys_from_json J)))"

definition mark_keys_as_published ::
    "('acc, 'ses, 'inb, 'outb, 'sas, 'pk) olm_lib \<Rightarrow> 'acc OlmClient \<Rightarrow> 'acc OlmClient \<times> unit result" where
  "mark_keys_as_published M c =
     (case the_account c of
        Inl e \<Rightarrow> (c, Inl e)
      | Inr a \<Rightarrow> (c\<lparr>oc_account := Some (olm_account_mark_keys_as_published M a)\<rparr>, Inr ()))"

definition forget_old_fallback_key ::
    "('acc, 'ses, 'inb, 'outb, 'sas, 'pk) olm_lib \<Rightarrow> 'acc OlmClient \<Rightarrow> 'acc OlmClient \<times> unit result" where
  "forget_old_fallback_key M c =
     (case the_account c of
        Inl e \<Rightarrow> (c, Inl e)
      | Inr a \<Rightarrow> (c\<lparr>oc_account := Some (olm_account_forget_old_fallback_key M a)\<rparr>, Inr ()))"

section \<open>Signed keys\<close>

definition one_time_key_json :: "'j json_lib \<Rightarrow> string \<Rightarrow> bool \<Rightarrow> 'j" where
  "one_time_key_json J key fallback =
     jset_if J fallback (jof_object J [(''key'', jstring J key)]) ''fallback'' (jbool J True)"

definition sign_one_time_key ::
    "('acc, 'ses, 'inb, 'outb, 'sas, 'pk) olm_lib \<Rightarrow> 'j json_lib \<Rightarrow> 'acc OlmClient \<Rightarrow> string \<Rightarrow> bool \<Rightarrow> string result" where
  "sign_one_time_key M J c key fallback = rbind (jdump J (one_time_key_json J key fallback)) (sign_message M c)"

definition signed_one_time_key :: "'acc OlmClient \<Rightarrow> string \<Rightarrow> string \<Rightarrow> bool \<Rightarrow> SignedOneTimeKey" where
  "signed_one_time_key c key signature fallback =
     \<lparr>sk_key = key, sk_fallback = fallback,
      sk_signatures = [(oc_user_id c, [(''ed25519:'' @ oc_device_id c, signature)])]\<rparr>"

definition sign_one_time_keys ::
    "('acc, 'ses, 'inb, 'outb, 'sas, 'pk) olm_lib \<Rightarrow> 'j json_lib \<Rightarrow> 'acc OlmClient \<Rightarrow> string smap \<Rightarrow> bool \<Rightarrow> SignedOneTimeKey smap result" where
  "sign_one_time_keys M J c keys fallback =
     foldM (\<lambda>(key_id, one_time_key) m.
         rbind (sign_one_time_key M J c one_time_key fallback) (\<lambda>sig.
           Inr (map_set (''signed_curve25519:'' @ key_id) (signed_one_time_key c one_time_key sig fallback) m)))
       keys []"

definition create_upload_keys_request ::
    "('acc, 'ses, 'inb, 'outb, 'sas, 'pk) olm_lib \<Rightarrow> 'j json_lib \<Rightarrow> 'acc OlmClient \<Rightarrow> string smap \<Rightarrow> string smap \<Rightarrow> UploadKeys result" where
  "create_upload_keys_request M J c otks fallback_keys =
     rbind (identity_keys M J c) (\<lambda>id_keys.
     rbind (sign_identity_keys M J c) (\<lambda>sig.
     rbind (sign_one_time_keys M J c otks False) (\<lambda>signed.
     rbind (sign_one_time_keys M J c fallback_keys True) (\<lambda>fallback.
       Inr \<lparr>uk_device_keys =
              \<lparr>dk_user_id = oc_user_id c, dk_device_id = oc_device_id c, dk_algorithms = olm_algorithms,
               dk_keys = device_key_map (oc_device_id c) id_keys,
               dk_signatures = [(oc_user_id c, [(''ed25519:'' @ oc_device_id c, sig)])],
               dk_device_display_name = []\<rparr>,
            uk_one_time_keys = map (\<lambda>(k, v). (k, Signed_key v)) signed,
            uk_fallback_keys = map (\<lambda>(k, v). (k, Signed_key v)) fallback\<rparr>))))"

definition create_upload_keys_request_default ::
    "('acc, 'ses, 'inb, 'outb, 'sas, 'pk) olm_lib \<Rightarrow> 'j json_lib \<Rightarrow> 'acc OlmClient \<Rightarrow> UploadKeys result" where
  "create_upload_keys_request_default M J c =
     rbind (one_time_keys M J c) (\<lambda>otks.
     rbind (unpublished_fallback_keys M J c) (\<lambda>fallback.
       create_upload_keys_request M J c otks fallback))"

section \<open>Verification of signatures\<close>

text \<open>Erasing a key of a value that is no object throws an exception that is caught.\<close>

definition ed25519_verify_signature ::
    "('acc, 'ses, 'inb, 'outb, 'sas, 'pk) olm_lib \<Rightarrow> 'j json_lib \<Rightarrow> string \<Rightarrow> 'j \<Rightarrow> string \<Rightarrow> bool" where
  "ed25519_verify_signature M J signing_key obj signature =
     (if signature = [] then False
      else if jtype_of J obj \<noteq> JObject then False
      else case jdump J (jerase J (jerase J obj ''unsigned'') ''signatures'') of
        Inl _ \<Rightarrow> False
      | Inr canonical_json \<Rightarrow> olm_ed25519_verify M signing_key canonical_json signature = 0)"

definition map_at :: "'v smap \<Rightarrow> string \<Rightarrow> 'v result" where
  "map_at m k = (case map_of m k of None \<Rightarrow> Inl (Out_of_range ''map::at'') | Some v \<Rightarrow> Inr v)"

text \<open>The handler is for exceptions of the JSON library; those of \<open>map::at\<close> escape.\<close>

definition verify_identity_signature ::
    "('acc, 'ses, 'inb, 'outb, 'sas, 'pk) olm_lib \<Rightarrow> 'j json_lib \<Rightarrow> DeviceKeys \<Rightarrow> string \<Rightarrow> string \<Rightarrow> bool result" where
  "verify_identity_signature M J device_keys device_id user_id =
     (let sign_key_id = ''ed25519:'' @ device_id
      in rbind (map_at (dk_keys device_keys) sign_key_id) (\<lambda>signing_key.
         rbind (map_at (dk_signatures device_keys) user_id) (\<lambda>sigs.
         rbind (map_at sigs sign_key_id) (\<lambda>signature.
           Inr (if signature = [] then False
                else ed25519_verify_signature M J signing_key (DeviceKeys_to_json J device_keys) signature)))))"

end
