(* ===== verification/Media_Info.thy ===== *)
theory Media_Info
  imports Relations Crypto_Json
begin

text \<open>
  The metadata of media (\<open>lib/structs/events/common.cpp\<close>): thumbnails, images, files, audio and video
  clips, locations. Numbers are read leniently: a field of another type counts as missing.
\<close>

definition safe_get :: "'j json_lib \<Rightarrow> ('j \<Rightarrow> 'a result) \<Rightarrow> 'j \<Rightarrow> string \<Rightarrow> 'a \<Rightarrow> 'a result" where
  "safe_get J conv obj name default_val =
     (case jvalue J conv obj name default_val of
        Inl e \<Rightarrow> if e = Json_exn Type_error then Inr default_val else Inl e
      | Inr x \<Rightarrow> Inr x)"

definition safe_uint64 :: "'j json_lib \<Rightarrow> 'j \<Rightarrow> string \<Rightarrow> int result" where
  "safe_uint64 J obj name = safe_get J (jget_uint64 J) obj name 0"

text \<open>\<open>if (obj.find(k) != obj.end()) field = obj.at(k).get<T>()\<close> for a \<open>std::optional\<close> field\<close>

definition jfind_opt :: "'j json_lib \<Rightarrow> ('j \<Rightarrow> 'a result) \<Rightarrow> 'j \<Rightarrow> string \<Rightarrow> 'a option result" where
  "jfind_opt J conv obj k = jopt J (\<lambda>v. rbind (conv v) (\<lambda>x. Inr (Some x))) obj k None"

section \<open>The records\<close>

record ThumbnailInfo =
  th_h :: int
  th_w :: int
  th_size :: int
  th_mimetype :: string

definition empty_ThumbnailInfo :: ThumbnailInfo where
  "empty_ThumbnailInfo = \<lparr>th_h = 0, th_w = 0, th_size = 0, th_mimetype = []\<rparr>"

record ImageInfo =
  ii_h :: int
  ii_w :: int
  ii_size :: int
  ii_thumbnail_info :: ThumbnailInfo
  ii_thumbnail_url :: string
  ii_mimetype :: string
  ii_thumbnail_file :: "EncryptedFile option"
  ii_blurhash :: string

definition empty_ImageInfo :: ImageInfo where
  "empty_ImageInfo = \<lparr>ii_h = 0, ii_w = 0, ii_size = 0, ii_thumbnail_info = empty_ThumbnailInfo, ii_thumbnail_url = [],
     ii_mimetype = [], ii_thumbnail_file = None, ii_blurhash = []\<rparr>"

record FileInfo =
  fi_size :: int
  fi_thumbnail_info :: ThumbnailInfo
  fi_thumbnail_url :: string
  fi_mimetype :: string
  fi_thumbnail_file :: "EncryptedFile option"

definition empty_FileInfo :: FileInfo where
  "empty_FileInfo = \<lparr>fi_size = 0, fi_thumbnail_info = empty_ThumbnailInfo, fi_thumbnail_url = [], fi_mimetype = [],
     fi_thumbnail_file = None\<rparr>"

record AudioInfo =
  ai_size :: int
  ai_duration :: int
  ai_mimetype :: string

definition empty_AudioInfo :: AudioInfo where
  "empty_AudioInfo = \<lparr>ai_size = 0, ai_duration = 0, ai_mimetype = []\<rparr>"

record VideoInfo =
  vi_size :: int
  vi_duration :: int
  vi_h :: int
  vi_w :: int
  vi_mimetype :: string
  vi_thumbnail_url :: string
  vi_thumbnail_info :: ThumbnailInfo
  vi_thumbnail_file :: "EncryptedFile option"
  vi_blurhash :: string

definition empty_VideoInfo :: VideoInfo where
  "empty_VideoInfo = \<lparr>vi_size = 0, vi_duration = 0, vi_h = 0, vi_w = 0, vi_mimetype = [], vi_thumbnail_url = [],
     vi_thumbnail_info = empty_ThumbnailInfo, vi_thumbnail_file = None, vi_blurhash = []\<rparr>"

record LocationInfo =
  li_thumbnail_url :: string
  li_thumbnail_info :: ThumbnailInfo
  li_thumbnail_file :: "EncryptedFile option"

definition empty_LocationInfo :: LocationInfo where
  "empty_LocationInfo = \<lparr>li_thumbnail_url = [], li_thumbnail_info = empty_ThumbnailInfo, li_thumbnail_file = None\<rparr>"

section \<open>Readers and writers\<close>

definition ThumbnailInfo_from_json :: "'j json_lib \<Rightarrow> 'j \<Rightarrow> ThumbnailInfo result" where
  "ThumbnailInfo_from_json J obj =
     rbind (safe_uint64 J obj ''h'') (\<lambda>h.
     rbind (safe_uint64 J obj ''w'') (\<lambda>w.
     rbind (safe_uint64 J obj ''size'') (\<lambda>size.
     rbind (jopt J (jget_string J) obj ''mimetype'' []) (\<lambda>mimetype.
       Inr \<lparr>th_h = h, th_w = w, th_size = size, th_mimetype = mimetype\<rparr>))))"

definition ThumbnailInfo_to_json :: "'j json_lib \<Rightarrow> ThumbnailInfo \<Rightarrow> 'j" where
  "ThumbnailInfo_to_json J info =
     (let obj = jset J (jnull J) ''h'' (jint J (th_h info));
          obj = jset J obj ''w'' (jint J (th_w info));
          obj = jset J obj ''size'' (jint J (th_size info))
      in jset J obj ''mimetype'' (jstring J (th_mimetype info)))"

text \<open>The three thumbnail fields, which several readers and writers share.\<close>

definition thumbnail_from_json :: "'j json_lib \<Rightarrow> 'j \<Rightarrow> (string \<times> ThumbnailInfo \<times> EncryptedFile option) result" where
  "thumbnail_from_json J obj =
     rbind (jopt J (jget_string J) obj ''thumbnail_url'' []) (\<lambda>url.
     rbind (jopt J (ThumbnailInfo_from_json J) obj ''thumbnail_info'' empty_ThumbnailInfo) (\<lambda>info.
     rbind (jfind_opt J (EncryptedFile_from_json J) obj ''thumbnail_file'') (\<lambda>file.
       Inr (url, info, file))))"

definition thumbnail_to_json ::
    "'j json_lib \<Rightarrow> 'j \<Rightarrow> string \<Rightarrow> ThumbnailInfo \<Rightarrow> EncryptedFile option \<Rightarrow> 'j" where
  "thumbnail_to_json J obj url info file =
     (let obj = (if url \<noteq> []
            then jset J (jset J obj ''thumbnail_url'' (jstring J url)) ''thumbnail_info'' (ThumbnailInfo_to_json J info)
            else obj)
      in jset_opt J (EncryptedFile_to_json J) obj ''thumbnail_file'' file)"

definition ImageInfo_from_json :: "'j json_lib \<Rightarrow> 'j \<Rightarrow> ImageInfo result" where
  "ImageInfo_from_json J obj =
     rbind (safe_uint64 J obj ''h'') (\<lambda>h.
     rbind (safe_uint64 J obj ''w'') (\<lambda>w.
     rbind (safe_uint64 J obj ''size'') (\<lambda>size.
     rbind (jopt J (jget_string J) obj ''mimetype'' []) (\<lambda>mimetype.
     rbind (thumbnail_from_json J obj) (\<lambda>(url, info, thumb).
     rbind (jopt J (jget_string J) obj ''xyz.amorgan.blurhash'' []) (\<lambda>blurhash.
       Inr \<lparr>ii_h = h, ii_w = w, ii_size = size, ii_thumbnail_info = info, ii_thumbnail_url = url,
            ii_mimetype = mimetype, ii_thumbnail_file = thumb, ii_blurhash = blurhash\<rparr>))))))"

definition ImageInfo_to_json :: "'j json_lib \<Rightarrow> ImageInfo \<Rightarrow> 'j" where
  "ImageInfo_to_json J info =
     (let obj = jset J (jnull J) ''h'' (jint J (ii_h info));
          obj = jset J obj ''w'' (jint J (ii_w info));
          obj = jset J obj ''size'' (jint J (ii_size info));
          obj = jset J obj ''mimetype'' (jstring J (ii_mimetype info));
          obj = thumbnail_to_json J obj (ii_thumbnail_url info) (ii_thumbnail_info info) (ii_thumbnail_file info)
      in jset_if J (ii_blurhash info \<noteq> []) obj ''xyz.amorgan.blurhash'' (jstring J (ii_blurhash info)))"

definition FileInfo_from_json :: "'j json_lib \<Rightarrow> 'j \<Rightarrow> FileInfo result" where
  "FileInfo_from_json J obj =
     rbind (safe_uint64 J obj ''size'') (\<lambda>size.
     rbind (jopt J (jget_string J) obj ''mimetype'' []) (\<lambda>mimetype.
     rbind (thumbnail_from_json J obj) (\<lambda>(url, info, thumb).
       Inr \<lparr>fi_size = size, fi_thumbnail_info = info, fi_thumbnail_url = url, fi_mimetype = mimetype,
            fi_thumbnail_file = thumb\<rparr>)))"

definition FileInfo_to_json :: "'j json_lib \<Rightarrow> FileInfo \<Rightarrow> 'j" where
  "FileInfo_to_json J info =
     (let obj = jset J (jnull J) ''size'' (jint J (fi_size info));
          obj = jset J obj ''mimetype'' (jstring J (fi_mimetype info))
      in thumbnail_to_json J obj (fi_thumbnail_url info) (fi_thumbnail_info info) (fi_thumbnail_file info))"

definition AudioInfo_from_json :: "'j json_lib \<Rightarrow> 'j \<Rightarrow> AudioInfo result" where
  "AudioInfo_from_json J obj =
     rbind (safe_uint64 J obj ''duration'') (\<lambda>duration.
     rbind (safe_uint64 J obj ''size'') (\<lambda>size.
     rbind (jopt J (jget_string J) obj ''mimetype'' []) (\<lambda>mimetype.
       Inr \<lparr>ai_size = size, ai_duration = duration, ai_mimetype = mimetype\<rparr>)))"

definition AudioInfo_to_json :: "'j json_lib \<Rightarrow> AudioInfo \<Rightarrow> 'j" where
  "AudioInfo_to_json J info =
     (let obj = jset J (jnull J) ''size'' (jint J (ai_size info));
          obj = jset J obj ''duration'' (jint J (ai_duration info))
      in jset J obj ''mimetype'' (jstring J (ai_mimetype info)))"

definition VideoInfo_from_json :: "'j json_lib \<Rightarrow> 'j \<Rightarrow> VideoInfo result" where
  "VideoInfo_from_json J obj =
     rbind (safe_uint64 J obj ''h'') (\<lambda>h.
     rbind (safe_uint64 J obj ''w'') (\<lambda>w.
     rbind (safe_uint64 J obj ''size'') (\<lambda>size.
     rbind (safe_uint64 J obj ''duration'') (\<lambda>duration.
     rbind (jopt J (jget_string J) obj ''mimetype'' []) (\<lambda>mimetype.
     rbind (thumbnail_from_json J obj) (\<lambda>(url, info, thumb).
     rbind (jopt J (jget_string J) obj ''xyz.amorgan.blurhash'' []) (\<lambda>blurhash.
       Inr \<lparr>vi_size = size, vi_duration = duration, vi_h = h, vi_w = w, vi_mimetype = mimetype,
            vi_thumbnail_url = url, vi_thumbnail_info = info, vi_thumbnail_file = thumb, vi_blurhash = blurhash\<rparr>)))))))"

definition VideoInfo_to_json :: "'j json_lib \<Rightarrow> VideoInfo \<Rightarrow> 'j" where
  "VideoInfo_to_json J info =
     (let obj = jset J (jnull J) ''size'' (jint J (vi_size info));
          obj = jset J obj ''h'' (jint J (vi_h info));
          obj = jset J obj ''w'' (jint J (vi_w info));
          obj = jset J obj ''duration'' (jint J (vi_duration info));
          obj = jset J obj ''mimetype'' (jstring J (vi_mimetype info));
          obj = thumbnail_to_json J obj (vi_thumbnail_url info) (vi_thumbnail_info info) (vi_thumbnail_file info)
      in jset_if J (vi_blurhash info \<noteq> []) obj ''xyz.amorgan.blurhash'' (jstring J (vi_blurhash info)))"

definition LocationInfo_from_json :: "'j json_lib \<Rightarrow> 'j \<Rightarrow> LocationInfo result" where
  "LocationInfo_from_json J obj =
     rbind (thumbnail_from_json J obj) (\<lambda>(url, info, thumb).
       Inr \<lparr>li_thumbnail_url = url, li_thumbnail_info = info, li_thumbnail_file = thumb\<rparr>)"

text \<open>Nothing is assigned for an empty location, whose JSON value stays null.\<close>

definition LocationInfo_to_json :: "'j json_lib \<Rightarrow> LocationInfo \<Rightarrow> 'j" where
  "LocationInfo_to_json J info =
     (let obj = (if li_thumbnail_url info \<noteq> []
            then jset J (jset J (jnull J) ''thumbnail_url'' (jstring J (li_thumbnail_url info)))
                   ''thumbnail_info'' (ThumbnailInfo_to_json J (li_thumbnail_info info))
            else jnull J)
      in case li_thumbnail_file info of
           None \<Rightarrow> obj
         | Some f \<Rightarrow> jset J (jset J obj ''thumbnail_file'' (EncryptedFile_to_json J f))
                      ''thumbnail_info'' (ThumbnailInfo_to_json J (li_thumbnail_info info)))"

section \<open>Round trips\<close>

text \<open>
  The values of the fields are unsigned 64-bit numbers. A thumbnail's metadata is written only beside
  its URL (for a location, also beside its file).
\<close>

definition uint64_ok :: "int \<Rightarrow> bool" where
  "uint64_ok n \<longleftrightarrow> 0 \<le> n \<and> n < 2 ^ 64"

lemma uint64_0 [simp]: "uint64_ok 0"
  by (simp add: uint64_ok_def)

definition file_ok :: "EncryptedFile option \<Rightarrow> bool" where
  "file_ok f \<longleftrightarrow> (case f of None \<Rightarrow> True | Some x \<Rightarrow> smap_ok (ef_hashes x))"

definition thumb_ok :: "ThumbnailInfo \<Rightarrow> bool" where
  "thumb_ok t \<longleftrightarrow> uint64_ok (th_h t) \<and> uint64_ok (th_w t) \<and> uint64_ok (th_size t)"

definition thumb_written :: "string \<Rightarrow> ThumbnailInfo \<Rightarrow> bool" where
  "thumb_written url t \<longleftrightarrow> thumb_ok t \<and> (url = [] \<longrightarrow> t = empty_ThumbnailInfo)"

definition ImageInfo_ok :: "ImageInfo \<Rightarrow> bool" where
  "ImageInfo_ok i \<longleftrightarrow> uint64_ok (ii_h i) \<and> uint64_ok (ii_w i) \<and> uint64_ok (ii_size i)
     \<and> thumb_written (ii_thumbnail_url i) (ii_thumbnail_info i) \<and> file_ok (ii_thumbnail_file i)"

definition FileInfo_ok :: "FileInfo \<Rightarrow> bool" where
  "FileInfo_ok i \<longleftrightarrow> uint64_ok (fi_size i) \<and> thumb_written (fi_thumbnail_url i) (fi_thumbnail_info i) \<and> file_ok (fi_thumbnail_file i)"

definition AudioInfo_ok :: "AudioInfo \<Rightarrow> bool" where
  "AudioInfo_ok i \<longleftrightarrow> uint64_ok (ai_size i) \<and> uint64_ok (ai_duration i)"

definition VideoInfo_ok :: "VideoInfo \<Rightarrow> bool" where
  "VideoInfo_ok i \<longleftrightarrow> uint64_ok (vi_h i) \<and> uint64_ok (vi_w i) \<and> uint64_ok (vi_size i) \<and> uint64_ok (vi_duration i)
     \<and> thumb_written (vi_thumbnail_url i) (vi_thumbnail_info i) \<and> file_ok (vi_thumbnail_file i)"

definition LocationInfo_ok :: "LocationInfo \<Rightarrow> bool" where
  "LocationInfo_ok i \<longleftrightarrow> thumb_ok (li_thumbnail_info i) \<and> file_ok (li_thumbnail_file i)
     \<and> (li_thumbnail_url i = [] \<and> li_thumbnail_file i = None \<longrightarrow> li_thumbnail_info i = empty_ThumbnailInfo)"

context json_library
begin

lemma safe_uint64_fields:
  assumes "jtype_of J obj = JObject" and "jfields J obj k = Some (jint J n)" and "uint64_ok n"
  shows "safe_uint64 J obj k = Inr n"
  using assms by (simp add: safe_uint64_def safe_get_def value_fields uint64_ok_def)

text \<open>Leniency: a missing field and a field of another type read as zero.\<close>

lemma safe_uint64_lenient:
  assumes "jfields J obj k = None \<or> jfields J obj k = Some v \<and> jget_uint64 J v = type_error"
  shows "safe_uint64 J obj k = Inr 0"
proof (cases "jtype_of J obj = JObject")
  case True
  then show ?thesis using assms by (auto simp: safe_uint64_def safe_get_def value_fields)
qed (simp add: safe_uint64_def safe_get_def value_not_object)

lemma find_opt_fields:
  "jfind_opt J conv obj k = (case jfields J obj k of None \<Rightarrow> Inr None | Some v \<Rightarrow> rbind (conv v) (\<lambda>x. Inr (Some x)))"
  by (simp add: jfind_opt_def opt_fields)

lemma ThumbnailInfo_object [simp]: "jtype_of J (ThumbnailInfo_to_json J t) = JObject"
  by (simp add: ThumbnailInfo_to_json_def Let_def)

lemma ThumbnailInfo_roundtrip: "thumb_ok t \<Longrightarrow> ThumbnailInfo_from_json J (ThumbnailInfo_to_json J t) = Inr t"
  by (simp add: ThumbnailInfo_from_json_def ThumbnailInfo_to_json_def thumb_ok_def safe_uint64_fields
      opt_fields Let_def)

lemma EncryptedFile_opt:
  "file_ok (Some f) \<Longrightarrow> rbind (EncryptedFile_from_json J (EncryptedFile_to_json J f)) (\<lambda>x. Inr (Some x)) = Inr (Some f)"
  by (simp add: file_ok_def EncryptedFile_roundtrip)

lemma thumbnail_object [simp]: "jtype_of J obj = JObject \<Longrightarrow> jtype_of J (thumbnail_to_json J obj u t f) = JObject"
  by (simp add: thumbnail_to_json_def jset_opt_def object_or_null Let_def split: option.split)

lemma thumbnail_fields:
  assumes "jtype_of J obj = JObject"
  shows "jfields J (thumbnail_to_json J obj u t f) =
    (let m = (if u = [] then jfields J obj
              else (jfields J obj)(''thumbnail_url'' \<mapsto> jstring J u, ''thumbnail_info'' \<mapsto> ThumbnailInfo_to_json J t))
     in case f of None \<Rightarrow> m | Some x \<Rightarrow> m(''thumbnail_file'' \<mapsto> EncryptedFile_to_json J x))"
  using assms by (simp add: thumbnail_to_json_def jset_opt_def object_or_null Let_def split: option.split)

lemma thumbnail_roundtrip:
  assumes "jfields J o1 ''thumbnail_url'' = (if u = [] then None else Some (jstring J u))"
    and "jfields J o1 ''thumbnail_info'' = (if u = [] then None else Some (ThumbnailInfo_to_json J t))"
    and "jfields J o1 ''thumbnail_file'' = map_option (EncryptedFile_to_json J) f"
    and "thumb_written u t" and "file_ok f"
  shows "thumbnail_from_json J o1 = Inr (u, t, f)"
  using assms
  by (cases f) (auto simp: thumbnail_from_json_def opt_fields find_opt_fields thumb_written_def
      ThumbnailInfo_roundtrip EncryptedFile_opt)

lemma thumbnail_read:
  assumes "jtype_of J obj = JObject" and "jfields J obj ''thumbnail_url'' = None"
    and "jfields J obj ''thumbnail_info'' = None" and "jfields J obj ''thumbnail_file'' = None"
    and "thumb_written u t" and "file_ok f"
  shows "thumbnail_from_json J (thumbnail_to_json J obj u t f) = Inr (u, t, f)"
    and "thumbnail_from_json J (jset_if J c (thumbnail_to_json J obj u t f) ''xyz.amorgan.blurhash'' v) = Inr (u, t, f)"
  using assms by (auto intro!: thumbnail_roundtrip simp: thumbnail_fields object_or_null Let_def split: option.split)

lemmas info_simps = thumbnail_read thumbnail_fields safe_uint64_fields opt_fields Let_def object_or_null

lemma ImageInfo_roundtrip: "ImageInfo_ok i \<Longrightarrow> ImageInfo_from_json J (ImageInfo_to_json J i) = Inr i"
  by (cases "ii_thumbnail_file i") (simp_all add: ImageInfo_ok_def ImageInfo_from_json_def ImageInfo_to_json_def info_simps)

lemma FileInfo_roundtrip: "FileInfo_ok i \<Longrightarrow> FileInfo_from_json J (FileInfo_to_json J i) = Inr i"
  by (cases "fi_thumbnail_file i") (simp_all add: FileInfo_ok_def FileInfo_from_json_def FileInfo_to_json_def info_simps)

lemma AudioInfo_roundtrip: "AudioInfo_ok i \<Longrightarrow> AudioInfo_from_json J (AudioInfo_to_json J i) = Inr i"
  by (simp add: AudioInfo_ok_def AudioInfo_from_json_def AudioInfo_to_json_def info_simps)

lemma VideoInfo_roundtrip: "VideoInfo_ok i \<Longrightarrow> VideoInfo_from_json J (VideoInfo_to_json J i) = Inr i"
  by (cases "vi_thumbnail_file i") (simp_all add: VideoInfo_ok_def VideoInfo_from_json_def VideoInfo_to_json_def info_simps)

lemma LocationInfo_roundtrip: "LocationInfo_ok i \<Longrightarrow> LocationInfo_from_json J (LocationInfo_to_json J i) = Inr i"
  by (cases "li_thumbnail_file i"; cases "li_thumbnail_url i = []")
     (auto simp: LocationInfo_ok_def LocationInfo_from_json_def LocationInfo_to_json_def thumbnail_from_json_def
        opt_fields find_opt_fields ThumbnailInfo_roundtrip EncryptedFile_opt object_or_null Let_def)

end

end
