(* ===== verification/Key_Verification.thy ===== *)
theory Key_Verification
  imports Media_Info
begin

text \<open>
  The contents of encryption events (\<open>lib/structs/events/encrypted.cpp\<close>): encrypted messages, room keys,
  key and secret requests, and the steps of key verification.
\<close>

section \<open>Methods\<close>

datatype SASMethods = Decimal | Emoji | Unsupported_SAS

definition SASMethods_to_json :: "'j json_lib \<Rightarrow> SASMethods \<Rightarrow> 'j" where
  "SASMethods_to_json J m = jstring J
     (case m of Decimal \<Rightarrow> ''decimal'' | Emoji \<Rightarrow> ''emoji'' | Unsupported_SAS \<Rightarrow> ''unsupported'')"

definition SASMethods_from_json :: "'j json_lib \<Rightarrow> 'j \<Rightarrow> SASMethods result" where
  "SASMethods_from_json J obj =
     rbind (jget_string J obj) (\<lambda>s.
       Inr (if s = ''decimal'' then Decimal else if s = ''emoji'' then Emoji else Unsupported_SAS))"

datatype VerificationMethods = SASv1 | Unsupported_method

definition VerificationMethods_to_json :: "'j json_lib \<Rightarrow> VerificationMethods \<Rightarrow> 'j" where
  "VerificationMethods_to_json J m = jstring J (case m of SASv1 \<Rightarrow> ''m.sas.v1'' | Unsupported_method \<Rightarrow> ''unsupported'')"

definition VerificationMethods_from_json :: "'j json_lib \<Rightarrow> 'j \<Rightarrow> VerificationMethods result" where
  "VerificationMethods_from_json J obj =
     rbind (jget_string J obj) (\<lambda>s. Inr (if s = ''m.sas.v1'' then SASv1 else Unsupported_method))"

definition jmethods :: "'j json_lib \<Rightarrow> VerificationMethods list \<Rightarrow> 'j" where
  "jmethods J ms = jof_array J (map (VerificationMethods_to_json J) ms)"

definition jsas_methods :: "'j json_lib \<Rightarrow> SASMethods list \<Rightarrow> 'j" where
  "jsas_methods J ms = jof_array J (map (SASMethods_to_json J) ms)"

section \<open>Encrypted messages\<close>

text \<open>A narrow unsigned integer: the value is truncated to its width, and truth values are numbers.\<close>

definition jget_narrow :: "'j json_lib \<Rightarrow> nat \<Rightarrow> 'j \<Rightarrow> int result" where
  "jget_narrow J w j =
     (if jtype_of J j = JBoolean then rbind (jget_bool J j) (\<lambda>b. Inr (if b then 1 else 0))
      else rbind (jget_int64 J j) (\<lambda>n. Inr (n mod 2 ^ w)))"

text \<open>A number of the width is read back.\<close>

context json_library
begin

lemma narrow_read: "0 \<le> n \<Longrightarrow> n < 2 ^ w \<Longrightarrow> w \<le> 32 \<Longrightarrow> jget_narrow J w (jint J n) = Inr n"
proof -
  assume "0 \<le> n" "n < 2 ^ w" "w \<le> 32"
  moreover have "(2 :: int) ^ w \<le> 2 ^ 32" using \<open>w \<le> 32\<close> by (intro power_increasing) simp_all
  ultimately show ?thesis by (simp add: jget_narrow_def)
qed

end

record OlmCipherContent =
  occ_body :: string
  occ_type :: int

definition OlmCipherContent_from_json :: "'j json_lib \<Rightarrow> 'j \<Rightarrow> OlmCipherContent result" where
  "OlmCipherContent_from_json J obj =
     rbind (jat_as J (jget_string J) obj ''body'') (\<lambda>body.
     rbind (jat_as J (jget_narrow J 8) obj ''type'') (\<lambda>type.
       Inr \<lparr>occ_body = body, occ_type = type\<rparr>))"

definition OlmCipherContent_to_json :: "'j json_lib \<Rightarrow> OlmCipherContent \<Rightarrow> 'j" where
  "OlmCipherContent_to_json J msg =
     jset J (jset J (jnull J) ''body'' (jstring J (occ_body msg))) ''type'' (jint J (occ_type msg))"

record OlmEncrypted =
  oe_algorithm :: string
  oe_sender_key :: string
  oe_ciphertext :: "OlmCipherContent smap"

definition OLM_ALGO :: string where
  "OLM_ALGO = ''m.olm.v1.curve25519-aes-sha2''"

definition OlmEncrypted_from_json :: "'j json_lib \<Rightarrow> 'j \<Rightarrow> OlmEncrypted result" where
  "OlmEncrypted_from_json J obj =
     rbind (jat_as J (jget_string J) obj ''sender_key'') (\<lambda>sender_key.
     rbind (jat_as J (jget_map J (OlmCipherContent_from_json J)) obj ''ciphertext'') (\<lambda>ciphertext.
       Inr \<lparr>oe_algorithm = OLM_ALGO, oe_sender_key = sender_key, oe_ciphertext = ciphertext\<rparr>))"

definition OlmEncrypted_to_json :: "'j json_lib \<Rightarrow> OlmEncrypted \<Rightarrow> 'j" where
  "OlmEncrypted_to_json J msg =
     (let obj = jset J (jnull J) ''algorithm'' (jstring J (oe_algorithm msg));
          obj = jset J obj ''sender_key'' (jstring J (oe_sender_key msg))
      in jset J obj ''ciphertext'' (jof_map J (OlmCipherContent_to_json J) (oe_ciphertext msg)))"

record Encrypted =
  me_algorithm :: string
  me_ciphertext :: string
  me_device_id :: string
  me_sender_key :: string
  me_session_id :: string
  me_relations :: Relations

definition Encrypted_from_json :: "'j json_lib \<Rightarrow> 'j \<Rightarrow> Encrypted result" where
  "Encrypted_from_json J obj =
     rbind (jat_as J (jget_string J) obj ''algorithm'') (\<lambda>algorithm.
     rbind (jat_as J (jget_string J) obj ''ciphertext'') (\<lambda>ciphertext.
     rbind (jat_as J (jget_string J) obj ''session_id'') (\<lambda>session_id.
     rbind (jvalue J (jget_string J) obj ''device_id'' []) (\<lambda>device_id.
     rbind (jvalue J (jget_string J) obj ''sender_key'' []) (\<lambda>sender_key.
     rbind (parse_relations J obj) (\<lambda>relations.
       Inr \<lparr>me_algorithm = algorithm, me_ciphertext = ciphertext, me_device_id = device_id,
            me_sender_key = sender_key, me_session_id = session_id, me_relations = relations\<rparr>))))))"

text \<open>Relations are added, but no edit is generated: the new content would not be encrypted.\<close>

definition Encrypted_to_json :: "'j json_lib \<Rightarrow> Encrypted \<Rightarrow> 'j" where
  "Encrypted_to_json J c =
     (let obj = jset J (jnull J) ''algorithm'' (jstring J (me_algorithm c));
          obj = jset J obj ''ciphertext'' (jstring J (me_ciphertext c));
          obj = jset_if J (me_device_id c \<noteq> []) obj ''device_id'' (jstring J (me_device_id c));
          obj = jset_if J (me_sender_key c \<noteq> []) obj ''sender_key'' (jstring J (me_sender_key c));
          obj = jset J obj ''session_id'' (jstring J (me_session_id c))
      in add_relations J obj (me_relations c))"

text \<open>The content of a dummy event has no fields.\<close>

definition Dummy_from_json :: "'j json_lib \<Rightarrow> 'j \<Rightarrow> unit result" where
  "Dummy_from_json J obj = Inr ()"

definition Dummy_to_json :: "'j json_lib \<Rightarrow> unit \<Rightarrow> 'j" where
  "Dummy_to_json J u = jobject J"

section \<open>Keys\<close>

record RoomKey =
  rk_algorithm :: string
  rk_room_id :: string
  rk_session_id :: string
  rk_session_key :: string

definition RoomKey_from_json :: "'j json_lib \<Rightarrow> 'j \<Rightarrow> RoomKey result" where
  "RoomKey_from_json J obj =
     rbind (jat_as J (jget_string J) obj ''algorithm'') (\<lambda>algorithm.
     rbind (jat_as J (jget_string J) obj ''room_id'') (\<lambda>room_id.
     rbind (jat_as J (jget_string J) obj ''session_id'') (\<lambda>session_id.
     rbind (jat_as J (jget_string J) obj ''session_key'') (\<lambda>session_key.
       Inr \<lparr>rk_algorithm = algorithm, rk_room_id = room_id, rk_session_id = session_id, rk_session_key = session_key\<rparr>))))"

definition RoomKey_to_json :: "'j json_lib \<Rightarrow> RoomKey \<Rightarrow> 'j" where
  "RoomKey_to_json J e =
     (let obj = jset J (jnull J) ''algorithm'' (jstring J (rk_algorithm e));
          obj = jset J obj ''room_id'' (jstring J (rk_room_id e));
          obj = jset J obj ''session_id'' (jstring J (rk_session_id e))
      in jset J obj ''session_key'' (jstring J (rk_session_key e)))"

record ForwardedRoomKey =
  fk_algorithm :: string
  fk_room_id :: string
  fk_session_id :: string
  fk_session_key :: string
  fk_sender_key :: string
  fk_sender_claimed_ed25519_key :: string
  fk_forwarding_curve25519_key_chain :: "string list"

definition ForwardedRoomKey_from_json :: "'j json_lib \<Rightarrow> 'j \<Rightarrow> ForwardedRoomKey result" where
  "ForwardedRoomKey_from_json J obj =
     rbind (jat_as J (jget_string J) obj ''algorithm'') (\<lambda>algorithm.
     rbind (jat_as J (jget_string J) obj ''room_id'') (\<lambda>room_id.
     rbind (jat_as J (jget_string J) obj ''session_id'') (\<lambda>session_id.
     rbind (jat_as J (jget_string J) obj ''session_key'') (\<lambda>session_key.
     rbind (jat_as J (jget_string J) obj ''sender_key'') (\<lambda>sender_key.
     rbind (jat_as J (jget_string J) obj ''sender_claimed_ed25519_key'') (\<lambda>claimed.
     rbind (jat_as J (jget_list J (jget_string J)) obj ''forwarding_curve25519_key_chain'') (\<lambda>chain.
       Inr \<lparr>fk_algorithm = algorithm, fk_room_id = room_id, fk_session_id = session_id, fk_session_key = session_key,
            fk_sender_key = sender_key, fk_sender_claimed_ed25519_key = claimed,
            fk_forwarding_curve25519_key_chain = chain\<rparr>)))))))"

definition ForwardedRoomKey_to_json :: "'j json_lib \<Rightarrow> ForwardedRoomKey \<Rightarrow> 'j" where
  "ForwardedRoomKey_to_json J e =
     (let obj = jset J (jnull J) ''algorithm'' (jstring J (fk_algorithm e));
          obj = jset J obj ''room_id'' (jstring J (fk_room_id e));
          obj = jset J obj ''session_id'' (jstring J (fk_session_id e));
          obj = jset J obj ''session_key'' (jstring J (fk_session_key e));
          obj = jset J obj ''sender_key'' (jstring J (fk_sender_key e));
          obj = jset J obj ''sender_claimed_ed25519_key'' (jstring J (fk_sender_claimed_ed25519_key e))
      in jset J obj ''forwarding_curve25519_key_chain'' (jstrings J (fk_forwarding_curve25519_key_chain e)))"

section \<open>Requests for keys and secrets\<close>

datatype RequestAction = Request | Cancellation | Unknown_action

record KeyRequest =
  kr_action :: RequestAction
  kr_algorithm :: string
  kr_room_id :: string
  kr_sender_key :: string
  kr_session_id :: string
  kr_request_id :: string
  kr_requesting_device_id :: string

text \<open>
  An unknown action leaves the action of the value-initialised struct, which is the first of the
  enumeration.
\<close>

definition KeyRequest_from_json :: "'j json_lib \<Rightarrow> 'j \<Rightarrow> KeyRequest result" where
  "KeyRequest_from_json J obj =
     rbind (jat_as J (jget_string J) obj ''request_id'') (\<lambda>request_id.
     rbind (jat_as J (jget_string J) obj ''requesting_device_id'') (\<lambda>device.
     rbind (jat_as J (jget_string J) obj ''action'') (\<lambda>action.
       let event = \<lparr>kr_action = Request, kr_algorithm = [], kr_room_id = [], kr_sender_key = [], kr_session_id = [],
                    kr_request_id = request_id, kr_requesting_device_id = device\<rparr>
       in if action = ''request'' then
            rbind (jat J obj ''body'') (\<lambda>body.
            rbind (jat_as J (jget_string J) body ''room_id'') (\<lambda>room_id.
            rbind (jvalue J (jget_string J) body ''sender_key'' []) (\<lambda>sender_key.
            rbind (jat_as J (jget_string J) body ''session_id'') (\<lambda>session_id.
            rbind (jat_as J (jget_string J) body ''algorithm'') (\<lambda>algorithm.
              Inr (event\<lparr>kr_room_id := room_id, kr_sender_key := sender_key, kr_session_id := session_id,
                         kr_algorithm := algorithm\<rparr>))))))
          else if action = ''request_cancellation'' then Inr (event\<lparr>kr_action := Cancellation\<rparr>)
          else Inr event)))"

definition KeyRequest_to_json :: "'j json_lib \<Rightarrow> KeyRequest \<Rightarrow> 'j" where
  "KeyRequest_to_json J e =
     (let obj = jset J (jobject J) ''request_id'' (jstring J (kr_request_id e));
          obj = jset J obj ''requesting_device_id'' (jstring J (kr_requesting_device_id e))
      in case kr_action e of
           Request \<Rightarrow>
             let body = jset J (jobject J) ''room_id'' (jstring J (kr_room_id e));
                 body = jset_if J (kr_sender_key e \<noteq> []) body ''sender_key'' (jstring J (kr_sender_key e));
                 body = jset J body ''session_id'' (jstring J (kr_session_id e));
                 body = jset J body ''algorithm'' (jstring J MEGOLM_ALGO)
             in jset J (jset J obj ''body'' body) ''action'' (jstring J ''request'')
         | Cancellation \<Rightarrow> jset J obj ''action'' (jstring J ''request_cancellation'')
         | Unknown_action \<Rightarrow> obj)"

record SecretRequest =
  sr_action :: RequestAction
  sr_name :: string
  sr_request_id :: string
  sr_requesting_device_id :: string

definition SecretRequest_from_json :: "'j json_lib \<Rightarrow> 'j \<Rightarrow> SecretRequest result" where
  "SecretRequest_from_json J obj =
     rbind (jvalue J (jget_string J) obj ''action'' []) (\<lambda>action.
     rbind (jvalue J (jget_string J) obj ''name'' []) (\<lambda>name.
     rbind (jvalue J (jget_string J) obj ''request_id'' []) (\<lambda>request_id.
     rbind (jvalue J (jget_string J) obj ''requesting_device_id'' []) (\<lambda>device.
       Inr \<lparr>sr_action = (if action = ''request'' then Request
                           else if action = ''request_cancellation'' then Cancellation else Unknown_action),
            sr_name = name, sr_request_id = request_id, sr_requesting_device_id = device\<rparr>))))"

definition SecretRequest_to_json :: "'j json_lib \<Rightarrow> SecretRequest \<Rightarrow> 'j result" where
  "SecretRequest_to_json J e =
     rbind (case sr_action e of
              Request \<Rightarrow> Inr ''request''
            | Cancellation \<Rightarrow> Inr ''request_cancellation''
            | Unknown_action \<Rightarrow> Inl (Invalid_argument ''Unknown secret request action type'')) (\<lambda>action.
       let obj = jset J (jnull J) ''action'' (jstring J action);
           obj = jset_if J (sr_name e \<noteq> []) obj ''name'' (jstring J (sr_name e));
           obj = jset J obj ''request_id'' (jstring J (sr_request_id e))
       in Inr (jset J obj ''requesting_device_id'' (jstring J (sr_requesting_device_id e))))"

record SecretSend =
  ss_secret :: string
  ss_request_id :: string

definition SecretSend_from_json :: "'j json_lib \<Rightarrow> 'j \<Rightarrow> SecretSend result" where
  "SecretSend_from_json J obj =
     rbind (jvalue J (jget_string J) obj ''request_id'' []) (\<lambda>request_id.
     rbind (jvalue J (jget_string J) obj ''secret'' []) (\<lambda>secret.
       Inr \<lparr>ss_secret = secret, ss_request_id = request_id\<rparr>))"

definition SecretSend_to_json :: "'j json_lib \<Rightarrow> SecretSend \<Rightarrow> 'j" where
  "SecretSend_to_json J e =
     jset J (jset J (jnull J) ''request_id'' (jstring J (ss_request_id e))) ''secret'' (jstring J (ss_secret e))"

end
