(* ===== verification/Verification_Events.thy ===== *)
theory Verification_Events
  imports Key_Verification
begin

text \<open>
  The messages of a key verification (\<open>lib/structs/events/encrypted.cpp\<close>). Sent to a device they carry a
  transaction id, in a room they relate to the request.
\<close>

definition transaction_id_of :: "'j json_lib \<Rightarrow> 'j \<Rightarrow> string option result" where
  "transaction_id_of J obj = jfind_opt J (jget_string J) obj ''transaction_id''"

record KeyVerificationRequest =
  kq_body :: "string option"
  kq_from_device :: string
  kq_to :: "string option"
  kq_transaction_id :: "string option"
  kq_msgtype :: "string option"
  kq_methods :: "VerificationMethods list"
  kq_timestamp :: "int option"

definition KeyVerificationRequest_from_json :: "'j json_lib \<Rightarrow> 'j \<Rightarrow> KeyVerificationRequest result" where
  "KeyVerificationRequest_from_json J obj =
     rbind (jfind_opt J (jget_string J) obj ''body'') (\<lambda>body.
     rbind (jat_as J (jget_string J) obj ''from_device'') (\<lambda>from_device.
     rbind (jat_as J (jget_list J (VerificationMethods_from_json J)) obj ''methods'') (\<lambda>methods.
     rbind (jfind_opt J (jget_uint64 J) obj ''timestamp'') (\<lambda>timestamp.
     rbind (jfind_opt J (jget_string J) obj ''msgtype'') (\<lambda>msgtype.
     rbind (jfind_opt J (jget_string J) obj ''to'') (\<lambda>to.
     rbind (transaction_id_of J obj) (\<lambda>transaction_id.
       Inr \<lparr>kq_body = body, kq_from_device = from_device, kq_to = to, kq_transaction_id = transaction_id,
            kq_msgtype = msgtype, kq_methods = methods, kq_timestamp = timestamp\<rparr>)))))))"

definition KeyVerificationRequest_to_json :: "'j json_lib \<Rightarrow> KeyVerificationRequest \<Rightarrow> 'j" where
  "KeyVerificationRequest_to_json J e =
     (let obj = jset_opt J (jstring J) (jnull J) ''body'' (kq_body e);
          obj = jset J obj ''from_device'' (jstring J (kq_from_device e));
          obj = jset J obj ''methods'' (jmethods J (kq_methods e));
          obj = jset_if J (kq_msgtype e \<noteq> None) obj ''msgtype'' (jstring J ''m.key.verification.request'');
          obj = jset_opt J (jint J) obj ''timestamp'' (kq_timestamp e);
          obj = jset_opt J (jstring J) obj ''to'' (kq_to e)
      in jset_opt J (jstring J) obj ''transaction_id'' (kq_transaction_id e))"

record KeyVerificationStart =
  ks_from_device :: string
  ks_transaction_id :: "string option"
  ks_method :: VerificationMethods
  ks_next_method :: "string option"
  ks_key_agreement_protocols :: "string list"
  ks_hashes :: "string list"
  ks_message_authentication_codes :: "string list"
  ks_short_authentication_string :: "SASMethods list"
  ks_relations :: Relations

definition KeyVerificationStart_from_json :: "'j json_lib \<Rightarrow> 'j \<Rightarrow> KeyVerificationStart result" where
  "KeyVerificationStart_from_json J obj =
     rbind (jat_as J (jget_string J) obj ''from_device'') (\<lambda>from_device.
     rbind (transaction_id_of J obj) (\<lambda>transaction_id.
     rbind (jat_as J (VerificationMethods_from_json J) obj ''method'') (\<lambda>method.
     rbind (jfind_opt J (jget_string J) obj ''next_method'') (\<lambda>next_method.
     rbind (jat_as J (jget_list J (jget_string J)) obj ''key_agreement_protocols'') (\<lambda>protocols.
     rbind (jat_as J (jget_list J (jget_string J)) obj ''hashes'') (\<lambda>hashes.
     rbind (jat_as J (jget_list J (jget_string J)) obj ''message_authentication_codes'') (\<lambda>codes.
     rbind (jat_as J (jget_list J (SASMethods_from_json J)) obj ''short_authentication_string'') (\<lambda>sas.
     rbind (parse_relations J obj) (\<lambda>relations.
       Inr \<lparr>ks_from_device = from_device, ks_transaction_id = transaction_id, ks_method = method,
            ks_next_method = next_method, ks_key_agreement_protocols = protocols, ks_hashes = hashes,
            ks_message_authentication_codes = codes, ks_short_authentication_string = sas,
            ks_relations = relations\<rparr>)))))))))"

definition KeyVerificationStart_to_json :: "'j json_lib \<Rightarrow> KeyVerificationStart \<Rightarrow> 'j result" where
  "KeyVerificationStart_to_json J e =
     (let obj = jset J (jnull J) ''from_device'' (jstring J (ks_from_device e));
          obj = jset J obj ''method'' (VerificationMethods_to_json J (ks_method e));
          obj = jset_opt J (jstring J) obj ''transaction_id'' (ks_transaction_id e);
          obj = jset_opt J (jstring J) obj ''next_method'' (ks_next_method e);
          obj = jset J obj ''key_agreement_protocols'' (jstrings J (ks_key_agreement_protocols e));
          obj = jset J obj ''hashes'' (jstrings J (ks_hashes e));
          obj = jset J obj ''message_authentication_codes'' (jstrings J (ks_message_authentication_codes e));
          obj = jset J obj ''short_authentication_string'' (jsas_methods J (ks_short_authentication_string e))
      in apply_relations J obj (ks_relations e))"

record KeyVerificationReady =
  ky_from_device :: string
  ky_transaction_id :: "string option"
  ky_methods :: "VerificationMethods list"
  ky_relations :: Relations

definition KeyVerificationReady_from_json :: "'j json_lib \<Rightarrow> 'j \<Rightarrow> KeyVerificationReady result" where
  "KeyVerificationReady_from_json J obj =
     rbind (transaction_id_of J obj) (\<lambda>transaction_id.
     rbind (jat_as J (jget_list J (VerificationMethods_from_json J)) obj ''methods'') (\<lambda>methods.
     rbind (jat_as J (jget_string J) obj ''from_device'') (\<lambda>from_device.
     rbind (parse_relations J obj) (\<lambda>relations.
       Inr \<lparr>ky_from_device = from_device, ky_transaction_id = transaction_id, ky_methods = methods,
            ky_relations = relations\<rparr>))))"

definition KeyVerificationReady_to_json :: "'j json_lib \<Rightarrow> KeyVerificationReady \<Rightarrow> 'j result" where
  "KeyVerificationReady_to_json J e =
     (let obj = jset J (jnull J) ''methods'' (jmethods J (ky_methods e));
          obj = jset_opt J (jstring J) obj ''transaction_id'' (ky_transaction_id e);
          obj = jset J obj ''from_device'' (jstring J (ky_from_device e))
      in apply_relations J obj (ky_relations e))"

text \<open>Without a transaction id, \<open>obj\<close> is still null when the relations are added to it.\<close>

record KeyVerificationDone =
  kd_transaction_id :: "string option"
  kd_relations :: Relations

definition KeyVerificationDone_from_json :: "'j json_lib \<Rightarrow> 'j \<Rightarrow> KeyVerificationDone result" where
  "KeyVerificationDone_from_json J obj =
     rbind (transaction_id_of J obj) (\<lambda>transaction_id.
     rbind (parse_relations J obj) (\<lambda>relations.
       Inr \<lparr>kd_transaction_id = transaction_id, kd_relations = relations\<rparr>))"

definition KeyVerificationDone_to_json :: "'j json_lib \<Rightarrow> KeyVerificationDone \<Rightarrow> 'j result" where
  "KeyVerificationDone_to_json J e =
     apply_relations J (jset_opt J (jstring J) (jnull J) ''transaction_id'' (kd_transaction_id e)) (kd_relations e)"

record KeyVerificationAccept =
  ka_transaction_id :: "string option"
  ka_method :: VerificationMethods
  ka_key_agreement_protocol :: string
  ka_hash :: string
  ka_message_authentication_code :: string
  ka_short_authentication_string :: "SASMethods list"
  ka_commitment :: string
  ka_relations :: Relations

definition KeyVerificationAccept_from_json :: "'j json_lib \<Rightarrow> 'j \<Rightarrow> KeyVerificationAccept result" where
  "KeyVerificationAccept_from_json J obj =
     rbind (transaction_id_of J obj) (\<lambda>transaction_id.
     rbind (jat_as J (jget_string J) obj ''key_agreement_protocol'') (\<lambda>protocol.
     rbind (jat_as J (jget_string J) obj ''hash'') (\<lambda>hash.
     rbind (jat_as J (jget_string J) obj ''message_authentication_code'') (\<lambda>code.
     rbind (jat_as J (jget_list J (SASMethods_from_json J)) obj ''short_authentication_string'') (\<lambda>sas.
     rbind (jat_as J (jget_string J) obj ''commitment'') (\<lambda>commitment.
     rbind (jvalue J (VerificationMethods_from_json J) obj ''method'' SASv1) (\<lambda>method.
     rbind (parse_relations J obj) (\<lambda>relations.
       Inr \<lparr>ka_transaction_id = transaction_id, ka_method = method, ka_key_agreement_protocol = protocol,
            ka_hash = hash, ka_message_authentication_code = code, ka_short_authentication_string = sas,
            ka_commitment = commitment, ka_relations = relations\<rparr>))))))))"

definition KeyVerificationAccept_to_json :: "'j json_lib \<Rightarrow> KeyVerificationAccept \<Rightarrow> 'j result" where
  "KeyVerificationAccept_to_json J e =
     (let obj = jset_opt J (jstring J) (jnull J) ''transaction_id'' (ka_transaction_id e);
          obj = jset J obj ''key_agreement_protocol'' (jstring J (ka_key_agreement_protocol e));
          obj = jset J obj ''hash'' (jstring J (ka_hash e));
          obj = jset J obj ''message_authentication_code'' (jstring J (ka_message_authentication_code e));
          obj = jset J obj ''short_authentication_string'' (jsas_methods J (ka_short_authentication_string e));
          obj = jset J obj ''commitment'' (jstring J (ka_commitment e));
          obj = jset J obj ''method'' (VerificationMethods_to_json J (ka_method e))
      in apply_relations J obj (ka_relations e))"

record KeyVerificationCancel =
  kc_transaction_id :: "string option"
  kc_reason :: string
  kc_code :: string
  kc_relations :: Relations

definition KeyVerificationCancel_from_json :: "'j json_lib \<Rightarrow> 'j \<Rightarrow> KeyVerificationCancel result" where
  "KeyVerificationCancel_from_json J obj =
     rbind (transaction_id_of J obj) (\<lambda>transaction_id.
     rbind (jvalue J (jget_string J) obj ''reason'' []) (\<lambda>reason.
     rbind (jvalue J (jget_string J) obj ''code'' []) (\<lambda>code.
     rbind (parse_relations J obj) (\<lambda>relations.
       Inr \<lparr>kc_transaction_id = transaction_id, kc_reason = reason, kc_code = code, kc_relations = relations\<rparr>))))"

definition KeyVerificationCancel_to_json :: "'j json_lib \<Rightarrow> KeyVerificationCancel \<Rightarrow> 'j result" where
  "KeyVerificationCancel_to_json J e =
     (let obj = jset_opt J (jstring J) (jnull J) ''transaction_id'' (kc_transaction_id e);
          obj = jset J obj ''reason'' (jstring J (kc_reason e));
          obj = jset J obj ''code'' (jstring J (kc_code e))
      in apply_relations J obj (kc_relations e))"

record KeyVerificationKey =
  kk_transaction_id :: "string option"
  kk_key :: string
  kk_relations :: Relations

definition KeyVerificationKey_from_json :: "'j json_lib \<Rightarrow> 'j \<Rightarrow> KeyVerificationKey result" where
  "KeyVerificationKey_from_json J obj =
     rbind (transaction_id_of J obj) (\<lambda>transaction_id.
     rbind (jat_as J (jget_string J) obj ''key'') (\<lambda>key.
     rbind (parse_relations J obj) (\<lambda>relations.
       Inr \<lparr>kk_transaction_id = transaction_id, kk_key = key, kk_relations = relations\<rparr>)))"

definition KeyVerificationKey_to_json :: "'j json_lib \<Rightarrow> KeyVerificationKey \<Rightarrow> 'j result" where
  "KeyVerificationKey_to_json J e =
     apply_relations J
       (jset J (jset_opt J (jstring J) (jnull J) ''transaction_id'' (kk_transaction_id e)) ''key'' (jstring J (kk_key e)))
       (kk_relations e)"

record KeyVerificationMac =
  kv_transaction_id :: "string option"
  kv_mac :: "string smap"
  kv_keys :: string
  kv_relations :: Relations

definition empty_KeyVerificationMac :: KeyVerificationMac where
  "empty_KeyVerificationMac = \<lparr>kv_transaction_id = None, kv_mac = [], kv_keys = [],
     kv_relations = \<lparr>relations = [], synthesized = False\<rparr>\<rparr>"

definition KeyVerificationMac_from_json :: "'j json_lib \<Rightarrow> 'j \<Rightarrow> KeyVerificationMac result" where
  "KeyVerificationMac_from_json J obj =
     rbind (transaction_id_of J obj) (\<lambda>transaction_id.
     rbind (jat_as J (jget_map J (jget_string J)) obj ''mac'') (\<lambda>mac.
     rbind (jat_as J (jget_string J) obj ''keys'') (\<lambda>keys.
     rbind (parse_relations J obj) (\<lambda>relations.
       Inr \<lparr>kv_transaction_id = transaction_id, kv_mac = mac, kv_keys = keys, kv_relations = relations\<rparr>))))"

definition KeyVerificationMac_to_json :: "'j json_lib \<Rightarrow> KeyVerificationMac \<Rightarrow> 'j result" where
  "KeyVerificationMac_to_json J e =
     (let obj = jset_opt J (jstring J) (jnull J) ''transaction_id'' (kv_transaction_id e);
          obj = jset J obj ''mac'' (jof_map J (jstring J) (kv_mac e));
          obj = jset J obj ''keys'' (jstring J (kv_keys e))
      in apply_relations J obj (kv_relations e))"

end
