(* ===== verification/Olm_Sessions.thy ===== *)
theory Olm_Sessions
  imports Olm_Client Verification_Events
begin

unbundle bit_operations_syntax

text \<open>
  The second half of the olm client: olm and megolm sessions, short authentication strings, signing
  keys, the setup of cross-signing, key backup and secret storage (\<open>lib/crypto/client.cpp\<close>), and the
  public key encryption of the key backup (\<open>lib/crypto/utils.cpp\<close>).
\<close>

section \<open>Group sessions\<close>

definition init_outbound_group_session :: "('acc, 'ses, 'inb, 'outb, 'sas, 'pk) olm_lib \<Rightarrow> rand \<Rightarrow> 'outb result" where
  "init_outbound_group_session M r =
     or_throw ''init_outbound_group_session''
       (olm_init_outbound_group_session M (create_buffer r (olm_init_outbound_group_session_random_length M)))"

definition init_inbound_group_session :: "('acc, 'ses, 'inb, 'outb, 'sas, 'pk) olm_lib \<Rightarrow> string \<Rightarrow> 'inb result" where
  "init_inbound_group_session M session_key =
     or_throw ''init_inbound_group_session'' (olm_init_inbound_group_session M session_key)"

definition import_inbound_group_session :: "('acc, 'ses, 'inb, 'outb, 'sas, 'pk) olm_lib \<Rightarrow> string \<Rightarrow> 'inb result" where
  "import_inbound_group_session M session_key =
     or_throw ''init_inbound_group_session'' (olm_import_inbound_group_session M session_key)"

record GroupPlaintext =
  gp_data :: BinaryBuf
  gp_message_index :: "32 word"

definition decrypt_group_message ::
    "('acc, 'ses, 'inb, 'outb, 'sas, 'pk) olm_lib \<Rightarrow> 'inb option \<Rightarrow> string \<Rightarrow> ('inb \<times> GroupPlaintext) result" where
  "decrypt_group_message M session message =
     (case session of
        None \<Rightarrow> Inl (Olm_exception ''decrypt_group_message'')
      | Some s \<Rightarrow>
          rbind (or_throw ''olm_group_decrypt_max_plaintext_length: invalid ciphertext''
                   (olm_group_decrypt_max_plaintext_length M s message)) (\<lambda>_.
          rbind (or_throw ''olm_group_decrypt'' (olm_group_decrypt M s message)) (\<lambda>(s, plaintext, index).
            Inr (s, \<lparr>gp_data = plaintext, gp_message_index = index\<rparr>))))"

definition encrypt_group_message ::
    "('acc, 'ses, 'inb, 'outb, 'sas, 'pk) olm_lib \<Rightarrow> 'outb \<Rightarrow> string \<Rightarrow> ('outb \<times> BinaryBuf) result" where
  "encrypt_group_message M session plaintext = or_throw ''olm_group_encrypt'' (olm_group_encrypt M session plaintext)"

section \<open>Olm sessions\<close>

text \<open>
  The bound of the length is not checked for an error; the largest \<open>size_t\<close> then makes the
  allocation of the buffer throw.
\<close>

definition decrypt_message ::
    "('acc, 'ses, 'inb, 'outb, 'sas, 'pk) olm_lib \<Rightarrow> 'ses \<Rightarrow> nat \<Rightarrow> string \<Rightarrow> ('ses \<times> BinaryBuf) result" where
  "decrypt_message M session msgtype message =
     (case olm_decrypt_max_plaintext_length M session msgtype message of
        None \<Rightarrow> Inl Length_error
      | Some _ \<Rightarrow> or_throw ''olm_decrypt'' (olm_decrypt M session msgtype message))"

definition encrypt_message ::
    "('acc, 'ses, 'inb, 'outb, 'sas, 'pk) olm_lib \<Rightarrow> rand \<Rightarrow> 'ses \<Rightarrow> string \<Rightarrow> ('ses \<times> BinaryBuf) result" where
  "encrypt_message M r session msg =
     or_throw ''olm_encrypt'' (olm_encrypt M session msg (create_buffer r (olm_encrypt_random_length M session)))"

definition remove_used_keys ::
    "('acc, 'ses, 'inb, 'outb, 'sas, 'pk) olm_lib \<Rightarrow> string \<Rightarrow> 'acc OlmClient \<Rightarrow> 'acc \<Rightarrow> 'ses \<Rightarrow> 'acc OlmClient \<times> 'ses result" where
  "remove_used_keys M func c a session =
     (case olm_remove_one_time_keys M a session of
        None \<Rightarrow> (c, Inl (Olm_exception func))
      | Some a \<Rightarrow> (c\<lparr>oc_account := Some a\<rparr>, Inr session))"

definition create_inbound_session_from ::
    "('acc, 'ses, 'inb, 'outb, 'sas, 'pk) olm_lib \<Rightarrow> string \<Rightarrow> BinaryBuf \<Rightarrow> 'acc OlmClient \<Rightarrow> 'acc OlmClient \<times> 'ses result" where
  "create_inbound_session_from M their_curve25519 message c =
     (case the_account c of
        Inl e \<Rightarrow> (c, Inl e)
      | Inr a \<Rightarrow>
          (case olm_create_inbound_session_from M a their_curve25519 message of
             None \<Rightarrow> (c, Inl (Olm_exception ''create_inbound_session_from''))
           | Some session \<Rightarrow> remove_used_keys M ''inbound_session_from_remove_one_time_keys'' c a session))"

definition create_inbound_session ::
    "('acc, 'ses, 'inb, 'outb, 'sas, 'pk) olm_lib \<Rightarrow> BinaryBuf \<Rightarrow> 'acc OlmClient \<Rightarrow> 'acc OlmClient \<times> 'ses result" where
  "create_inbound_session M message c =
     (case the_account c of
        Inl e \<Rightarrow> (c, Inl e)
      | Inr a \<Rightarrow>
          (case olm_create_inbound_session M a message of
             None \<Rightarrow> (c, Inl (Olm_exception ''create_inbound_session''))
           | Some session \<Rightarrow> remove_used_keys M ''inbound_session_remove_one_time_keys'' c a session))"

definition create_outbound_session ::
    "('acc, 'ses, 'inb, 'outb, 'sas, 'pk) olm_lib \<Rightarrow> rand \<Rightarrow> 'acc OlmClient \<Rightarrow> string \<Rightarrow> string \<Rightarrow> 'ses result" where
  "create_outbound_session M r c identity_key one_time_key =
     rbind (the_account c) (\<lambda>a.
       or_throw ''create_outbound_session'' (olm_create_outbound_session M a identity_key one_time_key
         (create_buffer r (olm_create_outbound_session_random_length M))))"

text \<open>The result is a \<open>size_t\<close> read as a truth value; the error value is not zero.\<close>

definition size_to_bool :: "nat option \<Rightarrow> bool" where
  "size_to_bool x = (case x of None \<Rightarrow> True | Some n \<Rightarrow> n \<noteq> 0)"

definition matches_inbound_session :: "('acc, 'ses, 'inb, 'outb, 'sas, 'pk) olm_lib \<Rightarrow> 'ses \<Rightarrow> string \<Rightarrow> bool" where
  "matches_inbound_session M session message = size_to_bool (olm_matches_inbound_session M session message)"

definition matches_inbound_session_from ::
    "('acc, 'ses, 'inb, 'outb, 'sas, 'pk) olm_lib \<Rightarrow> 'ses \<Rightarrow> string \<Rightarrow> string \<Rightarrow> bool" where
  "matches_inbound_session_from M session id_key message =
     size_to_bool (olm_matches_inbound_session_from M session id_key message)"

definition session_id :: "('acc, 'ses, 'inb, 'outb, 'sas, 'pk) olm_lib \<Rightarrow> 'ses \<Rightarrow> string" where
  "session_id M s = olm_session_id M s"

definition outbound_session_id :: "('acc, 'ses, 'inb, 'outb, 'sas, 'pk) olm_lib \<Rightarrow> 'outb \<Rightarrow> string" where
  "outbound_session_id M s = olm_outbound_group_session_id M s"

definition session_key :: "('acc, 'ses, 'inb, 'outb, 'sas, 'pk) olm_lib \<Rightarrow> 'outb \<Rightarrow> string" where
  "session_key M s = olm_outbound_group_session_key M s"

definition export_session :: "('acc, 'ses, 'inb, 'outb, 'sas, 'pk) olm_lib \<Rightarrow> 'inb \<Rightarrow> 32 word \<Rightarrow> string result" where
  "export_session M s at_index =
     (let index = (if at_index = - 1 then olm_inbound_group_session_first_known_index M s else at_index)
      in or_throw ''session_key'' (olm_export_inbound_group_session M s index))"

definition import_session :: "('acc, 'ses, 'inb, 'outb, 'sas, 'pk) olm_lib \<Rightarrow> string \<Rightarrow> 'inb result" where
  "import_session M exported = or_throw ''import_session'' (olm_import_inbound_group_session M exported)"

definition create_olm_encrypted_content ::
    "('acc, 'ses, 'inb, 'outb, 'sas, 'pk) olm_lib \<Rightarrow> 'j json_lib \<Rightarrow> rand \<Rightarrow> 'acc OlmClient \<Rightarrow> 'ses \<Rightarrow> 'j \<Rightarrow> string \<Rightarrow> string \<Rightarrow> string \<Rightarrow> ('ses \<times> 'j) result" where
  "create_olm_encrypted_content M J r c session event recipient recipient_ed25519_key recipient_curve25519_key =
     rbind (identity_keys M J c) (\<lambda>keys.
       let event = jset2 J event ''keys'' ''ed25519'' (jstring J (ik_ed25519 keys));
           event = jset J event ''sender'' (jstring J (oc_user_id c));
           event = jset J event ''sender_device'' (jstring J (oc_device_id c));
           event = jset J event ''recipient'' (jstring J recipient);
           event = jset2 J event ''recipient_keys'' ''ed25519'' (jstring J recipient_ed25519_key);
           msg_type = olm_encrypt_message_type M session
       in rbind (jdump J event) (\<lambda>plaintext.
          rbind (encrypt_message M r session plaintext) (\<lambda>(session, encrypted).
            Inr (session, jof_object J (to_smap
              [(''algorithm'', jstring J ''m.olm.v1.curve25519-aes-sha2''),
               (''sender_key'', jstring J (ik_curve25519 keys)),
               (''ciphertext'', jof_object J [(recipient_curve25519_key,
                  jof_object J (to_smap [(''body'', jstring J (buf_to_string encrypted)), (''type'', jint J (int msg_type))]))])])))))"

section \<open>Short authentication strings\<close>

text \<open>The random buffer of a new SAS object is left as it is constructed: zeros.\<close>

definition SAS_new :: "('acc, 'ses, 'inb, 'outb, 'sas, 'pk) olm_lib \<Rightarrow> 'sas result" where
  "SAS_new M = or_throw ''create_sas_instance'' (olm_create_sas M (replicate (olm_create_sas_random_length M) 0))"

definition SAS_public_key :: "('acc, 'ses, 'inb, 'outb, 'sas, 'pk) olm_lib \<Rightarrow> 'sas \<Rightarrow> string result" where
  "SAS_public_key M s = or_throw ''get_public_key'' (olm_sas_get_pubkey M s)"

definition set_their_key :: "('acc, 'ses, 'inb, 'outb, 'sas, 'pk) olm_lib \<Rightarrow> 'sas \<Rightarrow> string \<Rightarrow> 'sas result" where
  "set_their_key M s their_public_key =
     or_throw ''get_public_key'' (olm_sas_set_their_key M s (to_binary_buf their_public_key))"

text \<open>Bytes are promoted to \<open>int\<close> before they are shifted.\<close>

definition sas_decimal :: "BinaryBuf \<Rightarrow> int list" where
  "sas_decimal b =
     (let v = (\<lambda>i. uint (b ! i))
      in [(push_bit 5 (v 0) OR drop_bit 3 (v 1)) + 1000,
          (push_bit 10 (v 1 AND 0x07) OR push_bit 2 (v 2) OR drop_bit 6 (v 3)) + 1000,
          (push_bit 7 (v 3 AND 0x3F) OR drop_bit 1 (v 4)) + 1000])"

definition generate_bytes_decimal :: "('acc, 'ses, 'inb, 'outb, 'sas, 'pk) olm_lib \<Rightarrow> 'sas \<Rightarrow> string \<Rightarrow> int list result" where
  "generate_bytes_decimal M s info =
     rbind (or_throw ''get_bytes_decimal'' (olm_sas_generate_bytes M s (to_binary_buf info) 5)) (\<lambda>b.
       Inr (sas_decimal b))"

definition sas_emoji :: "BinaryBuf \<Rightarrow> int list" where
  "sas_emoji b =
     (let v = (\<lambda>i. uint (b ! i))
      in [drop_bit 2 (v 0),
          (push_bit 4 (v 0) AND 0x3f) OR drop_bit 4 (v 1),
          (push_bit 2 (v 1) AND 0x3f) OR drop_bit 6 (v 2),
          v 2 AND 0x3f,
          drop_bit 2 (v 3),
          (push_bit 4 (v 3) AND 0x3f) OR drop_bit 4 (v 4),
          (push_bit 2 (v 4) AND 0x3f) OR drop_bit 6 (v 5)])"

definition generate_bytes_emoji :: "('acc, 'ses, 'inb, 'outb, 'sas, 'pk) olm_lib \<Rightarrow> 'sas \<Rightarrow> string \<Rightarrow> int list result" where
  "generate_bytes_emoji M s info =
     rbind (or_throw ''get_bytes_emoji'' (olm_sas_generate_bytes M s (to_binary_buf info) 6)) (\<lambda>b.
       Inr (sas_emoji b))"

definition calculate_mac_v ::
    "('acc, 'ses, 'inb, 'outb, 'sas, 'pk) olm_lib \<Rightarrow> 'sas \<Rightarrow> string \<Rightarrow> string \<Rightarrow> string \<Rightarrow> string result" where
  "calculate_mac_v M s input_data info mac_version =
     (if mac_version = ''hkdf-hmac-sha256'' then
        or_throw ''calculate_mac'' (olm_sas_calculate_mac M s (to_binary_buf input_data) (to_binary_buf info))
      else if mac_version = ''hkdf-hmac-sha256.v2'' then
        or_throw ''calculate_mac'' (olm_sas_calculate_mac_fixed_base64 M s (to_binary_buf input_data) (to_binary_buf info))
      else Inl (Olm_exception ''calculate_mac unsupported mac version''))"

text \<open>The ids are joined with commas, in the order of the map.\<close>

fun join_comma :: "string list \<Rightarrow> string" where
  "join_comma [] = []"
| "join_comma [k] = k"
| "join_comma (k # ks) = k @ '','' @ join_comma ks"

definition calculate_mac ::
    "('acc, 'ses, 'inb, 'outb, 'sas, 'pk) olm_lib \<Rightarrow> 'sas \<Rightarrow> string \<Rightarrow> string \<Rightarrow> string \<Rightarrow> string \<Rightarrow> string \<Rightarrow> string \<Rightarrow> string smap \<Rightarrow> KeyVerificationMac result" where
  "calculate_mac M s mac_version sender senderDevice receiver receiverDevice transactionId keys =
     (let info = ''MATRIX_KEY_VERIFICATION_MAC'' @ sender @ senderDevice @ receiver @ receiverDevice @ transactionId
      in rbind (mapM (\<lambda>(key_id, key). rbind (calculate_mac_v M s key (info @ key_id) mac_version) (\<lambda>m. Inr (key_id, m))) keys) (\<lambda>macs.
         rbind (calculate_mac_v M s (join_comma (map fst keys)) (info @ ''KEY_IDS'') mac_version) (\<lambda>ks.
           Inr (empty_KeyVerificationMac\<lparr>kv_mac := macs, kv_keys := ks\<rparr>))))"

section \<open>Signing keys\<close>

record 'pk PkSigning =
  pk_signing :: 'pk
  pk_public_key :: string
  pk_seed :: string

definition PkSigning_from_seed :: "('acc, 'ses, 'inb, 'outb, 'sas, 'pk) olm_lib \<Rightarrow> string \<Rightarrow> 'pk PkSigning result" where
  "PkSigning_from_seed M seed =
     rbind (or_throw ''signing_from_seed'' (olm_pk_signing_key_from_seed M (base642bin seed))) (\<lambda>(s, pub).
       Inr \<lparr>pk_signing = s, pk_public_key = pub, pk_seed = seed\<rparr>)"

definition PkSigning_new_key :: "('acc, 'ses, 'inb, 'outb, 'sas, 'pk) olm_lib \<Rightarrow> rand \<Rightarrow> 'pk PkSigning result" where
  "PkSigning_new_key M r =
     PkSigning_from_seed M (bin2base64 (buf_to_string (create_buffer r (olm_pk_signing_seed_length M))))"

definition PkSigning_sign :: "('acc, 'ses, 'inb, 'outb, 'sas, 'pk) olm_lib \<Rightarrow> 'pk PkSigning \<Rightarrow> string \<Rightarrow> string result" where
  "PkSigning_sign M k message = or_throw ''olm_pk_sign'' (olm_pk_sign M (pk_signing k) (to_binary_buf message))"

section \<open>Cross-signing\<close>

record CrossSigningSetup =
  cs_master_key :: CrossSigningKeys
  cs_user_signing_key :: CrossSigningKeys
  cs_self_signing_key :: CrossSigningKeys
  cs_private_master_key :: string
  cs_private_user_signing_key :: string
  cs_private_self_signing_key :: string

definition unsigned_cross_key :: "string \<Rightarrow> string \<Rightarrow> string \<Rightarrow> CrossSigningKeys" where
  "unsigned_cross_key user_id usage pub =
     \<lparr>csk_user_id = user_id, csk_usage = [usage], csk_keys = [(''ed25519:'' @ pub, pub)], csk_signatures = []\<rparr>"

text \<open>The text that is signed: the key without the two fields.\<close>

definition signed_text :: "'j json_lib \<Rightarrow> CrossSigningKeys \<Rightarrow> string result" where
  "signed_text J k = jdump J (jerase J (jerase J (CrossSigningKeys_to_json J k) ''unsigned'') ''signatures'')"

definition add_signatures :: "string \<Rightarrow> (string \<times> string) list \<Rightarrow> CrossSigningKeys \<Rightarrow> CrossSigningKeys" where
  "add_signatures user_id sigs k = k\<lparr>csk_signatures := [(user_id, foldl (\<lambda>m (i, s). map_set i s m) [] sigs)]\<rparr>"

definition create_crosssigning_keys ::
    "('acc, 'ses, 'inb, 'outb, 'sas, 'pk) olm_lib \<Rightarrow> 'j json_lib \<Rightarrow> entropy \<Rightarrow> 'acc OlmClient \<Rightarrow> CrossSigningSetup result" where
  "create_crosssigning_keys M J ent c =
     rbind (PkSigning_new_key M (ent 0)) (\<lambda>master.
     rbind (PkSigning_new_key M (ent 1)) (\<lambda>user_signing.
     rbind (PkSigning_new_key M (ent 2)) (\<lambda>self_signing.
     let user = oc_user_id c;
         mk = unsigned_cross_key user ''master'' (pk_public_key master);
         uk = unsigned_cross_key user ''user_signing'' (pk_public_key user_signing);
         sk = unsigned_cross_key user ''self_signing'' (pk_public_key self_signing);
         kid = (\<lambda>k. ''ed25519:'' @ pk_public_key k)
     in rbind (signed_text J mk) (\<lambda>mt.
        rbind (PkSigning_sign M master mt) (\<lambda>m1.
        rbind (sign_message M c mt) (\<lambda>m2.
        rbind (signed_text J uk) (\<lambda>ut.
        rbind (PkSigning_sign M user_signing ut) (\<lambda>u1.
        rbind (PkSigning_sign M master ut) (\<lambda>u2.
        rbind (signed_text J sk) (\<lambda>st.
        rbind (PkSigning_sign M self_signing st) (\<lambda>s1.
        rbind (PkSigning_sign M master st) (\<lambda>s2.
          Inr \<lparr>cs_master_key = add_signatures user [(kid master, m1), (''ed25519:'' @ oc_device_id c, m2)] mk,
               cs_user_signing_key = add_signatures user [(kid user_signing, u1), (kid master, u2)] uk,
               cs_self_signing_key = add_signatures user [(kid self_signing, s1), (kid master, s2)] sk,
               cs_private_master_key = pk_seed master,
               cs_private_user_signing_key = pk_seed user_signing,
               cs_private_self_signing_key = pk_seed self_signing\<rparr>))))))))))))"

section \<open>Key backup\<close>

text \<open>A failure leaves zeros in the buffer of the public key.\<close>

definition CURVE25519_public_key_from_private ::
    "('acc, 'ses, 'inb, 'outb, 'sas, 'pk) olm_lib \<Rightarrow> BinaryBuf \<Rightarrow> string" where
  "CURVE25519_public_key_from_private M privateKey =
     (case olm_pk_key_from_private M privateKey of
        None \<Rightarrow> buf_to_string (replicate (olm_pk_key_length M) 0)
      | Some pub \<Rightarrow> pub)"

record OnlineKeyBackupSetup =
  kb_privateKey :: BinaryBuf
  kb_auth_data :: string
  kb_algorithm :: string

definition create_online_key_backup ::
    "('acc, 'ses, 'inb, 'outb, 'sas, 'pk) olm_lib \<Rightarrow> 'j json_lib \<Rightarrow> rand \<Rightarrow> 'acc OlmClient \<Rightarrow> string \<Rightarrow> OnlineKeyBackupSetup result" where
  "create_online_key_backup M J r c masterKey =
     (let key = create_buffer r (olm_pk_private_key_length M);
          auth_data = jset J (jnull J) ''public_key'' (jstring J (CURVE25519_public_key_from_private M key))
      in rbind (PkSigning_from_seed M masterKey) (\<lambda>master.
         rbind (jdump J auth_data) (\<lambda>t.
         rbind (PkSigning_sign M master t) (\<lambda>sig.
         rbind (jdump J (jset J auth_data ''signatures''
                  (jset2 J (jnull J) (oc_user_id c) (''ed25519:'' @ pk_public_key master) (jstring J sig)))) (\<lambda>auth.
           Inr \<lparr>kb_privateKey = key, kb_auth_data = auth, kb_algorithm = ''m.megolm_backup.v1.curve25519-aes-sha2''\<rparr>)))))"

record CURVE25519_AES_SHA2_Encrypted =
  ce_ciphertext :: string
  ce_mac :: string
  ce_ephemeral :: string

definition CURVE25519_AES_SHA2_Encrypt ::
    "('acc, 'ses, 'inb, 'outb, 'sas, 'pk) olm_lib \<Rightarrow> rand \<Rightarrow> string \<Rightarrow> string \<Rightarrow> CURVE25519_AES_SHA2_Encrypted result" where
  "CURVE25519_AES_SHA2_Encrypt M r plaintext base64_publicKey =
     rbind (or_throw ''CURVE25519_AES_SHA2_Encrypt''
              (olm_pk_encrypt M base64_publicKey plaintext (create_buffer r (olm_pk_encrypt_random_length M)))) (\<lambda>(c, m, e).
       Inr \<lparr>ce_ciphertext = c, ce_mac = m, ce_ephemeral = e\<rparr>)"

definition CURVE25519_AES_SHA2_Decrypt ::
    "('acc, 'ses, 'inb, 'outb, 'sas, 'pk) olm_lib \<Rightarrow> string \<Rightarrow> BinaryBuf \<Rightarrow> string \<Rightarrow> string \<Rightarrow> string result" where
  "CURVE25519_AES_SHA2_Decrypt M ciphertext privateKey ephemeral mac =
     or_throw ''CURVE25519_AES_SHA2_Decrypt'' (olm_pk_decrypt M privateKey ephemeral mac ciphertext)"

record SessionData =
  sd_algorithm :: string
  sd_forwarding_curve25519_key_chain :: "string list"
  sd_sender_key :: string
  sd_sender_claimed_keys :: "string smap"
  sd_session_key :: string

definition SessionData_to_json :: "'j json_lib \<Rightarrow> SessionData \<Rightarrow> 'j" where
  "SessionData_to_json J d =
     (let obj = jset J (jnull J) ''algorithm'' (jstring J (sd_algorithm d));
          obj = jset J obj ''forwarding_curve25519_key_chain'' (jstrings J (sd_forwarding_curve25519_key_chain d));
          obj = jset J obj ''sender_key'' (jstring J (sd_sender_key d));
          obj = jset J obj ''sender_claimed_keys'' (jstring_map J (sd_sender_claimed_keys d))
      in jset J obj ''session_key'' (jstring J (sd_session_key d)))"

definition SessionData_from_json :: "'j json_lib \<Rightarrow> 'j \<Rightarrow> SessionData result" where
  "SessionData_from_json J obj =
     rbind (jat_as J (jget_string J) obj ''algorithm'') (\<lambda>algorithm.
     rbind (jat_as J (jget_list J (jget_string J)) obj ''forwarding_curve25519_key_chain'') (\<lambda>chain.
     rbind (jat_as J (jget_string J) obj ''sender_key'') (\<lambda>sender_key.
     rbind (jvalue J (jget_string_map J) obj ''sender_claimed_keys'' []) (\<lambda>claimed.
     rbind (jat_as J (jget_string J) obj ''session_key'') (\<lambda>session_key.
       Inr \<lparr>sd_algorithm = algorithm, sd_forwarding_curve25519_key_chain = chain, sd_sender_key = sender_key,
            sd_sender_claimed_keys = claimed, sd_session_key = session_key\<rparr>)))))"

definition encrypt_session ::
    "('acc, 'ses, 'inb, 'outb, 'sas, 'pk) olm_lib \<Rightarrow> 'j json_lib \<Rightarrow> rand \<Rightarrow> SessionData \<Rightarrow> string \<Rightarrow> CURVE25519_AES_SHA2_Encrypted result" where
  "encrypt_session M J r data publicKey =
     rbind (jdump J (SessionData_to_json J data)) (\<lambda>t. CURVE25519_AES_SHA2_Encrypt M r t publicKey)"

definition decrypt_session ::
    "('acc, 'ses, 'inb, 'outb, 'sas, 'pk) olm_lib \<Rightarrow> 'j json_lib \<Rightarrow> CURVE25519_AES_SHA2_Encrypted \<Rightarrow> BinaryBuf \<Rightarrow> SessionData result" where
  "decrypt_session M J data privateKey =
     rbind (CURVE25519_AES_SHA2_Decrypt M (ce_ciphertext data) privateKey (ce_ephemeral data) (ce_mac data)) (\<lambda>t.
     rbind (jparse J t) (SessionData_from_json J))"

section \<open>Secret storage setup\<close>

record SSSSSetup =
  ss_privateKey :: BinaryBuf
  ss_keyDescription :: AesHmacSha2KeyDescription

definition ssss_passphrase :: "string \<Rightarrow> PBKDF2" where
  "ssss_passphrase salt = \<lparr>pb_algorithm = ''m.pbkdf2'', pb_salt = salt, pb_iterations = 630000, pb_bits = 256\<rparr>"

definition create_ssss_key :: "openssl \<Rightarrow> entropy \<Rightarrow> string \<Rightarrow> SSSSSetup result" where
  "create_ssss_key L ent password =
     (let salt = bin2base64 (buf_to_string (create_buffer (ent 0) 32));
          privateKey = (if password = [] then create_buffer (ent 0) 32
                        else PBKDF2_HMAC_SHA_512 L password (to_binary_buf salt) 630000 (256 div 8));
          passphrase = (if password = [] then None else Some (ssss_passphrase salt))
      in rbind (bin2base58 (buf_to_string (create_buffer (ent 1) 16))) (\<lambda>name.
         rbind (compatible_iv (create_buffer (ent 2) 16)) (\<lambda>iv.
         rbind (key_check_mac L privateKey (bin2base64 (buf_to_string iv))) (\<lambda>mac.
           Inr \<lparr>ss_privateKey = privateKey,
                ss_keyDescription =
                  \<lparr>kd_name = name, kd_algorithm = ''m.secret_storage.v1.aes-hmac-sha2'', kd_passphrase = passphrase,
                   kd_iv = bin2base64 (buf_to_string iv), kd_mac = bin2base64 (buf_to_string mac), kd_signatures = []\<rparr>\<rparr>))))"

end
