(* ===== verification/Olm_Props.thy ===== *)
theory Olm_Props
  imports Olm_Sessions
begin

unbundle bit_operations_syntax

text \<open>
  What the olm client guarantees for every libolm that meets the contract: the keys it uploads carry
  signatures that its own verification accepts, the cross-signing keys form a chain from the master key,
  backups and secret storage keys can be restored, and short authentication strings are in range and
  determine the bytes they show.
\<close>

section \<open>The contract\<close>

text \<open>
  A signature made with a key verifies with its public key, and is not empty; what was encrypted for
  a public key decrypts with its private key. The public key of an account is the one its identity
  keys show.
\<close>

locale olm_library = json_library J for J :: "'j json_lib" +
  fixes M :: "('acc, 'ses, 'inb, 'outb, 'sas, 'pk) olm_lib"
  assumes account_verifies: "olm_account_identity_keys M a = Some s \<Longrightarrow> jparse J s = Inr j \<Longrightarrow>
      IdentityKeys_from_json J j = Inr keys \<Longrightarrow> olm_ed25519_verify M (ik_ed25519 keys) msg (olm_account_sign M a msg) = 0"
    and account_signature: "olm_account_sign M a msg \<noteq> []"
    and pk_verifies: "olm_pk_signing_key_from_seed M seed = Some (k, pub) \<Longrightarrow>
      olm_pk_sign M k (to_binary_buf msg) = Some sig \<Longrightarrow> olm_ed25519_verify M pub msg sig = 0 \<and> sig \<noteq> []"
    and pk_decrypts: "olm_pk_key_from_private M priv = Some pub \<Longrightarrow> olm_pk_encrypt M pub t r = Some (c, m, e) \<Longrightarrow>
      olm_pk_decrypt M priv e m c = Some t"
begin

lemma identity_keys_sign:
  assumes "identity_keys M J c = Inr keys" and "sign_message M c msg = Inr sig"
  shows "olm_ed25519_verify M (ik_ed25519 keys) msg sig = 0 \<and> sig \<noteq> []"
  using assms account_verifies account_signature
  by (auto simp: identity_keys_def sign_message_def the_account_def or_throw_def result_simps split: option.splits)

text \<open>A value verifies when its fields other than the two erased ones were signed.\<close>

lemma verify_signed:
  assumes "jtype_of J obj = JObject" and "jtype_of J body = JObject"
    and "filter (\<lambda>(k, _). k \<noteq> ''signatures'') (filter (\<lambda>(k, _). k \<noteq> ''unsigned'') (jitems J obj)) = jitems J body"
    and "jdump J body = Inr t" and "olm_ed25519_verify M key t sig = 0" and "sig \<noteq> []"
  shows "ed25519_verify_signature M J key obj sig"
proof -
  have "jdump J (jerase J (jerase J obj ''unsigned'') ''signatures'') = jdump J body"
    using assms(1-3) by (intro dump_items) (simp_all add: items_erase)
  then show ?thesis using assms by (simp add: ed25519_verify_signature_def)
qed

lemma device_keys_verify:
  assumes "create_upload_keys_request M J c otks fb = Inr req"
  shows "verify_identity_signature M J (uk_device_keys req) (oc_device_id c) (oc_user_id c) = Inr True"
proof -
  obtain keys sig where keys: "identity_keys M J c = Inr keys" and sig: "sign_identity_keys M J c = Inr sig"
    and dk: "uk_device_keys req = \<lparr>dk_user_id = oc_user_id c, dk_device_id = oc_device_id c, dk_algorithms = olm_algorithms,
        dk_keys = device_key_map (oc_device_id c) keys,
        dk_signatures = [(oc_user_id c, [(''ed25519:'' @ oc_device_id c, sig)])], dk_device_display_name = []\<rparr>"
    using assms by (auto simp: create_upload_keys_request_def result_simps)
  define body where "body = jof_object J (to_smap
    [(''algorithms'', jstrings J olm_algorithms), (''user_id'', jstring J (oc_user_id c)),
     (''device_id'', jstring J (oc_device_id c)), (''keys'', jstring_map J (device_key_map (oc_device_id c) keys))])"
  obtain t where t: "jdump J body = Inr t" "sign_message M c t = Inr sig"
    using sig keys by (auto simp: sign_identity_keys_def body_def Let_def result_simps)
  have items: "jitems J body = [(''algorithms'', jstrings J olm_algorithms), (''device_id'', jstring J (oc_device_id c)),
      (''keys'', jstring_map J (device_key_map (oc_device_id c) keys)), (''user_id'', jstring J (oc_user_id c))]"
    by (simp add: body_def items_object to_smap_def smap_ok_def)
  have "ed25519_verify_signature M J (ik_ed25519 keys) (DeviceKeys_to_json J (uk_device_keys req)) sig"
  proof (rule verify_signed [OF _ _ _ t(1)])
    show "jtype_of J (DeviceKeys_to_json J (uk_device_keys req)) = JObject" "jtype_of J body = JObject"
      by (simp_all add: DeviceKeys_to_json_def body_def dk jset_if_def)
    show "filter (\<lambda>(k, _). k \<noteq> ''signatures'') (filter (\<lambda>(k, _). k \<noteq> ''unsigned'')
        (jitems J (DeviceKeys_to_json J (uk_device_keys req)))) = jitems J body"
      by (simp add: DeviceKeys_to_json_def dk items jset_if_def Let_def items_set items_set_null)
  qed (use identity_keys_sign [OF keys t(2)] in auto)
  moreover have "map_at (device_key_map (oc_device_id c) keys) (''ed25519:'' @ oc_device_id c) = Inr (ik_ed25519 keys)"
    by (simp add: map_at_def device_key_map_def)
  moreover have "sig \<noteq> []" using identity_keys_sign [OF keys t(2)] by simp
  ultimately show ?thesis
    by (simp add: verify_identity_signature_def dk map_at_def)
qed

text \<open>Every signed one-time key verifies, as it will be sent.\<close>

lemma one_time_key_verifies:
  assumes "identity_keys M J c = Inr keys" and "sign_one_time_key M J c key fb = Inr sig"
  shows "ed25519_verify_signature M J (ik_ed25519 keys) (SignedOneTimeKey_to_json J (signed_one_time_key c key sig fb)) sig"
proof -
  obtain t where t: "jdump J (one_time_key_json J key fb) = Inr t" "sign_message M c t = Inr sig"
    using assms(2) by (auto simp: sign_one_time_key_def result_simps)
  show ?thesis
  proof (rule verify_signed [OF _ _ _ t(1)])
    show "jtype_of J (SignedOneTimeKey_to_json J (signed_one_time_key c key sig fb)) = JObject"
      "jtype_of J (one_time_key_json J key fb) = JObject"
      by (simp_all add: SignedOneTimeKey_to_json_def one_time_key_json_def jset_if_def)
    show "filter (\<lambda>(k, _). k \<noteq> ''signatures'') (filter (\<lambda>(k, _). k \<noteq> ''unsigned'')
        (jitems J (SignedOneTimeKey_to_json J (signed_one_time_key c key sig fb)))) = jitems J (one_time_key_json J key fb)"
      by (cases fb) (simp_all add: SignedOneTimeKey_to_json_def one_time_key_json_def signed_one_time_key_def jset_if_def
          items_set items_set_null items_object)
  qed (use identity_keys_sign [OF assms(1) t(2)] in auto)
qed

lemma sign_all_verify:
  assumes "identity_keys M J c = Inr keys" and "\<forall>k \<in> snd ` set acc. P k"
    and P: "\<And>key sig. sign_one_time_key M J c key fb = Inr sig \<Longrightarrow> P (signed_one_time_key c key sig fb)"
    and "foldM (\<lambda>(key_id, one_time_key) m.
         rbind (sign_one_time_key M J c one_time_key fb) (\<lambda>sig.
           Inr (map_set (''signed_curve25519:'' @ key_id) (signed_one_time_key c one_time_key sig fb) m))) ks acc = Inr res"
  shows "\<forall>k \<in> snd ` set res. P k"
  using assms(2,4)
proof (induction ks arbitrary: acc)
  case (Cons p ks)
  obtain i key where p: "p = (i, key)" by (cases p)
  obtain sig where sig: "sign_one_time_key M J c key fb = Inr sig"
    using Cons.prems(2) by (auto simp: p result_simps)
  have "\<forall>k \<in> snd ` set (map_set (''signed_curve25519:'' @ i) (signed_one_time_key c key sig fb) acc). P k"
    using Cons.prems(1) P [OF sig] set_map_set [of "''signed_curve25519:'' @ i" "signed_one_time_key c key sig fb" acc]
    by fastforce
  from Cons.IH [OF this] Cons.prems(2) show ?case by (simp add: p sig)
qed simp

lemma upload_one_time_keys_verify:
  assumes "create_upload_keys_request M J c otks fb = Inr req" and "identity_keys M J c = Inr keys"
    and "k \<in> snd ` set (uk_one_time_keys req) \<union> snd ` set (uk_fallback_keys req)"
  shows "\<exists>s sig. k = Signed_key s \<and> sk_signatures s = [(oc_user_id c, [(''ed25519:'' @ oc_device_id c, sig)])]
    \<and> ed25519_verify_signature M J (ik_ed25519 keys) (SignedOneTimeKey_to_json J s) sig"
proof -
  define P where "P s \<longleftrightarrow> (\<exists>sig. sk_signatures s = [(oc_user_id c, [(''ed25519:'' @ oc_device_id c, sig)])]
    \<and> ed25519_verify_signature M J (ik_ed25519 keys) (SignedOneTimeKey_to_json J s) sig)" for s
  have P: "P (signed_one_time_key c key sig b)" if "sign_one_time_key M J c key b = Inr sig" for key sig b
    using one_time_key_verifies [OF assms(2) that] unfolding P_def by (intro exI [of _ sig]) (simp add: signed_one_time_key_def)
  have all: "\<forall>s \<in> snd ` set res. P s" if "sign_one_time_keys M J c ks b = Inr res" for ks b res
    using sign_all_verify [where P = P and fb = b, OF assms(2) _ P that [unfolded sign_one_time_keys_def]] by simp
  obtain a b where ab: "sign_one_time_keys M J c otks False = Inr a" "sign_one_time_keys M J c fb True = Inr b"
    and "uk_one_time_keys req = map (\<lambda>(k, v). (k, Signed_key v)) a" "uk_fallback_keys req = map (\<lambda>(k, v). (k, Signed_key v)) b"
    using assms(1) by (auto simp: create_upload_keys_request_def result_simps)
  then have "\<exists>s. k = Signed_key s \<and> P s"
    using assms(3) all [OF ab(1)] all [OF ab(2)] by (auto simp: image_iff)
  then show ?thesis unfolding P_def by blast
qed

section \<open>Cross-signing\<close>

lemma cross_key_verified:
  assumes "signed_text J k = Inr t" and "olm_ed25519_verify M key t sig = 0" and "sig \<noteq> []"
  shows "ed25519_verify_signature M J key (CrossSigningKeys_to_json J (add_signatures user sigs k)) sig"
proof -
  have "jtype_of J (CrossSigningKeys_to_json J k) = JObject" for k by (simp add: CrossSigningKeys_to_json_def Let_def)
  then show ?thesis
    by (intro verify_signed [OF _ _ _ assms(1) [unfolded signed_text_def] assms(2,3)])
       (simp_all add: items_erase CrossSigningKeys_to_json_def add_signatures_def Let_def items_set items_set_null)
qed

lemma pk_signed:
  assumes "PkSigning_from_seed M seed = Inr key" and "PkSigning_sign M key t = Inr sig"
  shows "olm_ed25519_verify M (pk_public_key key) t sig = 0" "sig \<noteq> []"
  using assms pk_verifies [of "base642bin seed" "pk_signing key" "pk_public_key key" t sig]
  by (auto simp: PkSigning_from_seed_def PkSigning_sign_def or_throw_def result_simps split: option.splits)

text \<open>A key with two signatures, the second by the master key.\<close>

lemma signed_by_master:
  assumes "PkSigning_from_seed M seed = Inr master" and "rbind (signed_text J k) (PkSigning_sign M master) = Inr sig"
    and "k' = add_signatures user [(i, x), (''ed25519:'' @ pk_public_key master, sig)] k"
  shows "\<exists>sigs. csk_signatures k' = [(user, sigs)] \<and> map_of sigs (''ed25519:'' @ pk_public_key master) = Some sig
    \<and> ed25519_verify_signature M J (pk_public_key master) (CrossSigningKeys_to_json J k') sig"
proof -
  obtain t where "signed_text J k = Inr t" "PkSigning_sign M master t = Inr sig" using assms(2) by (auto simp: rbind_eq_Inr)
  then have "ed25519_verify_signature M J (pk_public_key master) (CrossSigningKeys_to_json J k') sig"
    using cross_key_verified pk_signed [OF assms(1)] unfolding assms(3) by blast
  moreover have "csk_signatures k' = [(user, map_set (''ed25519:'' @ pk_public_key master) sig (map_set i x []))]"
    by (simp add: assms(3) add_signatures_def del: map_set.simps)
  ultimately show ?thesis by (simp del: map_set.simps)
qed

lemma new_key_seed: "PkSigning_new_key M r = Inr k \<Longrightarrow> \<exists>seed. PkSigning_from_seed M seed = Inr k"
  by (auto simp: PkSigning_new_key_def)

text \<open>The keys that were set up, with the signing keys they came from.\<close>

lemma crosssigning_parts:
  assumes "create_crosssigning_keys M J ent c = Inr res"
  shows "\<exists>master seed us ss u1 u2 s1 s2 m1 m2 mt. PkSigning_from_seed M seed = Inr master
    \<and> cs_private_master_key res = pk_seed master
    \<and> signed_text J (unsigned_cross_key (oc_user_id c) ''master'' (pk_public_key master)) = Inr mt
    \<and> PkSigning_sign M master mt = Inr m1 \<and> sign_message M c mt = Inr m2
    \<and> cs_master_key res = add_signatures (oc_user_id c) [(''ed25519:'' @ pk_public_key master, m1), (''ed25519:'' @ oc_device_id c, m2)]
         (unsigned_cross_key (oc_user_id c) ''master'' (pk_public_key master))
    \<and> rbind (signed_text J (unsigned_cross_key (oc_user_id c) ''user_signing'' us)) (PkSigning_sign M master) = Inr u2
    \<and> cs_user_signing_key res = add_signatures (oc_user_id c) [(''ed25519:'' @ us, u1), (''ed25519:'' @ pk_public_key master, u2)]
         (unsigned_cross_key (oc_user_id c) ''user_signing'' us)
    \<and> rbind (signed_text J (unsigned_cross_key (oc_user_id c) ''self_signing'' ss)) (PkSigning_sign M master) = Inr s2
    \<and> cs_self_signing_key res = add_signatures (oc_user_id c) [(''ed25519:'' @ ss, s1), (''ed25519:'' @ pk_public_key master, s2)]
         (unsigned_cross_key (oc_user_id c) ''self_signing'' ss)"
  using assms new_key_seed
  unfolding create_crosssigning_keys_def Let_def rbind_eq_Inr
  by (elim exE conjE) (force simp: result_simps)

lemma session_backup:
  assumes "smap_ok (sd_sender_claimed_keys d)" and "jdump J (SessionData_to_json J d) = Inr t"
    and "jparse J t = Inr (SessionData_to_json J d)" and "olm_pk_key_from_private M priv = Some pub"
    and "encrypt_session M J r d pub = Inr x"
  shows "decrypt_session M J x priv = Inr d"
proof -
  have "olm_pk_decrypt M priv (ce_ephemeral x) (ce_mac x) (ce_ciphertext x) = Some t"
    using assms(2,4,5) pk_decrypts
    by (auto simp: encrypt_session_def CURVE25519_AES_SHA2_Encrypt_def or_throw_def result_simps split: option.splits)
  moreover have "SessionData_from_json J (SessionData_to_json J d) = Inr d"
    using assms(1) by (simp add: SessionData_from_json_def SessionData_to_json_def reads jstring_map_def jget_string_map_def Let_def)
  ultimately show ?thesis
    using assms(3) by (simp add: decrypt_session_def CURVE25519_AES_SHA2_Decrypt_def or_throw_def)
qed

end

section \<open>Short authentication strings\<close>

text \<open>The value of the bytes in network order.\<close>

definition be_int :: "BinaryBuf \<Rightarrow> int" where
  "be_int b = foldl (\<lambda>n x. n * 256 + uint x) 0 b"

lemma be_int_step: "n * 256 + uint (x :: byte) = concat_bit 8 (uint x) n"
proof -
  have "take_bit 8 (uint x) = uint x" using unsigned_less [of x, where ?'a = int] by (simp add: take_bit_int_eq_self_iff)
  then show ?thesis by (simp add: concat_bit_eq push_bit_eq_mult)
qed

lemma bit_be_int:
  "bit (be_int (bs @ [x])) i \<longleftrightarrow> (if i < 8 then bit x i else bit (be_int bs) (i - 8))" "\<not> bit (be_int []) i"
  by (auto simp: be_int_def be_int_step bit_concat_bit_iff bit_uint_iff)

lemma byte_bits: "bit (b :: byte) n \<Longrightarrow> n < 8"
  using bit_imp_le_length [of b n] by simp

lemma bit_be_ints:
  "bit (be_int [b0]) i \<longleftrightarrow> bit b0 i"
  "bit (be_int [b0, b1]) i \<longleftrightarrow> (if i < 8 then bit b1 i else bit (be_int [b0]) (i - 8))"
  "bit (be_int [b0, b1, b2]) i \<longleftrightarrow> (if i < 8 then bit b2 i else bit (be_int [b0, b1]) (i - 8))"
  "bit (be_int [b0, b1, b2, b3]) i \<longleftrightarrow> (if i < 8 then bit b3 i else bit (be_int [b0, b1, b2]) (i - 8))"
  "bit (be_int [b0, b1, b2, b3, b4]) i \<longleftrightarrow> (if i < 8 then bit b4 i else bit (be_int [b0, b1, b2, b3]) (i - 8))"
  "bit (be_int [b0, b1, b2, b3, b4, b5]) i \<longleftrightarrow> (if i < 8 then bit b5 i else bit (be_int [b0, b1, b2, b3, b4]) (i - 8))"
  using bit_be_int(1) [of "[]" b0 i] bit_be_int(2) byte_bits [of b0 i]
    bit_be_int(1) [of "[b0]" b1 i] bit_be_int(1) [of "[b0, b1]" b2 i] bit_be_int(1) [of "[b0, b1, b2]" b3 i]
    bit_be_int(1) [of "[b0, b1, b2, b3]" b4 i] bit_be_int(1) [of "[b0, b1, b2, b3, b4]" b5 i]
  by auto

lemma and_masks: "x AND 7 = take_bit 3 x" "x AND 0x3F = take_bit 6 (x :: int)"
  by (simp_all add: take_bit_eq_mask mask_eq_exp_minus_1)

lemma sas_decimal_bits:
  "sas_decimal [b0, b1, b2, b3, b4] =
     map (\<lambda>k. take_bit 13 (drop_bit k (be_int [b0, b1, b2, b3, b4])) + 1000) [27, 14, 1]"
proof -
  have "push_bit 5 (uint b0) OR drop_bit 3 (uint b1) = take_bit 13 (drop_bit 27 (be_int [b0, b1, b2, b3, b4]))"
    "push_bit 10 (uint b1 AND 0x07) OR push_bit 2 (uint b2) OR drop_bit 6 (uint b3)
       = take_bit 13 (drop_bit 14 (be_int [b0, b1, b2, b3, b4]))"
    "push_bit 7 (uint b3 AND 0x3F) OR drop_bit 1 (uint b4) = take_bit 13 (drop_bit 1 (be_int [b0, b1, b2, b3, b4]))"
    by (rule bit_eqI, auto simp: bit_simps bit_be_ints and_masks dest: byte_bits)+
  then show ?thesis unfolding sas_decimal_def by (simp add: Let_def numeral_eq_Suc)
qed

lemma sas_emoji_bits:
  "sas_emoji [b0, b1, b2, b3, b4, b5] =
     map (\<lambda>k. take_bit 6 (drop_bit k (be_int [b0, b1, b2, b3, b4, b5]))) [42, 36, 30, 24, 18, 12, 6]"
proof -
  have "drop_bit 2 (uint b0) = take_bit 6 (drop_bit 42 (be_int [b0, b1, b2, b3, b4, b5]))"
    "(push_bit 4 (uint b0) AND 0x3f) OR drop_bit 4 (uint b1) = take_bit 6 (drop_bit 36 (be_int [b0, b1, b2, b3, b4, b5]))"
    "(push_bit 2 (uint b1) AND 0x3f) OR drop_bit 6 (uint b2) = take_bit 6 (drop_bit 30 (be_int [b0, b1, b2, b3, b4, b5]))"
    "uint b2 AND 0x3f = take_bit 6 (drop_bit 24 (be_int [b0, b1, b2, b3, b4, b5]))"
    "drop_bit 2 (uint b3) = take_bit 6 (drop_bit 18 (be_int [b0, b1, b2, b3, b4, b5]))"
    "(push_bit 4 (uint b3) AND 0x3f) OR drop_bit 4 (uint b4) = take_bit 6 (drop_bit 12 (be_int [b0, b1, b2, b3, b4, b5]))"
    "(push_bit 2 (uint b4) AND 0x3f) OR drop_bit 6 (uint b5) = take_bit 6 (drop_bit 6 (be_int [b0, b1, b2, b3, b4, b5]))"
    by (rule bit_eqI, auto simp: bit_simps bit_be_ints and_masks dest: byte_bits)+
  then show ?thesis unfolding sas_emoji_def by (simp add: Let_def numeral_eq_Suc)
qed

lemma length_5_6:
  "length b = 5 \<longleftrightarrow> (\<exists>b0 b1 b2 b3 b4. b = [b0, b1, b2, b3, b4])"
  "length b = 6 \<longleftrightarrow> (\<exists>b0 b1 b2 b3 b4 b5. b = [b0, b1, b2, b3, b4, b5])"
  by (auto simp: length_Suc_conv eval_nat_numeral)

lemma be_int6_high: "48 \<le> i \<Longrightarrow> \<not> bit (be_int [b0, b1, b2, b3, b4, b5]) i"
  using byte_bits [of b0 "i - 40"] by (auto simp: bit_be_ints)

text \<open>The fields of six bits at the multiples of six determine the bits from 6 to 47.\<close>

lemma fields_determine:
  assumes "\<And>k. k \<in> {42, 36, 30, 24, 18, 12, 6} \<Longrightarrow> take_bit 6 (drop_bit k m) = take_bit 6 (drop_bit k (n :: int))"
    and "\<And>i. 48 \<le> i \<Longrightarrow> \<not> bit m i \<and> \<not> bit n i"
  shows "drop_bit 6 m = drop_bit 6 n"
proof (rule bit_eqI)
  fix i
  have field: "bit m (k + j) = bit n (k + j)" if "k \<in> {42, 36, 30, 24, 18, 12, 6}" "j < 6" for k j
    using arg_cong [OF assms(1) [OF that(1)], of "\<lambda>x. bit x j"] that(2) by (simp add: bit_take_bit_iff bit_drop_bit_eq)
  have "bit m (6 + i) = bit n (6 + i)"
  proof (cases "i < 42")
    case True
    have "i div 6 \<in> {0, 1, 2, 3, 4, 5, 6}" using True by auto
    then have "6 + 6 * (i div 6) \<in> {42, 36, 30, 24, 18, 12, 6}" by auto
    from field [OF this, of "i mod 6"] show ?thesis by (simp add: algebra_simps)
  next
    case False
    then show ?thesis using assms(2) [of "6 + i"] by simp
  qed
  then show "bit (drop_bit 6 m) i = bit (drop_bit 6 n) i" by (simp add: bit_drop_bit_eq)
qed

section \<open>Secret storage\<close>

context openssl_library
begin

lemma ssss_key_restored:
  "\<exists>res. create_ssss_key L ent password = Inr res
    \<and> length (ss_privateKey res) = 32
    \<and> verify_key L (ss_privateKey res) (ss_keyDescription res) = Inr (Some (ss_privateKey res))
    \<and> key_from_passphrase L password (ss_keyDescription res) =
        (if password = [] then Inl (Invalid_argument ''no passphrase to derive key from'')
         else Inr (Some (ss_privateKey res)))"
proof -
  define salt where "salt = bin2base64 (buf_to_string (create_buffer (ent 0) 32))"
  define key where "key = (if password = [] then create_buffer (ent 0) 32
    else PBKDF2_HMAC_SHA_512 L password (to_binary_buf salt) 630000 (256 div 8))"
  obtain name where name: "bin2base58 (buf_to_string (create_buffer (ent 1) 16)) = Inr name"
    using encode_base58_total [of "buf_to_string (create_buffer (ent 1) 16)"] create_buffer_length [of "ent 1" 16]
    unfolding bin2base58_def by (metis buf_string_length(2) length_0_conv zero_neq_numeral)
  obtain iv where iv: "compatible_iv (create_buffer (ent 2) 16) = Inr iv" "length iv = 16"
    by (simp add: compatible_iv_def)
  define desc where "desc = \<lparr>kd_name = name, kd_algorithm = ''m.secret_storage.v1.aes-hmac-sha2'',
    kd_passphrase = (if password = [] then None else Some (ssss_passphrase salt)),
    kd_iv = bin2base64 (buf_to_string iv), kd_mac = [], kd_signatures = []\<rparr>"
  have len: "length key = 32" by (simp add: key_def)
  then have "key \<noteq> []" by auto
  then obtain mac where mac: "key_check_mac L key (kd_iv desc) = Inr mac"
      "verify_key L key (desc\<lparr>kd_mac := bin2base64 (buf_to_string mac)\<rparr>) = Inr (Some key)"
    using verify_own_mac [of key desc] iv(2) by (auto simp: desc_def)
  have "create_ssss_key L ent password
      = Inr \<lparr>ss_privateKey = key, ss_keyDescription = desc\<lparr>kd_mac := bin2base64 (buf_to_string mac)\<rparr>\<rparr>"
    using mac(1) unfolding create_ssss_key_def Let_def salt_def [symmetric] key_def [symmetric] name iv(1) rbind_Inr
    by (simp add: desc_def)
  moreover have "key_from_passphrase L password (desc\<lparr>kd_mac := bin2base64 (buf_to_string mac)\<rparr>)
      = (if password = [] then Inl (Invalid_argument ''no passphrase to derive key from'') else Inr (Some key))"
    using mac(2) by (cases "password = []") (simp_all add: key_from_passphrase_def desc_def ssss_passphrase_def key_def)
  ultimately show ?thesis using len mac(2) by simp
qed

end

section \<open>The life of an account\<close>

text \<open>
  The states a client can be in after an account was created or restored, under the operations that
  change it, in any order, whether they succeed or throw.
\<close>

inductive client_reach ::
    "('acc, 'ses, 'inb, 'outb, 'sas, 'pk) olm_lib \<Rightarrow> string \<Rightarrow> string \<Rightarrow> 'acc OlmClient \<Rightarrow> bool" for M u d where
  created: "client_reach M u d (fst (create_new_account M r (new_OlmClient u d)))"
| restored: "restore_account M saved key (new_OlmClient u d) = (c, Inr ()) \<Longrightarrow> client_reach M u d c"
| recreate: "client_reach M u d c \<Longrightarrow> client_reach M u d (fst (create_new_account M r c))"
| restore: "client_reach M u d c \<Longrightarrow> client_reach M u d (fst (restore_account M saved key c))"
| generate: "client_reach M u d c \<Longrightarrow> client_reach M u d (fst (generate_one_time_keys M ent n fb c))"
| publish: "client_reach M u d c \<Longrightarrow> client_reach M u d (fst (mark_keys_as_published M c))"
| forget: "client_reach M u d c \<Longrightarrow> client_reach M u d (fst (forget_old_fallback_key M c))"
| inbound: "client_reach M u d c \<Longrightarrow> client_reach M u d (fst (create_inbound_session M msg c))"
| inbound_from: "client_reach M u d c \<Longrightarrow> client_reach M u d (fst (create_inbound_session_from M k msg c))"

lemmas account_ops = create_new_account_def restore_account_def generate_one_time_keys_def mark_keys_as_published_def
  forget_old_fallback_key_def create_inbound_session_def create_inbound_session_from_def remove_used_keys_def the_account_def

lemma client_reach_account: "client_reach M u d c \<Longrightarrow> oc_account c \<noteq> None \<and> oc_user_id c = u \<and> oc_device_id c = d"
  by (induction rule: client_reach.induct) (auto simp: account_ops new_OlmClient_def split: option.splits)

section \<open>A library for the witnesses\<close>

definition sample_olm :: "(unit, unit, unit, unit, unit, unit) olm_lib" where
  "sample_olm =
     \<lparr>olm_account = (), olm_create_account_random_length = 0, olm_create_account = (\<lambda>_. Some ()),
      olm_pickle_account = (\<lambda>_ k. Some k), olm_unpickle_account = (\<lambda>k p. if k = p then Some () else None),
      olm_account_identity_keys = (\<lambda>_. Some ''keys''), olm_account_sign = (\<lambda>_ msg. ''s'' @ msg),
      olm_account_generate_one_time_keys_random_length = (\<lambda>_ n. n),
      olm_account_generate_one_time_keys = (\<lambda>_ n _. Some ((), n)),
      olm_account_generate_fallback_key_random_length = (\<lambda>_. 0),
      olm_account_generate_fallback_key = (\<lambda>_ _. None),
      olm_account_one_time_keys = (\<lambda>_. None), olm_account_unpublished_fallback_key = (\<lambda>_. None),
      olm_account_mark_keys_as_published = id, olm_account_forget_old_fallback_key = id,
      olm_init_outbound_group_session_random_length = 0, olm_init_outbound_group_session = (\<lambda>_. None),
      olm_init_inbound_group_session = (\<lambda>_. None), olm_import_inbound_group_session = (\<lambda>_. None),
      olm_group_decrypt_max_plaintext_length = (\<lambda>_ _. None), olm_group_decrypt = (\<lambda>_ _. None),
      olm_group_encrypt = (\<lambda>_ _. None), olm_decrypt_max_plaintext_length = (\<lambda>_ _ _. None),
      olm_decrypt = (\<lambda>_ _ _. None), olm_encrypt_random_length = (\<lambda>_. 0), olm_encrypt_message_type = (\<lambda>_. 0),
      olm_encrypt = (\<lambda>_ _ _. None), olm_create_inbound_session_from = (\<lambda>_ _ _. None),
      olm_create_inbound_session = (\<lambda>_ _. None), olm_remove_one_time_keys = (\<lambda>_ _. None),
      olm_create_outbound_session_random_length = 0, olm_create_outbound_session = (\<lambda>_ _ _ _. None),
      olm_matches_inbound_session = (\<lambda>_ _. None), olm_matches_inbound_session_from = (\<lambda>_ _ _. None),
      olm_session_id = (\<lambda>_. []), olm_outbound_group_session_id = (\<lambda>_. []), olm_outbound_group_session_key = (\<lambda>_. []),
      olm_inbound_group_session_first_known_index = (\<lambda>_. 0), olm_export_inbound_group_session = (\<lambda>_ _. None),
      olm_create_sas_random_length = 0, olm_create_sas = (\<lambda>_. None), olm_sas_get_pubkey = (\<lambda>_. None),
      olm_sas_set_their_key = (\<lambda>_ _. None), olm_sas_generate_bytes = (\<lambda>_ _ _. None),
      olm_sas_calculate_mac = (\<lambda>_ _ _. None), olm_sas_calculate_mac_fixed_base64 = (\<lambda>_ _ _. None),
      olm_pk_signing_seed_length = 32, olm_pk_signing_key_from_seed = (\<lambda>_. Some ((), ''pub'')),
      olm_pk_sign = (\<lambda>_ msg. Some (''s'' @ buf_to_string msg)), olm_pk_private_key_length = 32, olm_pk_key_length = 3,
      olm_pk_key_from_private = (\<lambda>_. Some ''pub''), olm_pk_encrypt_random_length = 0,
      olm_pk_encrypt = (\<lambda>_ t _. Some (t, [], [])), olm_pk_decrypt = (\<lambda>_ _ _ c. Some c),
      olm_ed25519_verify = (\<lambda>_ msg sig. if sig = ''s'' @ msg then 0 else 1)\<rparr>"

definition tree_keys :: "json json_lib" where
  "tree_keys = tree_lib\<lparr>jparse := (\<lambda>s. if s = ''keys'' then Inr (Obj [(''curve25519'', Str ''c''), (''ed25519'', Str ''e'')])
     else tree_parse s)\<rparr>"

lemma json_library_parse: "json_library (J\<lparr>jparse := f\<rparr>) \<longleftrightarrow> json_library J"
  unfolding json_library_def by (cases J) (simp only: json_lib.simps)

interpretation keys: json_library tree_keys
  unfolding tree_keys_def by (simp only: json_library_parse tree_lib_library)

interpretation sample_olm: olm_library tree_keys sample_olm
  by unfold_locales (auto simp: sample_olm_def)

lemma sample_olm_library: "olm_library tree_keys sample_olm"
  by (rule sample_olm.olm_library_axioms)

lemma sample_olm_parse: "olm_library (tree_lib\<lparr>jparse := f\<rparr>) sample_olm"
  unfolding olm_library_def json_library_parse olm_library_axioms_def using tree_lib_library by (auto simp: sample_olm_def)

definition sample_client :: "unit OlmClient" where
  "sample_client = \<lparr>oc_user_id = ''@a:x'', oc_device_id = ''DEV'', oc_account = Some ()\<rparr>"

section \<open>Properties\<close>

text \<open>
  C3. The keys a client uploads verify: the device keys of an upload request pass the verification
  that other clients run on them, and every one-time and fallback key in it carries one signature,
  which verifies with the identity key of the device.
\<close>

theorem upload_keys_verify:
  assumes "olm_library J M" and "create_upload_keys_request M J c otks fb = Inr req"
  shows "verify_identity_signature M J (uk_device_keys req) (oc_device_id c) (oc_user_id c) = Inr True
    \<and> (\<exists>keys. identity_keys M J c = Inr keys
        \<and> (\<forall>k \<in> snd ` set (uk_one_time_keys req) \<union> snd ` set (uk_fallback_keys req).
             \<exists>s sig. k = Signed_key s \<and> sk_signatures s = [(oc_user_id c, [(''ed25519:'' @ oc_device_id c, sig)])]
               \<and> ed25519_verify_signature M J (ik_ed25519 keys) (SignedOneTimeKey_to_json J s) sig))"
proof -
  obtain keys where "identity_keys M J c = Inr keys"
    using assms(2) by (auto simp: create_upload_keys_request_def result_simps)
  then show ?thesis
    using olm_library.device_keys_verify [OF assms] olm_library.upload_one_time_keys_verify [OF assms] by blast
qed

theorem upload_keys_verify_witness:
  "\<exists>req. create_upload_keys_request sample_olm tree_keys sample_client [(''AAAA'', ''k1'')] [] = Inr req
     \<and> verify_identity_signature sample_olm tree_keys (uk_device_keys req) ''DEV'' ''@a:x'' = Inr True"
proof -
  have "identity_keys sample_olm tree_keys sample_client = Inr \<lparr>ik_curve25519 = ''c'', ik_ed25519 = ''e''\<rparr>"
    by (simp add: identity_keys_def sample_client_def sample_olm_def tree_keys_def or_throw_def IdentityKeys_from_json_def
        jat_as_def tree_lib_def tree_at_def)
  moreover have "\<exists>t. jdump tree_keys j = Inr t" for j
    by (auto simp: tree_keys_def tree_lib_def tree_dump_def split: json.split list.split)
  moreover have "\<exists>s. sign_message sample_olm sample_client m = Inr s" for m
    by (simp add: sign_message_def sample_client_def the_account_def)
  ultimately have "\<exists>req. create_upload_keys_request sample_olm tree_keys sample_client [(''AAAA'', ''k1'')] [] = Inr req"
    by (simp add: create_upload_keys_request_def sign_identity_keys_def sign_one_time_keys_def sign_one_time_key_def result_simps) metis
  then show ?thesis
    using upload_keys_verify [OF sample_olm_library] by (fastforce simp: sample_client_def)
qed

text \<open>
  C9. Cross-signing keys form a chain: the user-signing and the self-signing key of a setup carry a
  signature under the id of the master key that verifies with the master key, and the master key
  carries a signature under the id of the device that verifies with the identity key of the device.
\<close>

theorem crosssigning_chain:
  assumes "olm_library J M" and "create_crosssigning_keys M J ent c = Inr res" and "identity_keys M J c = Inr keys"
  shows "\<exists>pub. csk_keys (cs_master_key res) = [(''ed25519:'' @ pub, pub)]
    \<and> (\<forall>k \<in> {cs_user_signing_key res, cs_self_signing_key res}.
         \<exists>sigs sig. csk_signatures k = [(oc_user_id c, sigs)] \<and> map_of sigs (''ed25519:'' @ pub) = Some sig
           \<and> ed25519_verify_signature M J pub (CrossSigningKeys_to_json J k) sig)
    \<and> (\<exists>sigs sig. csk_signatures (cs_master_key res) = [(oc_user_id c, sigs)]
         \<and> map_of sigs (''ed25519:'' @ oc_device_id c) = Some sig
         \<and> ed25519_verify_signature M J (ik_ed25519 keys) (CrossSigningKeys_to_json J (cs_master_key res)) sig)"
proof -
  obtain master seed us ss u1 u2 s1 s2 m1 m2 mt where master: "PkSigning_from_seed M seed = Inr master"
    and mt: "signed_text J (unsigned_cross_key (oc_user_id c) ''master'' (pk_public_key master)) = Inr mt" "sign_message M c mt = Inr m2"
    and mk: "cs_master_key res = add_signatures (oc_user_id c)
        [(''ed25519:'' @ pk_public_key master, m1), (''ed25519:'' @ oc_device_id c, m2)]
        (unsigned_cross_key (oc_user_id c) ''master'' (pk_public_key master))"
    and us: "rbind (signed_text J (unsigned_cross_key (oc_user_id c) ''user_signing'' us)) (PkSigning_sign M master) = Inr u2"
      "cs_user_signing_key res = add_signatures (oc_user_id c) [(''ed25519:'' @ us, u1), (''ed25519:'' @ pk_public_key master, u2)]
        (unsigned_cross_key (oc_user_id c) ''user_signing'' us)"
    and ss: "rbind (signed_text J (unsigned_cross_key (oc_user_id c) ''self_signing'' ss)) (PkSigning_sign M master) = Inr s2"
      "cs_self_signing_key res = add_signatures (oc_user_id c) [(''ed25519:'' @ ss, s1), (''ed25519:'' @ pk_public_key master, s2)]
        (unsigned_cross_key (oc_user_id c) ''self_signing'' ss)"
    using olm_library.crosssigning_parts [OF assms(1,2)] by blast
  have "ed25519_verify_signature M J (ik_ed25519 keys) (CrossSigningKeys_to_json J (cs_master_key res)) m2"
    unfolding mk using olm_library.cross_key_verified [OF assms(1) mt(1)] olm_library.identity_keys_sign [OF assms(1,3) mt(2)] by blast
  then have "\<exists>sigs sig. csk_signatures (cs_master_key res) = [(oc_user_id c, sigs)]
         \<and> map_of sigs (''ed25519:'' @ oc_device_id c) = Some sig
         \<and> ed25519_verify_signature M J (ik_ed25519 keys) (CrossSigningKeys_to_json J (cs_master_key res)) sig"
    by (intro exI [of _ m2] exI conjI) (auto simp: mk add_signatures_def)
  moreover have "csk_keys (cs_master_key res) = [(''ed25519:'' @ pk_public_key master, pk_public_key master)]"
    by (simp add: mk add_signatures_def unsigned_cross_key_def)
  ultimately show ?thesis
    using olm_library.signed_by_master [OF assms(1) master us] olm_library.signed_by_master [OF assms(1) master ss] by blast
qed

theorem crosssigning_chain_witness:
  "\<exists>res. create_crosssigning_keys sample_olm tree_keys (\<lambda>_ _. None) sample_client = Inr res
     \<and> csk_keys (cs_master_key res) = [(''ed25519:pub'', ''pub'')]"
proof -
  have id: "identity_keys sample_olm tree_keys sample_client = Inr \<lparr>ik_curve25519 = ''c'', ik_ed25519 = ''e''\<rparr>"
    by (simp add: identity_keys_def sample_client_def sample_olm_def tree_keys_def or_throw_def IdentityKeys_from_json_def
        jat_as_def tree_lib_def tree_at_def)
  have dump: "\<exists>t. signed_text tree_keys k = Inr t" for k
    by (auto simp: signed_text_def tree_keys_def tree_lib_def tree_dump_def split: json.split list.split)
  then obtain t where t: "\<And>k. signed_text tree_keys k = Inr (t k)" by metis
  have sign: "sign_message sample_olm sample_client m = Inr (''s'' @ m)" "PkSigning_sign sample_olm k m = Inr (''s'' @ m)"
    and "\<exists>seed. PkSigning_new_key sample_olm r = Inr \<lparr>pk_signing = (), pk_public_key = ''pub'', pk_seed = seed\<rparr>" for m r k
    by (simp_all add: sign_message_def sample_client_def the_account_def PkSigning_new_key_def PkSigning_from_seed_def
        PkSigning_sign_def sample_olm_def or_throw_def)
  then obtain seed where "\<And>r. PkSigning_new_key sample_olm r = Inr \<lparr>pk_signing = (), pk_public_key = ''pub'', pk_seed = seed r\<rparr>"
    by metis
  then have "\<exists>res. create_crosssigning_keys sample_olm tree_keys (\<lambda>_ _. None) sample_client = Inr res
      \<and> csk_keys (cs_master_key res) = [(''ed25519:pub'', ''pub'')]"
    by (simp add: create_crosssigning_keys_def t sign add_signatures_def unsigned_cross_key_def Let_def del: map_set.simps)
  then show ?thesis using crosssigning_chain [OF sample_olm_library _ id] by blast
qed

text \<open>
  C20. Secret storage keys can be restored: setting up a key succeeds, with or without a passphrase
  and whatever random bytes are drawn, the key has 32 bytes, the passphrase gives it back from the
  description, and so does its recovery key.
\<close>

theorem ssss_key_recoverable:
  assumes "openssl_library L"
  shows "\<exists>res r. create_ssss_key L ent password = Inr res \<and> length (ss_privateKey res) = 32
    \<and> (password \<noteq> [] \<longrightarrow> key_from_passphrase L password (ss_keyDescription res) = Inr (Some (ss_privateKey res)))
    \<and> (password = [] \<longrightarrow> key_from_passphrase L password (ss_keyDescription res)
          = Inl (Invalid_argument ''no passphrase to derive key from''))
    \<and> key_to_recoverykey (ss_privateKey res) = Inr r
    \<and> key_from_recoverykey L r (ss_keyDescription res) = Inr (Some (ss_privateKey res))"
proof -
  obtain res where res: "create_ssss_key L ent password = Inr res" "length (ss_privateKey res) = 32"
      "verify_key L (ss_privateKey res) (ss_keyDescription res) = Inr (Some (ss_privateKey res))"
      "key_from_passphrase L password (ss_keyDescription res) =
        (if password = [] then Inl (Invalid_argument ''no passphrase to derive key from'') else Inr (Some (ss_privateKey res)))"
    using openssl_library.ssss_key_restored [OF assms] by blast
  moreover obtain r where "key_to_recoverykey (ss_privateKey res) = Inr r"
      "key_from_recoverykey L r (ss_keyDescription res) = verify_key L (ss_privateKey res) (ss_keyDescription res)"
    using recoverykey_roundtrip by blast
  ultimately show ?thesis by auto
qed

theorem ssss_key_recoverable_witness:
  "\<exists>res. create_ssss_key sample_ssl (\<lambda>_ _. None) ''secret'' = Inr res
    \<and> key_from_passphrase sample_ssl ''secret'' (ss_keyDescription res) = Inr (Some (ss_privateKey res))"
  using ssss_key_recoverable [OF sample_ssl_library, of "\<lambda>_ _. None" "''secret''"] by auto

text \<open>
  C22. Sessions in the key backup: a session encrypted for the public key of a backup decrypts with
  its private key to the same session, when its JSON text parses back.
\<close>

theorem session_backup_roundtrip:
  assumes "olm_library J M" and "smap_ok (sd_sender_claimed_keys d)" and "jdump J (SessionData_to_json J d) = Inr t"
    and "jparse J t = Inr (SessionData_to_json J d)" and "olm_pk_key_from_private M priv = Some pub"
    and "encrypt_session M J r d pub = Inr x"
  shows "decrypt_session M J x priv = Inr d \<and> CURVE25519_public_key_from_private M priv = pub"
  using olm_library.session_backup [OF assms] assms(5) by (simp add: CURVE25519_public_key_from_private_def)

definition sample_session :: SessionData where
  "sample_session = \<lparr>sd_algorithm = MEGOLM_ALGO, sd_forwarding_curve25519_key_chain = [''c''], sd_sender_key = ''k'',
     sd_sender_claimed_keys = [(''ed25519'', ''e'')], sd_session_key = ''key''\<rparr>"

definition tree_session :: "json json_lib" where
  "tree_session = tree_lib\<lparr>jparse := (\<lambda>_. Inr (SessionData_to_json tree_lib sample_session))\<rparr>"

theorem session_backup_roundtrip_witness:
  "\<exists>x. encrypt_session sample_olm tree_session (\<lambda>_. None) sample_session ''pub'' = Inr x
     \<and> decrypt_session sample_olm tree_session x [] = Inr sample_session"
proof -
  have json: "SessionData_to_json tree_session d = SessionData_to_json tree_lib d" for d
    by (simp add: SessionData_to_json_def tree_session_def jstrings_def jstring_map_def jof_map_def)
  have "\<exists>t. jdump tree_session j = Inr t" for j
    by (cases j) (auto simp: tree_session_def tree_lib_def tree_dump_def split: list.split)
  then obtain t where t: "jdump tree_session (SessionData_to_json tree_session sample_session) = Inr t" by blast
  moreover have "jparse tree_session t = Inr (SessionData_to_json tree_session sample_session)"
    by (simp add: json) (simp add: tree_session_def)
  moreover obtain x where "encrypt_session sample_olm tree_session (\<lambda>_. None) sample_session ''pub'' = Inr x"
    by (simp add: encrypt_session_def CURVE25519_AES_SHA2_Encrypt_def t or_throw_def sample_olm_def)
  moreover have "olm_pk_key_from_private sample_olm [] = Some ''pub''" "smap_ok (sd_sender_claimed_keys sample_session)"
    by (simp_all add: sample_olm_def sample_session_def)
  ultimately show ?thesis
    using session_backup_roundtrip [of tree_session sample_olm sample_session t "[]" "''pub''"] sample_olm_parse
    unfolding tree_session_def by blast
qed

text \<open>
  C24. Short authentication strings: the three decimal numbers are the three groups of 13 bits of
  the five bytes, in order, plus 1000, so that they are between 1000 and 9191; the seven emoji are the
  first seven groups of six bits of the six bytes, between 0 and 63; and two devices that show the same
  emoji agree in the first 42 bits.
\<close>

theorem sas_strings:
  assumes "length b = 5" and "length e = 6" and "length e' = 6" and "sas_emoji e = sas_emoji e'"
  shows "sas_decimal b = map (\<lambda>k. take_bit 13 (drop_bit k (be_int b)) + 1000) [27, 14, 1]
    \<and> (\<forall>d \<in> set (sas_decimal b). 1000 \<le> d \<and> d \<le> 9191)
    \<and> sas_emoji e = map (\<lambda>k. take_bit 6 (drop_bit k (be_int e))) [42, 36, 30, 24, 18, 12, 6]
    \<and> (\<forall>x \<in> set (sas_emoji e). 0 \<le> x \<and> x \<le> 63)
    \<and> drop_bit 6 (be_int e) = drop_bit 6 (be_int e')"
proof -
  have dec: "sas_decimal b = map (\<lambda>k. take_bit 13 (drop_bit k (be_int b)) + 1000) [27, 14, 1]"
    using assms(1) unfolding length_5_6 by (auto simp only: sas_decimal_bits)
  have emo: "sas_emoji x = map (\<lambda>k. take_bit 6 (drop_bit k (be_int x))) [42, 36, 30, 24, 18, 12, 6]" if "length x = 6" for x
    using that unfolding length_5_6 by (auto simp only: sas_emoji_bits)
  have "take_bit 13 (x :: int) < 8192" "take_bit 6 (x :: int) < 64" for x
    using take_bit_int_less_exp [of 13 x] take_bit_int_less_exp [of 6 x] by simp_all
  then have rd: "\<forall>d \<in> set (sas_decimal b). 1000 \<le> d \<and> d \<le> 9191" and re: "\<forall>x \<in> set (sas_emoji e). 0 \<le> x \<and> x \<le> 63"
    unfolding dec emo [OF assms(2)] by (auto simp: add1_zle_eq [symmetric])
  have high: "\<not> bit (be_int x) i" if "length x = 6" "48 \<le> i" for x i
    using that be_int6_high unfolding length_5_6 by blast
  have "drop_bit 6 (be_int e) = drop_bit 6 (be_int e')"
  proof (rule fields_determine)
    show "take_bit 6 (drop_bit k (be_int e)) = take_bit 6 (drop_bit k (be_int e'))" if "k \<in> {42, 36, 30, 24, 18, 12, 6}" for k
      using assms(4) that unfolding emo [OF assms(2)] emo [OF assms(3)] by auto
  qed (use high assms(2,3) in blast)
  with dec rd emo [OF assms(2)] re show ?thesis by blast
qed

theorem sas_strings_witness:
  "sas_decimal [1, 2, 3, 4, 255] = map (\<lambda>k. take_bit 13 (drop_bit k (be_int [1, 2, 3, 4, 255])) + 1000) [27, 14, 1]
   \<and> drop_bit 6 (be_int [1, 2, 3, 4, 5, 6]) = drop_bit 6 (be_int [1, 2, 3, 4, 5, 7])"
proof -
  have "sas_emoji [1, 2, 3, 4, 5, 6] = sas_emoji [1, 2, 3, 4, 5, 7]" by (simp add: sas_emoji_def)
  show ?thesis by (intro conjI; rule sas_strings [OF _ _ _ \<open>sas_emoji _ = _\<close>, THEN conjunct1]
    sas_strings [OF _ _ _ \<open>sas_emoji _ = _\<close>, of "[1, 2, 3, 4, 255]", THEN conjunct2, THEN conjunct2, THEN conjunct2, THEN conjunct2]) simp_all
qed



end
