(* ===== verification/Room_State.thy ===== *)
theory Room_State
  imports Media_Info Member_Presence
begin

text \<open>
  The contents of room state events (\<open>lib/structs/events\<close>): names, topics, aliases, avatars, access
  rules, encryption, policies, spaces, widgets, and the small contents of reactions and redactions.
\<close>

section \<open>Texts and lists\<close>

record Aliases =
  al_aliases :: "string list"

definition Aliases_from_json :: "'j json_lib \<Rightarrow> 'j \<Rightarrow> Aliases result" where
  "Aliases_from_json J obj =
     rbind (jvalue J (jget_list J (jget_string J)) obj ''aliases'' []) (\<lambda>aliases. Inr \<lparr>al_aliases = aliases\<rparr>)"

definition Aliases_to_json :: "'j json_lib \<Rightarrow> Aliases \<Rightarrow> 'j" where
  "Aliases_to_json J content = jset J (jnull J) ''aliases'' (jstrings J (al_aliases content))"

record Avatar =
  av_image_info :: ImageInfo
  av_url :: string

definition Avatar_from_json :: "'j json_lib \<Rightarrow> 'j \<Rightarrow> Avatar result" where
  "Avatar_from_json J obj =
     rbind (jopt J (ImageInfo_from_json J) obj ''info'' empty_ImageInfo) (\<lambda>info.
     rbind (jopt_if J not_null (jget_string J) obj ''url'' []) (\<lambda>url.
       Inr \<lparr>av_image_info = info, av_url = url\<rparr>))"

definition Avatar_to_json :: "'j json_lib \<Rightarrow> Avatar \<Rightarrow> 'j" where
  "Avatar_to_json J avatar =
     jset J (jset J (jnull J) ''info'' (ImageInfo_to_json J (av_image_info avatar))) ''url'' (jstring J (av_url avatar))"

record CanonicalAlias =
  ca_alias :: string
  ca_alt_aliases :: "string list"

definition CanonicalAlias_from_json :: "'j json_lib \<Rightarrow> 'j \<Rightarrow> CanonicalAlias result" where
  "CanonicalAlias_from_json J obj =
     rbind (jopt_if J not_null (jget_string J) obj ''alias'' []) (\<lambda>alias.
     rbind (jopt_if J (\<lambda>t. t = JArray) (jget_list J (jget_string J)) obj ''alt_aliases'' []) (\<lambda>alt_aliases.
       Inr \<lparr>ca_alias = alias, ca_alt_aliases = alt_aliases\<rparr>))"

definition CanonicalAlias_to_json :: "'j json_lib \<Rightarrow> CanonicalAlias \<Rightarrow> 'j" where
  "CanonicalAlias_to_json J c =
     (let obj = jset_if J (ca_alias c \<noteq> []) (jobject J) ''alias'' (jstring J (ca_alias c))
      in jset_if J (ca_alt_aliases c \<noteq> []) obj ''alt_aliases'' (jstrings J (ca_alt_aliases c)))"

record Name =
  nm_name :: string

definition Name_from_json :: "'j json_lib \<Rightarrow> 'j \<Rightarrow> Name result" where
  "Name_from_json J obj =
     rbind (jopt_if J not_null (jget_string J) obj ''name'' []) (\<lambda>name. Inr \<lparr>nm_name = name\<rparr>)"

definition Name_to_json :: "'j json_lib \<Rightarrow> Name \<Rightarrow> 'j" where
  "Name_to_json J event = jset J (jnull J) ''name'' (jstring J (nm_name event))"

record Topic =
  tp_topic :: string

definition Topic_from_json :: "'j json_lib \<Rightarrow> 'j \<Rightarrow> Topic result" where
  "Topic_from_json J obj =
     rbind (jopt_if J not_null (jget_string J) obj ''topic'' []) (\<lambda>topic. Inr \<lparr>tp_topic = topic\<rparr>)"

definition Topic_to_json :: "'j json_lib \<Rightarrow> Topic \<Rightarrow> 'j" where
  "Topic_to_json J event = jset J (jnull J) ''topic'' (jstring J (tp_topic event))"

record PinnedEvents =
  pe_pinned :: "string list"

definition PinnedEvents_from_json :: "'j json_lib \<Rightarrow> 'j \<Rightarrow> PinnedEvents result" where
  "PinnedEvents_from_json J obj =
     rbind (jvalue J (jget_list J (jget_string J)) obj ''pinned'' []) (\<lambda>pinned. Inr \<lparr>pe_pinned = pinned\<rparr>)"

definition PinnedEvents_to_json :: "'j json_lib \<Rightarrow> PinnedEvents \<Rightarrow> 'j" where
  "PinnedEvents_to_json J event = jset J (jnull J) ''pinned'' (jstrings J (pe_pinned event))"

record Tombstone =
  ts_body :: string
  ts_replacement_room :: string

definition Tombstone_from_json :: "'j json_lib \<Rightarrow> 'j \<Rightarrow> Tombstone result" where
  "Tombstone_from_json J obj =
     rbind (jvalue J (jget_string J) obj ''body'' []) (\<lambda>body.
     rbind (jvalue J (jget_string J) obj ''replacement_room'' []) (\<lambda>room.
       Inr \<lparr>ts_body = body, ts_replacement_room = room\<rparr>))"

definition Tombstone_to_json :: "'j json_lib \<Rightarrow> Tombstone \<Rightarrow> 'j" where
  "Tombstone_to_json J c =
     jset J (jset J (jnull J) ''body'' (jstring J (ts_body c))) ''replacement_room'' (jstring J (ts_replacement_room c))"

section \<open>Access\<close>

record Encryption =
  enc_algorithm :: string
  enc_rotation_period_ms :: int
  enc_rotation_period_msgs :: int

definition default_Encryption :: Encryption where
  "default_Encryption = \<lparr>enc_algorithm = MEGOLM_ALGO, enc_rotation_period_ms = 604800000, enc_rotation_period_msgs = 100\<rparr>"

definition Encryption_from_json :: "'j json_lib \<Rightarrow> 'j \<Rightarrow> Encryption result" where
  "Encryption_from_json J obj =
     rbind (jat_as J (jget_string J) obj ''algorithm'') (\<lambda>algorithm.
     rbind (jopt J (jget_uint64 J) obj ''rotation_period_ms'' (enc_rotation_period_ms default_Encryption)) (\<lambda>ms.
     rbind (jopt J (jget_uint64 J) obj ''rotation_period_msgs'' (enc_rotation_period_msgs default_Encryption)) (\<lambda>msgs.
       Inr \<lparr>enc_algorithm = algorithm, enc_rotation_period_ms = ms, enc_rotation_period_msgs = msgs\<rparr>)))"

definition Encryption_to_json :: "'j json_lib \<Rightarrow> Encryption \<Rightarrow> 'j" where
  "Encryption_to_json J e =
     (let obj = jset J (jnull J) ''algorithm'' (jstring J (enc_algorithm e));
          obj = jset J obj ''rotation_period_ms'' (jint J (enc_rotation_period_ms e))
      in jset J obj ''rotation_period_msgs'' (jint J (enc_rotation_period_msgs e)))"

datatype AccessState = CanJoin | Forbidden

definition accessStateToString :: "AccessState \<Rightarrow> string" where
  "accessStateToString state = (if state = CanJoin then ''can_join'' else ''forbidden'')"

definition stringToAccessState :: "string \<Rightarrow> AccessState" where
  "stringToAccessState state = (if state = ''can_join'' then CanJoin else Forbidden)"

record GuestAccess =
  ga_guest_access :: AccessState

definition GuestAccess_from_json :: "'j json_lib \<Rightarrow> 'j \<Rightarrow> GuestAccess result" where
  "GuestAccess_from_json J obj =
     rbind (jvalue J (jget_string J) obj ''guest_access'' []) (\<lambda>s. Inr \<lparr>ga_guest_access = stringToAccessState s\<rparr>)"

definition GuestAccess_to_json :: "'j json_lib \<Rightarrow> GuestAccess \<Rightarrow> 'j" where
  "GuestAccess_to_json J g = jset J (jnull J) ''guest_access'' (jstring J (accessStateToString (ga_guest_access g)))"

datatype Visibility = WorldReadable | Shared | Invited | Joined

fun visibilityToString_history :: "Visibility \<Rightarrow> string" where
  "visibilityToString_history WorldReadable = ''world_readable''"
| "visibilityToString_history Invited = ''invited''"
| "visibilityToString_history Shared = ''shared''"
| "visibilityToString_history Joined = ''joined''"

definition stringToVisibility_history :: "string \<Rightarrow> Visibility" where
  "stringToVisibility_history rule =
     (if rule = ''world_readable'' then WorldReadable
      else if rule = ''invited'' then Invited
      else if rule = ''shared'' then Shared
      else Joined)"

record HistoryVisibility =
  hv_history_visibility :: Visibility

definition HistoryVisibility_from_json :: "'j json_lib \<Rightarrow> 'j \<Rightarrow> HistoryVisibility result" where
  "HistoryVisibility_from_json J obj =
     rbind (jvalue J (jget_string J) obj ''history_visibility'' []) (\<lambda>s.
       Inr \<lparr>hv_history_visibility = stringToVisibility_history s\<rparr>)"

definition HistoryVisibility_to_json :: "'j json_lib \<Rightarrow> HistoryVisibility \<Rightarrow> 'j" where
  "HistoryVisibility_to_json J e =
     jset J (jnull J) ''history_visibility'' (jstring J (visibilityToString_history (hv_history_visibility e)))"

datatype JoinRule =
  Rule_Public | Rule_Invite | Rule_Knock | Rule_Private | Rule_Restricted | Rule_KnockRestricted

fun joinRuleToString :: "JoinRule \<Rightarrow> string" where
  "joinRuleToString Rule_Public = ''public''"
| "joinRuleToString Rule_Invite = ''invite''"
| "joinRuleToString Rule_Knock = ''knock''"
| "joinRuleToString Rule_Private = ''private''"
| "joinRuleToString Rule_Restricted = ''restricted''"
| "joinRuleToString Rule_KnockRestricted = ''knock_restricted''"

definition stringToJoinRule :: "string \<Rightarrow> JoinRule" where
  "stringToJoinRule rule =
     (if rule = ''public'' then Rule_Public
      else if rule = ''invite'' then Rule_Invite
      else if rule = ''knock'' then Rule_Knock
      else if rule = ''restricted'' then Rule_Restricted
      else if rule = ''knock_restricted'' then Rule_KnockRestricted
      else Rule_Private)"

datatype JoinAllowanceType = RoomMembership | Unknown_allowance

record JoinAllowance =
  ja_type :: JoinAllowanceType
  ja_room_id :: string

definition JoinAllowance_from_json :: "'j json_lib \<Rightarrow> 'j \<Rightarrow> JoinAllowance result" where
  "JoinAllowance_from_json J obj =
     rbind (jvalue J (jget_string J) obj ''type'' []) (\<lambda>type.
     rbind (jvalue J (jget_string J) obj ''room_id'' []) (\<lambda>room_id.
       Inr \<lparr>ja_type = (if type = ''m.room_membership'' then RoomMembership else Unknown_allowance), ja_room_id = room_id\<rparr>))"

definition JoinAllowance_to_json :: "'j json_lib \<Rightarrow> JoinAllowance \<Rightarrow> 'j" where
  "JoinAllowance_to_json J a =
     (if ja_type a = RoomMembership
      then jset J (jset J (jobject J) ''type'' (jstring J ''m.room_membership'')) ''room_id'' (jstring J (ja_room_id a))
      else jobject J)"

record JoinRules =
  jr_join_rule :: JoinRule
  jr_allow :: "JoinAllowance list"

definition JoinRules_from_json :: "'j json_lib \<Rightarrow> 'j \<Rightarrow> JoinRules result" where
  "JoinRules_from_json J obj =
     rbind (jvalue J (jget_string J) obj ''join_rule'' []) (\<lambda>rule.
     rbind (jopt J (jget_list J (JoinAllowance_from_json J)) obj ''allow'' []) (\<lambda>allow.
       Inr \<lparr>jr_join_rule = stringToJoinRule rule, jr_allow = allow\<rparr>))"

definition JoinRules_to_json :: "'j json_lib \<Rightarrow> JoinRules \<Rightarrow> 'j" where
  "JoinRules_to_json J r =
     (let obj = jset J (jnull J) ''join_rule'' (jstring J (joinRuleToString (jr_join_rule r)))
      in jset_if J (jr_allow r \<noteq> []) obj ''allow'' (jof_array J (map (JoinAllowance_to_json J) (jr_allow r))))"

record ServerAcl =
  acl_allow :: "string list"
  acl_deny :: "string list"
  acl_allow_ip_literals :: bool

definition ServerAcl_from_json :: "'j json_lib \<Rightarrow> 'j \<Rightarrow> ServerAcl result" where
  "ServerAcl_from_json J obj =
     rbind (jvalue J (jget_list J (jget_string J)) obj ''allow'' []) (\<lambda>allow.
     rbind (jvalue J (jget_list J (jget_string J)) obj ''deny'' []) (\<lambda>deny.
     rbind (jvalue J (jget_bool J) obj ''allow_ip_literals'' True) (\<lambda>literals.
       Inr \<lparr>acl_allow = allow, acl_deny = deny, acl_allow_ip_literals = literals\<rparr>)))"

definition ServerAcl_to_json :: "'j json_lib \<Rightarrow> ServerAcl \<Rightarrow> 'j" where
  "ServerAcl_to_json J c =
     (let obj = jset J (jnull J) ''allow'' (jstrings J (acl_allow c));
          obj = jset J obj ''deny'' (jstrings J (acl_deny c))
      in jset J obj ''allow_ip_literals'' (jbool J (acl_allow_ip_literals c)))"

record Rule =
  pol_entity :: string
  pol_reason :: string
  pol_recommendation :: string

type_synonym UserRule = Rule
type_synonym RoomRule = Rule
type_synonym ServerRule = Rule

definition Rule_from_json :: "'j json_lib \<Rightarrow> 'j \<Rightarrow> Rule result" where
  "Rule_from_json J obj =
     rbind (jvalue J (jget_string J) obj ''entity'' []) (\<lambda>entity.
     rbind (jvalue J (jget_string J) obj ''recommendation'' []) (\<lambda>recommendation.
     rbind (jvalue J (jget_string J) obj ''reason'' []) (\<lambda>reason.
       Inr \<lparr>pol_entity = entity, pol_reason = reason, pol_recommendation = recommendation\<rparr>)))"

definition Rule_to_json :: "'j json_lib \<Rightarrow> Rule \<Rightarrow> 'j" where
  "Rule_to_json J rule =
     jset J (jset J (jset J (jobject J) ''entity'' (jstring J (pol_entity rule)))
       ''recommendation'' (jstring J (pol_recommendation rule))) ''reason'' (jstring J (pol_reason rule))"

definition UserRule_from_json :: "'j json_lib \<Rightarrow> 'j \<Rightarrow> UserRule result" where
  "UserRule_from_json = Rule_from_json"

definition UserRule_to_json :: "'j json_lib \<Rightarrow> UserRule \<Rightarrow> 'j" where
  "UserRule_to_json = Rule_to_json"

definition RoomRule_from_json :: "'j json_lib \<Rightarrow> 'j \<Rightarrow> RoomRule result" where
  "RoomRule_from_json = Rule_from_json"

definition RoomRule_to_json :: "'j json_lib \<Rightarrow> RoomRule \<Rightarrow> 'j" where
  "RoomRule_to_json = Rule_to_json"

definition ServerRule_from_json :: "'j json_lib \<Rightarrow> 'j \<Rightarrow> ServerRule result" where
  "ServerRule_from_json = Rule_from_json"

definition ServerRule_to_json :: "'j json_lib \<Rightarrow> ServerRule \<Rightarrow> 'j" where
  "ServerRule_to_json = Rule_to_json"

section \<open>Spaces\<close>

text \<open>\<open>via\<close> is read when it is an array that is not empty.\<close>

definition via_from_json :: "'j json_lib \<Rightarrow> 'j \<Rightarrow> string list option result" where
  "via_from_json J obj =
     jopt_if J (\<lambda>t. t = JArray)
       (\<lambda>v. if jempty J v then Inr None else rbind (jget_list J (jget_string J) v) (\<lambda>via. Inr (Some via))) obj ''via'' None"

record Parent =
  sp_via :: "string list option"
  sp_canonical :: bool

definition Parent_from_json :: "'j json_lib \<Rightarrow> 'j \<Rightarrow> Parent result" where
  "Parent_from_json J obj =
     rbind (jopt_if J (\<lambda>t. t = JBoolean) (jget_bool J) obj ''canonical'' False) (\<lambda>canonical.
     rbind (via_from_json J obj) (\<lambda>via. Inr \<lparr>sp_via = via, sp_canonical = canonical\<rparr>))"

definition Parent_to_json :: "'j json_lib \<Rightarrow> Parent \<Rightarrow> 'j" where
  "Parent_to_json J p =
     (case sp_via p of
        None \<Rightarrow> jobject J
      | Some via \<Rightarrow>
          if via = [] then jobject J
          else jset_if J (sp_canonical p) (jset J (jobject J) ''via'' (jstrings J via)) ''canonical'' (jbool J True))"

definition is_valid_order_str :: "string \<Rightarrow> bool" where
  "is_valid_order_str order \<longleftrightarrow> length order \<le> 50 \<and> list_all (\<lambda>c. CHR 0x20 \<le> c \<and> c \<le> CHR 0x7E) order"

record Child =
  sc_via :: "string list option"
  sc_order :: "string option"
  sc_suggested :: bool

definition Child_from_json :: "'j json_lib \<Rightarrow> 'j \<Rightarrow> Child result" where
  "Child_from_json J obj =
     rbind (via_from_json J obj) (\<lambda>via.
     rbind (jopt_if J (\<lambda>t. t = JString)
              (\<lambda>v. rbind (jget_string J v) (\<lambda>s. Inr (if is_valid_order_str s then Some s else None))) obj ''order'' None) (\<lambda>order.
     rbind (jvalue J (jget_bool J) obj ''suggested'' False) (\<lambda>suggested.
       Inr \<lparr>sc_via = via, sc_order = order, sc_suggested = suggested\<rparr>)))"

definition Child_to_json :: "'j json_lib \<Rightarrow> Child \<Rightarrow> 'j" where
  "Child_to_json J c =
     (case sc_via c of
        None \<Rightarrow> jobject J
      | Some via \<Rightarrow>
          if via = [] then jobject J
          else
            let obj = jset J (jobject J) ''via'' (jstrings J via);
                obj = (case sc_order c of None \<Rightarrow> obj
                  | Some s \<Rightarrow> jset_if J (is_valid_order_str s) obj ''order'' (jstring J s))
            in jset_if J (sc_suggested c) obj ''suggested'' (jbool J True))"

section \<open>Widgets\<close>

record Widget =
  wg_type :: string
  wg_url :: string
  wg_name :: string
  wg_id :: string
  wg_data :: "string smap"
  wg_waitForIframeLoad :: bool
  wg_creatorUserId :: string

definition Widget_from_json :: "'j json_lib \<Rightarrow> 'j \<Rightarrow> Widget result" where
  "Widget_from_json J obj =
     rbind (jvalue J (jget_bool J) obj ''waitForIframeLoad'' True) (\<lambda>wait.
     rbind (jvalue J (jget_string J) obj ''type'' []) (\<lambda>type.
     rbind (jvalue J (jget_string J) obj ''url'' []) (\<lambda>url.
     rbind (jvalue J (jget_string J) obj ''name'' []) (\<lambda>name.
     rbind (jvalue J (jget_string J) obj ''id'' []) (\<lambda>i.
     rbind (jvalue J (jget_string J) obj ''creatorUserId'' []) (\<lambda>creator.
     rbind (jvalue J (jget_map J (jget_string J)) obj ''data'' []) (\<lambda>data.
       Inr \<lparr>wg_type = type, wg_url = url, wg_name = name, wg_id = i, wg_data = data,
            wg_waitForIframeLoad = wait, wg_creatorUserId = creator\<rparr>)))))))"

definition Widget_to_json :: "'j json_lib \<Rightarrow> Widget \<Rightarrow> 'j" where
  "Widget_to_json J w =
     (let obj = jset_if J (wg_name w \<noteq> []) (jnull J) ''name'' (jstring J (wg_name w));
          obj = jset_if J (wg_data w \<noteq> []) obj ''data'' (jof_map J (jstring J) (wg_data w));
          obj = jset J obj ''type'' (jstring J (wg_type w));
          obj = jset J obj ''url'' (jstring J (wg_url w));
          obj = jset J obj ''id'' (jstring J (wg_id w));
          obj = jset J obj ''creatorUserId'' (jstring J (wg_creatorUserId w))
      in jset J obj ''waitForIframeLoad'' (jbool J (wg_waitForIframeLoad w)))"

section \<open>Redactions, reactions, unknown events\<close>

record Redaction =
  rd_reason :: string

definition Redaction_from_json :: "'j json_lib \<Rightarrow> 'j \<Rightarrow> Redaction result" where
  "Redaction_from_json J obj =
     rbind (jopt_if J not_null (jget_string J) obj ''reason'' []) (\<lambda>reason. Inr \<lparr>rd_reason = reason\<rparr>)"

definition Redaction_to_json :: "'j json_lib \<Rightarrow> Redaction \<Rightarrow> 'j" where
  "Redaction_to_json J event = jset J (jnull J) ''reason'' (jstring J (rd_reason event))"

record Reaction =
  rc_relations :: Relations

definition Reaction_from_json :: "'j json_lib \<Rightarrow> 'j \<Rightarrow> Reaction result" where
  "Reaction_from_json J obj = rbind (parse_relations J obj) (\<lambda>r. Inr \<lparr>rc_relations = r\<rparr>)"

definition Reaction_to_json :: "'j json_lib \<Rightarrow> Reaction \<Rightarrow> 'j result" where
  "Reaction_to_json J content = apply_relations J (jobject J) (rc_relations content)"

text \<open>The content of an event of unknown type keeps the JSON text; parsing failures are swallowed.\<close>

record Unknown =
  uk_content :: string
  uk_type :: string

definition Unknown_from_json :: "'j json_lib \<Rightarrow> 'j \<Rightarrow> Unknown result" where
  "Unknown_from_json J obj = rbind (jdump J obj) (\<lambda>s. Inr \<lparr>uk_content = s, uk_type = []\<rparr>)"

definition Unknown_to_json :: "'j json_lib \<Rightarrow> Unknown \<Rightarrow> 'j" where
  "Unknown_to_json J event = (case jparse J (uk_content event) of Inr j \<Rightarrow> j | Inl _ \<Rightarrow> jnull J)"

end
