(* ===== verification/Events.thy ===== *)
theory Events
  imports Room_State Event_Types
begin

text \<open>
  The envelopes of events (\<open>include/mtx/events_impl.hpp\<close>, \<open>include/mtx/events.hpp\<close>): the fields that
  every event has, the fields that room, state, redaction, device and ephemeral events add to them, and
  the unsigned data of the server. The structs extend each other as the records do. The templates take
  the operations of their content type as an argument.
\<close>

section \<open>Content types\<close>

text \<open>
  What a template knows of its content type: its reader and writer, its default value, whether it is
  \<open>msg::Encrypted\<close>, and, for \<open>Unknown\<close>, the type name that it stores.
\<close>

record ('j, 'c) content_type =
  ct_from :: "'j \<Rightarrow> 'c result"
  ct_to :: "'c \<Rightarrow> 'j result"
  ct_default :: 'c
  ct_encrypted :: bool
  ct_type_name :: "'c \<Rightarrow> string option"
  ct_set_type :: "string \<Rightarrow> 'c \<Rightarrow> 'c"

definition plain_content :: "('j \<Rightarrow> 'c result) \<Rightarrow> ('c \<Rightarrow> 'j result) \<Rightarrow> 'c \<Rightarrow> ('j, 'c) content_type" where
  "plain_content rd wr d = \<lparr>ct_from = rd, ct_to = wr, ct_default = d, ct_encrypted = False,
     ct_type_name = (\<lambda>_. None), ct_set_type = (\<lambda>_ c. c)\<rparr>"

definition Unknown_content :: "'j json_lib \<Rightarrow> ('j, Unknown) content_type" where
  "Unknown_content J = \<lparr>ct_from = Unknown_from_json J, ct_to = (\<lambda>c. Inr (Unknown_to_json J c)),
     ct_default = \<lparr>uk_content = [], uk_type = []\<rparr>, ct_encrypted = False,
     ct_type_name = (\<lambda>c. Some (uk_type c)), ct_set_type = (\<lambda>t c. c\<lparr>uk_type := t\<rparr>)\<rparr>"

section \<open>The envelopes\<close>

record 'c Event =
  ev_type :: EventType
  ev_sender :: string
  ev_content :: 'c

type_synonym 'c DeviceEvent = "'c Event"

record UnsignedData =
  un_age :: int
  un_transaction_id :: string
  un_prev_sender :: string
  un_replaces_state :: string
  un_redacted_by :: string
  un_redacted_because :: "Redaction Event option"

definition empty_UnsignedData :: UnsignedData where
  "empty_UnsignedData = \<lparr>un_age = 0, un_transaction_id = [], un_prev_sender = [], un_replaces_state = [],
     un_redacted_by = [], un_redacted_because = None\<rparr>"

record 'c StrippedEvent = "'c Event" +
  st_state_key :: string

record 'c RoomEvent = "'c Event" +
  re_event_id :: string
  re_room_id :: string
  re_origin_server_ts :: int
  re_unsigned_data :: UnsignedData

record 'c StateEvent = "'c RoomEvent" +
  se_state_key :: string

record 'c RedactionEvent = "'c RoomEvent" +
  rde_redacts :: string

type_synonym 'c EncryptedEvent = "'c RoomEvent"

record 'c EphemeralEvent =
  ee_content :: 'c
  ee_type :: EventType
  ee_room_id :: string

section \<open>Reading\<close>

text \<open>
  The new content of an edit with the relations that stand beside it: the content that is decoded for an
  event with \<open>m.new_content\<close>.
\<close>

definition edited_content :: "'j json_lib \<Rightarrow> 'j \<Rightarrow> 'j result" where
  "edited_content J content =
     rbind (jat J content ''m.new_content'') (\<lambda>new_content.
     rbind (if jcontains J content ''m.relates_to''
            then rbind (jat J content ''m.relates_to'') (jassign J new_content ''m.relates_to'')
            else Inr new_content) (\<lambda>c1.
     rbind (if jcontains J new_content ''m.relates_to''
            then rbind (jat J new_content ''m.relates_to'') (jassign2 J c1 ''m.new_content'' ''m.relates_to'')
            else Inr c1) (\<lambda>c2.
       if jcontains J content ''im.nheko.relations.v1.relations''
       then rbind (jat J content ''im.nheko.relations.v1.relations'') (jassign J c2 ''im.nheko.relations.v1.relations'')
       else Inr c2)))"

definition content_from_json :: "'j json_lib \<Rightarrow> ('j, 'c) content_type \<Rightarrow> 'j \<Rightarrow> 'c result" where
  "content_from_json J C content =
     (if \<not> ct_encrypted C \<and> jcontains J content ''m.new_content'' then rbind (edited_content J content) (ct_from C)
      else if jtype_of J content = JObject then ct_from C content
      else Inr (ct_default C))"

definition too_long :: "string \<Rightarrow> string \<Rightarrow> unit result" where
  "too_long what s = (if length s > 255 then Inl (Out_of_range (what @ '' exceeds 255 bytes'')) else Inr ())"

definition Event_from_json :: "'j json_lib \<Rightarrow> ('j, 'c) content_type \<Rightarrow> 'j \<Rightarrow> 'c Event result" where
  "Event_from_json J C obj =
     rbind (jat_as J (content_from_json J C) obj ''content'') (\<lambda>content.
     rbind (jat_as J (jget_string J) obj ''type'') (\<lambda>type.
     rbind (too_long ''Type'' type) (\<lambda>_.
     rbind (getEventType type) (\<lambda>event_type.
     rbind (jvalue J (jget_string J) obj ''sender'' []) (\<lambda>sender.
     rbind (too_long ''Sender'' sender) (\<lambda>_.
       Inr \<lparr>ev_type = event_type, ev_sender = sender, ev_content = ct_set_type C type content\<rparr>))))))"

definition DeviceEvent_from_json :: "'j json_lib \<Rightarrow> ('j, 'c) content_type \<Rightarrow> 'j \<Rightarrow> 'c DeviceEvent result" where
  "DeviceEvent_from_json J C obj =
     rbind (Event_from_json J C obj) (\<lambda>event.
       if ev_sender event = [] then Inl (Out_of_range ''Empty sender in to_device event.'') else Inr event)"

definition Redaction_content :: "'j json_lib \<Rightarrow> ('j, Redaction) content_type" where
  "Redaction_content J = plain_content (Redaction_from_json J) (\<lambda>c. Inr (Redaction_to_json J c)) \<lparr>rd_reason = []\<rparr>"

definition UnsignedData_from_json :: "'j json_lib \<Rightarrow> 'j \<Rightarrow> UnsignedData result" where
  "UnsignedData_from_json J obj =
     rbind (jopt J (jget_uint64 J) obj ''age'' 0) (\<lambda>age.
     rbind (jopt J (jget_string J) obj ''transaction_id'' []) (\<lambda>transaction_id.
     rbind (jopt J (jget_string J) obj ''prev_sender'' []) (\<lambda>prev_sender.
     rbind (jopt J (jget_string J) obj ''replaces_state'' []) (\<lambda>replaces_state.
     rbind (jopt J (jget_string J) obj ''redacted_by'' []) (\<lambda>redacted_by.
     rbind (jfind_opt J (Event_from_json J (Redaction_content J)) obj ''redacted_because'') (\<lambda>redacted_because.
       Inr \<lparr>un_age = age, un_transaction_id = transaction_id, un_prev_sender = prev_sender,
            un_replaces_state = replaces_state, un_redacted_by = redacted_by,
            un_redacted_because = redacted_because\<rparr>))))))"

definition StrippedEvent_from_json :: "'j json_lib \<Rightarrow> ('j, 'c) content_type \<Rightarrow> 'j \<Rightarrow> 'c StrippedEvent result" where
  "StrippedEvent_from_json J C obj =
     rbind (Event_from_json J C obj) (\<lambda>event.
     rbind (jat_as J (jget_string J) obj ''state_key'') (\<lambda>state_key.
     rbind (too_long ''State key'' state_key) (\<lambda>_.
       Inr (Event.extend event (StrippedEvent.fields state_key)))))"

definition RoomEvent_from_json :: "'j json_lib \<Rightarrow> ('j, 'c) content_type \<Rightarrow> 'j \<Rightarrow> 'c RoomEvent result" where
  "RoomEvent_from_json J C obj =
     rbind (Event_from_json J C obj) (\<lambda>event.
     rbind (jat_as J (jget_string J) obj ''event_id'') (\<lambda>event_id.
     rbind (too_long ''Event id'' event_id) (\<lambda>_.
     rbind (jat_as J (jget_uint64 J) obj ''origin_server_ts'') (\<lambda>ts.
     rbind (jopt J (jget_string J) obj ''room_id'' []) (\<lambda>room_id.
     rbind (too_long ''Room id'' room_id) (\<lambda>_.
     rbind (jopt J (UnsignedData_from_json J) obj ''unsigned'' empty_UnsignedData) (\<lambda>unsigned_data.
       Inr (Event.extend event (RoomEvent.fields event_id room_id ts unsigned_data)))))))))"

definition StateEvent_from_json :: "'j json_lib \<Rightarrow> ('j, 'c) content_type \<Rightarrow> 'j \<Rightarrow> 'c StateEvent result" where
  "StateEvent_from_json J C obj =
     rbind (RoomEvent_from_json J C obj) (\<lambda>event.
     rbind (jat_as J (jget_string J) obj ''state_key'') (\<lambda>state_key.
     rbind (too_long ''State key'' state_key) (\<lambda>_.
       Inr (RoomEvent.extend event (StateEvent.fields state_key)))))"

definition RedactionEvent_from_json :: "'j json_lib \<Rightarrow> ('j, 'c) content_type \<Rightarrow> 'j \<Rightarrow> 'c RedactionEvent result" where
  "RedactionEvent_from_json J C obj =
     rbind (RoomEvent_from_json J C obj) (\<lambda>event.
     rbind (jat_as J (jget_string J) obj ''redacts'') (\<lambda>redacts.
       Inr (RoomEvent.extend event (RedactionEvent.fields redacts))))"

definition EncryptedEvent_from_json :: "'j json_lib \<Rightarrow> ('j, 'c) content_type \<Rightarrow> 'j \<Rightarrow> 'c EncryptedEvent result" where
  "EncryptedEvent_from_json = RoomEvent_from_json"

definition EphemeralEvent_from_json :: "'j json_lib \<Rightarrow> ('j, 'c) content_type \<Rightarrow> 'j \<Rightarrow> 'c EphemeralEvent result" where
  "EphemeralEvent_from_json J C obj =
     rbind (jat_as J (ct_from C) obj ''content'') (\<lambda>content.
     rbind (jat_as J (jget_string J) obj ''type'') (\<lambda>type.
     rbind (getEventType type) (\<lambda>event_type.
     rbind (jopt J (jget_string J) obj ''room_id'' []) (\<lambda>room_id.
     rbind (too_long ''Room id'' room_id) (\<lambda>_.
       Inr \<lparr>ee_content = ct_set_type C type content, ee_type = event_type, ee_room_id = room_id\<rparr>)))))"

section \<open>Writing\<close>

definition type_name :: "('j, 'c) content_type \<Rightarrow> EventType \<Rightarrow> 'c \<Rightarrow> string" where
  "type_name C t c = (case ct_type_name C c of Some n \<Rightarrow> n | None \<Rightarrow> event_type_to_string t)"

definition Event_to_json :: "'j json_lib \<Rightarrow> ('j, 'c) content_type \<Rightarrow> ('c, 'z) Event_scheme \<Rightarrow> 'j result" where
  "Event_to_json J C event =
     rbind (ct_to C (ev_content event)) (\<lambda>content.
       let obj = jset J (jnull J) ''content'' content;
           obj = jset J obj ''sender'' (jstring J (ev_sender event))
       in Inr (jset J obj ''type'' (jstring J (type_name C (ev_type event) (ev_content event)))))"

definition DeviceEvent_to_json :: "'j json_lib \<Rightarrow> ('j, 'c) content_type \<Rightarrow> 'c DeviceEvent \<Rightarrow> 'j result" where
  "DeviceEvent_to_json = Event_to_json"

definition UnsignedData_to_json :: "'j json_lib \<Rightarrow> UnsignedData \<Rightarrow> 'j result" where
  "UnsignedData_to_json J u =
     (let obj = jset_if J (un_prev_sender u \<noteq> []) (jnull J) ''prev_sender'' (jstring J (un_prev_sender u));
          obj = jset_if J (un_transaction_id u \<noteq> []) obj ''transaction_id'' (jstring J (un_transaction_id u));
          obj = jset_if J (un_replaces_state u \<noteq> []) obj ''replaces_state'' (jstring J (un_replaces_state u));
          obj = jset_if J (un_age u \<noteq> 0) obj ''age'' (jint J (un_age u));
          obj = jset_if J (un_redacted_by u \<noteq> []) obj ''redacted_by'' (jstring J (un_redacted_by u))
      in case un_redacted_because u of
           None \<Rightarrow> Inr obj
         | Some e \<Rightarrow> rbind (Event_to_json J (Redaction_content J) e) (\<lambda>v. Inr (jset J obj ''redacted_because'' v)))"

definition StrippedEvent_to_json :: "'j json_lib \<Rightarrow> ('j, 'c) content_type \<Rightarrow> 'c StrippedEvent \<Rightarrow> 'j result" where
  "StrippedEvent_to_json J C event =
     rbind (Event_to_json J C event) (\<lambda>obj. Inr (jset J obj ''state_key'' (jstring J (st_state_key event))))"

definition RoomEvent_to_json :: "'j json_lib \<Rightarrow> ('j, 'c) content_type \<Rightarrow> ('c, 'z) RoomEvent_scheme \<Rightarrow> 'j result" where
  "RoomEvent_to_json J C event =
     rbind (Event_to_json J C event) (\<lambda>obj.
     rbind (UnsignedData_to_json J (re_unsigned_data event)) (\<lambda>unsigned_data.
       let obj = jset_if J (re_room_id event \<noteq> []) obj ''room_id'' (jstring J (re_room_id event));
           obj = jset J obj ''event_id'' (jstring J (re_event_id event));
           obj = jset J obj ''unsigned'' unsigned_data
       in Inr (jset J obj ''origin_server_ts'' (jint J (re_origin_server_ts event)))))"

definition StateEvent_to_json :: "'j json_lib \<Rightarrow> ('j, 'c) content_type \<Rightarrow> 'c StateEvent \<Rightarrow> 'j result" where
  "StateEvent_to_json J C event =
     rbind (RoomEvent_to_json J C event) (\<lambda>obj. Inr (jset J obj ''state_key'' (jstring J (se_state_key event))))"

definition RedactionEvent_to_json :: "'j json_lib \<Rightarrow> ('j, 'c) content_type \<Rightarrow> 'c RedactionEvent \<Rightarrow> 'j result" where
  "RedactionEvent_to_json J C event =
     rbind (RoomEvent_to_json J C event) (\<lambda>obj. Inr (jset J obj ''redacts'' (jstring J (rde_redacts event))))"

definition EncryptedEvent_to_json :: "'j json_lib \<Rightarrow> ('j, 'c) content_type \<Rightarrow> 'c EncryptedEvent \<Rightarrow> 'j result" where
  "EncryptedEvent_to_json = RoomEvent_to_json"

definition EphemeralEvent_to_json :: "'j json_lib \<Rightarrow> ('j, 'c) content_type \<Rightarrow> 'c EphemeralEvent \<Rightarrow> 'j result" where
  "EphemeralEvent_to_json J C event =
     rbind (ct_to C (ee_content event)) (\<lambda>content.
       let obj = jset J (jnull J) ''content'' content;
           obj = jset J obj ''type'' (jstring J (type_name C (ee_type event) (ee_content event)))
       in Inr (jset_if J (ee_room_id event \<noteq> []) obj ''room_id'' (jstring J (ee_room_id event))))"

end
