(* ===== verification/Messages.thy ===== *)
theory Messages
  imports Media_Info
begin

text \<open>
  The contents of room messages (\<open>lib/structs/events/messages\<close>). Text, notice, emote and effect messages
  share their fields; media messages carry a URL or an encrypted file. Writing a content ends with
  its relations, which may turn it into an edit. The locale \<open>message_json\<close> states what the messages have
  in common; it is interpreted for each of them.
\<close>

section \<open>Messages with formatted text\<close>

record FormattedMessage =
  fm_body :: string
  fm_msgtype :: string
  fm_format :: string
  fm_formatted_body :: string
  fm_relations :: Relations
  fm_mentions :: "Mentions option"

type_synonym Text = FormattedMessage
type_synonym Notice = FormattedMessage
type_synonym Emote = FormattedMessage
type_synonym ElementEffect = FormattedMessage

definition FORMAT_MSG_TYPE :: string where
  "FORMAT_MSG_TYPE = ''org.matrix.custom.html''"

definition Text_from_json :: "'j json_lib \<Rightarrow> 'j \<Rightarrow> Text result" where
  "Text_from_json J obj =
     rbind (jat_as J (jget_string J) obj ''body'') (\<lambda>body.
     rbind (jat_as J (jget_string J) obj ''msgtype'') (\<lambda>msgtype.
     rbind (jopt J (jget_string J) obj ''format'' []) (\<lambda>format.
     rbind (jopt J (jget_string J) obj ''formatted_body'' []) (\<lambda>formatted_body.
     rbind (parse_relations J obj) (\<lambda>relations.
     rbind (parse_mentions J obj) (\<lambda>mentions.
       Inr \<lparr>fm_body = body, fm_msgtype = msgtype, fm_format = format, fm_formatted_body = formatted_body,
            fm_relations = relations, fm_mentions = mentions\<rparr>))))))"

text \<open>The four readers are the same code; the writers differ in the message type.\<close>

definition Notice_from_json :: "'j json_lib \<Rightarrow> 'j \<Rightarrow> Notice result" where
  "Notice_from_json = Text_from_json"

definition Emote_from_json :: "'j json_lib \<Rightarrow> 'j \<Rightarrow> Emote result" where
  "Emote_from_json = Text_from_json"

definition ElementEffect_from_json :: "'j json_lib \<Rightarrow> 'j \<Rightarrow> ElementEffect result" where
  "ElementEffect_from_json = Text_from_json"

definition formatted_base :: "'j json_lib \<Rightarrow> string \<Rightarrow> FormattedMessage \<Rightarrow> 'j" where
  "formatted_base J msgtype content =
     (let obj = jset J (jnull J) ''msgtype'' (jstring J msgtype);
          obj = jset J obj ''body'' (jstring J (fm_body content));
          obj = (if fm_formatted_body content \<noteq> []
            then jset J (jset J obj ''format'' (jstring J FORMAT_MSG_TYPE))
                   ''formatted_body'' (jstring J (fm_formatted_body content))
            else obj)
      in add_mentions J obj (fm_mentions content))"

definition Text_to_json :: "'j json_lib \<Rightarrow> Text \<Rightarrow> 'j result" where
  "Text_to_json J content = apply_relations J (formatted_base J ''m.text'' content) (fm_relations content)"

definition Notice_to_json :: "'j json_lib \<Rightarrow> Notice \<Rightarrow> 'j result" where
  "Notice_to_json J content = apply_relations J (formatted_base J ''m.notice'' content) (fm_relations content)"

definition Emote_to_json :: "'j json_lib \<Rightarrow> Emote \<Rightarrow> 'j result" where
  "Emote_to_json J content = apply_relations J (formatted_base J ''m.emote'' content) (fm_relations content)"

definition ElementEffect_to_json :: "'j json_lib \<Rightarrow> ElementEffect \<Rightarrow> 'j result" where
  "ElementEffect_to_json J content = apply_relations J (formatted_base J (fm_msgtype content) content) (fm_relations content)"

section \<open>Media messages\<close>

record 'i MediaMessage =
  mm_body :: string
  mm_msgtype :: string
  mm_url :: string
  mm_info :: 'i
  mm_file :: "EncryptedFile option"
  mm_relations :: Relations
  mm_mentions :: "Mentions option"

type_synonym Audio = "AudioInfo MediaMessage"
type_synonym Video = "VideoInfo MediaMessage"
type_synonym Image = "ImageInfo MediaMessage"

text \<open>
  \<open>obj.find(k) != obj.end()\<close> is \<open>jopt\<close>; images are read with \<open>obj.value\<close>, which defaults a missing
  body but throws for a content that is not an object. A reader without \<open>info\<close> keeps the default.
\<close>

definition Audio_from_json :: "'j json_lib \<Rightarrow> 'j \<Rightarrow> Audio result" where
  "Audio_from_json J obj =
     rbind (jat_as J (jget_string J) obj ''body'') (\<lambda>body.
     rbind (jat_as J (jget_string J) obj ''msgtype'') (\<lambda>msgtype.
     rbind (jopt J (jget_string J) obj ''url'' []) (\<lambda>url.
     rbind (jopt J (AudioInfo_from_json J) obj ''info'' empty_AudioInfo) (\<lambda>info.
     rbind (jfind_opt J (EncryptedFile_from_json J) obj ''file'') (\<lambda>encrypted.
     rbind (parse_relations J obj) (\<lambda>relations.
     rbind (parse_mentions J obj) (\<lambda>mentions.
       Inr \<lparr>mm_body = body, mm_msgtype = msgtype, mm_url = url, mm_info = info, mm_file = encrypted,
            mm_relations = relations, mm_mentions = mentions\<rparr>)))))))"

definition Video_from_json :: "'j json_lib \<Rightarrow> 'j \<Rightarrow> Video result" where
  "Video_from_json J obj =
     rbind (jat_as J (jget_string J) obj ''body'') (\<lambda>body.
     rbind (jat_as J (jget_string J) obj ''msgtype'') (\<lambda>msgtype.
     rbind (jopt J (jget_string J) obj ''url'' []) (\<lambda>url.
     rbind (jopt J (VideoInfo_from_json J) obj ''info'' empty_VideoInfo) (\<lambda>info.
     rbind (jfind_opt J (EncryptedFile_from_json J) obj ''file'') (\<lambda>encrypted.
     rbind (parse_relations J obj) (\<lambda>relations.
     rbind (parse_mentions J obj) (\<lambda>mentions.
       Inr \<lparr>mm_body = body, mm_msgtype = msgtype, mm_url = url, mm_info = info, mm_file = encrypted,
            mm_relations = relations, mm_mentions = mentions\<rparr>)))))))"

definition Image_from_json :: "'j json_lib \<Rightarrow> 'j \<Rightarrow> Image result" where
  "Image_from_json J obj =
     rbind (jvalue J (jget_string J) obj ''body'' []) (\<lambda>body.
     rbind (jat_as J (jget_string J) obj ''msgtype'') (\<lambda>msgtype.
     rbind (jvalue J (jget_string J) obj ''url'' []) (\<lambda>url.
     rbind (jopt J (ImageInfo_from_json J) obj ''info'' empty_ImageInfo) (\<lambda>info.
     rbind (jfind_opt J (EncryptedFile_from_json J) obj ''file'') (\<lambda>encrypted.
     rbind (parse_relations J obj) (\<lambda>relations.
     rbind (parse_mentions J obj) (\<lambda>mentions.
       Inr \<lparr>mm_body = body, mm_msgtype = msgtype, mm_url = url, mm_info = info, mm_file = encrypted,
            mm_relations = relations, mm_mentions = mentions\<rparr>)))))))"

text \<open>The URL is written when there is no encrypted file; then the mentions.\<close>

definition media_fields :: "'j json_lib \<Rightarrow> 'j \<Rightarrow> string \<Rightarrow> EncryptedFile option \<Rightarrow> Mentions option \<Rightarrow> 'j" where
  "media_fields J obj url encrypted mentions =
     add_mentions J
       (case encrypted of
          Some f \<Rightarrow> jset J obj ''file'' (EncryptedFile_to_json J f)
        | None \<Rightarrow> jset J obj ''url'' (jstring J url))
       mentions"

definition media_base :: "'j json_lib \<Rightarrow> string \<Rightarrow> ('i \<Rightarrow> 'j) \<Rightarrow> 'i MediaMessage \<Rightarrow> 'j" where
  "media_base J msgtype info content =
     (let obj = jset J (jnull J) ''msgtype'' (jstring J msgtype);
          obj = jset J obj ''body'' (jstring J (mm_body content));
          obj = jset J obj ''info'' (info (mm_info content))
      in media_fields J obj (mm_url content) (mm_file content) (mm_mentions content))"

definition Audio_to_json :: "'j json_lib \<Rightarrow> Audio \<Rightarrow> 'j result" where
  "Audio_to_json J content =
     apply_relations J (media_base J ''m.audio'' (AudioInfo_to_json J) content) (mm_relations content)"

definition Video_to_json :: "'j json_lib \<Rightarrow> Video \<Rightarrow> 'j result" where
  "Video_to_json J content =
     apply_relations J (media_base J ''m.video'' (VideoInfo_to_json J) content) (mm_relations content)"

definition Image_to_json :: "'j json_lib \<Rightarrow> Image \<Rightarrow> 'j result" where
  "Image_to_json J content =
     apply_relations J (media_base J ''m.image'' (ImageInfo_to_json J) content) (mm_relations content)"

record File =
  fl_body :: string
  fl_filename :: string
  fl_msgtype :: string
  fl_url :: string
  fl_info :: FileInfo
  fl_file :: "EncryptedFile option"
  fl_relations :: Relations
  fl_mentions :: "Mentions option"

definition File_from_json :: "'j json_lib \<Rightarrow> 'j \<Rightarrow> File result" where
  "File_from_json J obj =
     rbind (jat_as J (jget_string J) obj ''body'') (\<lambda>body.
     rbind (jat_as J (jget_string J) obj ''msgtype'') (\<lambda>msgtype.
     rbind (jopt J (jget_string J) obj ''url'' []) (\<lambda>url.
     rbind (jopt J (jget_string J) obj ''filename'' []) (\<lambda>filename.
     rbind (jopt J (FileInfo_from_json J) obj ''info'' empty_FileInfo) (\<lambda>info.
     rbind (jfind_opt J (EncryptedFile_from_json J) obj ''file'') (\<lambda>encrypted.
     rbind (parse_relations J obj) (\<lambda>relations.
     rbind (parse_mentions J obj) (\<lambda>mentions.
       Inr \<lparr>fl_body = body, fl_filename = filename, fl_msgtype = msgtype, fl_url = url, fl_info = info,
            fl_file = encrypted, fl_relations = relations, fl_mentions = mentions\<rparr>))))))))"

definition File_base :: "'j json_lib \<Rightarrow> File \<Rightarrow> 'j" where
  "File_base J content =
     (let obj = jset J (jnull J) ''msgtype'' (jstring J ''m.file'');
          obj = jset J obj ''body'' (jstring J (fl_body content));
          obj = jset_if J (fl_filename content \<noteq> []) obj ''filename'' (jstring J (fl_filename content));
          obj = jset J obj ''info'' (FileInfo_to_json J (fl_info content))
      in media_fields J obj (fl_url content) (fl_file content) (fl_mentions content))"

definition File_to_json :: "'j json_lib \<Rightarrow> File \<Rightarrow> 'j result" where
  "File_to_json J content = apply_relations J (File_base J content) (fl_relations content)"

section \<open>Stickers\<close>

record StickerImage =
  si_body :: string
  si_url :: string
  si_info :: ImageInfo
  si_file :: "EncryptedFile option"
  si_relations :: Relations
  si_mentions :: "Mentions option"

definition StickerImage_from_json :: "'j json_lib \<Rightarrow> 'j \<Rightarrow> StickerImage result" where
  "StickerImage_from_json J obj =
     rbind (jvalue J (jget_string J) obj ''body'' []) (\<lambda>body.
     rbind (jvalue J (jget_string J) obj ''url'' []) (\<lambda>url.
     rbind (jopt J (ImageInfo_from_json J) obj ''info'' empty_ImageInfo) (\<lambda>info.
     rbind (jfind_opt J (EncryptedFile_from_json J) obj ''file'') (\<lambda>encrypted.
     rbind (parse_relations J obj) (\<lambda>relations.
     rbind (parse_mentions J obj) (\<lambda>mentions.
       Inr \<lparr>si_body = body, si_url = url, si_info = info, si_file = encrypted, si_relations = relations,
            si_mentions = mentions\<rparr>))))))"

definition StickerImage_base :: "'j json_lib \<Rightarrow> StickerImage \<Rightarrow> 'j" where
  "StickerImage_base J content =
     (let obj = jset J (jnull J) ''body'' (jstring J (si_body content));
          obj = jset J obj ''info'' (ImageInfo_to_json J (si_info content))
      in media_fields J obj (si_url content) (si_file content) (si_mentions content))"

definition StickerImage_to_json :: "'j json_lib \<Rightarrow> StickerImage \<Rightarrow> 'j result" where
  "StickerImage_to_json J content = apply_relations J (StickerImage_base J content) (si_relations content)"

section \<open>Locations and unknown messages\<close>

text \<open>The mentions of a location are neither read nor written.\<close>

record Location =
  lo_body :: string
  lo_msgtype :: string
  lo_geo_uri :: string
  lo_info :: LocationInfo
  lo_relations :: Relations
  lo_mentions :: "Mentions option"

definition Location_from_json :: "'j json_lib \<Rightarrow> 'j \<Rightarrow> Location result" where
  "Location_from_json J obj =
     rbind (jat_as J (jget_string J) obj ''body'') (\<lambda>body.
     rbind (jat_as J (jget_string J) obj ''msgtype'') (\<lambda>msgtype.
     rbind (jopt J (jget_string J) obj ''geo_uri'' []) (\<lambda>geo_uri.
     rbind (jopt J (LocationInfo_from_json J) obj ''info'' empty_LocationInfo) (\<lambda>info.
     rbind (parse_relations J obj) (\<lambda>relations.
       Inr \<lparr>lo_body = body, lo_msgtype = msgtype, lo_geo_uri = geo_uri, lo_info = info, lo_relations = relations,
            lo_mentions = None\<rparr>)))))"

definition Location_base :: "'j json_lib \<Rightarrow> Location \<Rightarrow> 'j" where
  "Location_base J content =
     (let obj = jset J (jnull J) ''msgtype'' (jstring J ''m.location'');
          obj = jset J obj ''body'' (jstring J (lo_body content));
          obj = jset J obj ''geo_uri'' (jstring J (lo_geo_uri content))
      in jset J obj ''info'' (LocationInfo_to_json J (lo_info content)))"

definition Location_to_json :: "'j json_lib \<Rightarrow> Location \<Rightarrow> 'j result" where
  "Location_to_json J content = apply_relations J (Location_base J content) (lo_relations content)"

text \<open>An unknown message keeps its JSON text.\<close>

record UnknownMessage =
  um_body :: string
  um_msgtype :: string
  um_relations :: Relations
  um_content :: string
  um_mentions :: "Mentions option"

definition UnknownMessage_from_json :: "'j json_lib \<Rightarrow> 'j \<Rightarrow> UnknownMessage result" where
  "UnknownMessage_from_json J obj =
     rbind (jdump J obj) (\<lambda>content.
     rbind (jat_as J (jget_string J) obj ''body'') (\<lambda>body.
     rbind (jat_as J (jget_string J) obj ''msgtype'') (\<lambda>msgtype.
     rbind (parse_relations J obj) (\<lambda>relations.
     rbind (parse_mentions J obj) (\<lambda>mentions.
       Inr \<lparr>um_body = body, um_msgtype = msgtype, um_relations = relations, um_content = content,
            um_mentions = mentions\<rparr>)))))"

definition UnknownMessage_to_json :: "'j json_lib \<Rightarrow> UnknownMessage \<Rightarrow> 'j result" where
  "UnknownMessage_to_json J content =
     rbind (if um_content content \<noteq> [] then jparse J (um_content content) else Inr (jnull J)) (\<lambda>obj.
       if is_object_or_null J obj then
         let obj = jset J (jset J obj ''msgtype'' (jstring J (um_msgtype content))) ''body'' (jstring J (um_body content))
         in apply_relations J (add_mentions J obj (um_mentions content)) (um_relations content)
       else type_error)"

end
