(* ===== verification/Calls.thy ===== *)
theory Calls
  imports Key_Verification
begin

text \<open>
  The contents of call events (\<open>lib/structs/events/voip.cpp\<close>). Version 0 of the protocol is a number and
  has no party id; later versions are strings.
\<close>

definition version :: "'j json_lib \<Rightarrow> 'j \<Rightarrow> string result" where
  "version J obj =
     rbind (jat J obj ''version'') (\<lambda>v. if jis_number J v then Inr ''0'' else jget_string J v)"

definition add_version :: "'j json_lib \<Rightarrow> 'j \<Rightarrow> string \<Rightarrow> 'j" where
  "add_version J obj v = jset J obj ''version'' (if v = ''0'' then jint J 0 else jstring J v)"

definition party_id_of :: "'j json_lib \<Rightarrow> 'j \<Rightarrow> string \<Rightarrow> string result" where
  "party_id_of J obj v = (if v \<noteq> ''0'' then jat_as J (jget_string J) obj ''party_id'' else Inr [])"

section \<open>The contents\<close>

datatype rtc_type = Answer | Offer

record RTCSessionDescriptionInit =
  rtc_sdp :: string
  rtc_type :: rtc_type

text \<open>Any other type leaves the first of the enumeration.\<close>

definition RTCSessionDescriptionInit_from_json :: "'j json_lib \<Rightarrow> 'j \<Rightarrow> RTCSessionDescriptionInit result" where
  "RTCSessionDescriptionInit_from_json J obj =
     rbind (jat_as J (jget_string J) obj ''sdp'') (\<lambda>sdp.
     rbind (jat_as J (jget_string J) obj ''type'') (\<lambda>type.
       Inr \<lparr>rtc_sdp = sdp,
            rtc_type = (if type = ''answer'' then Answer else if type = ''offer'' then Offer else Answer)\<rparr>))"

definition RTCSessionDescriptionInit_to_json :: "'j json_lib \<Rightarrow> RTCSessionDescriptionInit \<Rightarrow> 'j" where
  "RTCSessionDescriptionInit_to_json J c =
     jset J (jset J (jnull J) ''sdp'' (jstring J (rtc_sdp c)))
       ''type'' (jstring J (case rtc_type c of Answer \<Rightarrow> ''answer'' | Offer \<Rightarrow> ''offer''))"

record CallInvite =
  ci_call_id :: string
  ci_party_id :: string
  ci_offer :: RTCSessionDescriptionInit
  ci_version :: string
  ci_lifetime :: int
  ci_invitee :: string

definition CallInvite_from_json :: "'j json_lib \<Rightarrow> 'j \<Rightarrow> CallInvite result" where
  "CallInvite_from_json J obj =
     rbind (jat_as J (jget_string J) obj ''call_id'') (\<lambda>call_id.
     rbind (jat_as J (RTCSessionDescriptionInit_from_json J) obj ''offer'') (\<lambda>offer.
     rbind (version J obj) (\<lambda>v.
     rbind (jat_as J (jget_narrow J 32) obj ''lifetime'') (\<lambda>lifetime.
     rbind (party_id_of J obj v) (\<lambda>party_id.
     rbind (if v \<noteq> ''0'' then jopt J (jget_string J) obj ''invitee'' [] else Inr []) (\<lambda>invitee.
       Inr \<lparr>ci_call_id = call_id, ci_party_id = party_id, ci_offer = offer, ci_version = v, ci_lifetime = lifetime,
            ci_invitee = invitee\<rparr>))))))"

definition CallInvite_to_json :: "'j json_lib \<Rightarrow> CallInvite \<Rightarrow> 'j" where
  "CallInvite_to_json J c =
     (let obj = jset J (jnull J) ''call_id'' (jstring J (ci_call_id c));
          obj = jset J obj ''offer'' (RTCSessionDescriptionInit_to_json J (ci_offer c));
          obj = add_version J obj (ci_version c);
          obj = jset J obj ''lifetime'' (jint J (ci_lifetime c));
          obj = jset_if J (ci_version c \<noteq> ''0'') obj ''party_id'' (jstring J (ci_party_id c))
      in jset_if J (ci_version c \<noteq> ''0'') obj ''invitee'' (jstring J (ci_invitee c)))"

record Candidate =
  cand_sdpMid :: string
  cand_sdpMLineIndex :: int
  cand_candidate :: string

definition Candidate_from_json :: "'j json_lib \<Rightarrow> 'j \<Rightarrow> Candidate result" where
  "Candidate_from_json J obj =
     rbind (jopt J (jget_string J) obj ''sdpMid'' []) (\<lambda>mid.
     rbind (jopt J (jget_narrow J 16) obj ''sdpMLineIndex'' 0) (\<lambda>index.
     rbind (jopt J (jget_string J) obj ''candidate'' []) (\<lambda>candidate.
       Inr \<lparr>cand_sdpMid = mid, cand_sdpMLineIndex = index, cand_candidate = candidate\<rparr>)))"

definition Candidate_to_json :: "'j json_lib \<Rightarrow> Candidate \<Rightarrow> 'j" where
  "Candidate_to_json J c =
     (let obj = jset J (jnull J) ''sdpMid'' (jstring J (cand_sdpMid c));
          obj = jset J obj ''sdpMLineIndex'' (jint J (cand_sdpMLineIndex c))
      in jset J obj ''candidate'' (jstring J (cand_candidate c)))"

record CallCandidates =
  cc_call_id :: string
  cc_party_id :: string
  cc_candidates :: "Candidate list"
  cc_version :: string

definition CallCandidates_from_json :: "'j json_lib \<Rightarrow> 'j \<Rightarrow> CallCandidates result" where
  "CallCandidates_from_json J obj =
     rbind (jat_as J (jget_string J) obj ''call_id'') (\<lambda>call_id.
     rbind (jat_as J (jget_list J (Candidate_from_json J)) obj ''candidates'') (\<lambda>candidates.
     rbind (version J obj) (\<lambda>v.
     rbind (party_id_of J obj v) (\<lambda>party_id.
       Inr \<lparr>cc_call_id = call_id, cc_party_id = party_id, cc_candidates = candidates, cc_version = v\<rparr>))))"

definition CallCandidates_to_json :: "'j json_lib \<Rightarrow> CallCandidates \<Rightarrow> 'j" where
  "CallCandidates_to_json J c =
     (let obj = jset J (jnull J) ''call_id'' (jstring J (cc_call_id c));
          obj = jset J obj ''candidates'' (jof_array J (map (Candidate_to_json J) (cc_candidates c)));
          obj = add_version J obj (cc_version c)
      in jset_if J (cc_version c \<noteq> ''0'') obj ''party_id'' (jstring J (cc_party_id c)))"

record CallAnswer =
  can_call_id :: string
  can_party_id :: string
  can_version :: string
  can_answer :: RTCSessionDescriptionInit

definition CallAnswer_from_json :: "'j json_lib \<Rightarrow> 'j \<Rightarrow> CallAnswer result" where
  "CallAnswer_from_json J obj =
     rbind (jat_as J (jget_string J) obj ''call_id'') (\<lambda>call_id.
     rbind (jat_as J (RTCSessionDescriptionInit_from_json J) obj ''answer'') (\<lambda>answer.
     rbind (version J obj) (\<lambda>v.
     rbind (party_id_of J obj v) (\<lambda>party_id.
       Inr \<lparr>can_call_id = call_id, can_party_id = party_id, can_version = v, can_answer = answer\<rparr>))))"

definition CallAnswer_to_json :: "'j json_lib \<Rightarrow> CallAnswer \<Rightarrow> 'j" where
  "CallAnswer_to_json J c =
     (let obj = jset J (jnull J) ''call_id'' (jstring J (can_call_id c));
          obj = jset J obj ''answer'' (RTCSessionDescriptionInit_to_json J (can_answer c));
          obj = add_version J obj (can_version c)
      in jset_if J (can_version c \<noteq> ''0'') obj ''party_id'' (jstring J (can_party_id c)))"

datatype hangup_reason =
  ICEFailed | InviteTimeOut | ICETimeOut | UserHangUp | UserMediaFailed | UserBusy | UnknownError | User

text \<open>\<open>User\<close>, the reason of a hangup without one, has no name and is not written.\<close>

fun hangup_reason_name :: "hangup_reason \<Rightarrow> string option" where
  "hangup_reason_name ICEFailed = Some ''ice_failed''"
| "hangup_reason_name InviteTimeOut = Some ''invite_timeout''"
| "hangup_reason_name ICETimeOut = Some ''ice_timeout''"
| "hangup_reason_name UserHangUp = Some ''user_hangup''"
| "hangup_reason_name UserMediaFailed = Some ''user_media_failed''"
| "hangup_reason_name UserBusy = Some ''user_busy''"
| "hangup_reason_name UnknownError = Some ''unknown_error''"
| "hangup_reason_name User = None"

text \<open>Any other name leaves the default.\<close>

definition hangup_reason_of :: "string \<Rightarrow> hangup_reason" where
  "hangup_reason_of s =
     (if s = ''ice_failed'' then ICEFailed
      else if s = ''invite_timeout'' then InviteTimeOut
      else if s = ''ice_timeout'' then ICETimeOut
      else if s = ''user_hangup'' then UserHangUp
      else if s = ''user_media_failed'' then UserMediaFailed
      else if s = ''user_busy'' then UserBusy
      else if s = ''unknown_error'' then UnknownError
      else UserHangUp)"

record CallHangUp =
  ch_call_id :: string
  ch_party_id :: string
  ch_version :: string
  ch_reason :: hangup_reason

definition CallHangUp_from_json :: "'j json_lib \<Rightarrow> 'j \<Rightarrow> CallHangUp result" where
  "CallHangUp_from_json J obj =
     rbind (jat_as J (jget_string J) obj ''call_id'') (\<lambda>call_id.
     rbind (version J obj) (\<lambda>v.
     rbind (party_id_of J obj v) (\<lambda>party_id.
     rbind (jopt J (\<lambda>r. rbind (jget_string J r) (\<lambda>s. Inr (hangup_reason_of s))) obj ''reason'' User) (\<lambda>reason.
       Inr \<lparr>ch_call_id = call_id, ch_party_id = party_id, ch_version = v, ch_reason = reason\<rparr>))))"

definition CallHangUp_to_json :: "'j json_lib \<Rightarrow> CallHangUp \<Rightarrow> 'j" where
  "CallHangUp_to_json J c =
     (let obj = jset J (jnull J) ''call_id'' (jstring J (ch_call_id c));
          obj = add_version J obj (ch_version c);
          obj = jset_if J (ch_version c \<noteq> ''0'') obj ''party_id'' (jstring J (ch_party_id c))
      in jset_opt J (jstring J) obj ''reason'' (hangup_reason_name (ch_reason c)))"

record CallSelectAnswer =
  cs_call_id :: string
  cs_party_id :: string
  cs_version :: string
  cs_selected_party_id :: string

definition CallSelectAnswer_from_json :: "'j json_lib \<Rightarrow> 'j \<Rightarrow> CallSelectAnswer result" where
  "CallSelectAnswer_from_json J obj =
     rbind (jat_as J (jget_string J) obj ''call_id'') (\<lambda>call_id.
     rbind (version J obj) (\<lambda>v.
     rbind (jat_as J (jget_string J) obj ''party_id'') (\<lambda>party_id.
     rbind (jat_as J (jget_string J) obj ''selected_party_id'') (\<lambda>selected.
       Inr \<lparr>cs_call_id = call_id, cs_party_id = party_id, cs_version = v, cs_selected_party_id = selected\<rparr>))))"

definition CallSelectAnswer_to_json :: "'j json_lib \<Rightarrow> CallSelectAnswer \<Rightarrow> 'j" where
  "CallSelectAnswer_to_json J c =
     (let obj = add_version J (jset J (jnull J) ''call_id'' (jstring J (cs_call_id c))) (cs_version c);
          obj = jset J obj ''party_id'' (jstring J (cs_party_id c))
      in jset J obj ''selected_party_id'' (jstring J (cs_selected_party_id c)))"

record CallReject =
  cr_call_id :: string
  cr_party_id :: string
  cr_version :: string

definition CallReject_from_json :: "'j json_lib \<Rightarrow> 'j \<Rightarrow> CallReject result" where
  "CallReject_from_json J obj =
     rbind (jat_as J (jget_string J) obj ''call_id'') (\<lambda>call_id.
     rbind (version J obj) (\<lambda>v.
     rbind (jat_as J (jget_string J) obj ''party_id'') (\<lambda>party_id.
       Inr \<lparr>cr_call_id = call_id, cr_party_id = party_id, cr_version = v\<rparr>)))"

definition CallReject_to_json :: "'j json_lib \<Rightarrow> CallReject \<Rightarrow> 'j" where
  "CallReject_to_json J c =
     jset J (add_version J (jset J (jnull J) ''call_id'' (jstring J (cr_call_id c))) (cr_version c))
       ''party_id'' (jstring J (cr_party_id c))"

record CallNegotiate =
  cn_call_id :: string
  cn_party_id :: string
  cn_lifetime :: int
  cn_description :: RTCSessionDescriptionInit

definition CallNegotiate_from_json :: "'j json_lib \<Rightarrow> 'j \<Rightarrow> CallNegotiate result" where
  "CallNegotiate_from_json J obj =
     rbind (jat_as J (jget_string J) obj ''call_id'') (\<lambda>call_id.
     rbind (jat_as J (jget_string J) obj ''party_id'') (\<lambda>party_id.
     rbind (jat_as J (jget_narrow J 32) obj ''lifetime'') (\<lambda>lifetime.
     rbind (jat_as J (RTCSessionDescriptionInit_from_json J) obj ''description'') (\<lambda>description.
       Inr \<lparr>cn_call_id = call_id, cn_party_id = party_id, cn_lifetime = lifetime, cn_description = description\<rparr>))))"

definition CallNegotiate_to_json :: "'j json_lib \<Rightarrow> CallNegotiate \<Rightarrow> 'j" where
  "CallNegotiate_to_json J c =
     (let obj = jset J (jnull J) ''call_id'' (jstring J (cn_call_id c));
          obj = jset J obj ''party_id'' (jstring J (cn_party_id c));
          obj = jset J obj ''lifetime'' (jint J (cn_lifetime c))
      in jset J obj ''description'' (RTCSessionDescriptionInit_to_json J (cn_description c)))"

section \<open>Round trips\<close>

text \<open>The party id of version 0 is not transmitted, nor is the invitee.\<close>

definition party_ok :: "string \<Rightarrow> string \<Rightarrow> bool" where
  "party_ok v p \<longleftrightarrow> (v = ''0'' \<longrightarrow> p = [])"

lemma hangup_reason_names: "hangup_reason_name r = Some s \<Longrightarrow> hangup_reason_of s = r"
  by (cases r) (auto simp: hangup_reason_of_def)

context json_library
begin

lemma number_jint [simp]: "jis_number J (jint J n)"
  using type_int [of n] by (auto simp: jis_number_def)

lemma number_jstring [simp]: "\<not> jis_number J (jstring J s)"
  by (simp add: jis_number_def)

lemma fields_version: "is_object_or_null J j \<Longrightarrow> jfields J (add_version J j v) =
    (jfields J j)(''version'' \<mapsto> if v = ''0'' then jint J 0 else jstring J v)"
  by (simp add: add_version_def)

lemma object_version [simp]: "is_object_or_null J j \<Longrightarrow> jtype_of J (add_version J j v) = JObject"
  by (simp add: add_version_def)

lemma version_read:
  "jtype_of J j = JObject \<Longrightarrow> version J j =
     (case jfields J j ''version'' of None \<Rightarrow> key_error | Some v \<Rightarrow> if jis_number J v then Inr ''0'' else jget_string J v)"
  by (simp add: version_def at_fields split: option.split)

lemma RTC_roundtrip: "RTCSessionDescriptionInit_from_json J (RTCSessionDescriptionInit_to_json J c) = Inr c"
  by (cases c; cases "rtc_type c")
     (simp_all add: RTCSessionDescriptionInit_from_json_def RTCSessionDescriptionInit_to_json_def at_as_fields)

lemmas call_simps = reads fields_version version_read party_id_of_def party_ok_def RTC_roundtrip object_or_null
  narrow_read Let_def

lemma CallInvite_roundtrip:
  assumes "party_ok (ci_version c) (ci_party_id c)" and "party_ok (ci_version c) (ci_invitee c)"
    and "0 \<le> ci_lifetime c" and "ci_lifetime c < 2 ^ 32"
  shows "CallInvite_from_json J (CallInvite_to_json J c) = Inr c"
  using assms by (cases "ci_version c = ''0''") (simp_all add: CallInvite_from_json_def CallInvite_to_json_def call_simps)

lemma Candidate_roundtrip:
  "0 \<le> cand_sdpMLineIndex c \<Longrightarrow> cand_sdpMLineIndex c < 2 ^ 16 \<Longrightarrow> Candidate_from_json J (Candidate_to_json J c) = Inr c"
  by (simp add: Candidate_from_json_def Candidate_to_json_def call_simps)

lemma get_list_map:
  assumes "\<And>x. x \<in> set xs \<Longrightarrow> conv (f x) = Inr x"
  shows "jget_list J conv (jof_array J (map f xs)) = Inr xs"
  using mapM_map [of xs conv f "\<lambda>x. x"] assms by (simp add: jget_list_def elems_array)

lemma CallCandidates_roundtrip:
  assumes "party_ok (cc_version c) (cc_party_id c)"
    and "\<forall>x \<in> set (cc_candidates c). 0 \<le> cand_sdpMLineIndex x \<and> cand_sdpMLineIndex x < 2 ^ 16"
  shows "CallCandidates_from_json J (CallCandidates_to_json J c) = Inr c"
proof -
  have "jget_list J (Candidate_from_json J) (jof_array J (map (Candidate_to_json J) (cc_candidates c))) = Inr (cc_candidates c)"
    using assms(2) by (intro get_list_map Candidate_roundtrip) auto
  then show ?thesis using assms(1)
    by (cases "cc_version c = ''0''") (simp_all add: CallCandidates_from_json_def CallCandidates_to_json_def call_simps)
qed

lemma CallAnswer_roundtrip:
  "party_ok (can_version c) (can_party_id c) \<Longrightarrow> CallAnswer_from_json J (CallAnswer_to_json J c) = Inr c"
  by (cases "can_version c = ''0''") (simp_all add: CallAnswer_from_json_def CallAnswer_to_json_def call_simps)

lemma CallHangUp_roundtrip:
  assumes "party_ok (ch_version c) (ch_party_id c)"
  shows "CallHangUp_from_json J (CallHangUp_to_json J c) = Inr c"
proof (cases "hangup_reason_name (ch_reason c)")
  case None
  then have "ch_reason c = User" by (cases "ch_reason c") simp_all
  with None assms show ?thesis
    by (cases "ch_version c = ''0''") (simp_all add: CallHangUp_from_json_def CallHangUp_to_json_def call_simps jset_opt_def)
next
  case (Some s)
  with assms hangup_reason_names [OF Some] show ?thesis
    by (cases "ch_version c = ''0''") (simp_all add: CallHangUp_from_json_def CallHangUp_to_json_def call_simps jset_opt_def)
qed

lemma CallSelectAnswer_roundtrip: "CallSelectAnswer_from_json J (CallSelectAnswer_to_json J c) = Inr c"
  by (simp add: CallSelectAnswer_from_json_def CallSelectAnswer_to_json_def call_simps)

lemma CallReject_roundtrip: "CallReject_from_json J (CallReject_to_json J c) = Inr c"
  by (simp add: CallReject_from_json_def CallReject_to_json_def call_simps)

lemma CallNegotiate_roundtrip:
  "0 \<le> cn_lifetime c \<Longrightarrow> cn_lifetime c < 2 ^ 32 \<Longrightarrow> CallNegotiate_from_json J (CallNegotiate_to_json J c) = Inr c"
  by (simp add: CallNegotiate_from_json_def CallNegotiate_to_json_def call_simps)

end

end
