(* ===== verification/Account_Data.thy ===== *)
theory Account_Data
  imports Room_State Event_Types
begin

text \<open>
  The contents of account data and ephemeral events (\<open>lib/structs/events/account_data\<close>,
  \<open>lib/structs/events/ephemeral\<close>, \<open>tag.cpp\<close>) and of the extensions (\<open>nheko_extensions\<close>, \<open>mscs\<close>).
\<close>

section \<open>Account data\<close>

record Direct =
  dr_user_to_rooms :: "string list smap"

definition Direct_from_json :: "'j json_lib \<Rightarrow> 'j \<Rightarrow> Direct result" where
  "Direct_from_json J obj =
     rbind (jget_map J (jget_list J (jget_string J)) obj) (\<lambda>m. Inr \<lparr>dr_user_to_rooms = m\<rparr>)"

definition Direct_to_json :: "'j json_lib \<Rightarrow> Direct \<Rightarrow> 'j" where
  "Direct_to_json J c = jof_map J (jstrings J) (dr_user_to_rooms c)"

record FullyRead =
  fr_event_id :: string

definition FullyRead_from_json :: "'j json_lib \<Rightarrow> 'j \<Rightarrow> FullyRead result" where
  "FullyRead_from_json J obj = rbind (jat_as J (jget_string J) obj ''event_id'') (\<lambda>e. Inr \<lparr>fr_event_id = e\<rparr>)"

definition FullyRead_to_json :: "'j json_lib \<Rightarrow> FullyRead \<Rightarrow> 'j" where
  "FullyRead_to_json J c = jset J (jnull J) ''event_id'' (jstring J (fr_event_id c))"

text \<open>The users are the keys of an object.\<close>

record IgnoredUsers =
  iu_users :: "string list"

definition IgnoredUsers_from_json :: "'j json_lib \<Rightarrow> 'j \<Rightarrow> IgnoredUsers result" where
  "IgnoredUsers_from_json J obj =
     (if \<not> jcontains J obj ''ignored_users'' then Inr \<lparr>iu_users = []\<rparr>
      else rbind (jat J obj ''ignored_users'') (\<lambda>v. Inr \<lparr>iu_users = map fst (jpairs J v)\<rparr>))"

definition IgnoredUsers_to_json :: "'j json_lib \<Rightarrow> IgnoredUsers \<Rightarrow> 'j" where
  "IgnoredUsers_to_json J c =
     jset J (jnull J) ''ignored_users'' (jof_object J (foldl (\<lambda>m u. map_set u (jobject J) m) [] (iu_users c)))"

record Tag =
  tg_order :: "64 word option"

definition Tag_from_json :: "'j json_lib \<Rightarrow> 'j \<Rightarrow> Tag result" where
  "Tag_from_json J obj =
     rbind (jopt_if J (\<lambda>t. t \<in> {JInteger, JUnsigned, JFloat}) (\<lambda>v. rbind (jget_double J v) (\<lambda>d. Inr (Some d))) obj ''order'' None)
       (\<lambda>order. Inr \<lparr>tg_order = order\<rparr>)"

definition Tag_to_json :: "'j json_lib \<Rightarrow> Tag \<Rightarrow> 'j" where
  "Tag_to_json J c = jset_opt J (jdouble J) (jobject J) ''order'' (tg_order c)"

record Tags =
  tg_tags :: "Tag smap"

definition Tags_from_json :: "'j json_lib \<Rightarrow> 'j \<Rightarrow> Tags result" where
  "Tags_from_json J obj = rbind (jat_as J (jget_map J (Tag_from_json J)) obj ''tags'') (\<lambda>m. Inr \<lparr>tg_tags = m\<rparr>)"

definition Tags_to_json :: "'j json_lib \<Rightarrow> Tags \<Rightarrow> 'j" where
  "Tags_to_json J c = jset J (jnull J) ''tags'' (jof_map J (Tag_to_json J) (tg_tags c))"

section \<open>Ephemeral events\<close>

record Typing =
  ty_user_ids :: "string list"

definition Typing_from_json :: "'j json_lib \<Rightarrow> 'j \<Rightarrow> Typing result" where
  "Typing_from_json J obj =
     rbind (jat_as J (jget_list J (jget_string J)) obj ''user_ids'') (\<lambda>u. Inr \<lparr>ty_user_ids = u\<rparr>)"

definition Typing_to_json :: "'j json_lib \<Rightarrow> Typing \<Rightarrow> 'j" where
  "Typing_to_json J c = jset J (jnull J) ''user_ids'' (jstrings J (ty_user_ids c))"

text \<open>
  The receipts of an event by type, each a map from users to timestamps; \<open>None\<close> stands for a type that
  has no entry in the map.
\<close>

datatype ReceiptType = Read | ReadPrivate

record ReceiptsByType =
  rt_read :: "int smap option"
  rt_read_private :: "int smap option"

record Receipt =
  rp_receipts :: "ReceiptsByType smap"

definition set_ts :: "string \<Rightarrow> int \<Rightarrow> int smap option \<Rightarrow> int smap option" where
  "set_ts user ts m = Some (map_set user ts (case m of None \<Rightarrow> [] | Some u \<Rightarrow> u))"

definition add_receipt :: "string \<Rightarrow> ReceiptType \<Rightarrow> string \<Rightarrow> int \<Rightarrow> ReceiptsByType smap \<Rightarrow> ReceiptsByType smap" where
  "add_receipt event_id t user ts m =
     (let r = (case map_of m event_id of None \<Rightarrow> \<lparr>rt_read = None, rt_read_private = None\<rparr> | Some r \<Rightarrow> r)
      in map_set event_id
           (case t of Read \<Rightarrow> r\<lparr>rt_read := set_ts user ts (rt_read r)\<rparr>
            | ReadPrivate \<Rightarrow> r\<lparr>rt_read_private := set_ts user ts (rt_read_private r)\<rparr>) m)"

definition receipt_type :: "string \<Rightarrow> ReceiptType option" where
  "receipt_type k =
     (if k = ''m.read'' then Some Read
      else if k = ''m.read.private'' \<or> k = ''org.matrix.msc2285.read.private'' then Some ReadPrivate
      else None)"

definition Receipt_from_json :: "'j json_lib \<Rightarrow> 'j \<Rightarrow> Receipt result" where
  "Receipt_from_json J obj =
     rbind (foldM (\<lambda>(event_id, by_type) m.
       foldM (\<lambda>(k, users) m.
         case receipt_type k of
           None \<Rightarrow> Inr m
         | Some t \<Rightarrow>
             foldM (\<lambda>(user, v) m.
               rbind (jvalue J (jget_uint64 J) v ''ts'' 0) (\<lambda>ts. Inr (add_receipt event_id t user ts m)))
               (jpairs J users) m)
         (jpairs J by_type) m)
       (jpairs J obj) [])
     (\<lambda>m. Inr \<lparr>rp_receipts = m\<rparr>)"

text \<open>\<open>obj[event_id][name][user]["ts"] = ts\<close>\<close>

definition put_ts :: "'j json_lib \<Rightarrow> string \<Rightarrow> string \<Rightarrow> 'j \<Rightarrow> string \<times> int \<Rightarrow> 'j" where
  "put_ts J event_id name obj e =
     (case e of (user, ts) \<Rightarrow>
       let by_type = jmember J obj event_id;
           users = jmember J by_type name
       in jset J obj event_id (jset J by_type name (jset2 J users user ''ts'' (jint J ts))))"

definition users_of :: "int smap option \<Rightarrow> int smap" where
  "users_of m = (case m of None \<Rightarrow> [] | Some u \<Rightarrow> u)"

definition Receipt_to_json :: "'j json_lib \<Rightarrow> Receipt \<Rightarrow> 'j" where
  "Receipt_to_json J c =
     foldl (\<lambda>obj (event_id, r).
       let obj = foldl (put_ts J event_id ''m.read'') obj (users_of (rt_read r))
       in foldl (put_ts J event_id ''m.read.private'') obj (users_of (rt_read_private r)))
       (jnull J) (rp_receipts c)"

section \<open>Extensions\<close>

record EventExpiry =
  ex_exclude_state_events :: bool
  ex_expire_after_ms :: int
  ex_protect_latest :: int
  ex_keep_only_latest :: int

definition EventExpiry_from_json :: "'j json_lib \<Rightarrow> 'j \<Rightarrow> EventExpiry result" where
  "EventExpiry_from_json J obj =
     rbind (jvalue J (jget_bool J) obj ''exclude_state_events'' False) (\<lambda>exclude.
     rbind (jvalue J (jget_uint64 J) obj ''expire_after_ms'' 0) (\<lambda>expire.
     rbind (jvalue J (jget_uint64 J) obj ''protect_latest'' 0) (\<lambda>protect.
     rbind (jvalue J (jget_uint64 J) obj ''keep_only_latest'' 0) (\<lambda>keep.
       Inr \<lparr>ex_exclude_state_events = exclude, ex_expire_after_ms = expire, ex_protect_latest = protect,
            ex_keep_only_latest = keep\<rparr>))))"

text \<open>Nothing is assigned for the default values: the content stays null.\<close>

definition EventExpiry_to_json :: "'j json_lib \<Rightarrow> EventExpiry \<Rightarrow> 'j" where
  "EventExpiry_to_json J c =
     (let obj = jset_if J (ex_exclude_state_events c) (jnull J) ''exclude_state_events'' (jbool J True);
          obj = jset_if J (ex_expire_after_ms c \<noteq> 0) obj ''expire_after_ms'' (jint J (ex_expire_after_ms c));
          obj = jset_if J (ex_protect_latest c \<noteq> 0) obj ''protect_latest'' (jint J (ex_protect_latest c))
      in jset_if J (ex_keep_only_latest c \<noteq> 0) obj ''keep_only_latest'' (jint J (ex_keep_only_latest c)))"

record HiddenEvents =
  hd_hidden_event_types :: "EventType list option"

definition HiddenEvents_from_json :: "'j json_lib \<Rightarrow> 'j \<Rightarrow> HiddenEvents result" where
  "HiddenEvents_from_json J obj =
     (if jcontains J obj ''hidden_event_types'' then
        rbind (jat J obj ''hidden_event_types'') (\<lambda>v.
        rbind (foldM (\<lambda>e types.
            rbind (jget_string J e) (\<lambda>type.
              if type = [] then Inr (types @ [Unsupported])
              else case getEventType type of Inl _ \<Rightarrow> Inr types | Inr t \<Rightarrow> Inr (types @ [t])))
          (jiterate J v) []) (\<lambda>types.
          Inr \<lparr>hd_hidden_event_types = Some types\<rparr>))
      else Inr \<lparr>hd_hidden_event_types = None\<rparr>)"

definition HiddenEvents_to_json :: "'j json_lib \<Rightarrow> HiddenEvents \<Rightarrow> 'j" where
  "HiddenEvents_to_json J c =
     (case hd_hidden_event_types c of
        None \<Rightarrow> jnull J
      | Some types \<Rightarrow>
          foldl (\<lambda>obj t. jset J obj ''hidden_event_types''
              (jpush J (jmember J obj ''hidden_event_types'') (jstring J (event_type_to_string t))))
            (jnull J) types)"

record InvitePermissions =
  ip_default :: string
  ip_server_allow :: "string smap"
  ip_server_deny :: "string smap"
  ip_room_allow :: "string smap"
  ip_room_deny :: "string smap"
  ip_user_allow :: "string smap"
  ip_user_deny :: "string smap"

definition parse_subset :: "'j json_lib \<Rightarrow> string \<Rightarrow> 'j \<Rightarrow> (string smap \<times> string smap) result" where
  "parse_subset J key obj =
     (if jcontains J obj key then
        rbind (jat J obj key) (\<lambda>v.
        rbind (jvalue J (jget_map J Inr) v ''allow'' []) (\<lambda>a.
        rbind (jvalue J (jget_map J Inr) v ''deny'' []) (\<lambda>d.
        rbind (mapM (\<lambda>(k, w). rbind (jdump J w) (\<lambda>s. Inr (k, s))) a) (\<lambda>allow.
        rbind (mapM (\<lambda>(k, w). rbind (jdump J w) (\<lambda>s. Inr (k, s))) d) (\<lambda>deny.
          Inr (allow, deny))))))
      else Inr ([], []))"

definition InvitePermissions_from_json :: "'j json_lib \<Rightarrow> 'j \<Rightarrow> InvitePermissions result" where
  "InvitePermissions_from_json J obj =
     rbind (jopt J (jget_string J) obj ''default'' ''allow'') (\<lambda>default.
     rbind (parse_subset J ''server'' obj) (\<lambda>(server_allow, server_deny).
     rbind (parse_subset J ''room'' obj) (\<lambda>(room_allow, room_deny).
     rbind (parse_subset J ''user'' obj) (\<lambda>(user_allow, user_deny).
       Inr \<lparr>ip_default = default, ip_server_allow = server_allow, ip_server_deny = server_deny,
            ip_room_allow = room_allow, ip_room_deny = room_deny, ip_user_allow = user_allow,
            ip_user_deny = user_deny\<rparr>))))"

text \<open>\<open>obj[key][list][k] = json::parse(v)\<close>\<close>

definition emit_list :: "'j json_lib \<Rightarrow> string \<Rightarrow> string \<Rightarrow> string smap \<Rightarrow> 'j \<Rightarrow> 'j result" where
  "emit_list J key name entries obj =
     foldM (\<lambda>(k, v) obj. rbind (jparse J v) (\<lambda>w.
         Inr (jset J obj key (jset2 J (jmember J obj key) name k w)))) entries obj"

definition emit_subset :: "'j json_lib \<Rightarrow> string \<Rightarrow> string smap \<Rightarrow> string smap \<Rightarrow> 'j \<Rightarrow> 'j result" where
  "emit_subset J key allow deny obj = rbind (emit_list J key ''allow'' allow obj) (emit_list J key ''deny'' deny)"

definition InvitePermissions_to_json :: "'j json_lib \<Rightarrow> InvitePermissions \<Rightarrow> 'j result" where
  "InvitePermissions_to_json J c =
     rbind (emit_subset J ''server'' (ip_server_allow c) (ip_server_deny c)
              (jset J (jnull J) ''default'' (jstring J (ip_default c)))) (\<lambda>obj.
     rbind (emit_subset J ''room'' (ip_room_allow c) (ip_room_deny c) obj)
           (emit_subset J ''user'' (ip_user_allow c) (ip_user_deny c)))"

definition has_key :: "string \<Rightarrow> 'v smap \<Rightarrow> bool" where
  "has_key k m \<longleftrightarrow> map_of m k \<noteq> None"

text \<open>The server of the inviter is what follows the first colon.\<close>

definition invite_allowed :: "InvitePermissions \<Rightarrow> string \<Rightarrow> string \<Rightarrow> bool" where
  "invite_allowed p room_id inviter =
     (if has_key inviter (ip_user_deny p) then False
      else if has_key inviter (ip_user_allow p) then True
      else if has_key room_id (ip_room_deny p) then False
      else if has_key room_id (ip_room_allow p) then True
      else case find_char (CHR '':'') inviter of
        None \<Rightarrow> ip_default p \<noteq> ''deny''
      | Some pos \<Rightarrow>
          let server = drop (Suc pos) inviter
          in if has_key server (ip_server_deny p) then False
             else if has_key server (ip_server_allow p) then False
             else ip_default p \<noteq> ''deny'')"

section \<open>Image packs\<close>

datatype PackUsage = Usage_Sticker | Usage_Emoji

definition usage_of :: "'j json_lib \<Rightarrow> 'j \<Rightarrow> PackUsage set" where
  "usage_of J v =
     foldl (\<lambda>u e. if jtype_of J e \<noteq> JString then u
         else if jget_string J e = Inr ''sticker'' then insert Usage_Sticker u
         else if jget_string J e = Inr ''emoticon'' then insert Usage_Emoji u
         else u) {} (jiterate J v)"

definition push_usage :: "'j json_lib \<Rightarrow> PackUsage set \<Rightarrow> 'j \<Rightarrow> 'j" where
  "push_usage J usage obj =
     (let add = (\<lambda>s obj. jset J obj ''usage'' (jpush J (jmember J obj ''usage'') (jstring J s)));
          obj = (if Usage_Sticker \<in> usage then add ''sticker'' obj else obj)
      in if Usage_Emoji \<in> usage then add ''emoticon'' obj else obj)"

record PackImage =
  pi_url :: string
  pi_body :: string
  pi_info :: "ImageInfo option"
  pi_usage :: "PackUsage set"

definition overrides_usage :: "PackImage \<Rightarrow> bool" where
  "overrides_usage p \<longleftrightarrow> Usage_Sticker \<in> pi_usage p \<or> Usage_Emoji \<in> pi_usage p"

definition image_is_emoji :: "PackImage \<Rightarrow> bool" where
  "image_is_emoji p \<longleftrightarrow> Usage_Emoji \<in> pi_usage p"

definition image_is_sticker :: "PackImage \<Rightarrow> bool" where
  "image_is_sticker p \<longleftrightarrow> Usage_Sticker \<in> pi_usage p"

definition PackImage_from_json :: "'j json_lib \<Rightarrow> 'j \<Rightarrow> PackImage result" where
  "PackImage_from_json J obj =
     rbind (jat_as J (jget_string J) obj ''url'') (\<lambda>url.
     rbind (safe_get J (jget_string J) obj ''body'' []) (\<lambda>body.
     rbind (jfind_opt J (ImageInfo_from_json J) obj ''info'') (\<lambda>info.
     rbind (jopt J (\<lambda>v. Inr (usage_of J v)) obj ''usage'' {}) (\<lambda>usage.
       Inr \<lparr>pi_url = url, pi_body = body, pi_info = info, pi_usage = usage\<rparr>))))"

definition PackImage_to_json :: "'j json_lib \<Rightarrow> PackImage \<Rightarrow> 'j" where
  "PackImage_to_json J c =
     (let obj = jset J (jnull J) ''url'' (jstring J (pi_url c));
          obj = jset_if J (pi_body c \<noteq> []) obj ''body'' (jstring J (pi_body c));
          obj = jset_opt J (ImageInfo_to_json J) obj ''info'' (pi_info c)
      in push_usage J (pi_usage c) obj)"

record PackDescription =
  pd_display_name :: string
  pd_avatar_url :: string
  pd_attribution :: string
  pd_usage :: "PackUsage set"

definition pack_is_emoji :: "PackDescription \<Rightarrow> bool" where
  "pack_is_emoji p \<longleftrightarrow> (Usage_Sticker \<notin> pd_usage p \<and> Usage_Emoji \<notin> pd_usage p) \<or> Usage_Emoji \<in> pd_usage p"

definition pack_is_sticker :: "PackDescription \<Rightarrow> bool" where
  "pack_is_sticker p \<longleftrightarrow> (Usage_Sticker \<notin> pd_usage p \<and> Usage_Emoji \<notin> pd_usage p) \<or> Usage_Sticker \<in> pd_usage p"

definition PackDescription_from_json :: "'j json_lib \<Rightarrow> 'j \<Rightarrow> PackDescription result" where
  "PackDescription_from_json J obj =
     rbind (safe_get J (jget_string J) obj ''avatar_url'' []) (\<lambda>avatar_url.
     rbind (safe_get J (jget_string J) obj ''display_name'' []) (\<lambda>display_name.
     rbind (safe_get J (jget_string J) obj ''attribution'' []) (\<lambda>attribution.
     rbind (jopt_if J (\<lambda>t. t = JArray) (\<lambda>v. Inr (usage_of J v)) obj ''usage'' {}) (\<lambda>usage.
       Inr \<lparr>pd_display_name = display_name, pd_avatar_url = avatar_url, pd_attribution = attribution,
            pd_usage = usage\<rparr>))))"

definition PackDescription_to_json :: "'j json_lib \<Rightarrow> PackDescription \<Rightarrow> 'j" where
  "PackDescription_to_json J c =
     (let obj = jset_if J (pd_avatar_url c \<noteq> []) (jnull J) ''avatar_url'' (jstring J (pd_avatar_url c));
          obj = jset_if J (pd_display_name c \<noteq> []) obj ''display_name'' (jstring J (pd_display_name c));
          obj = jset_if J (pd_attribution c \<noteq> []) obj ''attribution'' (jstring J (pd_attribution c))
      in push_usage J (pd_usage c) obj)"

record ImagePack =
  pk_images :: "PackImage smap"
  pk_pack :: "PackDescription option"

definition ImagePack_from_json :: "'j json_lib \<Rightarrow> 'j \<Rightarrow> ImagePack result" where
  "ImagePack_from_json J obj =
     rbind (jfind_opt J (PackDescription_from_json J) obj ''pack'') (\<lambda>pack.
     rbind (jopt J (jget_map J (PackImage_from_json J)) obj ''images'' []) (\<lambda>images.
       Inr \<lparr>pk_images = images, pk_pack = pack\<rparr>))"

definition ImagePack_to_json :: "'j json_lib \<Rightarrow> ImagePack \<Rightarrow> 'j" where
  "ImagePack_to_json J c =
     jset J (jset_opt J (PackDescription_to_json J) (jnull J) ''pack'' (pk_pack c))
       ''images'' (jof_map J (PackImage_to_json J) (pk_images c))"

record ImagePackRooms =
  pr_rooms :: "string smap smap"

definition ImagePackRooms_from_json :: "'j json_lib \<Rightarrow> 'j \<Rightarrow> ImagePackRooms result" where
  "ImagePackRooms_from_json J obj =
     (if jcontains J obj ''rooms'' then
        rbind (jat J obj ''rooms'') (\<lambda>rooms.
        rbind (foldM (\<lambda>(roomid, packs) m.
            foldM (\<lambda>(packid, body) m. rbind (jdump J body) (\<lambda>s.
                Inr (map_set roomid (map_set packid s (case map_of m roomid of None \<Rightarrow> [] | Some p \<Rightarrow> p)) m)))
              (jpairs J packs) m)
          (jpairs J rooms) []) (\<lambda>m.
          Inr \<lparr>pr_rooms = m\<rparr>))
      else Inr \<lparr>pr_rooms = []\<rparr>)"

definition ImagePackRooms_to_json :: "'j json_lib \<Rightarrow> ImagePackRooms \<Rightarrow> 'j result" where
  "ImagePackRooms_to_json J c =
     foldM (\<lambda>(roomid, packs) obj.
       foldM (\<lambda>(packid, body) obj.
           rbind (if body = [] then Inr (jobject J) else jparse J body) (\<lambda>v.
             Inr (jset J obj ''rooms'' (jset2 J (jmember J obj ''rooms'') roomid packid v))))
         packs obj)
       (pr_rooms c) (jset J (jnull J) ''rooms'' (jobject J))"

end
