(* ===== verification/Contents.thy ===== *)
theory Contents
  imports Events Messages Calls Account_Data Verification_Events Power_Levels Push_Rules
begin

text \<open>
  The content types for which the envelope templates are instantiated
  (\<open>lib/structs/events/collections.cpp\<close>): the reader and the writer of each content, and its
  value-initialised default, which an event with a content that is no object gets.
\<close>

section \<open>Default values\<close>

definition no_relations :: Relations where
  "no_relations = \<lparr>relations = [], synthesized = False\<rparr>"

definition empty_FormattedMessage :: FormattedMessage where
  "empty_FormattedMessage = \<lparr>fm_body = [], fm_msgtype = [], fm_format = [], fm_formatted_body = [],
     fm_relations = no_relations, fm_mentions = None\<rparr>"

definition empty_MediaMessage :: "'i \<Rightarrow> 'i MediaMessage" where
  "empty_MediaMessage info = \<lparr>mm_body = [], mm_msgtype = [], mm_url = [], mm_info = info, mm_file = None,
     mm_relations = no_relations, mm_mentions = None\<rparr>"

definition empty_description :: RTCSessionDescriptionInit where
  "empty_description = \<lparr>rtc_sdp = [], rtc_type = Answer\<rparr>"

section \<open>Redacted and encrypted contents\<close>

text \<open>The content of a redacted event is not read and nothing is written for it.\<close>

datatype Redacted = Redacted

definition Redacted_content :: "'j json_lib \<Rightarrow> ('j, Redacted) content_type" where
  "Redacted_content J = plain_content (\<lambda>_. Inr Redacted) (\<lambda>_. Inr (jnull J)) Redacted"

definition Encrypted_content :: "'j json_lib \<Rightarrow> ('j, Encrypted) content_type" where
  "Encrypted_content J =
     (plain_content (Encrypted_from_json J) (\<lambda>c. Inr (Encrypted_to_json J c))
       \<lparr>me_algorithm = [], me_ciphertext = [], me_device_id = [], me_sender_key = [], me_session_id = [],
         me_relations = no_relations\<rparr>)\<lparr>ct_encrypted := True\<rparr>"

section \<open>Room state\<close>

definition Aliases_content :: "'j json_lib \<Rightarrow> ('j, Aliases) content_type" where
  "Aliases_content J = plain_content (Aliases_from_json J) (\<lambda>c. Inr (Aliases_to_json J c))
     \<lparr>al_aliases = []\<rparr>"

definition Avatar_content :: "'j json_lib \<Rightarrow> ('j, Avatar) content_type" where
  "Avatar_content J = plain_content (Avatar_from_json J) (\<lambda>c. Inr (Avatar_to_json J c))
     \<lparr>av_image_info = empty_ImageInfo, av_url = []\<rparr>"

definition CanonicalAlias_content :: "'j json_lib \<Rightarrow> ('j, CanonicalAlias) content_type" where
  "CanonicalAlias_content J = plain_content (CanonicalAlias_from_json J) (\<lambda>c. Inr (CanonicalAlias_to_json J c))
     \<lparr>ca_alias = [], ca_alt_aliases = []\<rparr>"

definition Create_content :: "'j json_lib \<Rightarrow> ('j, Create) content_type" where
  "Create_content J = plain_content (Create_from_json J) (\<lambda>c. Inr (Create_to_json J c))
     \<lparr>room_type = None, federate = True, room_version = ''1'', predecessor = None, additional_creators =
     []\<rparr>"

definition Encryption_content :: "'j json_lib \<Rightarrow> ('j, Encryption) content_type" where
  "Encryption_content J = plain_content (Encryption_from_json J) (\<lambda>c. Inr (Encryption_to_json J c))
     default_Encryption"

definition GuestAccess_content :: "'j json_lib \<Rightarrow> ('j, GuestAccess) content_type" where
  "GuestAccess_content J = plain_content (GuestAccess_from_json J) (\<lambda>c. Inr (GuestAccess_to_json J c))
     \<lparr>ga_guest_access = Forbidden\<rparr>"

definition HistoryVisibility_content :: "'j json_lib \<Rightarrow> ('j, HistoryVisibility) content_type" where
  "HistoryVisibility_content J = plain_content (HistoryVisibility_from_json J) (\<lambda>c. Inr (HistoryVisibility_to_json J c))
     \<lparr>hv_history_visibility = WorldReadable\<rparr>"

definition JoinRules_content :: "'j json_lib \<Rightarrow> ('j, JoinRules) content_type" where
  "JoinRules_content J = plain_content (JoinRules_from_json J) (\<lambda>c. Inr (JoinRules_to_json J c))
     \<lparr>jr_join_rule = Rule_Public, jr_allow = []\<rparr>"

definition Member_content :: "'j json_lib \<Rightarrow> ('j, Member) content_type" where
  "Member_content J = plain_content (Member_from_json J) (\<lambda>c. Inr (Member_to_json J c))
     default_Member"

definition Name_content :: "'j json_lib \<Rightarrow> ('j, Name) content_type" where
  "Name_content J = plain_content (Name_from_json J) (\<lambda>c. Inr (Name_to_json J c))
     \<lparr>nm_name = []\<rparr>"

definition PinnedEvents_content :: "'j json_lib \<Rightarrow> ('j, PinnedEvents) content_type" where
  "PinnedEvents_content J = plain_content (PinnedEvents_from_json J) (\<lambda>c. Inr (PinnedEvents_to_json J c))
     \<lparr>pe_pinned = []\<rparr>"

definition PowerLevels_content :: "'j json_lib \<Rightarrow> ('j, PowerLevels) content_type" where
  "PowerLevels_content J = plain_content (PowerLevels_from_json J) (\<lambda>c. Inr (PowerLevels_to_json J c))
     default_PowerLevels"

definition UserRule_content :: "'j json_lib \<Rightarrow> ('j, UserRule) content_type" where
  "UserRule_content J = plain_content (UserRule_from_json J) (\<lambda>c. Inr (UserRule_to_json J c))
     \<lparr>pol_entity = [], pol_reason = [], pol_recommendation = []\<rparr>"

definition RoomRule_content :: "'j json_lib \<Rightarrow> ('j, RoomRule) content_type" where
  "RoomRule_content J = plain_content (RoomRule_from_json J) (\<lambda>c. Inr (RoomRule_to_json J c))
     \<lparr>pol_entity = [], pol_reason = [], pol_recommendation = []\<rparr>"

definition ServerRule_content :: "'j json_lib \<Rightarrow> ('j, ServerRule) content_type" where
  "ServerRule_content J = plain_content (ServerRule_from_json J) (\<lambda>c. Inr (ServerRule_to_json J c))
     \<lparr>pol_entity = [], pol_reason = [], pol_recommendation = []\<rparr>"

definition Child_content :: "'j json_lib \<Rightarrow> ('j, Child) content_type" where
  "Child_content J = plain_content (Child_from_json J) (\<lambda>c. Inr (Child_to_json J c))
     \<lparr>sc_via = None, sc_order = None, sc_suggested = False\<rparr>"

definition Parent_content :: "'j json_lib \<Rightarrow> ('j, Parent) content_type" where
  "Parent_content J = plain_content (Parent_from_json J) (\<lambda>c. Inr (Parent_to_json J c))
     \<lparr>sp_via = None, sp_canonical = False\<rparr>"

definition Tombstone_content :: "'j json_lib \<Rightarrow> ('j, Tombstone) content_type" where
  "Tombstone_content J = plain_content (Tombstone_from_json J) (\<lambda>c. Inr (Tombstone_to_json J c))
     \<lparr>ts_body = [], ts_replacement_room = []\<rparr>"

definition ServerAcl_content :: "'j json_lib \<Rightarrow> ('j, ServerAcl) content_type" where
  "ServerAcl_content J = plain_content (ServerAcl_from_json J) (\<lambda>c. Inr (ServerAcl_to_json J c))
     \<lparr>acl_allow = [], acl_deny = [], acl_allow_ip_literals = True\<rparr>"

definition Topic_content :: "'j json_lib \<Rightarrow> ('j, Topic) content_type" where
  "Topic_content J = plain_content (Topic_from_json J) (\<lambda>c. Inr (Topic_to_json J c))
     \<lparr>tp_topic = []\<rparr>"

definition Widget_content :: "'j json_lib \<Rightarrow> ('j, Widget) content_type" where
  "Widget_content J = plain_content (Widget_from_json J) (\<lambda>c. Inr (Widget_to_json J c))
     \<lparr>wg_type = [], wg_url = [], wg_name = [], wg_id = [], wg_data = [], wg_waitForIframeLoad = True,
     wg_creatorUserId = []\<rparr>"

definition ImagePack_content :: "'j json_lib \<Rightarrow> ('j, ImagePack) content_type" where
  "ImagePack_content J = plain_content (ImagePack_from_json J) (\<lambda>c. Inr (ImagePack_to_json J c))
     \<lparr>pk_images = [], pk_pack = None\<rparr>"

section \<open>Messages\<close>

definition Reaction_content :: "'j json_lib \<Rightarrow> ('j, Reaction) content_type" where
  "Reaction_content J = plain_content (Reaction_from_json J) (Reaction_to_json J)
     \<lparr>rc_relations = no_relations\<rparr>"

definition Text_content :: "'j json_lib \<Rightarrow> ('j, Text) content_type" where
  "Text_content J = plain_content (Text_from_json J) (Text_to_json J)
     empty_FormattedMessage"

definition Notice_content :: "'j json_lib \<Rightarrow> ('j, Notice) content_type" where
  "Notice_content J = plain_content (Notice_from_json J) (Notice_to_json J)
     empty_FormattedMessage"

definition Emote_content :: "'j json_lib \<Rightarrow> ('j, Emote) content_type" where
  "Emote_content J = plain_content (Emote_from_json J) (Emote_to_json J)
     empty_FormattedMessage"

definition ElementEffect_content :: "'j json_lib \<Rightarrow> ('j, ElementEffect) content_type" where
  "ElementEffect_content J = plain_content (ElementEffect_from_json J) (ElementEffect_to_json J)
     empty_FormattedMessage"

definition Audio_content :: "'j json_lib \<Rightarrow> ('j, Audio) content_type" where
  "Audio_content J = plain_content (Audio_from_json J) (Audio_to_json J)
     (empty_MediaMessage empty_AudioInfo)"

definition Video_content :: "'j json_lib \<Rightarrow> ('j, Video) content_type" where
  "Video_content J = plain_content (Video_from_json J) (Video_to_json J)
     (empty_MediaMessage empty_VideoInfo)"

definition Image_content :: "'j json_lib \<Rightarrow> ('j, Image) content_type" where
  "Image_content J = plain_content (Image_from_json J) (Image_to_json J)
     (empty_MediaMessage empty_ImageInfo)"

definition File_content :: "'j json_lib \<Rightarrow> ('j, File) content_type" where
  "File_content J = plain_content (File_from_json J) (File_to_json J)
     \<lparr>fl_body = [], fl_filename = [], fl_msgtype = [], fl_url = [], fl_info = empty_FileInfo, fl_file =
     None, fl_relations = no_relations, fl_mentions = None\<rparr>"

definition StickerImage_content :: "'j json_lib \<Rightarrow> ('j, StickerImage) content_type" where
  "StickerImage_content J = plain_content (StickerImage_from_json J) (StickerImage_to_json J)
     \<lparr>si_body = [], si_url = [], si_info = empty_ImageInfo, si_file = None, si_relations = no_relations,
     si_mentions = None\<rparr>"

definition Location_content :: "'j json_lib \<Rightarrow> ('j, Location) content_type" where
  "Location_content J = plain_content (Location_from_json J) (Location_to_json J)
     \<lparr>lo_body = [], lo_msgtype = [], lo_geo_uri = [], lo_info = empty_LocationInfo, lo_relations =
     no_relations, lo_mentions = None\<rparr>"

definition UnknownMessage_content :: "'j json_lib \<Rightarrow> ('j, UnknownMessage) content_type" where
  "UnknownMessage_content J = plain_content (UnknownMessage_from_json J) (UnknownMessage_to_json J)
     \<lparr>um_body = [], um_msgtype = [], um_relations = no_relations, um_content = [], um_mentions =
     None\<rparr>"

section \<open>Key verification\<close>

definition KeyVerificationRequest_content :: "'j json_lib \<Rightarrow> ('j, KeyVerificationRequest) content_type" where
  "KeyVerificationRequest_content J = plain_content (KeyVerificationRequest_from_json J) (\<lambda>c. Inr (KeyVerificationRequest_to_json J c))
     \<lparr>kq_body = None, kq_from_device = [], kq_to = None, kq_transaction_id = None, kq_msgtype = None,
     kq_methods = [], kq_timestamp = None\<rparr>"

definition KeyVerificationStart_content :: "'j json_lib \<Rightarrow> ('j, KeyVerificationStart) content_type" where
  "KeyVerificationStart_content J = plain_content (KeyVerificationStart_from_json J) (KeyVerificationStart_to_json J)
     \<lparr>ks_from_device = [], ks_transaction_id = None, ks_method = SASv1, ks_next_method = None,
     ks_key_agreement_protocols = [], ks_hashes = [], ks_message_authentication_codes = [],
     ks_short_authentication_string = [], ks_relations = no_relations\<rparr>"

definition KeyVerificationReady_content :: "'j json_lib \<Rightarrow> ('j, KeyVerificationReady) content_type" where
  "KeyVerificationReady_content J = plain_content (KeyVerificationReady_from_json J) (KeyVerificationReady_to_json J)
     \<lparr>ky_from_device = [], ky_transaction_id = None, ky_methods = [], ky_relations =
     no_relations\<rparr>"

definition KeyVerificationDone_content :: "'j json_lib \<Rightarrow> ('j, KeyVerificationDone) content_type" where
  "KeyVerificationDone_content J = plain_content (KeyVerificationDone_from_json J) (KeyVerificationDone_to_json J)
     \<lparr>kd_transaction_id = None, kd_relations = no_relations\<rparr>"

definition KeyVerificationAccept_content :: "'j json_lib \<Rightarrow> ('j, KeyVerificationAccept) content_type" where
  "KeyVerificationAccept_content J = plain_content (KeyVerificationAccept_from_json J) (KeyVerificationAccept_to_json J)
     \<lparr>ka_transaction_id = None, ka_method = SASv1, ka_key_agreement_protocol = [], ka_hash = [],
     ka_message_authentication_code = [], ka_short_authentication_string = [], ka_commitment = [], ka_relations
     = no_relations\<rparr>"

definition KeyVerificationCancel_content :: "'j json_lib \<Rightarrow> ('j, KeyVerificationCancel) content_type" where
  "KeyVerificationCancel_content J = plain_content (KeyVerificationCancel_from_json J) (KeyVerificationCancel_to_json J)
     \<lparr>kc_transaction_id = None, kc_reason = [], kc_code = [], kc_relations = no_relations\<rparr>"

definition KeyVerificationKey_content :: "'j json_lib \<Rightarrow> ('j, KeyVerificationKey) content_type" where
  "KeyVerificationKey_content J = plain_content (KeyVerificationKey_from_json J) (KeyVerificationKey_to_json J)
     \<lparr>kk_transaction_id = None, kk_key = [], kk_relations = no_relations\<rparr>"

definition KeyVerificationMac_content :: "'j json_lib \<Rightarrow> ('j, KeyVerificationMac) content_type" where
  "KeyVerificationMac_content J = plain_content (KeyVerificationMac_from_json J) (KeyVerificationMac_to_json J)
     empty_KeyVerificationMac"

section \<open>Calls\<close>

definition CallInvite_content :: "'j json_lib \<Rightarrow> ('j, CallInvite) content_type" where
  "CallInvite_content J = plain_content (CallInvite_from_json J) (\<lambda>c. Inr (CallInvite_to_json J c))
     \<lparr>ci_call_id = [], ci_party_id = [], ci_offer = empty_description, ci_version = [], ci_lifetime =
     90000, ci_invitee = []\<rparr>"

definition CallCandidates_content :: "'j json_lib \<Rightarrow> ('j, CallCandidates) content_type" where
  "CallCandidates_content J = plain_content (CallCandidates_from_json J) (\<lambda>c. Inr (CallCandidates_to_json J c))
     \<lparr>cc_call_id = [], cc_party_id = [], cc_candidates = [], cc_version = []\<rparr>"

definition CallAnswer_content :: "'j json_lib \<Rightarrow> ('j, CallAnswer) content_type" where
  "CallAnswer_content J = plain_content (CallAnswer_from_json J) (\<lambda>c. Inr (CallAnswer_to_json J c))
     \<lparr>can_call_id = [], can_party_id = [], can_version = [], can_answer = empty_description\<rparr>"

definition CallHangUp_content :: "'j json_lib \<Rightarrow> ('j, CallHangUp) content_type" where
  "CallHangUp_content J = plain_content (CallHangUp_from_json J) (\<lambda>c. Inr (CallHangUp_to_json J c))
     \<lparr>ch_call_id = [], ch_party_id = [], ch_version = [], ch_reason = UserHangUp\<rparr>"

definition CallSelectAnswer_content :: "'j json_lib \<Rightarrow> ('j, CallSelectAnswer) content_type" where
  "CallSelectAnswer_content J = plain_content (CallSelectAnswer_from_json J) (\<lambda>c. Inr (CallSelectAnswer_to_json J c))
     \<lparr>cs_call_id = [], cs_party_id = [], cs_version = [], cs_selected_party_id = []\<rparr>"

definition CallReject_content :: "'j json_lib \<Rightarrow> ('j, CallReject) content_type" where
  "CallReject_content J = plain_content (CallReject_from_json J) (\<lambda>c. Inr (CallReject_to_json J c))
     \<lparr>cr_call_id = [], cr_party_id = [], cr_version = []\<rparr>"

definition CallNegotiate_content :: "'j json_lib \<Rightarrow> ('j, CallNegotiate) content_type" where
  "CallNegotiate_content J = plain_content (CallNegotiate_from_json J) (\<lambda>c. Inr (CallNegotiate_to_json J c))
     \<lparr>cn_call_id = [], cn_party_id = [], cn_lifetime = 90000, cn_description = empty_description\<rparr>"

section \<open>Messages between devices\<close>

definition OlmEncrypted_content :: "'j json_lib \<Rightarrow> ('j, OlmEncrypted) content_type" where
  "OlmEncrypted_content J = plain_content (OlmEncrypted_from_json J) (\<lambda>c. Inr (OlmEncrypted_to_json J c))
     \<lparr>oe_algorithm = [], oe_sender_key = [], oe_ciphertext = []\<rparr>"

definition Dummy_content :: "'j json_lib \<Rightarrow> ('j, unit) content_type" where
  "Dummy_content J = plain_content (Dummy_from_json J) (\<lambda>c. Inr (Dummy_to_json J c))
     ()"

definition RoomKey_content :: "'j json_lib \<Rightarrow> ('j, RoomKey) content_type" where
  "RoomKey_content J = plain_content (RoomKey_from_json J) (\<lambda>c. Inr (RoomKey_to_json J c))
     \<lparr>rk_algorithm = [], rk_room_id = [], rk_session_id = [], rk_session_key = []\<rparr>"

definition ForwardedRoomKey_content :: "'j json_lib \<Rightarrow> ('j, ForwardedRoomKey) content_type" where
  "ForwardedRoomKey_content J = plain_content (ForwardedRoomKey_from_json J) (\<lambda>c. Inr (ForwardedRoomKey_to_json J c))
     \<lparr>fk_algorithm = [], fk_room_id = [], fk_session_id = [], fk_session_key = [], fk_sender_key = [],
     fk_sender_claimed_ed25519_key = [], fk_forwarding_curve25519_key_chain = []\<rparr>"

definition KeyRequest_content :: "'j json_lib \<Rightarrow> ('j, KeyRequest) content_type" where
  "KeyRequest_content J = plain_content (KeyRequest_from_json J) (\<lambda>c. Inr (KeyRequest_to_json J c))
     \<lparr>kr_action = Request, kr_algorithm = [], kr_room_id = [], kr_sender_key = [], kr_session_id = [],
     kr_request_id = [], kr_requesting_device_id = []\<rparr>"

definition SecretRequest_content :: "'j json_lib \<Rightarrow> ('j, SecretRequest) content_type" where
  "SecretRequest_content J = plain_content (SecretRequest_from_json J) (SecretRequest_to_json J)
     \<lparr>sr_action = Request, sr_name = [], sr_request_id = [], sr_requesting_device_id = []\<rparr>"

definition SecretSend_content :: "'j json_lib \<Rightarrow> ('j, SecretSend) content_type" where
  "SecretSend_content J = plain_content (SecretSend_from_json J) (\<lambda>c. Inr (SecretSend_to_json J c))
     \<lparr>ss_secret = [], ss_request_id = []\<rparr>"

section \<open>Account data and ephemeral events\<close>

definition Direct_content :: "'j json_lib \<Rightarrow> ('j, Direct) content_type" where
  "Direct_content J = plain_content (Direct_from_json J) (\<lambda>c. Inr (Direct_to_json J c))
     \<lparr>dr_user_to_rooms = []\<rparr>"

definition Tags_content :: "'j json_lib \<Rightarrow> ('j, Tags) content_type" where
  "Tags_content J = plain_content (Tags_from_json J) (\<lambda>c. Inr (Tags_to_json J c))
     \<lparr>tg_tags = []\<rparr>"

definition FullyRead_content :: "'j json_lib \<Rightarrow> ('j, FullyRead) content_type" where
  "FullyRead_content J = plain_content (FullyRead_from_json J) (\<lambda>c. Inr (FullyRead_to_json J c))
     \<lparr>fr_event_id = []\<rparr>"

definition IgnoredUsers_content :: "'j json_lib \<Rightarrow> ('j, IgnoredUsers) content_type" where
  "IgnoredUsers_content J = plain_content (IgnoredUsers_from_json J) (\<lambda>c. Inr (IgnoredUsers_to_json J c))
     \<lparr>iu_users = []\<rparr>"

definition GlobalRuleset_content :: "'j json_lib \<Rightarrow> ('j, Ruleset) content_type" where
  "GlobalRuleset_content J = plain_content (GlobalRuleset_from_json J) (\<lambda>c. Inr (GlobalRuleset_to_json J c))
     empty_Ruleset"

definition HiddenEvents_content :: "'j json_lib \<Rightarrow> ('j, HiddenEvents) content_type" where
  "HiddenEvents_content J = plain_content (HiddenEvents_from_json J) (\<lambda>c. Inr (HiddenEvents_to_json J c))
     \<lparr>hd_hidden_event_types = None\<rparr>"

definition EventExpiry_content :: "'j json_lib \<Rightarrow> ('j, EventExpiry) content_type" where
  "EventExpiry_content J = plain_content (EventExpiry_from_json J) (\<lambda>c. Inr (EventExpiry_to_json J c))
     \<lparr>ex_exclude_state_events = False, ex_expire_after_ms = 0, ex_protect_latest = 0, ex_keep_only_latest
     = 0\<rparr>"

definition InvitePermissions_content :: "'j json_lib \<Rightarrow> ('j, InvitePermissions) content_type" where
  "InvitePermissions_content J = plain_content (InvitePermissions_from_json J) (InvitePermissions_to_json J)
     \<lparr>ip_default = [], ip_server_allow = [], ip_server_deny = [], ip_room_allow = [], ip_room_deny = [],
     ip_user_allow = [], ip_user_deny = []\<rparr>"

definition ImagePackRooms_content :: "'j json_lib \<Rightarrow> ('j, ImagePackRooms) content_type" where
  "ImagePackRooms_content J = plain_content (ImagePackRooms_from_json J) (ImagePackRooms_to_json J)
     \<lparr>pr_rooms = []\<rparr>"

definition Typing_content :: "'j json_lib \<Rightarrow> ('j, Typing) content_type" where
  "Typing_content J = plain_content (Typing_from_json J) (\<lambda>c. Inr (Typing_to_json J c))
     \<lparr>ty_user_ids = []\<rparr>"

definition Receipt_content :: "'j json_lib \<Rightarrow> ('j, Receipt) content_type" where
  "Receipt_content J = plain_content (Receipt_from_json J) (\<lambda>c. Inr (Receipt_to_json J c))
     \<lparr>rp_receipts = []\<rparr>"

end
