(* ===== verification/Message_Props.thy ===== *)
theory Message_Props
  imports Messages
begin

text \<open>
  What message contents have in common, as a locale, and what follows from it once: a content that is no
  edit is read back from what is written, and an edit is written with its whole content inside
  \<open>m.new_content\<close>. The locale is interpreted for the nine kinds of messages.
\<close>

section \<open>Relations that are read back\<close>

definition plain_reply :: "Relation \<Rightarrow> bool \<Rightarrow> bool" where
  "plain_reply r fb \<longleftrightarrow> r = empty_Relation\<lparr>rel_type := Rel_InReplyTo, rel_event_id := rel_event_id r, is_fallback := fb\<rparr>"

definition standard_form :: "Relation list \<Rightarrow> bool" where
  "standard_form rs = (case rs of
      [r] \<Rightarrow> rel_type r \<noteq> Rel_InReplyTo \<or> plain_reply r False
    | [t, r] \<Rightarrow> rel_type t = Rel_Thread \<and> plain_reply r (is_fallback r)
    | _ \<Rightarrow> False)"

definition rels_readable :: "Relations \<Rightarrow> bool" where
  "rels_readable rels \<longleftrightarrow>
     (if synthesized rels then standard_form (relations rels)
      else \<forall>r \<in> set (relations rels). rel_type r \<noteq> Rel_Unsupported)"

definition no_edit :: "Relations \<Rightarrow> bool" where
  "no_edit rels \<longleftrightarrow> (\<forall>r \<in> set (relations rels). rel_type r \<noteq> Rel_Replace)"

definition relation_key :: "string \<Rightarrow> bool" where
  "relation_key k \<longleftrightarrow> k = ''m.relates_to'' \<or> k = ''m.new_content'' \<or> k = ''im.nheko.relations.v1.relations''"

lemma relation_keys [simp]:
  "relation_key ''m.relates_to''" "relation_key ''m.new_content''" "relation_key nheko_relations"
  "\<not> relation_key ''body''" "\<not> relation_key ''formatted_body''" "\<not> relation_key ''msgtype''"
  "\<not> relation_key ''format''" "\<not> relation_key ''m.mentions''" "\<not> relation_key ''url''" "\<not> relation_key ''file''"
  "\<not> relation_key ''info''" "\<not> relation_key ''filename''" "\<not> relation_key ''geo_uri''"
  by (simp_all add: relation_key_def nheko_relations_def)

lemma no_edit_replaces: "no_edit rels \<Longrightarrow> replaces rels True = None"
  by (auto simp: no_edit_def replaces_def return_first_relation_matching_def find_None_iff)

context json_library
begin

lemma push_other:
  "jtype_of J c = JObject \<Longrightarrow> k \<noteq> nheko_relations \<Longrightarrow>
   jtype_of J (foldl (push_relation J) c rs) = JObject \<and> jfields J (foldl (push_relation J) c rs) k = jfields J c k"
proof (induction rs arbitrary: c)
  case (Cons r rs)
  then have "jtype_of J (push_relation J c r) = JObject" "jfields J (push_relation J c r) k = jfields J c k"
    by (simp_all add: push_relation_def object_or_null)
  then show ?case using Cons.IH [of "push_relation J c r"] Cons.prems(2) by simp
qed simp

lemma add_relations_other:
  assumes "jtype_of J c = JObject"
  shows "jtype_of J (add_relations J c rels) = JObject
    \<and> (\<not> relation_key k \<longrightarrow> jfields J (add_relations J c rels) k = jfields J c k)"
proof -
  have "jtype_of J (add_relates_to J c (relations rels)) = JObject" by (rule add_relates_to_object [OF assms])
  moreover have "\<not> relation_key k \<Longrightarrow> jfields J (add_relates_to J c (relations rels)) k = jfields J c k"
    using add_relates_to_other [OF assms] by (auto simp: relation_key_def)
  moreover have "\<not> relation_key k \<Longrightarrow> k \<noteq> nheko_relations" by auto
  moreover have "jtype_of J (foldl (push_relation J) (add_relates_to J c (relations rels)) (relations rels)) = JObject"
    using push_other [OF calculation(1), of "[]"] by (simp add: nheko_relations_def)
  ultimately show ?thesis using assms push_other by (auto simp: add_relations_def Let_def)
qed

lemma readable_roundtrip:
  assumes "jtype_of J c = JObject" and "\<forall>k. relation_key k \<longrightarrow> jfields J c k = None" and "rels_readable rels"
  shows "parse_relations J (add_relations J c rels) = Inr rels"
proof -
  have n: "jfields J c nheko_relations = None" "jfields J c ''m.new_content'' = None" "jfields J c ''m.relates_to'' = None"
    using assms(2) relation_keys by blast+
  show ?thesis
  proof (cases "synthesized rels")
    case True
    then have sf: "standard_form (relations rels)" using assms(3) by (simp add: rels_readable_def)
    obtain rs where rels: "rels = \<lparr>relations = rs, synthesized = True\<rparr>" using True by (cases rels) simp
    consider (one) r where "rs = [r]" "rel_type r \<noteq> Rel_InReplyTo"
      | (reply) r where "rs = [r]" "plain_reply r False"
      | (two) t r where "rs = [t, r]" "rel_type t = Rel_Thread" "plain_reply r (is_fallback r)"
      using sf by (auto simp: rels standard_form_def split: list.splits)
    then show ?thesis
    proof cases
      case one
      then show ?thesis using relates_one [OF assms(1) n(1,2)] by (simp add: rels)
    next
      case reply
      then have "r = empty_Relation\<lparr>rel_type := Rel_InReplyTo, rel_event_id := rel_event_id r\<rparr>"
        by (simp add: plain_reply_def empty_Relation_def)
      then show ?thesis using relates_reply [OF assms(1) n(1,3), of "rel_event_id r"] reply(1) by (metis rels)
    next
      case two
      then show ?thesis using relates_thread [where e = "rel_event_id r" and fb = "is_fallback r", OF assms(1) n(1) two(2)]
        unfolding rels plain_reply_def by metis
    qed
  next
    case False
    show ?thesis
    proof (cases "relations rels = []")
      case True
      then show ?thesis using False n by (cases rels) (simp add: add_relations_def parse_relations_def contains_fields nheko_relations_def)
    qed (use relations_roundtrip [OF assms(1) n(1) False] assms(3) False in \<open>simp add: rels_readable_def\<close>)
  qed
qed

lemma plain_relations_written:
  assumes "jtype_of J c = JObject" and "\<forall>k. relation_key k \<longrightarrow> jfields J c k = None"
    and "rels_readable rels" and "no_edit rels"
  obtains d where "apply_relations J c rels = Inr d" and "jtype_of J d = JObject"
    and "parse_relations J d = Inr rels" and "\<And>k. \<not> relation_key k \<Longrightarrow> jfields J d k = jfields J c k"
    and "jfields J d ''m.new_content'' = None"
proof -
  have "apply_relations J c rels = Inr (add_relations J c rels)"
    using no_edit_replaces [OF assms(4)] by (simp add: apply_relations_def Let_def)
  moreover have "jfields J (add_relations J c rels) ''m.new_content'' = None"
  proof -
    have "last_matching (\<lambda>r. rel_type r = Rel_Replace) (relations rels) = None"
    proof -
      have "foldl (\<lambda>acc r. if rel_type r = Rel_Replace then Some r else acc) None rs = None"
        if "\<forall>r \<in> set rs. rel_type r \<noteq> Rel_Replace" for rs using that by (induction rs) auto
      then show ?thesis using assms(4) by (simp add: last_matching_def no_edit_def)
    qed
    then have a: "jfields J (add_relates_to J c (relations rels)) ''m.new_content'' = None"
      using assms(1,2) by (simp add: add_relates_to_def jset_opt_def object_or_null Let_def split: option.split)
    have "jtype_of J (add_relates_to J c (relations rels)) = JObject" by (rule add_relates_to_object [OF assms(1)])
    from push_other [OF this] show ?thesis using a assms(2) by (simp add: add_relations_def nheko_relations_def Let_def)
  qed
  ultimately show ?thesis
    using that add_relations_other [OF assms(1), of rels] readable_roundtrip [OF assms(1-3)] by blast
qed

end

section \<open>Contents with relations\<close>

text \<open>
  A content with relations is an object whose other fields do not clash with those of relations, and its
  reader looks at the fields only.
\<close>

locale related_json = json_library J for J :: "'j json_lib" +
  fixes base :: "'m \<Rightarrow> 'j" and reader :: "'j \<Rightarrow> 'm result" and rels :: "'m \<Rightarrow> Relations" and ok :: "'m \<Rightarrow> bool"
  assumes base_object: "ok m \<Longrightarrow> jtype_of J (base m) = JObject"
    and base_plain: "relation_key k \<Longrightarrow> jfields J (base m) k = None"
    and reader_fields: "ok m \<Longrightarrow> jtype_of J d = JObject \<Longrightarrow> (\<And>k. \<not> relation_key k \<Longrightarrow> jfields J d k = jfields J (base m) k)
      \<Longrightarrow> parse_relations J d = Inr (rels m) \<Longrightarrow> reader d = Inr m"
begin

lemma content_roundtrip:
  assumes "ok m" and "rels_readable (rels m)" and "no_edit (rels m)"
  obtains d where "apply_relations J (base m) (rels m) = Inr d" and "jtype_of J d = JObject"
    and "jfields J d ''m.new_content'' = None" and "reader d = Inr m"
    and "\<And>k. \<not> relation_key k \<Longrightarrow> jfields J d k = jfields J (base m) k"
proof -
  obtain d where d: "apply_relations J (base m) (rels m) = Inr d" "jtype_of J d = JObject"
      "parse_relations J d = Inr (rels m)" "\<And>k. \<not> relation_key k \<Longrightarrow> jfields J d k = jfields J (base m) k"
      "jfields J d ''m.new_content'' = None"
    using plain_relations_written [OF base_object [OF assms(1)] _ assms(2,3)] base_plain by blast
  then show ?thesis using that reader_fields [OF assms(1) d(2,4,3)] by blast
qed

end

section \<open>Messages in general\<close>

text \<open>A message has a body, and maybe a formatted one, which an edit prefixes with a star.\<close>

locale message_json = related_json J base reader rels ok
  for J :: "'j json_lib" and base :: "'m \<Rightarrow> 'j" and reader rels ok +
  assumes base_body: "\<exists>b. jfields J (base m) ''body'' = Some (jstring J b)"
    and base_formatted: "\<exists>f. jfields J (base m) ''formatted_body'' = None \<or> jfields J (base m) ''formatted_body'' = Some (jstring J f)"
begin

text \<open>An edit: the new content with the relation of the event is the whole message.\<close>

lemma edit_roundtrip:
  assumes "ok m" and "rels m = \<lparr>relations = [r], synthesized = True\<rparr>" and "rel_type r = Rel_Replace"
  obtains d n where "apply_relations J (base m) (rels m) = Inr d" and "jtype_of J d = JObject"
    and "jfields J d ''m.new_content'' = Some n" and "jtype_of J n = JObject" and "jfields J n = jfields J (base m)"
    and "jfields J d ''m.relates_to'' = Some (Relation_to_json J r)" and "jfields J d nheko_relations = None"
    and "reader (jset J n ''m.relates_to'' (Relation_to_json J r)) = Inr m"
proof -
  have plain: "jfields J (base m) nheko_relations = None" "jfields J (base m) ''m.new_content'' = None"
    "jfields J (base m) ''m.relates_to'' = None" using base_plain relation_keys by blast+
  obtain b f where "jfields J (base m) ''body'' = Some (jstring J b)"
      "jfields J (base m) ''formatted_body'' = None \<or> jfields J (base m) ''formatted_body'' = Some (jstring J f)"
    using base_body base_formatted by blast
  from apply_edit_written [OF base_object [OF assms(1)] plain this assms(3)] obtain d n where
    d: "apply_relations J (base m) (rels m) = Inr d" "jtype_of J d = JObject"
      "jfields J d ''m.new_content'' = Some n" "jtype_of J n = JObject" "jfields J n = jfields J (base m)"
      "jfields J d ''m.relates_to'' = Some (Relation_to_json J r)" "jfields J d nheko_relations = None"
    unfolding assms(2) by blast
  let ?n = "jset J n ''m.relates_to'' (Relation_to_json J r)"
  have f: "jfields J ?n = (jfields J (base m))(''m.relates_to'' \<mapsto> Relation_to_json J r)"
    using d(4,5) by (simp add: object_or_null)
  have "parse_relations J ?n = Inr (rels m)"
    using plain assms(3) by (simp add: parse_relations_def parse_relates_to_def contains_fields at_fields' f
        nheko_relations_def Relation_fields Relation_roundtrip assms(2) Let_def)
  moreover have "jfields J ?n k = jfields J (base m) k" if "\<not> relation_key k" for k
    using that by (auto simp: f)
  ultimately show ?thesis using that d reader_fields [OF assms(1), of ?n] by (simp add: object_or_null)
qed

end

section \<open>The messages\<close>

definition formatted_ok :: "string \<Rightarrow> FormattedMessage \<Rightarrow> bool" where
  "formatted_ok msgtype m \<longleftrightarrow> fm_msgtype m = msgtype
     \<and> fm_format m = (if fm_formatted_body m = [] then [] else FORMAT_MSG_TYPE)"

text \<open>The URL is not written beside an encrypted file.\<close>

definition media_ok :: "string \<Rightarrow> ('i \<Rightarrow> bool) \<Rightarrow> 'i MediaMessage \<Rightarrow> bool" where
  "media_ok msgtype info m \<longleftrightarrow> mm_msgtype m = msgtype \<and> info (mm_info m) \<and> file_ok (mm_file m)
     \<and> (mm_file m \<noteq> None \<longrightarrow> mm_url m = [])"

definition File_ok :: "File \<Rightarrow> bool" where
  "File_ok m \<longleftrightarrow> fl_msgtype m = ''m.file'' \<and> FileInfo_ok (fl_info m) \<and> file_ok (fl_file m)
     \<and> (fl_file m \<noteq> None \<longrightarrow> fl_url m = [])"

definition StickerImage_ok :: "StickerImage \<Rightarrow> bool" where
  "StickerImage_ok m \<longleftrightarrow> ImageInfo_ok (si_info m) \<and> file_ok (si_file m) \<and> (si_file m \<noteq> None \<longrightarrow> si_url m = [])"

definition Location_ok :: "Location \<Rightarrow> bool" where
  "Location_ok m \<longleftrightarrow> lo_msgtype m = ''m.location'' \<and> LocationInfo_ok (lo_info m) \<and> lo_mentions m = None"

context json_library
begin

lemma mentions_fields:
  "is_object_or_null J c \<Longrightarrow> jfields J (add_mentions J c m) =
     (case m of None \<Rightarrow> jfields J c | Some x \<Rightarrow> (jfields J c)(''m.mentions'' \<mapsto> Mentions_to_json J x))"
  by (simp add: add_mentions_def jset_opt_def split: option.split)

lemma mentions_object: "jtype_of J c = JObject \<Longrightarrow> jtype_of J (add_mentions J c m) = JObject"
  by (simp add: add_mentions_def)

lemma mentions_read:
  "jfields J d ''m.mentions'' = map_option (Mentions_to_json J) m \<Longrightarrow> parse_mentions J d = Inr m"
  by (cases m) (simp_all add: parse_mentions_def opt_fields Mentions_roundtrip)

lemma file_read:
  "jfields J d ''file'' = map_option (EncryptedFile_to_json J) f \<Longrightarrow> file_ok f \<Longrightarrow>
   jfind_opt J (EncryptedFile_from_json J) d ''file'' = Inr f"
  by (cases f) (simp_all add: find_opt_fields EncryptedFile_opt)

lemma media_fields_object: "jtype_of J c = JObject \<Longrightarrow> jtype_of J (media_fields J c u f m) = JObject"
  by (simp add: media_fields_def mentions_object object_or_null split: option.split)

lemma media_fields_fields:
  "jtype_of J c = JObject \<Longrightarrow> jfields J (media_fields J c u f m) =
    (let j = (case f of Some x \<Rightarrow> (jfields J c)(''file'' \<mapsto> EncryptedFile_to_json J x)
              | None \<Rightarrow> (jfields J c)(''url'' \<mapsto> jstring J u))
     in case m of None \<Rightarrow> j | Some x \<Rightarrow> j(''m.mentions'' \<mapsto> Mentions_to_json J x))"
  by (simp add: media_fields_def mentions_fields object_or_null Let_def split: option.split)

lemma not_relation_key: "relation_key k \<Longrightarrow> k \<noteq> ''body'' \<and> k \<noteq> ''formatted_body'' \<and> k \<noteq> ''msgtype'' \<and> k \<noteq> ''format''
    \<and> k \<noteq> ''m.mentions'' \<and> k \<noteq> ''url'' \<and> k \<noteq> ''file'' \<and> k \<noteq> ''info'' \<and> k \<noteq> ''filename'' \<and> k \<noteq> ''geo_uri''"
  using relation_keys by blast

lemmas content_simps = media_fields_object media_fields_fields mentions_fields mentions_object
  reads object_or_null Let_def

lemma formatted_message: "message_json J (formatted_base J ty) (Text_from_json J) fm_relations (formatted_ok ty)"
proof unfold_locales
  fix m :: FormattedMessage and k d
  show "jtype_of J (formatted_base J ty m) = JObject" by (simp add: formatted_base_def content_simps)
  have f: "jfields J (formatted_base J ty m) = (\<lambda>k. if k = ''m.mentions'' then map_option (Mentions_to_json J) (fm_mentions m)
      else if k = ''body'' then Some (jstring J (fm_body m)) else if k = ''msgtype'' then Some (jstring J ty)
      else if k = ''format'' \<and> fm_formatted_body m \<noteq> [] then Some (jstring J FORMAT_MSG_TYPE)
      else if k = ''formatted_body'' \<and> fm_formatted_body m \<noteq> [] then Some (jstring J (fm_formatted_body m)) else None)"
    by (simp add: formatted_base_def content_simps fun_eq_iff split: option.split)
  show "relation_key k \<Longrightarrow> jfields J (formatted_base J ty m) k = None" using not_relation_key by (auto simp: f)
  show "\<exists>b. jfields J (formatted_base J ty m) ''body'' = Some (jstring J b)" by (auto simp: f)
  show "\<exists>g. jfields J (formatted_base J ty m) ''formatted_body'' = None \<or> jfields J (formatted_base J ty m) ''formatted_body'' = Some (jstring J g)"
    by (auto simp: f)
  assume "formatted_ok ty m" "jtype_of J d = JObject" "\<And>k. \<not> relation_key k \<Longrightarrow> jfields J d k = jfields J (formatted_base J ty m) k"
    and "parse_relations J d = Inr (fm_relations m)"
  then show "Text_from_json J d = Inr m"
    by (simp add: Text_from_json_def formatted_ok_def content_simps f mentions_read)
qed

lemmas formatted_related = message_json.axioms(1) [OF formatted_message]

lemma effect_message: "message_json J (\<lambda>m. formatted_base J (fm_msgtype m) m) (ElementEffect_from_json J) fm_relations
    (\<lambda>m. formatted_ok (fm_msgtype m) m)"
  unfolding ElementEffect_from_json_def
  by (unfold_locales; rule related_json.base_object [OF formatted_related] related_json.base_plain [OF formatted_related]
      related_json.reader_fields [OF formatted_related] message_json.base_body [OF formatted_message]
      message_json.base_formatted [OF formatted_message]; assumption)

text \<open>The fields of a media message, and what its reader needs of them.\<close>

lemma media_base_fields:
  "jfields J (media_base J ty w m) = (\<lambda>k.
     if k = ''m.mentions'' then map_option (Mentions_to_json J) (mm_mentions m)
     else if k = ''file'' then map_option (EncryptedFile_to_json J) (mm_file m)
     else if k = ''url'' \<and> mm_file m = None then Some (jstring J (mm_url m))
     else if k = ''info'' then Some (w (mm_info m)) else if k = ''body'' then Some (jstring J (mm_body m))
     else if k = ''msgtype'' then Some (jstring J ty) else None)"
  by (simp add: media_base_def content_simps fun_eq_iff split: option.split)

lemma media_message:
  assumes "\<And>m d. media_ok ty iok m \<Longrightarrow> jtype_of J d = JObject
      \<Longrightarrow> jfields J d ''body'' = Some (jstring J (mm_body m)) \<Longrightarrow> jfields J d ''msgtype'' = Some (jstring J ty)
      \<Longrightarrow> jfields J d ''url'' = (if mm_file m = None then Some (jstring J (mm_url m)) else None)
      \<Longrightarrow> jfields J d ''info'' = Some (w (mm_info m))
      \<Longrightarrow> jfind_opt J (EncryptedFile_from_json J) d ''file'' = Inr (mm_file m)
      \<Longrightarrow> parse_mentions J d = Inr (mm_mentions m) \<Longrightarrow> parse_relations J d = Inr (mm_relations m) \<Longrightarrow> rd d = Inr m"
  shows "message_json J (media_base J ty w) rd mm_relations (media_ok ty iok)"
proof unfold_locales
  fix m k d
  show "jtype_of J (media_base J ty w m) = JObject" by (simp add: media_base_def content_simps)
  show "relation_key k \<Longrightarrow> jfields J (media_base J ty w m) k = None"
    using not_relation_key by (auto simp: media_base_fields)
  show "\<exists>b. jfields J (media_base J ty w m) ''body'' = Some (jstring J b)" by (auto simp: media_base_fields)
  show "\<exists>g. jfields J (media_base J ty w m) ''formatted_body'' = None \<or> jfields J (media_base J ty w m) ''formatted_body'' = Some (jstring J g)"
    by (auto simp: media_base_fields)
  assume ok: "media_ok ty iok m" and d: "jtype_of J d = JObject"
    and f: "\<And>k. \<not> relation_key k \<Longrightarrow> jfields J d k = jfields J (media_base J ty w m) k"
    and r: "parse_relations J d = Inr (mm_relations m)"
  show "rd d = Inr m"
    using ok by (intro assms [OF ok d] file_read mentions_read) (simp_all add: f r media_base_fields media_ok_def)
qed

lemma Audio_message: "message_json J (media_base J ''m.audio'' (AudioInfo_to_json J)) (Audio_from_json J) mm_relations
    (media_ok ''m.audio'' AudioInfo_ok)"
  by (rule media_message) (auto simp: Audio_from_json_def media_ok_def AudioInfo_roundtrip content_simps)

lemma Video_message: "message_json J (media_base J ''m.video'' (VideoInfo_to_json J)) (Video_from_json J) mm_relations
    (media_ok ''m.video'' VideoInfo_ok)"
  by (rule media_message) (auto simp: Video_from_json_def media_ok_def VideoInfo_roundtrip content_simps)

lemma Image_message: "message_json J (media_base J ''m.image'' (ImageInfo_to_json J)) (Image_from_json J) mm_relations
    (media_ok ''m.image'' ImageInfo_ok)"
  by (rule media_message) (auto simp: Image_from_json_def media_ok_def ImageInfo_roundtrip content_simps)

lemma File_message: "message_json J (File_base J) (File_from_json J) fl_relations File_ok"
proof unfold_locales
  fix m k d
  have f: "jfields J (File_base J m) = (\<lambda>k.
     if k = ''m.mentions'' then map_option (Mentions_to_json J) (fl_mentions m)
     else if k = ''file'' then map_option (EncryptedFile_to_json J) (fl_file m)
     else if k = ''url'' \<and> fl_file m = None then Some (jstring J (fl_url m))
     else if k = ''filename'' \<and> fl_filename m \<noteq> [] then Some (jstring J (fl_filename m))
     else if k = ''info'' then Some (FileInfo_to_json J (fl_info m)) else if k = ''body'' then Some (jstring J (fl_body m))
     else if k = ''msgtype'' then Some (jstring J ''m.file'') else None)"
    by (simp add: File_base_def content_simps fun_eq_iff split: option.split)
  show "jtype_of J (File_base J m) = JObject" by (simp add: File_base_def content_simps)
  show "relation_key k \<Longrightarrow> jfields J (File_base J m) k = None" using not_relation_key by (auto simp: f)
  show "\<exists>b. jfields J (File_base J m) ''body'' = Some (jstring J b)" by (auto simp: f)
  show "\<exists>g. jfields J (File_base J m) ''formatted_body'' = None \<or> jfields J (File_base J m) ''formatted_body'' = Some (jstring J g)"
    by (auto simp: f)
  assume ok: "File_ok m" and d: "jtype_of J d = JObject"
    and fd: "\<And>k. \<not> relation_key k \<Longrightarrow> jfields J d k = jfields J (File_base J m) k"
    and r: "parse_relations J d = Inr (fl_relations m)"
  have "parse_mentions J d = Inr (fl_mentions m)" "jfind_opt J (EncryptedFile_from_json J) d ''file'' = Inr (fl_file m)"
    using ok by (auto intro!: mentions_read file_read simp: fd f File_ok_def)
  then show "File_from_json J d = Inr m"
    using ok d r by (simp add: File_from_json_def File_ok_def FileInfo_roundtrip content_simps fd f)
qed

lemma StickerImage_message: "message_json J (StickerImage_base J) (StickerImage_from_json J) si_relations StickerImage_ok"
proof unfold_locales
  fix m k d
  have f: "jfields J (StickerImage_base J m) = (\<lambda>k.
     if k = ''m.mentions'' then map_option (Mentions_to_json J) (si_mentions m)
     else if k = ''file'' then map_option (EncryptedFile_to_json J) (si_file m)
     else if k = ''url'' \<and> si_file m = None then Some (jstring J (si_url m))
     else if k = ''info'' then Some (ImageInfo_to_json J (si_info m)) else if k = ''body'' then Some (jstring J (si_body m))
     else None)"
    by (simp add: StickerImage_base_def content_simps fun_eq_iff split: option.split)
  show "jtype_of J (StickerImage_base J m) = JObject" by (simp add: StickerImage_base_def content_simps)
  show "relation_key k \<Longrightarrow> jfields J (StickerImage_base J m) k = None" using not_relation_key by (auto simp: f)
  show "\<exists>b. jfields J (StickerImage_base J m) ''body'' = Some (jstring J b)" by (auto simp: f)
  show "\<exists>g. jfields J (StickerImage_base J m) ''formatted_body'' = None \<or> jfields J (StickerImage_base J m) ''formatted_body'' = Some (jstring J g)"
    by (auto simp: f)
  assume ok: "StickerImage_ok m" and d: "jtype_of J d = JObject"
    and fd: "\<And>k. \<not> relation_key k \<Longrightarrow> jfields J d k = jfields J (StickerImage_base J m) k"
    and r: "parse_relations J d = Inr (si_relations m)"
  have "parse_mentions J d = Inr (si_mentions m)" "jfind_opt J (EncryptedFile_from_json J) d ''file'' = Inr (si_file m)"
    using ok by (auto intro!: mentions_read file_read simp: fd f StickerImage_ok_def)
  then show "StickerImage_from_json J d = Inr m"
    using ok d r by (simp add: StickerImage_from_json_def StickerImage_ok_def ImageInfo_roundtrip content_simps fd f)
qed

lemma Location_message: "message_json J (Location_base J) (Location_from_json J) lo_relations Location_ok"
proof unfold_locales
  fix m k d
  have f: "jfields J (Location_base J m) = (\<lambda>k.
     if k = ''info'' then Some (LocationInfo_to_json J (lo_info m)) else if k = ''geo_uri'' then Some (jstring J (lo_geo_uri m))
     else if k = ''body'' then Some (jstring J (lo_body m))
     else if k = ''msgtype'' then Some (jstring J ''m.location'') else None)"
    by (simp add: Location_base_def content_simps fun_eq_iff)
  show "jtype_of J (Location_base J m) = JObject" by (simp add: Location_base_def content_simps)
  show "relation_key k \<Longrightarrow> jfields J (Location_base J m) k = None" using not_relation_key by (auto simp: f)
  show "\<exists>b. jfields J (Location_base J m) ''body'' = Some (jstring J b)" by (auto simp: f)
  show "\<exists>g. jfields J (Location_base J m) ''formatted_body'' = None \<or> jfields J (Location_base J m) ''formatted_body'' = Some (jstring J g)"
    by (auto simp: f)
  assume "Location_ok m" "jtype_of J d = JObject" "\<And>k. \<not> relation_key k \<Longrightarrow> jfields J d k = jfields J (Location_base J m) k"
    and "parse_relations J d = Inr (lo_relations m)"
  then show "Location_from_json J d = Inr m"
    by (simp add: Location_from_json_def Location_ok_def LocationInfo_roundtrip content_simps f)
qed

end

interpretation tree_text: message_json tree_lib "formatted_base tree_lib ''m.text''" "Text_from_json tree_lib" fm_relations
    "formatted_ok ''m.text''"
  by (rule tree.formatted_message)

interpretation tree_image: message_json tree_lib "media_base tree_lib ''m.image'' (ImageInfo_to_json tree_lib)"
    "Image_from_json tree_lib" mm_relations "media_ok ''m.image'' ImageInfo_ok"
  by (rule tree.Image_message)

end
