(* ===== verification/Event_Props.thy ===== *)
theory Event_Props
  imports Events Message_Props
begin

text \<open>
  Round trips of event envelopes, for every content type that is read back from what it writes (the
  locale \<open>event_content\<close>): edits included, whose envelope restores the new content. And the limits on
  identifiers that every reader enforces.
\<close>

section \<open>Contents that are read back\<close>

locale event_content = json_library J for J :: "'j json_lib" +
  fixes C :: "('j, 'c) content_type" and ok :: "'c \<Rightarrow> bool"
  assumes content_written: "ok c \<Longrightarrow> \<exists>d. ct_to C c = Inr d \<and> content_from_json J C d = Inr c"
    and no_type_name: "ct_type_name C c = None" "ct_set_type C t c = c"

section \<open>Identifiers are at most 255 bytes long\<close>

lemma too_long_Inr [simp]: "too_long what s = Inr u \<longleftrightarrow> length s \<le> 255"
  by (simp add: too_long_def)

lemma too_long_ok [simp]: "length s \<le> 255 \<Longrightarrow> too_long what s = Inr ()"
  by (simp add: too_long_def)

lemma event_type_short [simp]: "length (event_type_to_string t) \<le> 255"
  by (cases t) simp_all

lemma Event_from_json_limits: "Event_from_json J C obj = Inr e \<Longrightarrow> length (ev_sender e) \<le> 255"
  by (auto simp: Event_from_json_def rbind_eq_Inr)

lemma RoomEvent_from_json_limits:
  assumes "RoomEvent_from_json J C obj = Inr e"
  shows "length (ev_sender e) \<le> 255 \<and> length (re_event_id e) \<le> 255 \<and> length (re_room_id e) \<le> 255"
  using assms by (auto simp: RoomEvent_from_json_def rbind_eq_Inr Event.defs RoomEvent.defs dest: Event_from_json_limits)

lemma StateEvent_from_json_limits:
  assumes "StateEvent_from_json J C obj = Inr e"
  shows "length (ev_sender e) \<le> 255 \<and> length (re_event_id e) \<le> 255 \<and> length (re_room_id e) \<le> 255 \<and> length (se_state_key e) \<le> 255"
  using assms
  by (auto simp: StateEvent_from_json_def rbind_eq_Inr RoomEvent.defs StateEvent.defs dest: RoomEvent_from_json_limits)

lemma StrippedEvent_from_json_limits:
  assumes "StrippedEvent_from_json J C obj = Inr e"
  shows "length (ev_sender e) \<le> 255 \<and> length (st_state_key e) \<le> 255"
  using assms
  by (auto simp: StrippedEvent_from_json_def rbind_eq_Inr Event.defs StrippedEvent.defs dest: Event_from_json_limits)

lemma DeviceEvent_from_json_limits:
  "DeviceEvent_from_json J C obj = Inr e \<Longrightarrow> ev_sender e \<noteq> [] \<and> length (ev_sender e) \<le> 255"
  by (auto simp: DeviceEvent_from_json_def rbind_eq_Inr split: if_splits dest: Event_from_json_limits)

section \<open>Round trips of the envelopes\<close>

definition event_ok :: "('c \<Rightarrow> bool) \<Rightarrow> ('c, 'z) Event_scheme \<Rightarrow> bool" where
  "event_ok ok e \<longleftrightarrow> ok (ev_content e) \<and> ev_type e \<noteq> Unsupported \<and> length (ev_sender e) \<le> 255"

definition unsigned_ok :: "UnsignedData \<Rightarrow> bool" where
  "unsigned_ok u \<longleftrightarrow> uint64_ok (un_age u)
     \<and> (case un_redacted_because u of None \<Rightarrow> True | Some e \<Rightarrow> event_ok (\<lambda>_. True) e)"

definition room_event_ok :: "('c \<Rightarrow> bool) \<Rightarrow> ('c, 'z) RoomEvent_scheme \<Rightarrow> bool" where
  "room_event_ok ok e \<longleftrightarrow> event_ok ok e \<and> unsigned_ok (re_unsigned_data e) \<and> uint64_ok (re_origin_server_ts e)
     \<and> length (re_event_id e) \<le> 255 \<and> length (re_room_id e) \<le> 255"

context event_content
begin

lemma Event_written:
  assumes "event_ok ok e"
  obtains j where "Event_to_json J C e = Inr j" and "jtype_of J j = JObject"
    and "\<And>k. k \<notin> {''content'', ''sender'', ''type''} \<Longrightarrow> jfields J j k = None"
    and "\<And>j'. jtype_of J j' = JObject \<Longrightarrow> (\<And>k. k \<in> {''content'', ''sender'', ''type''} \<Longrightarrow> jfields J j' k = jfields J j k)
      \<Longrightarrow> Event_from_json J C j' = Inr (Event.truncate e)"
proof -
  obtain d where d: "ct_to C (ev_content e) = Inr d" "content_from_json J C d = Inr (ev_content e)"
    using content_written assms unfolding event_ok_def by blast
  let ?j = "jset J (jset J (jset J (jnull J) ''content'' d) ''sender'' (jstring J (ev_sender e)))
    ''type'' (jstring J (event_type_to_string (ev_type e)))"
  have "Event_to_json J C e = Inr ?j" using d by (simp add: Event_to_json_def type_name_def no_type_name Let_def)
  moreover have "Event_from_json J C j' = Inr (Event.truncate e)" if "jtype_of J j' = JObject"
      and "\<And>k. k \<in> {''content'', ''sender'', ''type''} \<Longrightarrow> jfields J j' k = jfields J ?j k" for j'
    using that assms d by (simp add: Event_from_json_def at_as_fields value_fields event_ok_def getEventType_to_string
        no_type_name Event.defs)
  ultimately show ?thesis using that [of ?j] by simp
qed

lemma Event_roundtrip:
  assumes "event_ok ok e"
  obtains j where "Event_to_json J C e = Inr j" and "Event_from_json J C j = Inr (Event.truncate e)"
  using Event_written [OF assms] by metis

lemma EphemeralEvent_roundtrip:
  assumes "ok (ee_content e)" and "ee_type e \<noteq> Unsupported" and "length (ee_room_id e) \<le> 255"
    and "\<And>c d. ct_to C c = Inr d \<Longrightarrow> ok c \<Longrightarrow> ct_from C d = Inr c"
  obtains j where "EphemeralEvent_to_json J C e = Inr j" and "EphemeralEvent_from_json J C j = Inr e"
proof -
  obtain d where d: "ct_to C (ee_content e) = Inr d" using content_written assms(1) by blast
  have "ct_from C d = Inr (ee_content e)" by (rule assms(4) [OF d assms(1)])
  with d assms(2,3) that show ?thesis
    by (simp add: EphemeralEvent_to_json_def EphemeralEvent_from_json_def type_name_def no_type_name reads
        getEventType_to_string Let_def)
qed

end

context json_library
begin

text \<open>A content that is written as an object without \<open>m.new_content\<close> and read back.\<close>

lemma plain_event_content:
  assumes "\<And>c. ok c \<Longrightarrow> \<exists>d. wr c = Inr d \<and> jtype_of J d = JObject \<and> jfields J d ''m.new_content'' = None \<and> rd d = Inr c"
  shows "event_content J (plain_content rd wr d0) ok"
proof unfold_locales
  fix c assume "ok c"
  then obtain d where "wr c = Inr d" "jtype_of J d = JObject" "jfields J d ''m.new_content'' = None" "rd d = Inr c"
    using assms by blast
  then show "\<exists>d. ct_to (plain_content rd wr d0) c = Inr d \<and> content_from_json J (plain_content rd wr d0) d = Inr c"
    by (simp add: plain_content_def content_from_json_def contains_fields)
qed (simp_all add: plain_content_def)

lemma Redaction_event_content: "event_content J (Redaction_content J) (\<lambda>_. True)"
  unfolding Redaction_content_def
  by (rule plain_event_content) (simp add: Redaction_to_json_def Redaction_from_json_def reads)

lemma UnsignedData_roundtrip:
  assumes "unsigned_ok u"
  obtains v where "UnsignedData_to_json J u = Inr v" and "UnsignedData_from_json J v = Inr u"
proof (cases "un_redacted_because u")
  case None
  then show ?thesis using assms that
    by (cases u) (simp add: UnsignedData_to_json_def UnsignedData_from_json_def unsigned_ok_def uint64_ok_def opt_fields
        find_opt_fields Let_def)
next
  case (Some e)
  then have "event_ok (\<lambda>_. True) e" using assms by (simp add: unsigned_ok_def)
  from event_content.Event_roundtrip [OF Redaction_event_content this] obtain w where
    w: "Event_to_json J (Redaction_content J) e = Inr w" "Event_from_json J (Redaction_content J) w = Inr (Event.truncate e)"
    by blast
  have "Event.truncate e = e" by (simp add: Event.defs)
  then show ?thesis using assms Some w that
    by (cases u) (simp add: UnsignedData_to_json_def UnsignedData_from_json_def unsigned_ok_def uint64_ok_def opt_fields
        find_opt_fields Let_def)
qed

end

context event_content
begin

lemma RoomEvent_written:
  assumes "room_event_ok ok e"
  obtains j where "RoomEvent_to_json J C e = Inr j" and "jtype_of J j = JObject"
    and "\<And>j'. jtype_of J j' = JObject \<Longrightarrow> (\<And>k. k \<noteq> ''state_key'' \<Longrightarrow> k \<noteq> ''redacts'' \<Longrightarrow> jfields J j' k = jfields J j k)
      \<Longrightarrow> RoomEvent_from_json J C j' = Inr (RoomEvent.truncate e)"
proof -
  obtain i where i: "Event_to_json J C e = Inr i" "jtype_of J i = JObject"
      "\<And>k. k \<notin> {''content'', ''sender'', ''type''} \<Longrightarrow> jfields J i k = None"
      "\<And>j'. jtype_of J j' = JObject \<Longrightarrow> (\<And>k. k \<in> {''content'', ''sender'', ''type''} \<Longrightarrow> jfields J j' k = jfields J i k)
        \<Longrightarrow> Event_from_json J C j' = Inr (Event.truncate e)"
    using Event_written assms unfolding room_event_ok_def by blast
  obtain u where u: "UnsignedData_to_json J (re_unsigned_data e) = Inr u" "UnsignedData_from_json J u = Inr (re_unsigned_data e)"
    using UnsignedData_roundtrip assms unfolding room_event_ok_def by blast
  let ?j = "jset J (jset J (jset J (jset_if J (re_room_id e \<noteq> []) i ''room_id'' (jstring J (re_room_id e)))
    ''event_id'' (jstring J (re_event_id e))) ''unsigned'' u) ''origin_server_ts'' (jint J (re_origin_server_ts e))"
  have w: "RoomEvent_to_json J C e = Inr ?j" using i u by (simp add: RoomEvent_to_json_def Let_def)
  have o: "jtype_of J ?j = JObject" using i(2) by (simp add: object_or_null)
  have "RoomEvent_from_json J C j' = Inr (RoomEvent.truncate e)" if j': "jtype_of J j' = JObject"
      and f: "\<And>k. k \<noteq> ''state_key'' \<Longrightarrow> k \<noteq> ''redacts'' \<Longrightarrow> jfields J j' k = jfields J ?j k" for j'
  proof -
    have "Event_from_json J C j' = Inr (Event.truncate e)" using i(2) by (intro i(4) j') (auto simp: f object_or_null)
    then show ?thesis using assms i(2,3) j' u(2)
      by (simp add: RoomEvent_from_json_def room_event_ok_def at_as_fields opt_fields f object_or_null uint64_ok_def
          Event.defs RoomEvent.defs)
  qed
  with w o that show ?thesis by blast
qed

lemma RoomEvent_roundtrip:
  assumes "room_event_ok ok e"
  obtains j where "RoomEvent_to_json J C e = Inr j" and "RoomEvent_from_json J C j = Inr (RoomEvent.truncate e)"
  using RoomEvent_written [OF assms] by metis

lemma StateEvent_roundtrip:
  assumes "room_event_ok ok e" and "length (se_state_key e) \<le> 255"
  obtains j where "StateEvent_to_json J C e = Inr j" and "StateEvent_from_json J C j = Inr e"
proof -
  obtain i where i: "RoomEvent_to_json J C e = Inr i" "jtype_of J i = JObject"
      "\<And>j'. jtype_of J j' = JObject \<Longrightarrow> (\<And>k. k \<noteq> ''state_key'' \<Longrightarrow> k \<noteq> ''redacts'' \<Longrightarrow> jfields J j' k = jfields J i k)
        \<Longrightarrow> RoomEvent_from_json J C j' = Inr (RoomEvent.truncate e)"
    using RoomEvent_written [OF assms(1)] by metis
  let ?j = "jset J i ''state_key'' (jstring J (se_state_key e))"
  have "RoomEvent_from_json J C ?j = Inr (RoomEvent.truncate e)" using i(2) by (intro i(3)) (simp_all add: object_or_null)
  then have "StateEvent_from_json J C ?j = Inr e" using i(2) assms(2)
    by (cases e) (simp add: StateEvent_from_json_def at_as_fields object_or_null RoomEvent.defs StateEvent.defs)
  with i(1) that show ?thesis by (simp add: StateEvent_to_json_def)
qed

lemma RedactionEvent_roundtrip:
  assumes "room_event_ok ok e"
  obtains j where "RedactionEvent_to_json J C e = Inr j" and "RedactionEvent_from_json J C j = Inr e"
proof -
  obtain i where i: "RoomEvent_to_json J C e = Inr i" "jtype_of J i = JObject"
      "\<And>j'. jtype_of J j' = JObject \<Longrightarrow> (\<And>k. k \<noteq> ''state_key'' \<Longrightarrow> k \<noteq> ''redacts'' \<Longrightarrow> jfields J j' k = jfields J i k)
        \<Longrightarrow> RoomEvent_from_json J C j' = Inr (RoomEvent.truncate e)"
    using RoomEvent_written [OF assms(1)] by metis
  let ?j = "jset J i ''redacts'' (jstring J (rde_redacts e))"
  have "RoomEvent_from_json J C ?j = Inr (RoomEvent.truncate e)" using i(2) by (intro i(3)) (simp_all add: object_or_null)
  then have "RedactionEvent_from_json J C ?j = Inr e" using i(2)
    by (cases e) (simp add: RedactionEvent_from_json_def at_as_fields object_or_null RoomEvent.defs RedactionEvent.defs)
  with i(1) that show ?thesis by (simp add: RedactionEvent_to_json_def)
qed

lemma StrippedEvent_roundtrip:
  assumes "event_ok ok e" and "length (st_state_key e) \<le> 255"
  obtains j where "StrippedEvent_to_json J C e = Inr j" and "StrippedEvent_from_json J C j = Inr e"
proof -
  obtain i where i: "Event_to_json J C e = Inr i" "jtype_of J i = JObject"
      "\<And>j'. jtype_of J j' = JObject \<Longrightarrow> (\<And>k. k \<in> {''content'', ''sender'', ''type''} \<Longrightarrow> jfields J j' k = jfields J i k)
        \<Longrightarrow> Event_from_json J C j' = Inr (Event.truncate e)"
    using Event_written [OF assms(1)] by metis
  let ?j = "jset J i ''state_key'' (jstring J (st_state_key e))"
  have "Event_from_json J C ?j = Inr (Event.truncate e)" using i(2) by (intro i(3)) (auto simp: object_or_null)
  then have "StrippedEvent_from_json J C ?j = Inr e" using i(2) assms(2)
    by (cases e) (simp add: StrippedEvent_from_json_def at_as_fields object_or_null Event.defs StrippedEvent.defs)
  with i(1) that show ?thesis by (simp add: StrippedEvent_to_json_def)
qed

lemma DeviceEvent_roundtrip:
  assumes "event_ok ok e" and "ev_sender e \<noteq> []"
  obtains j where "DeviceEvent_to_json J C e = Inr j" and "DeviceEvent_from_json J C j = Inr (Event.truncate e)"
proof -
  obtain j where "Event_to_json J C e = Inr j" "Event_from_json J C j = Inr (Event.truncate e)"
    using Event_roundtrip [OF assms(1)] .
  moreover have "ev_sender (Event.truncate e) \<noteq> []" using assms(2) by (simp add: Event.defs)
  ultimately show ?thesis using that by (simp add: DeviceEvent_to_json_def DeviceEvent_from_json_def)
qed

end

section \<open>Messages in their envelope\<close>

text \<open>Written as an edit, a message is read back from the envelope, too: the new content counts.\<close>

definition single_edit :: "Relations \<Rightarrow> bool" where
  "single_edit rels \<longleftrightarrow> synthesized rels \<and> list_all (\<lambda>r. rel_type r = Rel_Replace) (relations rels) \<and> length (relations rels) = 1"

definition message_rels_ok :: "Relations \<Rightarrow> bool" where
  "message_rels_ok rels \<longleftrightarrow> rels_readable rels \<and> no_edit rels \<or> single_edit rels"

context related_json
begin

lemma related_event_content:
  "event_content J (plain_content reader (\<lambda>m. apply_relations J (base m) (rels m)) d0)
     (\<lambda>m. ok m \<and> rels_readable (rels m) \<and> no_edit (rels m))"
  using content_roundtrip by (intro plain_event_content) metis

end

context message_json
begin

lemma message_event_content:
  "event_content J (plain_content reader (\<lambda>m. apply_relations J (base m) (rels m)) d0) (\<lambda>m. ok m \<and> message_rels_ok (rels m))"
proof unfold_locales
  fix m assume m: "ok m \<and> message_rels_ok (rels m)"
  let ?C = "plain_content reader (\<lambda>m. apply_relations J (base m) (rels m)) d0"
  consider (plain) "rels_readable (rels m)" "no_edit (rels m)" | (edit) "single_edit (rels m)"
    using m unfolding message_rels_ok_def by blast
  then show "\<exists>d. ct_to ?C m = Inr d \<and> content_from_json J ?C d = Inr m"
  proof cases
    case plain
    then obtain d where "apply_relations J (base m) (rels m) = Inr d" "jtype_of J d = JObject"
        "jfields J d ''m.new_content'' = None" "reader d = Inr m"
      using content_roundtrip m by blast
    then show ?thesis by (simp add: plain_content_def content_from_json_def contains_fields)
  next
    case edit
    then obtain r where r: "rels m = \<lparr>relations = [r], synthesized = True\<rparr>" "rel_type r = Rel_Replace"
      by (cases "rels m") (auto simp: single_edit_def length_Suc_conv)
    obtain d n where d: "apply_relations J (base m) (rels m) = Inr d" "jtype_of J d = JObject"
        "jfields J d ''m.new_content'' = Some n" "jtype_of J n = JObject" "jfields J n = jfields J (base m)"
        "jfields J d ''m.relates_to'' = Some (Relation_to_json J r)" "jfields J d nheko_relations = None"
        "reader (jset J n ''m.relates_to'' (Relation_to_json J r)) = Inr m"
      using edit_roundtrip [OF conjunct1 [OF m] r] by blast
    have "jfields J n ''m.relates_to'' = None" using d(5) base_plain by simp
    then have "edited_content J d = Inr (jset J n ''m.relates_to'' (Relation_to_json J r))"
      using d by (simp add: edited_content_def contains_fields at_fields' object_or_null nheko_relations_def)
    then show ?thesis using d by (simp add: plain_content_def content_from_json_def contains_fields)
  qed
qed (simp_all add: plain_content_def)

end

section \<open>The redaction\<close>

interpretation tree_redaction: event_content tree_lib "Redaction_content tree_lib" "\<lambda>_. True"
  by (rule tree.Redaction_event_content)

end
