(* ===== verification/State_Props.thy ===== *)
theory State_Props
  imports Contents Event_Props
begin

text \<open>
  The contents of state events and calls as instances of \<open>event_content\<close>: each is read back from what is
  written for it, under the condition given, so that the round trips of the envelopes hold for all of them.
\<close>

section \<open>Conditions\<close>

definition via_ok :: "string list option \<Rightarrow> bool" where
  "via_ok via \<longleftrightarrow> via \<noteq> None \<and> via \<noteq> Some []"

definition Child_ok :: "Child \<Rightarrow> bool" where
  "Child_ok c \<longleftrightarrow> via_ok (sc_via c) \<and> (case sc_order c of None \<Rightarrow> True | Some s \<Rightarrow> is_valid_order_str s)"

definition JoinRules_ok :: "JoinRules \<Rightarrow> bool" where
  "JoinRules_ok r \<longleftrightarrow> (\<forall>a \<in> set (jr_allow r). ja_type a = RoomMembership)"

definition Encryption_ok :: "Encryption \<Rightarrow> bool" where
  "Encryption_ok e \<longleftrightarrow> uint64_ok (enc_rotation_period_ms e) \<and> uint64_ok (enc_rotation_period_msgs e)"

definition Create_ok :: "Create \<Rightarrow> bool" where
  "Create_ok c \<longleftrightarrow> room_version c \<noteq> []"

definition CallInvite_ok :: "CallInvite \<Rightarrow> bool" where
  "CallInvite_ok c \<longleftrightarrow> party_ok (ci_version c) (ci_party_id c) \<and> party_ok (ci_version c) (ci_invitee c) \<and> 0 \<le> ci_lifetime c \<and> ci_lifetime c < 2 ^ 32"

definition CallCandidates_ok :: "CallCandidates \<Rightarrow> bool" where
  "CallCandidates_ok c \<longleftrightarrow> party_ok (cc_version c) (cc_party_id c) \<and> (\<forall>x \<in> set (cc_candidates c). 0 \<le> cand_sdpMLineIndex x \<and> cand_sdpMLineIndex x < 2 ^ 16)"

definition CallAnswer_ok :: "CallAnswer \<Rightarrow> bool" where
  "CallAnswer_ok c \<longleftrightarrow> party_ok (can_version c) (can_party_id c)"

definition CallHangUp_ok :: "CallHangUp \<Rightarrow> bool" where
  "CallHangUp_ok c \<longleftrightarrow> party_ok (ch_version c) (ch_party_id c)"

definition CallNegotiate_ok :: "CallNegotiate \<Rightarrow> bool" where
  "CallNegotiate_ok c \<longleftrightarrow> 0 \<le> cn_lifetime c \<and> cn_lifetime c < 2 ^ 32"

definition ImagePack_ok :: "ImagePack \<Rightarrow> bool" where
  "ImagePack_ok p \<longleftrightarrow> smap_ok (pk_images p)
     \<and> (\<forall>i \<in> snd ` set (pk_images p). case pi_info i of None \<Rightarrow> True | Some info \<Rightarrow> ImageInfo_ok info)"

context json_library
begin

lemma object_simps [simp]: "jtype_of J (jobject J) = JObject" "jfields J (jobject J) = Map.empty"
  by (simp_all add: jobject_def smap_ok_def)

lemma strings_array [simp]: "jtype_of J (jstrings J xs) = JArray"
  by (simp add: jstrings_def)

lemma jempty_strings: "jempty J (jstrings J xs) \<longleftrightarrow> xs = []"
  by (simp add: jempty_def jstrings_def elems_array)

lemma written_content:
  assumes "\<And>c. ok c \<Longrightarrow> jtype_of J (w c) = JObject \<and> jfields J (w c) ''m.new_content'' = None \<and> rd (w c) = Inr c"
  shows "event_content J (plain_content rd (\<lambda>c. Inr (w c)) d0) ok"
  using assms by (intro plain_event_content) blast

lemma join_rule_read: "stringToJoinRule (joinRuleToString r) = r"
  by (cases r) (simp_all add: stringToJoinRule_def)

lemma allowances_read:
  assumes "\<forall>a \<in> set as. ja_type a = RoomMembership"
  shows "jget_list J (JoinAllowance_from_json J) (jof_array J (map (JoinAllowance_to_json J) as)) = Inr as"
  using assms by (intro get_list_map) (simp add: JoinAllowance_from_json_def JoinAllowance_to_json_def reads object_or_null)

lemmas state_simps = reads object_or_null Let_def

section \<open>State events\<close>

lemma Aliases_event_content: "event_content J (Aliases_content J) (\<lambda>_. True)"
  unfolding Aliases_content_def by (rule written_content) (simp add: Aliases_from_json_def Aliases_to_json_def  state_simps)

lemma Avatar_event_content: "event_content J (Avatar_content J) (\<lambda>c. ImageInfo_ok (av_image_info c))"
  unfolding Avatar_content_def by (rule written_content) (simp add: Avatar_from_json_def Avatar_to_json_def ImageInfo_roundtrip state_simps)

lemma CanonicalAlias_event_content: "event_content J (CanonicalAlias_content J) (\<lambda>_. True)"
  unfolding CanonicalAlias_content_def by (rule written_content) (simp add: CanonicalAlias_from_json_def CanonicalAlias_to_json_def  state_simps)

lemma Create_event_content: "event_content J (Create_content J) (\<lambda>c. Create_ok c)"
  unfolding Create_content_def by (rule written_content) (simp add: Create_to_from Create_ok_def, simp add: Create_to_json_def state_simps split: option.split)

lemma Encryption_event_content: "event_content J (Encryption_content J) (\<lambda>c. Encryption_ok c)"
  unfolding Encryption_content_def by (rule written_content) (simp add: Encryption_from_json_def Encryption_to_json_def Encryption_ok_def uint64_ok_def state_simps)

lemma GuestAccess_event_content: "event_content J (GuestAccess_content J) (\<lambda>_. True)"
  unfolding GuestAccess_content_def by (rule written_content) (rename_tac c, case_tac "ga_guest_access c"; simp add: GuestAccess_from_json_def GuestAccess_to_json_def accessStateToString_def stringToAccessState_def state_simps)

lemma HistoryVisibility_event_content: "event_content J (HistoryVisibility_content J) (\<lambda>_. True)"
  unfolding HistoryVisibility_content_def by (rule written_content) (rename_tac c, case_tac "hv_history_visibility c"; simp add: HistoryVisibility_from_json_def HistoryVisibility_to_json_def stringToVisibility_history_def state_simps)

lemma JoinRules_event_content: "event_content J (JoinRules_content J) (\<lambda>c. JoinRules_ok c)"
  unfolding JoinRules_content_def by (rule written_content) (simp add: JoinRules_from_json_def JoinRules_to_json_def allowances_read join_rule_read JoinRules_ok_def state_simps)

lemma Member_event_content: "event_content J (Member_content J) (\<lambda>_. True)"
  unfolding Member_content_def by (rule written_content) (simp add: Member_roundtrip, simp add: Member_to_json_def state_simps)

lemma Name_event_content: "event_content J (Name_content J) (\<lambda>_. True)"
  unfolding Name_content_def by (rule written_content) (simp add: Name_from_json_def Name_to_json_def  state_simps)

lemma PinnedEvents_event_content: "event_content J (PinnedEvents_content J) (\<lambda>_. True)"
  unfolding PinnedEvents_content_def by (rule written_content) (simp add: PinnedEvents_from_json_def PinnedEvents_to_json_def  state_simps)

lemma PowerLevels_event_content: "event_content J (PowerLevels_content J) (\<lambda>c. PowerLevels_ok c)"
  unfolding PowerLevels_content_def by (rule written_content) (simp add: PowerLevels_to_from, simp add: PowerLevels_to_json_def state_simps)

lemma UserRule_event_content: "event_content J (UserRule_content J) (\<lambda>_. True)"
  unfolding UserRule_content_def by (rule written_content) (simp add:  UserRule_from_json_def UserRule_to_json_def Rule_from_json_def Rule_to_json_def state_simps)

lemma RoomRule_event_content: "event_content J (RoomRule_content J) (\<lambda>_. True)"
  unfolding RoomRule_content_def by (rule written_content) (simp add:  RoomRule_from_json_def RoomRule_to_json_def Rule_from_json_def Rule_to_json_def state_simps)

lemma ServerRule_event_content: "event_content J (ServerRule_content J) (\<lambda>_. True)"
  unfolding ServerRule_content_def by (rule written_content) (simp add:  ServerRule_from_json_def ServerRule_to_json_def Rule_from_json_def Rule_to_json_def state_simps)

lemma Child_event_content: "event_content J (Child_content J) (\<lambda>c. Child_ok c)"
  unfolding Child_content_def by (rule written_content) (auto simp: Child_from_json_def Child_to_json_def Child_ok_def via_ok_def via_from_json_def jempty_strings state_simps split: option.splits)

lemma Parent_event_content: "event_content J (Parent_content J) (\<lambda>c. via_ok (sp_via c))"
  unfolding Parent_content_def by (rule written_content) (auto simp: Parent_from_json_def Parent_to_json_def via_ok_def via_from_json_def jempty_strings state_simps split: option.splits)

lemma Tombstone_event_content: "event_content J (Tombstone_content J) (\<lambda>_. True)"
  unfolding Tombstone_content_def by (rule written_content) (simp add: Tombstone_from_json_def Tombstone_to_json_def  state_simps)

lemma ServerAcl_event_content: "event_content J (ServerAcl_content J) (\<lambda>_. True)"
  unfolding ServerAcl_content_def by (rule written_content) (simp add: ServerAcl_from_json_def ServerAcl_to_json_def  state_simps)

lemma Topic_event_content: "event_content J (Topic_content J) (\<lambda>_. True)"
  unfolding Topic_content_def by (rule written_content) (simp add: Topic_from_json_def Topic_to_json_def  state_simps)

lemma Widget_event_content: "event_content J (Widget_content J) (\<lambda>c. smap_ok (wg_data c))"
  unfolding Widget_content_def by (rule written_content) (simp add: Widget_from_json_def Widget_to_json_def  state_simps)

section \<open>Calls\<close>

lemma CallInvite_event_content: "event_content J (CallInvite_content J) (CallInvite_ok)"
  unfolding CallInvite_content_def
  by (rule written_content) (simp add: CallInvite_ok_def CallInvite_roundtrip, simp add: CallInvite_to_json_def fields_version state_simps)

lemma CallCandidates_event_content: "event_content J (CallCandidates_content J) (CallCandidates_ok)"
  unfolding CallCandidates_content_def
  by (rule written_content) (simp add: CallCandidates_ok_def CallCandidates_roundtrip, simp add: CallCandidates_to_json_def fields_version state_simps)

lemma CallAnswer_event_content: "event_content J (CallAnswer_content J) (CallAnswer_ok)"
  unfolding CallAnswer_content_def
  by (rule written_content) (simp add: CallAnswer_ok_def CallAnswer_roundtrip, simp add: CallAnswer_to_json_def fields_version state_simps)

lemma CallHangUp_event_content: "event_content J (CallHangUp_content J) (CallHangUp_ok)"
  unfolding CallHangUp_content_def
  by (rule written_content) (simp add: CallHangUp_ok_def CallHangUp_roundtrip, simp add: CallHangUp_to_json_def fields_version state_simps split: option.split)

lemma CallSelectAnswer_event_content: "event_content J (CallSelectAnswer_content J) (\<lambda>_. True)"
  unfolding CallSelectAnswer_content_def
  by (rule written_content) (simp add: CallSelectAnswer_roundtrip, simp add: CallSelectAnswer_to_json_def fields_version state_simps)

lemma CallReject_event_content: "event_content J (CallReject_content J) (\<lambda>_. True)"
  unfolding CallReject_content_def
  by (rule written_content) (simp add: CallReject_roundtrip, simp add: CallReject_to_json_def fields_version state_simps)

lemma CallNegotiate_event_content: "event_content J (CallNegotiate_content J) (CallNegotiate_ok)"
  unfolding CallNegotiate_content_def
  by (rule written_content) (simp add: CallNegotiate_ok_def CallNegotiate_roundtrip, simp add: CallNegotiate_to_json_def fields_version state_simps)

section \<open>Image packs\<close>

lemma push_usage_read:
  assumes "is_object_or_null J obj" and "jfields J obj ''usage'' = None"
  shows "jopt J (\<lambda>v. Inr (usage_of J v)) (push_usage J u obj) ''usage'' {} = Inr u"
    and "jopt_if J (\<lambda>t. t = JArray) (\<lambda>v. Inr (usage_of J v)) (push_usage J u obj) ''usage'' {} = Inr u"
    and "k \<noteq> ''usage'' \<Longrightarrow> jfields J (push_usage J u obj) k = jfields J obj k"
    and "jtype_of J obj = JObject \<Longrightarrow> jtype_of J (push_usage J u obj) = JObject"
    and "is_object_or_null J (push_usage J u obj)"
proof -
  have e: "jelems J (jpush J (jnull J) v) = [v]" "jtype_of J (jpush J (jnull J) v) = JArray"
      "jelems J (jpush J (jpush J (jnull J) v) w) = [v, w]" "jtype_of J (jpush J (jpush J (jnull J) v) w) = JArray" for v w
    by (simp_all add: elems_push elems_push_null)
  note simps = push_usage_def reads object_or_null member_fields usage_of_def jiterate_def e Let_def
  have "x \<in> {Usage_Sticker, Usage_Emoji}" for x by (cases x) simp_all
  then have "u \<in> Pow {Usage_Sticker, Usage_Emoji}" by blast
  then have "u = {} \<or> u = {Usage_Sticker} \<or> u = {Usage_Emoji} \<or> u = {Usage_Emoji, Usage_Sticker}"
    by (auto simp: Pow_insert)
  then show "jopt J (\<lambda>v. Inr (usage_of J v)) (push_usage J u obj) ''usage'' {} = Inr u"
    and "jopt_if J (\<lambda>t. t = JArray) (\<lambda>v. Inr (usage_of J v)) (push_usage J u obj) ''usage'' {} = Inr u"
    using assms by (auto simp: simps)
  show "k \<noteq> ''usage'' \<Longrightarrow> jfields J (push_usage J u obj) k = jfields J obj k"
    and "jtype_of J obj = JObject \<Longrightarrow> jtype_of J (push_usage J u obj) = JObject"
    and "is_object_or_null J (push_usage J u obj)"
    using assms by (auto simp: simps)
qed

lemma safe_string:
  "is_object_or_null J d \<Longrightarrow> safe_get J (jget_string J) d k [] =
     (case jfields J d k of None \<Rightarrow> Inr [] | Some v \<Rightarrow> (case jget_string J v of Inl e \<Rightarrow> if e = Json_exn Type_error then Inr [] else Inl e | Inr s \<Rightarrow> Inr s))"
  by (cases "jtype_of J d = JObject") (auto simp: safe_get_def is_object_or_null_def value_fields value_not_object split: option.split)

lemma PackImage_read:
  assumes "case pi_info i of None \<Rightarrow> True | Some info \<Rightarrow> ImageInfo_ok info"
  shows "PackImage_from_json J (PackImage_to_json J i) = Inr i"
proof -
  let ?b = "jset_opt J (ImageInfo_to_json J) (jset_if J (pi_body i \<noteq> []) (jset J (jnull J) ''url'' (jstring J (pi_url i)))
    ''body'' (jstring J (pi_body i))) ''info'' (pi_info i)"
  have b: "jtype_of J ?b = JObject" "jfields J ?b ''usage'' = None" "jfields J ?b ''url'' = Some (jstring J (pi_url i))"
      "jfields J ?b ''body'' = (if pi_body i = [] then None else Some (jstring J (pi_body i)))"
      "jfields J ?b ''info'' = map_option (ImageInfo_to_json J) (pi_info i)"
    by (simp_all add: object_or_null split: option.split)
  note r = push_usage_read [where u = "pi_usage i", OF _ b(2)]
  have d: "PackImage_to_json J i = push_usage J (pi_usage i) ?b" by (simp add: PackImage_to_json_def Let_def)
  have o: "jtype_of J (push_usage J (pi_usage i) ?b) = JObject" using r(4) b(1) by (simp add: object_or_null)
  have "jfind_opt J (ImageInfo_from_json J) (push_usage J (pi_usage i) ?b) ''info'' = Inr (pi_info i)"
    using assms r(3) [of "''info''"] b by (cases "pi_info i") (simp_all add: find_opt_fields object_or_null ImageInfo_roundtrip)
  then show ?thesis
    using d o b r by (cases i) (simp add: PackImage_from_json_def safe_string object_or_null at_as_fields)
qed

lemma PackDescription_read: "PackDescription_from_json J (PackDescription_to_json J p) = Inr p"
proof -
  let ?b = "jset_if J (pd_attribution p \<noteq> []) (jset_if J (pd_display_name p \<noteq> []) (jset_if J (pd_avatar_url p \<noteq> []) (jnull J)
    ''avatar_url'' (jstring J (pd_avatar_url p))) ''display_name'' (jstring J (pd_display_name p)))
    ''attribution'' (jstring J (pd_attribution p))"
  have b: "is_object_or_null J ?b" "jfields J ?b ''usage'' = None"
      "jfields J ?b ''avatar_url'' = (if pd_avatar_url p = [] then None else Some (jstring J (pd_avatar_url p)))"
      "jfields J ?b ''display_name'' = (if pd_display_name p = [] then None else Some (jstring J (pd_display_name p)))"
      "jfields J ?b ''attribution'' = (if pd_attribution p = [] then None else Some (jstring J (pd_attribution p)))"
    by (simp_all add: object_or_null)
  note r = push_usage_read [where u = "pd_usage p", OF b(1,2)]
  have d: "PackDescription_to_json J p = push_usage J (pd_usage p) ?b" by (simp add: PackDescription_to_json_def Let_def)
  show ?thesis
    using d b r by (cases p) (simp add: PackDescription_from_json_def safe_string)
qed

lemma ImagePack_read:
  assumes "ImagePack_ok c"
  shows "ImagePack_from_json J (ImagePack_to_json J c) = Inr c"
proof -
  have "jget_map J (PackImage_from_json J) (jof_map J (PackImage_to_json J) (pk_images c)) = Inr (pk_images c)"
    using assms by (intro get_map_of_map) (auto simp: ImagePack_ok_def PackImage_read)
  then show ?thesis
    by (cases c; cases "pk_pack c")
      (simp_all add: ImagePack_from_json_def ImagePack_to_json_def opt_fields find_opt_fields jset_opt_def object_or_null PackDescription_read)
qed

lemma ImagePack_event_content: "event_content J (ImagePack_content J) ImagePack_ok"
  unfolding ImagePack_content_def
  by (rule written_content) (simp add: ImagePack_read, simp add: ImagePack_to_json_def jset_opt_def state_simps split: option.split)

end

section \<open>Instances on trees\<close>

interpretation tree_member: event_content tree_lib "Member_content tree_lib" "\<lambda>_. True"
  by (rule tree.Member_event_content)

interpretation tree_power_levels: event_content tree_lib "PowerLevels_content tree_lib" PowerLevels_ok
  by (rule tree.PowerLevels_event_content)

interpretation tree_call_invite: event_content tree_lib "CallInvite_content tree_lib" CallInvite_ok
  by (rule tree.CallInvite_event_content)

end
