(* ===== verification/Verification_Props.thy ===== *)
theory Verification_Props
  imports State_Props Verification_Events
begin

text \<open>
  The contents of encryption, verification and reaction events as instances of \<open>event_content\<close>. A content
  with relations is read back when the relations are, both as a message to a device, where it has a
  transaction id, and in a room, where it refers to the request.
\<close>

section \<open>Conditions\<close>

definition relations_ok :: "Relations \<Rightarrow> bool" where
  "relations_ok rels \<longleftrightarrow> rels_readable rels \<and> no_edit rels"

text \<open>Only the requests carry the key they are about, and always under the megolm algorithm.\<close>

definition KeyRequest_ok :: "KeyRequest \<Rightarrow> bool" where
  "KeyRequest_ok r \<longleftrightarrow> (case kr_action r of
      Request \<Rightarrow> kr_algorithm r = MEGOLM_ALGO
    | Cancellation \<Rightarrow> kr_algorithm r = [] \<and> kr_room_id r = [] \<and> kr_sender_key r = [] \<and> kr_session_id r = []
    | Unknown_action \<Rightarrow> False)"

definition OlmEncrypted_ok :: "OlmEncrypted \<Rightarrow> bool" where
  "OlmEncrypted_ok m \<longleftrightarrow> oe_algorithm m = OLM_ALGO \<and> smap_ok (oe_ciphertext m)
     \<and> (\<forall>c \<in> snd ` set (oe_ciphertext m). 0 \<le> occ_type c \<and> occ_type c < 2 ^ 8)"

definition KeyVerificationRequest_ok :: "KeyVerificationRequest \<Rightarrow> bool" where
  "KeyVerificationRequest_ok r \<longleftrightarrow> kq_msgtype r \<in> {None, Some ''m.key.verification.request''}
     \<and> (case kq_timestamp r of None \<Rightarrow> True | Some t \<Rightarrow> uint64_ok t)"

text \<open>The last step of a verification is either sent to a device or refers to the request in the room.\<close>

definition KeyVerificationDone_ok :: "KeyVerificationDone \<Rightarrow> bool" where
  "KeyVerificationDone_ok c \<longleftrightarrow> (case kd_transaction_id c of
      Some _ \<Rightarrow> relations_ok (kd_relations c)
    | None \<Rightarrow> list_all (\<lambda>r. rel_type r = Rel_Reference) (relations (kd_relations c)) \<and> length (relations (kd_relations c)) = 1)"

context json_library
begin

section \<open>Keys and secrets\<close>

lemma RoomKey_event_content: "event_content J (RoomKey_content J) (\<lambda>_. True)"
  unfolding RoomKey_content_def by (rule written_content) (simp add: RoomKey_from_json_def RoomKey_to_json_def state_simps)

lemma ForwardedRoomKey_event_content: "event_content J (ForwardedRoomKey_content J) (\<lambda>_. True)"
  unfolding ForwardedRoomKey_content_def
  by (rule written_content) (simp add: ForwardedRoomKey_from_json_def ForwardedRoomKey_to_json_def state_simps)

lemma KeyRequest_event_content: "event_content J (KeyRequest_content J) KeyRequest_ok"
  unfolding KeyRequest_content_def
  by (rule written_content)
    (simp add: KeyRequest_ok_def KeyRequest_from_json_def KeyRequest_to_json_def state_simps at_fields split: RequestAction.splits)

lemma SecretRequest_event_content: "event_content J (SecretRequest_content J) (\<lambda>r. sr_action r \<noteq> Unknown_action)"
  unfolding SecretRequest_content_def
  by (rule plain_event_content)
    (simp add: SecretRequest_from_json_def SecretRequest_to_json_def state_simps split: RequestAction.splits)

lemma SecretSend_event_content: "event_content J (SecretSend_content J) (\<lambda>_. True)"
  unfolding SecretSend_content_def
  by (rule written_content) (simp add: SecretSend_from_json_def SecretSend_to_json_def state_simps)

lemma Dummy_event_content: "event_content J (Dummy_content J) (\<lambda>_. True)"
  unfolding Dummy_content_def by (rule written_content) (simp add: Dummy_from_json_def Dummy_to_json_def)

section \<open>Encrypted messages\<close>

lemma cipher_read:
  assumes "0 \<le> occ_type c" and "occ_type c < 2 ^ 8"
  shows "OlmCipherContent_from_json J (OlmCipherContent_to_json J c) = Inr c"
  using assms narrow_read [of "occ_type c" 8]
  by (simp add: OlmCipherContent_from_json_def OlmCipherContent_to_json_def state_simps)

lemma OlmEncrypted_event_content: "event_content J (OlmEncrypted_content J) OlmEncrypted_ok"
  unfolding OlmEncrypted_content_def
proof (rule written_content)
  fix c assume c: "OlmEncrypted_ok c"
  then have "jget_map J (OlmCipherContent_from_json J) (jof_map J (OlmCipherContent_to_json J) (oe_ciphertext c)) = Inr (oe_ciphertext c)"
    by (intro get_map_of_map) (auto simp: OlmEncrypted_ok_def cipher_read)
  then show "jtype_of J (OlmEncrypted_to_json J c) = JObject \<and> jfields J (OlmEncrypted_to_json J c) ''m.new_content'' = None
      \<and> OlmEncrypted_from_json J (OlmEncrypted_to_json J c) = Inr c"
    using c by (simp add: OlmEncrypted_ok_def OlmEncrypted_from_json_def OlmEncrypted_to_json_def state_simps)
qed

text \<open>An encrypted message in a room may be an edit, too: its relations are outside of the encryption.\<close>

lemma Encrypted_event_content: "event_content J (Encrypted_content J) (\<lambda>c. rels_readable (me_relations c))"
proof unfold_locales
  fix c :: Encrypted assume c: "rels_readable (me_relations c)"
  let ?b = "jset J (jset_if J (me_sender_key c \<noteq> []) (jset_if J (me_device_id c \<noteq> []) (jset J (jset J (jnull J)
     ''algorithm'' (jstring J (me_algorithm c))) ''ciphertext'' (jstring J (me_ciphertext c)))
     ''device_id'' (jstring J (me_device_id c))) ''sender_key'' (jstring J (me_sender_key c)))
     ''session_id'' (jstring J (me_session_id c))"
  have b: "jtype_of J ?b = JObject" "\<forall>k. relation_key k \<longrightarrow> jfields J ?b k = None"
    by (auto simp: relation_key_def object_or_null)
  let ?d = "add_relations J ?b (me_relations c)"
  have "jtype_of J ?d = JObject" "\<And>k. \<not> relation_key k \<Longrightarrow> jfields J ?d k = jfields J ?b k"
    using add_relations_other [OF b(1)] by auto
  moreover have "parse_relations J ?d = Inr (me_relations c)" by (rule readable_roundtrip [OF b c])
  ultimately have "Encrypted_from_json J ?d = Inr c"
    by (simp add: Encrypted_from_json_def relation_key_def state_simps)
  moreover have "Encrypted_to_json J c = ?d" by (simp add: Encrypted_to_json_def Let_def)
  ultimately show "\<exists>d. ct_to (Encrypted_content J) c = Inr d \<and> content_from_json J (Encrypted_content J) d = Inr c"
    using \<open>jtype_of J ?d = JObject\<close> by (simp add: Encrypted_content_def plain_content_def content_from_json_def)
qed (simp_all add: Encrypted_content_def plain_content_def)

section \<open>Key verification\<close>

lemma related_content:
  assumes "\<And>m. ok m \<Longrightarrow> jtype_of J (base m) = JObject" and "\<And>k m. relation_key k \<Longrightarrow> jfields J (base m) k = None"
    and "\<And>m d. ok m \<Longrightarrow> jtype_of J d = JObject \<Longrightarrow> (\<And>k. \<not> relation_key k \<Longrightarrow> jfields J d k = jfields J (base m) k)
      \<Longrightarrow> parse_relations J d = Inr (rels m) \<Longrightarrow> reader d = Inr m"
  shows "event_content J (plain_content reader (\<lambda>m. apply_relations J (base m) (rels m)) d0) (\<lambda>m. ok m \<and> relations_ok (rels m))"
proof -
  have "related_json J base reader rels ok" by unfold_locales (fact assms)+
  then show ?thesis unfolding relations_ok_def by (rule related_json.related_event_content)
qed

lemma method_read [simp]: "VerificationMethods_from_json J (VerificationMethods_to_json J m) = Inr m"
  by (cases m) (simp_all add: VerificationMethods_from_json_def VerificationMethods_to_json_def)

lemma sas_method_read: "SASMethods_from_json J (SASMethods_to_json J m) = Inr m"
  by (cases m) (simp_all add: SASMethods_from_json_def SASMethods_to_json_def)

lemma methods_read [simp]:
  "jget_list J (VerificationMethods_from_json J) (jmethods J ms) = Inr ms"
  "jget_list J (SASMethods_from_json J) (jsas_methods J ss) = Inr ss"
  unfolding jmethods_def jsas_methods_def by (intro get_list_map; simp add: sas_method_read)+

lemma opt_set_fields [simp]:
  "is_object_or_null J j \<Longrightarrow> jfields J (jset_opt J conv j k v) = (case v of None \<Rightarrow> jfields J j | Some x \<Rightarrow> (jfields J j)(k \<mapsto> conv x))"
  "jtype_of J j = JObject \<Longrightarrow> jtype_of J (jset_opt J conv j k v) = JObject"
  "is_object_or_null J j \<Longrightarrow> is_object_or_null J (jset_opt J conv j k v)"
  by (simp_all add: jset_opt_def object_or_null split: option.split)

lemmas verification_simps = state_simps find_opt_fields transaction_id_of_def relation_key_def

lemma KeyVerificationStart_event_content:
  "event_content J (KeyVerificationStart_content J) (\<lambda>c. True \<and> relations_ok (ks_relations c))"
  unfolding KeyVerificationStart_content_def KeyVerificationStart_to_json_def [abs_def] Let_def
proof (rule related_content, goal_cases)
  case (3 m d)
  then show ?case
    by (cases "ks_transaction_id m"; cases "ks_next_method m")
      (simp_all add: KeyVerificationStart_from_json_def verification_simps)
next
  case (2 k m)
  then have "k \<noteq> ''from_device'' \<and> k \<noteq> ''method'' \<and> k \<noteq> ''transaction_id'' \<and> k \<noteq> ''next_method'' \<and> k \<noteq> ''hashes''
      \<and> k \<noteq> ''key_agreement_protocols'' \<and> k \<noteq> ''message_authentication_codes'' \<and> k \<noteq> ''short_authentication_string''"
    by (auto simp: relation_key_def)
  then show ?case by (simp add: object_or_null split: option.split)
qed (simp add: object_or_null)

lemma KeyVerificationReady_event_content:
  "event_content J (KeyVerificationReady_content J) (\<lambda>c. True \<and> relations_ok (ky_relations c))"
  unfolding KeyVerificationReady_content_def KeyVerificationReady_to_json_def [abs_def] Let_def
  by (rule related_content) (auto simp: KeyVerificationReady_from_json_def verification_simps split: option.splits)

text \<open>In a room, the last step has no field but its relation, which is added to null.\<close>

lemma reference_from_null:
  fixes s :: bool assumes "rel_type r = Rel_Reference"
  defines "d \<equiv> add_relations J (jnull J) \<lparr>relations = [r], synthesized = s\<rparr>"
  shows "apply_relations J (jnull J) \<lparr>relations = [r], synthesized = s\<rparr> = Inr d" and "jtype_of J d = JObject"
    and "jfields J d ''m.new_content'' = None" and "jfields J d ''transaction_id'' = None"
    and "parse_relations J d = Inr \<lparr>relations = [r], synthesized = s\<rparr>"
proof -
  show "apply_relations J (jnull J) \<lparr>relations = [r], synthesized = s\<rparr> = Inr d"
    using assms by (simp add: apply_relations_def replaces_def return_first_relation_matching_def)
  show "jtype_of J d = JObject"
    using assms(1) by (simp add: d_def relates_simps push_relation_def jset_opt_def)
  show "jfields J d ''m.new_content'' = None" "jfields J d ''transaction_id'' = None"
    using assms(1) by (simp_all add: d_def relates_simps push_relation_def nheko_relations_def jset_opt_def)
  show "parse_relations J d = Inr \<lparr>relations = [r], synthesized = s\<rparr>"
    using assms(1) by (cases s) (simp_all add: d_def relates_simps push_relation_def nheko_relations_def Relation_roundtrip jset_opt_def
        jget_list_def elems_push_null)
qed

lemma KeyVerificationDone_event_content: "event_content J (KeyVerificationDone_content J) KeyVerificationDone_ok"
  unfolding KeyVerificationDone_content_def
proof (rule plain_event_content)
  fix c assume ok: "KeyVerificationDone_ok c"
  show "\<exists>d. KeyVerificationDone_to_json J c = Inr d \<and> jtype_of J d = JObject \<and> jfields J d ''m.new_content'' = None
      \<and> KeyVerificationDone_from_json J d = Inr c"
  proof (cases "kd_transaction_id c")
    case None
    then obtain r s where r: "kd_relations c = \<lparr>relations = [r], synthesized = s\<rparr>" "rel_type r = Rel_Reference"
      using ok by (cases "kd_relations c") (auto simp: KeyVerificationDone_ok_def length_Suc_conv)
    have "c = \<lparr>kd_transaction_id = None, kd_relations = \<lparr>relations = [r], synthesized = s\<rparr>\<rparr>" using None r(1) by (cases c) simp
    with reference_from_null [OF r(2), of s] show ?thesis
      by (simp add: KeyVerificationDone_to_json_def KeyVerificationDone_from_json_def verification_simps jset_opt_def)
  next
    case (Some t)
    let ?b = "jset J (jnull J) ''transaction_id'' (jstring J t)"
    have "rels_readable (kd_relations c)" "no_edit (kd_relations c)"
      using ok Some by (simp_all add: KeyVerificationDone_ok_def relations_ok_def)
    then obtain d where "apply_relations J ?b (kd_relations c) = Inr d" "jtype_of J d = JObject"
        "parse_relations J d = Inr (kd_relations c)" "\<And>k. \<not> relation_key k \<Longrightarrow> jfields J d k = jfields J ?b k"
        "jfields J d ''m.new_content'' = None"
      by (elim plain_relations_written [of ?b, rotated 2]) (auto simp: relation_key_def)
    with Some show ?thesis
      by (cases c) (simp add: KeyVerificationDone_to_json_def KeyVerificationDone_from_json_def verification_simps jset_opt_def)
  qed
qed

lemma KeyVerificationAccept_event_content:
  "event_content J (KeyVerificationAccept_content J) (\<lambda>c. True \<and> relations_ok (ka_relations c))"
  unfolding KeyVerificationAccept_content_def KeyVerificationAccept_to_json_def [abs_def] Let_def
  by (rule related_content) (auto simp: KeyVerificationAccept_from_json_def verification_simps split: option.splits)

lemma KeyVerificationCancel_event_content:
  "event_content J (KeyVerificationCancel_content J) (\<lambda>c. True \<and> relations_ok (kc_relations c))"
  unfolding KeyVerificationCancel_content_def KeyVerificationCancel_to_json_def [abs_def] Let_def
  by (rule related_content) (auto simp: KeyVerificationCancel_from_json_def verification_simps split: option.splits)

lemma KeyVerificationKey_event_content:
  "event_content J (KeyVerificationKey_content J) (\<lambda>c. True \<and> relations_ok (kk_relations c))"
  unfolding KeyVerificationKey_content_def KeyVerificationKey_to_json_def [abs_def] Let_def
  by (rule related_content) (auto simp: KeyVerificationKey_from_json_def verification_simps split: option.splits)

lemma KeyVerificationMac_event_content:
  "event_content J (KeyVerificationMac_content J) (\<lambda>c. smap_ok (kv_mac c) \<and> relations_ok (kv_relations c))"
  unfolding KeyVerificationMac_content_def KeyVerificationMac_to_json_def [abs_def] Let_def
  by (rule related_content) (auto simp: KeyVerificationMac_from_json_def verification_simps split: option.splits)

lemma KeyVerificationRequest_event_content: "event_content J (KeyVerificationRequest_content J) KeyVerificationRequest_ok"
  unfolding KeyVerificationRequest_content_def
  by (rule written_content)
    (auto simp: KeyVerificationRequest_ok_def KeyVerificationRequest_from_json_def KeyVerificationRequest_to_json_def
      uint64_ok_def verification_simps split: option.splits)

lemma Reaction_event_content: "event_content J (Reaction_content J) (\<lambda>c. relations_ok (rc_relations c))"
  unfolding Reaction_content_def Reaction_to_json_def [abs_def]
  by (rule related_content [where ok = "\<lambda>_. True", simplified]) (simp_all add: Reaction_from_json_def)

end

section \<open>Instances on trees\<close>

interpretation tree_reaction: related_json tree_lib "\<lambda>_. jobject tree_lib" "Reaction_from_json tree_lib" rc_relations "\<lambda>_. True"
  by unfold_locales (simp_all add: Reaction_from_json_def tree.object_simps)

interpretation tree_room_key: event_content tree_lib "RoomKey_content tree_lib" "\<lambda>_. True"
  by (rule tree.RoomKey_event_content)

end
