(* ===== verification/Collections.thy ===== *)
theory Collections
  imports Contents
begin

text \<open>
  The events of a response (\<open>include/mtx/events/collections.hpp\<close>): the variants over all event types and
  the functions that choose the alternative for an event, \<open>from_json\<close> of \<open>TimelineEvents\<close>
  (\<open>lib/structs/events/collections.cpp\<close>) and the \<open>parse_\<close> functions of
  \<open>lib/structs/responses/common.cpp\<close>, which skip what they cannot read.
\<close>

section \<open>Collections of events\<close>

text \<open>
  Each alternative of a variant is a constructor, named after its content. The prefix tells the
  collection: \<open>TL\<close> timeline, \<open>ST\<close> state, \<open>SP\<close> stripped, \<open>DV\<close> device, \<open>AD\<close> account data, \<open>EP\<close> ephemeral.
\<close>

datatype (plugins only: code) DeviceEvents =
    DV_RoomKey "RoomKey DeviceEvent"
  | DV_ForwardedRoomKey "ForwardedRoomKey DeviceEvent"
  | DV_KeyRequest "KeyRequest DeviceEvent"
  | DV_OlmEncrypted "OlmEncrypted DeviceEvent"
  | DV_Encrypted "Encrypted DeviceEvent"
  | DV_Dummy "unit DeviceEvent"
  | DV_KeyVerificationRequest "KeyVerificationRequest DeviceEvent"
  | DV_KeyVerificationStart "KeyVerificationStart DeviceEvent"
  | DV_KeyVerificationReady "KeyVerificationReady DeviceEvent"
  | DV_KeyVerificationDone "KeyVerificationDone DeviceEvent"
  | DV_KeyVerificationAccept "KeyVerificationAccept DeviceEvent"
  | DV_KeyVerificationCancel "KeyVerificationCancel DeviceEvent"
  | DV_KeyVerificationKey "KeyVerificationKey DeviceEvent"
  | DV_KeyVerificationMac "KeyVerificationMac DeviceEvent"
  | DV_SecretRequest "SecretRequest DeviceEvent"
  | DV_SecretSend "SecretSend DeviceEvent"
  | DV_Unknown "Unknown DeviceEvent"

datatype RoomAccountDataEvents =
    AD_Tags "Tags EphemeralEvent"
  | AD_Direct "Direct EphemeralEvent"
  | AD_FullyRead "FullyRead EphemeralEvent"
  | AD_IgnoredUsers "IgnoredUsers EphemeralEvent"
  | AD_GlobalRuleset "Ruleset EphemeralEvent"
  | AD_HiddenEvents "HiddenEvents EphemeralEvent"
  | AD_EventExpiry "EventExpiry EphemeralEvent"
  | AD_InvitePermissions "InvitePermissions EphemeralEvent"
  | AD_ImagePack "ImagePack EphemeralEvent"
  | AD_ImagePackRooms "ImagePackRooms EphemeralEvent"
  | AD_Unknown "Unknown EphemeralEvent"

datatype (plugins only: code) StateEvents =
    ST_Aliases "Aliases StateEvent"
  | ST_Avatar "Avatar StateEvent"
  | ST_CanonicalAlias "CanonicalAlias StateEvent"
  | ST_Create "Create StateEvent"
  | ST_Encryption "Encryption StateEvent"
  | ST_GuestAccess "GuestAccess StateEvent"
  | ST_HistoryVisibility "HistoryVisibility StateEvent"
  | ST_JoinRules "JoinRules StateEvent"
  | ST_Member "Member StateEvent"
  | ST_Name "Name StateEvent"
  | ST_PinnedEvents "PinnedEvents StateEvent"
  | ST_PowerLevels "PowerLevels StateEvent"
  | ST_UserRule "UserRule StateEvent"
  | ST_RoomRule "RoomRule StateEvent"
  | ST_ServerRule "ServerRule StateEvent"
  | ST_Child "Child StateEvent"
  | ST_Parent "Parent StateEvent"
  | ST_Tombstone "Tombstone StateEvent"
  | ST_ServerAcl "ServerAcl StateEvent"
  | ST_Topic "Topic StateEvent"
  | ST_Widget "Widget StateEvent"
  | ST_Redacted "Redacted StateEvent"
  | ST_ImagePack "ImagePack StateEvent"
  | ST_Unknown "Unknown StateEvent"

datatype (plugins only: code) StrippedEvents =
    SP_Aliases "Aliases StrippedEvent"
  | SP_Avatar "Avatar StrippedEvent"
  | SP_CanonicalAlias "CanonicalAlias StrippedEvent"
  | SP_Create "Create StrippedEvent"
  | SP_Encryption "Encryption StrippedEvent"
  | SP_GuestAccess "GuestAccess StrippedEvent"
  | SP_HistoryVisibility "HistoryVisibility StrippedEvent"
  | SP_JoinRules "JoinRules StrippedEvent"
  | SP_Member "Member StrippedEvent"
  | SP_Name "Name StrippedEvent"
  | SP_PinnedEvents "PinnedEvents StrippedEvent"
  | SP_PowerLevels "PowerLevels StrippedEvent"
  | SP_UserRule "UserRule StrippedEvent"
  | SP_RoomRule "RoomRule StrippedEvent"
  | SP_ServerRule "ServerRule StrippedEvent"
  | SP_Child "Child StrippedEvent"
  | SP_Parent "Parent StrippedEvent"
  | SP_Tombstone "Tombstone StrippedEvent"
  | SP_ServerAcl "ServerAcl StrippedEvent"
  | SP_Topic "Topic StrippedEvent"
  | SP_Widget "Widget StrippedEvent"
  | SP_Redacted "Redacted StrippedEvent"
  | SP_Unknown "Unknown StrippedEvent"

datatype (plugins only: code) TimelineEvents =
    TL_Aliases "Aliases StateEvent"
  | TL_Avatar "Avatar StateEvent"
  | TL_CanonicalAlias "CanonicalAlias StateEvent"
  | TL_Create "Create StateEvent"
  | TL_Encryption "Encryption StateEvent"
  | TL_GuestAccess "GuestAccess StateEvent"
  | TL_HistoryVisibility "HistoryVisibility StateEvent"
  | TL_JoinRules "JoinRules StateEvent"
  | TL_Member "Member StateEvent"
  | TL_Name "Name StateEvent"
  | TL_PinnedEvents "PinnedEvents StateEvent"
  | TL_PowerLevels "PowerLevels StateEvent"
  | TL_UserRule "UserRule StateEvent"
  | TL_RoomRule "RoomRule StateEvent"
  | TL_ServerRule "ServerRule StateEvent"
  | TL_Child "Child StateEvent"
  | TL_Parent "Parent StateEvent"
  | TL_Tombstone "Tombstone StateEvent"
  | TL_ServerAcl "ServerAcl StateEvent"
  | TL_Topic "Topic StateEvent"
  | TL_Widget "Widget StateEvent"
  | TL_ImagePack "ImagePack StateEvent"
  | TL_RedactedState "Redacted StateEvent"
  | TL_Encrypted "Encrypted EncryptedEvent"
  | TL_Redaction "Redaction RedactionEvent"
  | TL_StickerImage "StickerImage RoomEvent"
  | TL_Reaction "Reaction RoomEvent"
  | TL_Redacted "Redacted RoomEvent"
  | TL_Audio "Audio RoomEvent"
  | TL_ElementEffect "ElementEffect RoomEvent"
  | TL_Emote "Emote RoomEvent"
  | TL_File "File RoomEvent"
  | TL_Image "Image RoomEvent"
  | TL_Location "Location RoomEvent"
  | TL_Notice "Notice RoomEvent"
  | TL_Text "Text RoomEvent"
  | TL_UnknownMessage "UnknownMessage RoomEvent"
  | TL_Video "Video RoomEvent"
  | TL_KeyVerificationRequest "KeyVerificationRequest RoomEvent"
  | TL_KeyVerificationStart "KeyVerificationStart RoomEvent"
  | TL_KeyVerificationReady "KeyVerificationReady RoomEvent"
  | TL_KeyVerificationDone "KeyVerificationDone RoomEvent"
  | TL_KeyVerificationAccept "KeyVerificationAccept RoomEvent"
  | TL_KeyVerificationCancel "KeyVerificationCancel RoomEvent"
  | TL_KeyVerificationKey "KeyVerificationKey RoomEvent"
  | TL_KeyVerificationMac "KeyVerificationMac RoomEvent"
  | TL_CallCandidates "CallCandidates RoomEvent"
  | TL_CallInvite "CallInvite RoomEvent"
  | TL_CallAnswer "CallAnswer RoomEvent"
  | TL_CallHangUp "CallHangUp RoomEvent"
  | TL_CallSelectAnswer "CallSelectAnswer RoomEvent"
  | TL_CallReject "CallReject RoomEvent"
  | TL_CallNegotiate "CallNegotiate RoomEvent"
  | TL_Unknown "Unknown RoomEvent"

datatype EphemeralEvents =
    EP_Typing "Typing EphemeralEvent"
  | EP_Receipt "Receipt EphemeralEvent"
  | EP_Unknown "Unknown EphemeralEvent"

section \<open>Shared steps\<close>

text \<open>An event without a type is unsupported.\<close>

definition getEventType_json :: "'j json_lib \<Rightarrow> 'j \<Rightarrow> EventType result" where
  "getEventType_json J obj =
     (if jcontains J obj ''type'' then rbind (jat_as J (jget_string J) obj ''type'') getEventType
      else Inr Unsupported)"

definition getMessageType_json :: "'j json_lib \<Rightarrow> 'j \<Rightarrow> MessageType" where
  "getMessageType_json J obj =
     (if jtype_of J obj = JNull then MsgRedacted
      else if \<not> jcontains J obj ''msgtype'' then MsgInvalid
      else case jat_as J (jget_string J) obj ''msgtype'' of Inl _ \<Rightarrow> MsgInvalid | Inr s \<Rightarrow> getMessageType s)"

definition is_redacted :: "'j json_lib \<Rightarrow> 'j \<Rightarrow> bool" where
  "is_redacted J obj \<longleftrightarrow> jcontains J obj ''unsigned''
     \<and> (case jat J obj ''unsigned'' of Inl _ \<Rightarrow> False | Inr u \<Rightarrow> jcontains J u ''redacted_by'')"

definition as_event :: "('a \<Rightarrow> 'v) \<Rightarrow> 'a result \<Rightarrow> 'v option result" where
  "as_event alternative r = rbind r (\<lambda>e. Inr (Some (alternative e)))"

text \<open>The warning prints the event, which fails on text that is not UTF-8.\<close>

definition log_error :: "'j json_lib \<Rightarrow> 'j \<Rightarrow> unit result" where
  "log_error J event = rbind (jdump J event) (\<lambda>_. Inr ())"

text \<open>
  The loop of the \<open>parse_\<close> functions over the events of a response. The step is the body of its try
  block: an alternative to append, nothing (\<open>continue\<close>), or an exception, which is logged.
\<close>

definition parse_events :: "'j json_lib \<Rightarrow> ('j \<Rightarrow> 'v option result) \<Rightarrow> 'j \<Rightarrow> 'v list result" where
  "parse_events J step events =
     foldM (\<lambda>e container.
         case step e of
           Inl _ \<Rightarrow> rbind (log_error J e) (\<lambda>_. Inr container)
         | Inr None \<Rightarrow> Inr container
         | Inr (Some v) \<Rightarrow> Inr (container @ [v]))
       (jiterate J events) []"

section \<open>Account data, device and ephemeral events\<close>

definition room_account_data_event :: "'j json_lib \<Rightarrow> 'j \<Rightarrow> RoomAccountDataEvents option result" where
  "room_account_data_event J obj =
     rbind (getEventType_json J obj) (\<lambda>type. case type of
        Direct \<Rightarrow> as_event AD_Direct (EphemeralEvent_from_json J (Direct_content J) obj)
      | IgnoredUsers \<Rightarrow> as_event AD_IgnoredUsers (EphemeralEvent_from_json J (IgnoredUsers_content J) obj)
      | Tag \<Rightarrow> as_event AD_Tags (EphemeralEvent_from_json J (Tags_content J) obj)
      | FullyRead \<Rightarrow> as_event AD_FullyRead (EphemeralEvent_from_json J (FullyRead_content J) obj)
      | PushRules \<Rightarrow> as_event AD_GlobalRuleset (EphemeralEvent_from_json J (GlobalRuleset_content J) obj)
      | NhekoHiddenEvents \<Rightarrow> as_event AD_HiddenEvents (EphemeralEvent_from_json J (HiddenEvents_content J) obj)
      | NhekoEventExpiry \<Rightarrow> as_event AD_EventExpiry (EphemeralEvent_from_json J (EventExpiry_content J) obj)
      | NhekoInvitePermissions \<Rightarrow> as_event AD_InvitePermissions (EphemeralEvent_from_json J (InvitePermissions_content J) obj)
      | ImagePackRooms \<Rightarrow> as_event AD_ImagePackRooms (EphemeralEvent_from_json J (ImagePackRooms_content J) obj)
      | ImagePackInAccountData \<Rightarrow> as_event AD_ImagePack (EphemeralEvent_from_json J (ImagePack_content J) obj)
      | Unsupported \<Rightarrow> as_event AD_Unknown (EphemeralEvent_from_json J (Unknown_content J) obj)
      | _ \<Rightarrow> Inr None)"

definition parse_room_account_data_events :: "'j json_lib \<Rightarrow> 'j \<Rightarrow> RoomAccountDataEvents list result" where
  "parse_room_account_data_events J = parse_events J (room_account_data_event J)"

text \<open>The algorithm tells an olm from a megolm message.\<close>

definition device_event :: "'j json_lib \<Rightarrow> 'j \<Rightarrow> DeviceEvents option result" where
  "device_event J obj =
     rbind (getEventType_json J obj) (\<lambda>type. case type of
        RoomEncrypted \<Rightarrow> rbind (jat J obj ''content'') (\<lambda>content.
          rbind (jat_as J (jget_string J) content ''algorithm'') (\<lambda>algo.
            if algo = ''m.olm.v1.curve25519-aes-sha2''
            then as_event DV_OlmEncrypted (DeviceEvent_from_json J (OlmEncrypted_content J) obj)
            else if algo = ''m.megolm.v1.aes-sha2''
            then as_event DV_Encrypted (DeviceEvent_from_json J (Encrypted_content J) obj)
            else rbind (log_error J obj) (\<lambda>_. Inr None)))
      | Dummy \<Rightarrow> as_event DV_Dummy (DeviceEvent_from_json J (Dummy_content J) obj)
      | RoomKey \<Rightarrow> as_event DV_RoomKey (DeviceEvent_from_json J (RoomKey_content J) obj)
      | ForwardedRoomKey \<Rightarrow> as_event DV_ForwardedRoomKey (DeviceEvent_from_json J (ForwardedRoomKey_content J) obj)
      | RoomKeyRequest \<Rightarrow> as_event DV_KeyRequest (DeviceEvent_from_json J (KeyRequest_content J) obj)
      | KeyVerificationCancel \<Rightarrow> as_event DV_KeyVerificationCancel (DeviceEvent_from_json J (KeyVerificationCancel_content J) obj)
      | KeyVerificationRequest \<Rightarrow> as_event DV_KeyVerificationRequest (DeviceEvent_from_json J (KeyVerificationRequest_content J) obj)
      | KeyVerificationStart \<Rightarrow> as_event DV_KeyVerificationStart (DeviceEvent_from_json J (KeyVerificationStart_content J) obj)
      | KeyVerificationAccept \<Rightarrow> as_event DV_KeyVerificationAccept (DeviceEvent_from_json J (KeyVerificationAccept_content J) obj)
      | KeyVerificationKey \<Rightarrow> as_event DV_KeyVerificationKey (DeviceEvent_from_json J (KeyVerificationKey_content J) obj)
      | KeyVerificationMac \<Rightarrow> as_event DV_KeyVerificationMac (DeviceEvent_from_json J (KeyVerificationMac_content J) obj)
      | KeyVerificationReady \<Rightarrow> as_event DV_KeyVerificationReady (DeviceEvent_from_json J (KeyVerificationReady_content J) obj)
      | KeyVerificationDone \<Rightarrow> as_event DV_KeyVerificationDone (DeviceEvent_from_json J (KeyVerificationDone_content J) obj)
      | SecretSend \<Rightarrow> as_event DV_SecretSend (DeviceEvent_from_json J (SecretSend_content J) obj)
      | SecretRequest \<Rightarrow> as_event DV_SecretRequest (DeviceEvent_from_json J (SecretRequest_content J) obj)
      | Unsupported \<Rightarrow> as_event DV_Unknown (DeviceEvent_from_json J (Unknown_content J) obj)
      | _ \<Rightarrow> Inr None)"

definition parse_device_events :: "'j json_lib \<Rightarrow> 'j \<Rightarrow> DeviceEvents list result" where
  "parse_device_events J = parse_events J (device_event J)"

definition ephemeral_event :: "'j json_lib \<Rightarrow> 'j \<Rightarrow> EphemeralEvents option result" where
  "ephemeral_event J obj =
     rbind (getEventType_json J obj) (\<lambda>type. case type of
        Typing \<Rightarrow> as_event EP_Typing (EphemeralEvent_from_json J (Typing_content J) obj)
      | Receipt \<Rightarrow> as_event EP_Receipt (EphemeralEvent_from_json J (Receipt_content J) obj)
      | Unsupported \<Rightarrow> as_event EP_Unknown (EphemeralEvent_from_json J (Unknown_content J) obj)
      | _ \<Rightarrow> Inr None)"

definition parse_ephemeral_events :: "'j json_lib \<Rightarrow> 'j \<Rightarrow> EphemeralEvents list result" where
  "parse_ephemeral_events J = parse_events J (ephemeral_event J)"

section \<open>State events\<close>

definition state_event :: "'j json_lib \<Rightarrow> 'j \<Rightarrow> StateEvents option result" where
  "state_event J obj =
     rbind (getEventType_json J obj) (\<lambda>type.
     if is_redacted J obj then as_event ST_Redacted (StateEvent_from_json J (Redacted_content J) obj)
     else case type of
        RoomAliases \<Rightarrow> as_event ST_Aliases (StateEvent_from_json J (Aliases_content J) obj)
      | RoomAvatar \<Rightarrow> as_event ST_Avatar (StateEvent_from_json J (Avatar_content J) obj)
      | RoomCanonicalAlias \<Rightarrow> as_event ST_CanonicalAlias (StateEvent_from_json J (CanonicalAlias_content J) obj)
      | RoomCreate \<Rightarrow> as_event ST_Create (StateEvent_from_json J (Create_content J) obj)
      | RoomEncryption \<Rightarrow> as_event ST_Encryption (StateEvent_from_json J (Encryption_content J) obj)
      | RoomGuestAccess \<Rightarrow> as_event ST_GuestAccess (StateEvent_from_json J (GuestAccess_content J) obj)
      | RoomHistoryVisibility \<Rightarrow> as_event ST_HistoryVisibility (StateEvent_from_json J (HistoryVisibility_content J) obj)
      | RoomJoinRules \<Rightarrow> as_event ST_JoinRules (StateEvent_from_json J (JoinRules_content J) obj)
      | RoomMember \<Rightarrow> as_event ST_Member (StateEvent_from_json J (Member_content J) obj)
      | RoomName \<Rightarrow> as_event ST_Name (StateEvent_from_json J (Name_content J) obj)
      | RoomPowerLevels \<Rightarrow> as_event ST_PowerLevels (StateEvent_from_json J (PowerLevels_content J) obj)
      | RoomTombstone \<Rightarrow> as_event ST_Tombstone (StateEvent_from_json J (Tombstone_content J) obj)
      | RoomServerAcl \<Rightarrow> as_event ST_ServerAcl (StateEvent_from_json J (ServerAcl_content J) obj)
      | RoomTopic \<Rightarrow> as_event ST_Topic (StateEvent_from_json J (Topic_content J) obj)
      | Widget \<Rightarrow> as_event ST_Widget (StateEvent_from_json J (Widget_content J) obj)
      | VectorWidget \<Rightarrow> as_event ST_Widget (StateEvent_from_json J (Widget_content J) obj)
      | PolicyRuleUser \<Rightarrow> as_event ST_UserRule (StateEvent_from_json J (UserRule_content J) obj)
      | PolicyRuleRoom \<Rightarrow> as_event ST_RoomRule (StateEvent_from_json J (RoomRule_content J) obj)
      | PolicyRuleServer \<Rightarrow> as_event ST_ServerRule (StateEvent_from_json J (ServerRule_content J) obj)
      | SpaceChild \<Rightarrow> as_event ST_Child (StateEvent_from_json J (Child_content J) obj)
      | SpaceParent \<Rightarrow> as_event ST_Parent (StateEvent_from_json J (Parent_content J) obj)
      | ImagePackInRoom \<Rightarrow> as_event ST_ImagePack (StateEvent_from_json J (ImagePack_content J) obj)
      | RoomPinnedEvents \<Rightarrow> as_event ST_PinnedEvents (StateEvent_from_json J (PinnedEvents_content J) obj)
      | Unsupported \<Rightarrow> as_event ST_Unknown (StateEvent_from_json J (Unknown_content J) obj)
      | _ \<Rightarrow> Inr None)"

definition parse_state_events :: "'j json_lib \<Rightarrow> 'j \<Rightarrow> StateEvents list result" where
  "parse_state_events J = parse_events J (state_event J)"

definition stripped_event :: "'j json_lib \<Rightarrow> 'j \<Rightarrow> StrippedEvents option result" where
  "stripped_event J obj =
     rbind (getEventType_json J obj) (\<lambda>type. case type of
        RoomAliases \<Rightarrow> as_event SP_Aliases (StrippedEvent_from_json J (Aliases_content J) obj)
      | RoomAvatar \<Rightarrow> as_event SP_Avatar (StrippedEvent_from_json J (Avatar_content J) obj)
      | RoomCanonicalAlias \<Rightarrow> as_event SP_CanonicalAlias (StrippedEvent_from_json J (CanonicalAlias_content J) obj)
      | RoomCreate \<Rightarrow> as_event SP_Create (StrippedEvent_from_json J (Create_content J) obj)
      | RoomGuestAccess \<Rightarrow> as_event SP_GuestAccess (StrippedEvent_from_json J (GuestAccess_content J) obj)
      | RoomHistoryVisibility \<Rightarrow> as_event SP_HistoryVisibility (StrippedEvent_from_json J (HistoryVisibility_content J) obj)
      | RoomJoinRules \<Rightarrow> as_event SP_JoinRules (StrippedEvent_from_json J (JoinRules_content J) obj)
      | RoomMember \<Rightarrow> as_event SP_Member (StrippedEvent_from_json J (Member_content J) obj)
      | RoomName \<Rightarrow> as_event SP_Name (StrippedEvent_from_json J (Name_content J) obj)
      | RoomPowerLevels \<Rightarrow> as_event SP_PowerLevels (StrippedEvent_from_json J (PowerLevels_content J) obj)
      | RoomTombstone \<Rightarrow> as_event SP_Tombstone (StrippedEvent_from_json J (Tombstone_content J) obj)
      | RoomServerAcl \<Rightarrow> as_event SP_ServerAcl (StrippedEvent_from_json J (ServerAcl_content J) obj)
      | RoomTopic \<Rightarrow> as_event SP_Topic (StrippedEvent_from_json J (Topic_content J) obj)
      | Widget \<Rightarrow> as_event SP_Widget (StrippedEvent_from_json J (Widget_content J) obj)
      | VectorWidget \<Rightarrow> as_event SP_Widget (StrippedEvent_from_json J (Widget_content J) obj)
      | PolicyRuleUser \<Rightarrow> as_event SP_UserRule (StrippedEvent_from_json J (UserRule_content J) obj)
      | PolicyRuleRoom \<Rightarrow> as_event SP_RoomRule (StrippedEvent_from_json J (RoomRule_content J) obj)
      | PolicyRuleServer \<Rightarrow> as_event SP_ServerRule (StrippedEvent_from_json J (ServerRule_content J) obj)
      | SpaceChild \<Rightarrow> as_event SP_Child (StrippedEvent_from_json J (Child_content J) obj)
      | SpaceParent \<Rightarrow> as_event SP_Parent (StrippedEvent_from_json J (Parent_content J) obj)
      | RoomPinnedEvents \<Rightarrow> as_event SP_PinnedEvents (StrippedEvent_from_json J (PinnedEvents_content J) obj)
      | Unsupported \<Rightarrow> as_event SP_Unknown (StrippedEvent_from_json J (Unknown_content J) obj)
      | _ \<Rightarrow> Inr None)"

definition parse_stripped_events :: "'j json_lib \<Rightarrow> 'j \<Rightarrow> StrippedEvents list result" where
  "parse_stripped_events J = parse_events J (stripped_event J)"

section \<open>The timeline\<close>

text \<open>The switch over the message type, which both readers of the timeline have.\<close>

definition message_event :: "'j json_lib \<Rightarrow> 'j \<Rightarrow> TimelineEvents option result" where
  "message_event J obj =
     rbind (jat J obj ''content'') (\<lambda>content. case getMessageType_json J content of
        MsgAudio \<Rightarrow> as_event TL_Audio (RoomEvent_from_json J (Audio_content J) obj)
      | MsgElementEffect \<Rightarrow> as_event TL_ElementEffect (RoomEvent_from_json J (ElementEffect_content J) obj)
      | MsgEmote \<Rightarrow> as_event TL_Emote (RoomEvent_from_json J (Emote_content J) obj)
      | MsgFile \<Rightarrow> as_event TL_File (RoomEvent_from_json J (File_content J) obj)
      | MsgImage \<Rightarrow> as_event TL_Image (RoomEvent_from_json J (Image_content J) obj)
      | MsgLocation \<Rightarrow> as_event TL_Location (RoomEvent_from_json J (Location_content J) obj)
      | MsgNotice \<Rightarrow> as_event TL_Notice (RoomEvent_from_json J (Notice_content J) obj)
      | MsgText \<Rightarrow> as_event TL_Text (RoomEvent_from_json J (Text_content J) obj)
      | MsgVideo \<Rightarrow> as_event TL_Video (RoomEvent_from_json J (Video_content J) obj)
      | MsgKeyVerificationRequest \<Rightarrow> as_event TL_KeyVerificationRequest (RoomEvent_from_json J (KeyVerificationRequest_content J) obj)
      | MsgUnknown \<Rightarrow> as_event TL_UnknownMessage (RoomEvent_from_json J (UnknownMessage_content J) obj)
      | MsgRedacted \<Rightarrow> as_event TL_Unknown (RoomEvent_from_json J (Unknown_content J) obj)
      | MsgInvalid \<Rightarrow> Inr None)"

definition timeline_event :: "'j json_lib \<Rightarrow> 'j \<Rightarrow> TimelineEvents option result" where
  "timeline_event J obj =
     rbind (getEventType_json J obj) (\<lambda>type.
     if is_redacted J obj then
       if jcontains J obj ''state_key'' then as_event TL_RedactedState (StateEvent_from_json J (Redacted_content J) obj)
       else as_event TL_Redacted (RoomEvent_from_json J (Redacted_content J) obj)
     else case type of
        Reaction \<Rightarrow> as_event TL_Reaction (RoomEvent_from_json J (Reaction_content J) obj)
      | RoomAliases \<Rightarrow> as_event TL_Aliases (StateEvent_from_json J (Aliases_content J) obj)
      | RoomAvatar \<Rightarrow> as_event TL_Avatar (StateEvent_from_json J (Avatar_content J) obj)
      | RoomCanonicalAlias \<Rightarrow> as_event TL_CanonicalAlias (StateEvent_from_json J (CanonicalAlias_content J) obj)
      | RoomCreate \<Rightarrow> as_event TL_Create (StateEvent_from_json J (Create_content J) obj)
      | RoomEncrypted \<Rightarrow> as_event TL_Encrypted (EncryptedEvent_from_json J (Encrypted_content J) obj)
      | RoomEncryption \<Rightarrow> as_event TL_Encryption (StateEvent_from_json J (Encryption_content J) obj)
      | RoomGuestAccess \<Rightarrow> as_event TL_GuestAccess (StateEvent_from_json J (GuestAccess_content J) obj)
      | RoomHistoryVisibility \<Rightarrow> as_event TL_HistoryVisibility (StateEvent_from_json J (HistoryVisibility_content J) obj)
      | RoomJoinRules \<Rightarrow> as_event TL_JoinRules (StateEvent_from_json J (JoinRules_content J) obj)
      | RoomMember \<Rightarrow> as_event TL_Member (StateEvent_from_json J (Member_content J) obj)
      | RoomName \<Rightarrow> as_event TL_Name (StateEvent_from_json J (Name_content J) obj)
      | RoomPowerLevels \<Rightarrow> as_event TL_PowerLevels (StateEvent_from_json J (PowerLevels_content J) obj)
      | RoomRedaction \<Rightarrow> as_event TL_Redaction (RedactionEvent_from_json J (Redaction_content J) obj)
      | RoomTombstone \<Rightarrow> as_event TL_Tombstone (StateEvent_from_json J (Tombstone_content J) obj)
      | RoomServerAcl \<Rightarrow> as_event TL_ServerAcl (StateEvent_from_json J (ServerAcl_content J) obj)
      | RoomTopic \<Rightarrow> as_event TL_Topic (StateEvent_from_json J (Topic_content J) obj)
      | Widget \<Rightarrow> as_event TL_Widget (StateEvent_from_json J (Widget_content J) obj)
      | VectorWidget \<Rightarrow> as_event TL_Widget (StateEvent_from_json J (Widget_content J) obj)
      | PolicyRuleUser \<Rightarrow> as_event TL_UserRule (StateEvent_from_json J (UserRule_content J) obj)
      | PolicyRuleRoom \<Rightarrow> as_event TL_RoomRule (StateEvent_from_json J (RoomRule_content J) obj)
      | PolicyRuleServer \<Rightarrow> as_event TL_ServerRule (StateEvent_from_json J (ServerRule_content J) obj)
      | SpaceChild \<Rightarrow> as_event TL_Child (StateEvent_from_json J (Child_content J) obj)
      | SpaceParent \<Rightarrow> as_event TL_Parent (StateEvent_from_json J (Parent_content J) obj)
      | ImagePackInRoom \<Rightarrow> as_event TL_ImagePack (StateEvent_from_json J (ImagePack_content J) obj)
      | KeyVerificationStart \<Rightarrow> as_event TL_KeyVerificationStart (RoomEvent_from_json J (KeyVerificationStart_content J) obj)
      | KeyVerificationAccept \<Rightarrow> as_event TL_KeyVerificationAccept (RoomEvent_from_json J (KeyVerificationAccept_content J) obj)
      | KeyVerificationDone \<Rightarrow> as_event TL_KeyVerificationDone (RoomEvent_from_json J (KeyVerificationDone_content J) obj)
      | KeyVerificationReady \<Rightarrow> as_event TL_KeyVerificationReady (RoomEvent_from_json J (KeyVerificationReady_content J) obj)
      | KeyVerificationKey \<Rightarrow> as_event TL_KeyVerificationKey (RoomEvent_from_json J (KeyVerificationKey_content J) obj)
      | KeyVerificationMac \<Rightarrow> as_event TL_KeyVerificationMac (RoomEvent_from_json J (KeyVerificationMac_content J) obj)
      | KeyVerificationCancel \<Rightarrow> as_event TL_KeyVerificationCancel (RoomEvent_from_json J (KeyVerificationCancel_content J) obj)
      | RoomMessage \<Rightarrow> message_event J obj
      | Sticker \<Rightarrow> as_event TL_StickerImage (RoomEvent_from_json J (StickerImage_content J) obj)
      | CallInvite \<Rightarrow> as_event TL_CallInvite (RoomEvent_from_json J (CallInvite_content J) obj)
      | CallCandidates \<Rightarrow> as_event TL_CallCandidates (RoomEvent_from_json J (CallCandidates_content J) obj)
      | CallAnswer \<Rightarrow> as_event TL_CallAnswer (RoomEvent_from_json J (CallAnswer_content J) obj)
      | CallHangUp \<Rightarrow> as_event TL_CallHangUp (RoomEvent_from_json J (CallHangUp_content J) obj)
      | CallSelectAnswer \<Rightarrow> as_event TL_CallSelectAnswer (RoomEvent_from_json J (CallSelectAnswer_content J) obj)
      | CallReject \<Rightarrow> as_event TL_CallReject (RoomEvent_from_json J (CallReject_content J) obj)
      | CallNegotiate \<Rightarrow> as_event TL_CallNegotiate (RoomEvent_from_json J (CallNegotiate_content J) obj)
      | RoomPinnedEvents \<Rightarrow> as_event TL_PinnedEvents (StateEvent_from_json J (PinnedEvents_content J) obj)
      | Unsupported \<Rightarrow> as_event TL_Unknown (RoomEvent_from_json J (Unknown_content J) obj)
      | _ \<Rightarrow> Inr None)"

definition parse_timeline_events :: "'j json_lib \<Rightarrow> 'j \<Rightarrow> TimelineEvents list result" where
  "parse_timeline_events J = parse_events J (timeline_event J)"

text \<open>
  The same choice for a single event. The alternatives differ from those above in one type, requests
  for a verification, and what fails is read again as an event of unknown content. A type that does not
  belong to the timeline leaves the value as it was.
\<close>

definition collections_event :: "'j json_lib \<Rightarrow> EventType \<Rightarrow> 'j \<Rightarrow> TimelineEvents option result" where
  "collections_event J type obj =
     (if is_redacted J obj then
       if jcontains J obj ''state_key'' then as_event TL_RedactedState (StateEvent_from_json J (Redacted_content J) obj)
       else as_event TL_Redacted (RoomEvent_from_json J (Redacted_content J) obj)
     else case type of
        Reaction \<Rightarrow> as_event TL_Reaction (RoomEvent_from_json J (Reaction_content J) obj)
      | RoomAliases \<Rightarrow> as_event TL_Aliases (StateEvent_from_json J (Aliases_content J) obj)
      | RoomAvatar \<Rightarrow> as_event TL_Avatar (StateEvent_from_json J (Avatar_content J) obj)
      | RoomCanonicalAlias \<Rightarrow> as_event TL_CanonicalAlias (StateEvent_from_json J (CanonicalAlias_content J) obj)
      | RoomCreate \<Rightarrow> as_event TL_Create (StateEvent_from_json J (Create_content J) obj)
      | RoomEncrypted \<Rightarrow> as_event TL_Encrypted (EncryptedEvent_from_json J (Encrypted_content J) obj)
      | RoomEncryption \<Rightarrow> as_event TL_Encryption (StateEvent_from_json J (Encryption_content J) obj)
      | RoomGuestAccess \<Rightarrow> as_event TL_GuestAccess (StateEvent_from_json J (GuestAccess_content J) obj)
      | RoomHistoryVisibility \<Rightarrow> as_event TL_HistoryVisibility (StateEvent_from_json J (HistoryVisibility_content J) obj)
      | RoomJoinRules \<Rightarrow> as_event TL_JoinRules (StateEvent_from_json J (JoinRules_content J) obj)
      | RoomMember \<Rightarrow> as_event TL_Member (StateEvent_from_json J (Member_content J) obj)
      | RoomName \<Rightarrow> as_event TL_Name (StateEvent_from_json J (Name_content J) obj)
      | RoomPowerLevels \<Rightarrow> as_event TL_PowerLevels (StateEvent_from_json J (PowerLevels_content J) obj)
      | RoomRedaction \<Rightarrow> as_event TL_Redaction (RedactionEvent_from_json J (Redaction_content J) obj)
      | RoomTombstone \<Rightarrow> as_event TL_Tombstone (StateEvent_from_json J (Tombstone_content J) obj)
      | RoomServerAcl \<Rightarrow> as_event TL_ServerAcl (StateEvent_from_json J (ServerAcl_content J) obj)
      | RoomTopic \<Rightarrow> as_event TL_Topic (StateEvent_from_json J (Topic_content J) obj)
      | Widget \<Rightarrow> as_event TL_Widget (StateEvent_from_json J (Widget_content J) obj)
      | VectorWidget \<Rightarrow> as_event TL_Widget (StateEvent_from_json J (Widget_content J) obj)
      | RoomPinnedEvents \<Rightarrow> as_event TL_PinnedEvents (StateEvent_from_json J (PinnedEvents_content J) obj)
      | PolicyRuleUser \<Rightarrow> as_event TL_UserRule (StateEvent_from_json J (UserRule_content J) obj)
      | PolicyRuleRoom \<Rightarrow> as_event TL_RoomRule (StateEvent_from_json J (RoomRule_content J) obj)
      | PolicyRuleServer \<Rightarrow> as_event TL_ServerRule (StateEvent_from_json J (ServerRule_content J) obj)
      | SpaceChild \<Rightarrow> as_event TL_Child (StateEvent_from_json J (Child_content J) obj)
      | SpaceParent \<Rightarrow> as_event TL_Parent (StateEvent_from_json J (Parent_content J) obj)
      | ImagePackInRoom \<Rightarrow> as_event TL_ImagePack (StateEvent_from_json J (ImagePack_content J) obj)
      | KeyVerificationCancel \<Rightarrow> as_event TL_KeyVerificationCancel (RoomEvent_from_json J (KeyVerificationCancel_content J) obj)
      | KeyVerificationRequest \<Rightarrow> as_event TL_KeyVerificationRequest (RoomEvent_from_json J (KeyVerificationRequest_content J) obj)
      | KeyVerificationReady \<Rightarrow> as_event TL_KeyVerificationReady (RoomEvent_from_json J (KeyVerificationReady_content J) obj)
      | KeyVerificationStart \<Rightarrow> as_event TL_KeyVerificationStart (RoomEvent_from_json J (KeyVerificationStart_content J) obj)
      | KeyVerificationDone \<Rightarrow> as_event TL_KeyVerificationDone (RoomEvent_from_json J (KeyVerificationDone_content J) obj)
      | KeyVerificationKey \<Rightarrow> as_event TL_KeyVerificationKey (RoomEvent_from_json J (KeyVerificationKey_content J) obj)
      | KeyVerificationMac \<Rightarrow> as_event TL_KeyVerificationMac (RoomEvent_from_json J (KeyVerificationMac_content J) obj)
      | KeyVerificationAccept \<Rightarrow> as_event TL_KeyVerificationAccept (RoomEvent_from_json J (KeyVerificationAccept_content J) obj)
      | RoomMessage \<Rightarrow> message_event J obj
      | Sticker \<Rightarrow> as_event TL_StickerImage (RoomEvent_from_json J (StickerImage_content J) obj)
      | CallInvite \<Rightarrow> as_event TL_CallInvite (RoomEvent_from_json J (CallInvite_content J) obj)
      | CallCandidates \<Rightarrow> as_event TL_CallCandidates (RoomEvent_from_json J (CallCandidates_content J) obj)
      | CallAnswer \<Rightarrow> as_event TL_CallAnswer (RoomEvent_from_json J (CallAnswer_content J) obj)
      | CallHangUp \<Rightarrow> as_event TL_CallHangUp (RoomEvent_from_json J (CallHangUp_content J) obj)
      | CallSelectAnswer \<Rightarrow> as_event TL_CallSelectAnswer (RoomEvent_from_json J (CallSelectAnswer_content J) obj)
      | CallReject \<Rightarrow> as_event TL_CallReject (RoomEvent_from_json J (CallReject_content J) obj)
      | CallNegotiate \<Rightarrow> as_event TL_CallNegotiate (RoomEvent_from_json J (CallNegotiate_content J) obj)
      | Unsupported \<Rightarrow> as_event TL_Unknown (RoomEvent_from_json J (Unknown_content J) obj)
      | _ \<Rightarrow> Inr None)"

definition TimelineEvents_from_json :: "'j json_lib \<Rightarrow> 'j \<Rightarrow> TimelineEvents \<Rightarrow> TimelineEvents result" where
  "TimelineEvents_from_json J obj e =
     rbind (getEventType_json J obj) (\<lambda>type.
       case collections_event J type obj of
         Inr None \<Rightarrow> Inr e
       | Inr (Some v) \<Rightarrow> Inr v
       | Inl _ \<Rightarrow> rbind (jdump J obj) (\<lambda>_.
           rbind (RoomEvent_from_json J (Unknown_content J) obj) (\<lambda>v. Inr (TL_Unknown v))))"

primrec TimelineEvents_to_json :: "'j json_lib \<Rightarrow> TimelineEvents \<Rightarrow> 'j result" where
  "TimelineEvents_to_json J (TL_Aliases e) = StateEvent_to_json J (Aliases_content J) e"
| "TimelineEvents_to_json J (TL_Avatar e) = StateEvent_to_json J (Avatar_content J) e"
| "TimelineEvents_to_json J (TL_CanonicalAlias e) = StateEvent_to_json J (CanonicalAlias_content J) e"
| "TimelineEvents_to_json J (TL_Create e) = StateEvent_to_json J (Create_content J) e"
| "TimelineEvents_to_json J (TL_Encryption e) = StateEvent_to_json J (Encryption_content J) e"
| "TimelineEvents_to_json J (TL_GuestAccess e) = StateEvent_to_json J (GuestAccess_content J) e"
| "TimelineEvents_to_json J (TL_HistoryVisibility e) = StateEvent_to_json J (HistoryVisibility_content J) e"
| "TimelineEvents_to_json J (TL_JoinRules e) = StateEvent_to_json J (JoinRules_content J) e"
| "TimelineEvents_to_json J (TL_Member e) = StateEvent_to_json J (Member_content J) e"
| "TimelineEvents_to_json J (TL_Name e) = StateEvent_to_json J (Name_content J) e"
| "TimelineEvents_to_json J (TL_PinnedEvents e) = StateEvent_to_json J (PinnedEvents_content J) e"
| "TimelineEvents_to_json J (TL_PowerLevels e) = StateEvent_to_json J (PowerLevels_content J) e"
| "TimelineEvents_to_json J (TL_UserRule e) = StateEvent_to_json J (UserRule_content J) e"
| "TimelineEvents_to_json J (TL_RoomRule e) = StateEvent_to_json J (RoomRule_content J) e"
| "TimelineEvents_to_json J (TL_ServerRule e) = StateEvent_to_json J (ServerRule_content J) e"
| "TimelineEvents_to_json J (TL_Child e) = StateEvent_to_json J (Child_content J) e"
| "TimelineEvents_to_json J (TL_Parent e) = StateEvent_to_json J (Parent_content J) e"
| "TimelineEvents_to_json J (TL_Tombstone e) = StateEvent_to_json J (Tombstone_content J) e"
| "TimelineEvents_to_json J (TL_ServerAcl e) = StateEvent_to_json J (ServerAcl_content J) e"
| "TimelineEvents_to_json J (TL_Topic e) = StateEvent_to_json J (Topic_content J) e"
| "TimelineEvents_to_json J (TL_Widget e) = StateEvent_to_json J (Widget_content J) e"
| "TimelineEvents_to_json J (TL_ImagePack e) = StateEvent_to_json J (ImagePack_content J) e"
| "TimelineEvents_to_json J (TL_RedactedState e) = StateEvent_to_json J (Redacted_content J) e"
| "TimelineEvents_to_json J (TL_Encrypted e) = EncryptedEvent_to_json J (Encrypted_content J) e"
| "TimelineEvents_to_json J (TL_Redaction e) = RedactionEvent_to_json J (Redaction_content J) e"
| "TimelineEvents_to_json J (TL_StickerImage e) = RoomEvent_to_json J (StickerImage_content J) e"
| "TimelineEvents_to_json J (TL_Reaction e) = RoomEvent_to_json J (Reaction_content J) e"
| "TimelineEvents_to_json J (TL_Redacted e) = RoomEvent_to_json J (Redacted_content J) e"
| "TimelineEvents_to_json J (TL_Audio e) = RoomEvent_to_json J (Audio_content J) e"
| "TimelineEvents_to_json J (TL_ElementEffect e) = RoomEvent_to_json J (ElementEffect_content J) e"
| "TimelineEvents_to_json J (TL_Emote e) = RoomEvent_to_json J (Emote_content J) e"
| "TimelineEvents_to_json J (TL_File e) = RoomEvent_to_json J (File_content J) e"
| "TimelineEvents_to_json J (TL_Image e) = RoomEvent_to_json J (Image_content J) e"
| "TimelineEvents_to_json J (TL_Location e) = RoomEvent_to_json J (Location_content J) e"
| "TimelineEvents_to_json J (TL_Notice e) = RoomEvent_to_json J (Notice_content J) e"
| "TimelineEvents_to_json J (TL_Text e) = RoomEvent_to_json J (Text_content J) e"
| "TimelineEvents_to_json J (TL_UnknownMessage e) = RoomEvent_to_json J (UnknownMessage_content J) e"
| "TimelineEvents_to_json J (TL_Video e) = RoomEvent_to_json J (Video_content J) e"
| "TimelineEvents_to_json J (TL_KeyVerificationRequest e) = RoomEvent_to_json J (KeyVerificationRequest_content J) e"
| "TimelineEvents_to_json J (TL_KeyVerificationStart e) = RoomEvent_to_json J (KeyVerificationStart_content J) e"
| "TimelineEvents_to_json J (TL_KeyVerificationReady e) = RoomEvent_to_json J (KeyVerificationReady_content J) e"
| "TimelineEvents_to_json J (TL_KeyVerificationDone e) = RoomEvent_to_json J (KeyVerificationDone_content J) e"
| "TimelineEvents_to_json J (TL_KeyVerificationAccept e) = RoomEvent_to_json J (KeyVerificationAccept_content J) e"
| "TimelineEvents_to_json J (TL_KeyVerificationCancel e) = RoomEvent_to_json J (KeyVerificationCancel_content J) e"
| "TimelineEvents_to_json J (TL_KeyVerificationKey e) = RoomEvent_to_json J (KeyVerificationKey_content J) e"
| "TimelineEvents_to_json J (TL_KeyVerificationMac e) = RoomEvent_to_json J (KeyVerificationMac_content J) e"
| "TimelineEvents_to_json J (TL_CallCandidates e) = RoomEvent_to_json J (CallCandidates_content J) e"
| "TimelineEvents_to_json J (TL_CallInvite e) = RoomEvent_to_json J (CallInvite_content J) e"
| "TimelineEvents_to_json J (TL_CallAnswer e) = RoomEvent_to_json J (CallAnswer_content J) e"
| "TimelineEvents_to_json J (TL_CallHangUp e) = RoomEvent_to_json J (CallHangUp_content J) e"
| "TimelineEvents_to_json J (TL_CallSelectAnswer e) = RoomEvent_to_json J (CallSelectAnswer_content J) e"
| "TimelineEvents_to_json J (TL_CallReject e) = RoomEvent_to_json J (CallReject_content J) e"
| "TimelineEvents_to_json J (TL_CallNegotiate e) = RoomEvent_to_json J (CallNegotiate_content J) e"
| "TimelineEvents_to_json J (TL_Unknown e) = RoomEvent_to_json J (Unknown_content J) e"

text \<open>Only the first event of the container is written.\<close>

definition compose_timeline_events :: "'j json_lib \<Rightarrow> TimelineEvents list \<Rightarrow> 'j result" where
  "compose_timeline_events J container =
     (case container of [] \<Rightarrow> Inl (Out_of_range ''vector::at'') | c # _ \<Rightarrow> TimelineEvents_to_json J c)"

section \<open>The types that contents are sent with\<close>

text \<open>
  The client template methods take the event type from the type of the content: here, from the
  alternative that holds the content. Contents without an entry have no type and are refused at compile time.
\<close>

fun message_content_to_type :: "TimelineEvents \<Rightarrow> EventType" where
  "message_content_to_type (TL_Encrypted _) = RoomEncrypted"
| "message_content_to_type (TL_Reaction _) = Reaction"
| "message_content_to_type (TL_Audio _) = RoomMessage"
| "message_content_to_type (TL_Emote _) = RoomMessage"
| "message_content_to_type (TL_File _) = RoomMessage"
| "message_content_to_type (TL_Image _) = RoomMessage"
| "message_content_to_type (TL_Location _) = RoomMessage"
| "message_content_to_type (TL_Notice _) = RoomMessage"
| "message_content_to_type (TL_Text _) = RoomMessage"
| "message_content_to_type (TL_UnknownMessage _) = RoomMessage"
| "message_content_to_type (TL_Video _) = RoomMessage"
| "message_content_to_type (TL_ElementEffect _) = RoomMessage"
| "message_content_to_type (TL_StickerImage _) = Sticker"
| "message_content_to_type (TL_CallInvite _) = CallInvite"
| "message_content_to_type (TL_CallCandidates _) = CallCandidates"
| "message_content_to_type (TL_CallAnswer _) = CallAnswer"
| "message_content_to_type (TL_CallHangUp _) = CallHangUp"
| "message_content_to_type (TL_CallSelectAnswer _) = CallSelectAnswer"
| "message_content_to_type (TL_CallReject _) = CallReject"
| "message_content_to_type (TL_CallNegotiate _) = CallNegotiate"
| "message_content_to_type _ = Unsupported"

fun state_content_to_type :: "TimelineEvents \<Rightarrow> EventType" where
  "state_content_to_type (TL_Aliases _) = RoomAliases"
| "state_content_to_type (TL_Avatar _) = RoomAvatar"
| "state_content_to_type (TL_CanonicalAlias _) = RoomCanonicalAlias"
| "state_content_to_type (TL_Create _) = RoomCreate"
| "state_content_to_type (TL_Encryption _) = RoomEncryption"
| "state_content_to_type (TL_GuestAccess _) = RoomGuestAccess"
| "state_content_to_type (TL_HistoryVisibility _) = RoomHistoryVisibility"
| "state_content_to_type (TL_JoinRules _) = RoomJoinRules"
| "state_content_to_type (TL_Member _) = RoomMember"
| "state_content_to_type (TL_Name _) = RoomName"
| "state_content_to_type (TL_PinnedEvents _) = RoomPinnedEvents"
| "state_content_to_type (TL_UserRule _) = PolicyRuleUser"
| "state_content_to_type (TL_RoomRule _) = PolicyRuleRoom"
| "state_content_to_type (TL_ServerRule _) = PolicyRuleServer"
| "state_content_to_type (TL_PowerLevels _) = RoomPowerLevels"
| "state_content_to_type (TL_Tombstone _) = RoomTombstone"
| "state_content_to_type (TL_ServerAcl _) = RoomServerAcl"
| "state_content_to_type (TL_Child _) = SpaceChild"
| "state_content_to_type (TL_Parent _) = SpaceParent"
| "state_content_to_type (TL_Widget _) = VectorWidget"
| "state_content_to_type (TL_Topic _) = RoomTopic"
| "state_content_to_type (TL_ImagePack _) = ImagePackInRoom"
| "state_content_to_type _ = Unsupported"

fun to_device_content_to_type :: "DeviceEvents \<Rightarrow> EventType" where
  "to_device_content_to_type (DV_RoomKey _) = RoomKey"
| "to_device_content_to_type (DV_ForwardedRoomKey _) = ForwardedRoomKey"
| "to_device_content_to_type (DV_KeyRequest _) = RoomKeyRequest"
| "to_device_content_to_type (DV_OlmEncrypted _) = RoomEncrypted"
| "to_device_content_to_type (DV_Encrypted _) = RoomEncrypted"
| "to_device_content_to_type (DV_Dummy _) = Dummy"
| "to_device_content_to_type (DV_KeyVerificationRequest _) = KeyVerificationRequest"
| "to_device_content_to_type (DV_KeyVerificationStart _) = KeyVerificationStart"
| "to_device_content_to_type (DV_KeyVerificationReady _) = KeyVerificationReady"
| "to_device_content_to_type (DV_KeyVerificationDone _) = KeyVerificationDone"
| "to_device_content_to_type (DV_KeyVerificationAccept _) = KeyVerificationAccept"
| "to_device_content_to_type (DV_KeyVerificationCancel _) = KeyVerificationCancel"
| "to_device_content_to_type (DV_KeyVerificationKey _) = KeyVerificationKey"
| "to_device_content_to_type (DV_KeyVerificationMac _) = KeyVerificationMac"
| "to_device_content_to_type (DV_SecretSend _) = SecretSend"
| "to_device_content_to_type (DV_SecretRequest _) = SecretRequest"
| "to_device_content_to_type _ = Unsupported"

fun account_data_content_to_type :: "RoomAccountDataEvents \<Rightarrow> EventType" where
  "account_data_content_to_type (AD_ImagePack _) = ImagePackInAccountData"
| "account_data_content_to_type (AD_ImagePackRooms _) = ImagePackRooms"
| "account_data_content_to_type (AD_Tags _) = Tag"
| "account_data_content_to_type (AD_Direct _) = Direct"
| "account_data_content_to_type (AD_IgnoredUsers _) = IgnoredUsers"
| "account_data_content_to_type (AD_HiddenEvents _) = NhekoHiddenEvents"
| "account_data_content_to_type (AD_EventExpiry _) = NhekoEventExpiry"
| "account_data_content_to_type (AD_InvitePermissions _) = NhekoInvitePermissions"
| "account_data_content_to_type _ = Unsupported"

end
