(* ===== verification/Sync_Response.thy ===== *)
theory Sync_Response
  imports Collections
begin

text \<open>
  The sync response (\<open>lib/structs/responses/sync.cpp\<close>): rooms by membership, messages to the device,
  presence, device lists, account data and the token of the next request.
\<close>

section \<open>The records\<close>

record AccountData =
  sad_events :: "RoomAccountDataEvents list"

record State =
  sst_events :: "StateEvents list"

record Timeline =
  stl_events :: "TimelineEvents list"
  stl_prev_batch :: string
  stl_limited :: bool

record UnreadNotifications =
  sun_highlight_count :: int
  sun_notification_count :: int

record Ephemeral =
  sep_events :: "EphemeralEvents list"

record JoinedRoom =
  jn_state :: State
  jn_timeline :: Timeline
  jn_unread_notifications :: UnreadNotifications
  jn_ephemeral :: Ephemeral
  jn_account_data :: AccountData

record LeftRoom =
  lv_state :: State
  lv_timeline :: Timeline

record InvitedRoom =
  invite_state :: "StrippedEvents list"

record KnockedRoom =
  knock_state :: "StrippedEvents list"

record Rooms =
  rm_join :: "JoinedRoom smap"
  rm_leave :: "LeftRoom smap"
  rm_invite :: "InvitedRoom smap"
  rm_knock :: "KnockedRoom smap"

record DeviceLists =
  dl_changed :: "string list"
  dl_left :: "string list"

record ToDevice =
  td_events :: "DeviceEvents list"

record Sync =
  sy_next_batch :: string
  sy_rooms :: Rooms
  sy_to_device :: ToDevice
  sy_presence :: "Presence Event list"
  sy_device_lists :: DeviceLists
  sy_device_one_time_keys_count :: "int smap"
  sy_device_unused_fallback_key_types :: "string list option"
  sy_account_data :: AccountData

section \<open>Rooms\<close>

abbreviation is_array :: "jtype \<Rightarrow> bool" where
  "is_array t \<equiv> t = JArray"

definition AccountData_from_json :: "'j json_lib \<Rightarrow> 'j \<Rightarrow> AccountData result" where
  "AccountData_from_json J obj =
     rbind (jopt_if J is_array (parse_room_account_data_events J) obj ''events'' []) (\<lambda>events.
       Inr \<lparr>sad_events = events\<rparr>)"

definition State_from_json :: "'j json_lib \<Rightarrow> 'j \<Rightarrow> State result" where
  "State_from_json J obj =
     rbind (jopt_if J is_array (parse_state_events J) obj ''events'' []) (\<lambda>events. Inr \<lparr>sst_events = events\<rparr>)"

definition Timeline_from_json :: "'j json_lib \<Rightarrow> 'j \<Rightarrow> Timeline result" where
  "Timeline_from_json J obj =
     rbind (jvalue J (jget_string J) obj ''prev_batch'' []) (\<lambda>prev_batch.
     rbind (jvalue J (jget_bool J) obj ''limited'' False) (\<lambda>limited.
     rbind (jat_as J (parse_timeline_events J) obj ''events'') (\<lambda>events.
       Inr \<lparr>stl_events = events, stl_prev_batch = prev_batch, stl_limited = limited\<rparr>)))"

definition UnreadNotifications_from_json :: "'j json_lib \<Rightarrow> 'j \<Rightarrow> UnreadNotifications result" where
  "UnreadNotifications_from_json J obj =
     rbind (jopt J (jget_uint64 J) obj ''highlight_count'' 0) (\<lambda>highlight_count.
     rbind (jopt J (jget_uint64 J) obj ''notification_count'' 0) (\<lambda>notification_count.
       Inr \<lparr>sun_highlight_count = highlight_count, sun_notification_count = notification_count\<rparr>))"

definition Ephemeral_from_json :: "'j json_lib \<Rightarrow> 'j \<Rightarrow> Ephemeral result" where
  "Ephemeral_from_json J obj =
     rbind (jopt_if J is_array (parse_ephemeral_events J) obj ''events'' []) (\<lambda>events. Inr \<lparr>sep_events = events\<rparr>)"

definition empty_State :: State where
  "empty_State = \<lparr>sst_events = []\<rparr>"

definition empty_Timeline :: Timeline where
  "empty_Timeline = \<lparr>stl_events = [], stl_prev_batch = [], stl_limited = False\<rparr>"

definition empty_AccountData :: AccountData where
  "empty_AccountData = \<lparr>sad_events = []\<rparr>"

definition JoinedRoom_from_json :: "'j json_lib \<Rightarrow> 'j \<Rightarrow> JoinedRoom result" where
  "JoinedRoom_from_json J obj =
     rbind (jopt J (State_from_json J) obj ''state'' empty_State) (\<lambda>state.
     rbind (jopt J (Timeline_from_json J) obj ''timeline'' empty_Timeline) (\<lambda>timeline.
     rbind (jopt J (UnreadNotifications_from_json J) obj ''unread_notifications''
              \<lparr>sun_highlight_count = 0, sun_notification_count = 0\<rparr>) (\<lambda>unread.
     rbind (jopt J (Ephemeral_from_json J) obj ''ephemeral'' \<lparr>sep_events = []\<rparr>) (\<lambda>ephemeral.
     rbind (jopt J (AccountData_from_json J) obj ''account_data'' empty_AccountData) (\<lambda>account_data.
       Inr \<lparr>jn_state = state, jn_timeline = timeline, jn_unread_notifications = unread,
            jn_ephemeral = ephemeral, jn_account_data = account_data\<rparr>)))))"

definition LeftRoom_from_json :: "'j json_lib \<Rightarrow> 'j \<Rightarrow> LeftRoom result" where
  "LeftRoom_from_json J obj =
     rbind (jopt J (State_from_json J) obj ''state'' empty_State) (\<lambda>state.
     rbind (jopt J (Timeline_from_json J) obj ''timeline'' empty_Timeline) (\<lambda>timeline.
       Inr \<lparr>lv_state = state, lv_timeline = timeline\<rparr>))"

text \<open>The loop over the events of an invite; the last name wins, and the first member that has one.\<close>

fun invite_name :: "StrippedEvents list \<Rightarrow> string \<Rightarrow> string \<Rightarrow> string" where
  "invite_name [] room_name member_name = (if room_name = [] then member_name else room_name)"
| "invite_name (event # rest) room_name member_name =
     (case event of
        SP_Name name \<Rightarrow> invite_name rest (nm_name (ev_content name)) member_name
      | SP_Member m \<Rightarrow> invite_name rest room_name
          (if member_name = [] then mem_display_name (ev_content m) else member_name)
      | _ \<Rightarrow> invite_name rest room_name member_name)"

definition InvitedRoom_name :: "InvitedRoom \<Rightarrow> string" where
  "InvitedRoom_name room = invite_name (invite_state room) [] []"

fun invite_avatar :: "StrippedEvents list \<Rightarrow> string \<Rightarrow> string \<Rightarrow> string" where
  "invite_avatar [] room_avatar member_avatar = (if room_avatar = [] then member_avatar else room_avatar)"
| "invite_avatar (event # rest) room_avatar member_avatar =
     (case event of
        SP_Avatar avatar \<Rightarrow> invite_avatar rest (av_url (ev_content avatar)) member_avatar
      | SP_Member m \<Rightarrow> invite_avatar rest room_avatar
          (if member_avatar = [] then mem_avatar_url (ev_content m) else member_avatar)
      | _ \<Rightarrow> invite_avatar rest room_avatar member_avatar)"

definition InvitedRoom_avatar :: "InvitedRoom \<Rightarrow> string" where
  "InvitedRoom_avatar room = invite_avatar (invite_state room) [] []"

definition invite_events :: "'j json_lib \<Rightarrow> 'j \<Rightarrow> string \<Rightarrow> StrippedEvents list result" where
  "invite_events J obj key =
     jopt J (\<lambda>state. jopt J (parse_stripped_events J) state ''events'' []) obj key []"

definition InvitedRoom_from_json :: "'j json_lib \<Rightarrow> 'j \<Rightarrow> InvitedRoom result" where
  "InvitedRoom_from_json J obj = rbind (invite_events J obj ''invite_state'') (\<lambda>s. Inr \<lparr>invite_state = s\<rparr>)"

definition KnockedRoom_from_json :: "'j json_lib \<Rightarrow> 'j \<Rightarrow> KnockedRoom result" where
  "KnockedRoom_from_json J obj = rbind (invite_events J obj ''knock_state'') (\<lambda>s. Inr \<lparr>knock_state = s\<rparr>)"

text \<open>One of the four loops over rooms: an entry whose id is too long is skipped.\<close>

definition room_entries :: "'j json_lib \<Rightarrow> ('j \<Rightarrow> 'r result) \<Rightarrow> 'j \<Rightarrow> string \<Rightarrow> 'r smap result" where
  "room_entries J conv obj key =
     jopt J (\<lambda>entries.
         foldM (\<lambda>(k, v) rooms.
             if length k < 256 then rbind (conv v) (\<lambda>r. Inr (map_set k r rooms)) else Inr rooms)
           (jpairs J entries) [])
       obj key []"

definition Rooms_from_json :: "'j json_lib \<Rightarrow> 'j \<Rightarrow> Rooms result" where
  "Rooms_from_json J obj =
     rbind (room_entries J (JoinedRoom_from_json J) obj ''join'') (\<lambda>join.
     rbind (room_entries J (LeftRoom_from_json J) obj ''leave'') (\<lambda>leave.
     rbind (room_entries J (InvitedRoom_from_json J) obj ''invite'') (\<lambda>invite.
     rbind (room_entries J (KnockedRoom_from_json J) obj ''knock'') (\<lambda>knock.
       Inr \<lparr>rm_join = join, rm_leave = leave, rm_invite = invite, rm_knock = knock\<rparr>))))"

section \<open>The response\<close>

definition device_list :: "'j json_lib \<Rightarrow> 'j \<Rightarrow> string \<Rightarrow> string list result" where
  "device_list J obj key =
     rbind (jopt J (jget_list J (jget_string J)) obj key []) (\<lambda>users.
       Inr (filter (\<lambda>user. \<not> length user > 255) users))"

definition DeviceLists_from_json :: "'j json_lib \<Rightarrow> 'j \<Rightarrow> DeviceLists result" where
  "DeviceLists_from_json J obj =
     rbind (device_list J obj ''changed'') (\<lambda>changed.
     rbind (device_list J obj ''left'') (\<lambda>left. Inr \<lparr>dl_changed = changed, dl_left = left\<rparr>))"

definition ToDevice_from_json :: "'j json_lib \<Rightarrow> 'j \<Rightarrow> ToDevice result" where
  "ToDevice_from_json J obj =
     rbind (jopt J (parse_device_events J) obj ''events'' []) (\<lambda>events. Inr \<lparr>td_events = events\<rparr>)"

definition Presence_content :: "'j json_lib \<Rightarrow> ('j, Presence) content_type" where
  "Presence_content J =
     plain_content (Presence_from_json J) (\<lambda>c. Inr (Presence_to_json J c))
       \<lparr>pres_avatar_url = [], pres_displayname = [], pres_last_active_ago = 0, pres_presence = online,
         pres_currently_active = False, pres_status_msg = []\<rparr>"

definition presence_events :: "'j json_lib \<Rightarrow> 'j \<Rightarrow> Presence Event list result" where
  "presence_events J = parse_events J (\<lambda>e. as_event id (Event_from_json J (Presence_content J) e))"

definition Sync_from_json :: "'j json_lib \<Rightarrow> 'j \<Rightarrow> Sync result" where
  "Sync_from_json J obj =
     rbind (jopt J (Rooms_from_json J) obj ''rooms'' \<lparr>rm_join = [], rm_leave = [], rm_invite = [], rm_knock = []\<rparr>) (\<lambda>rooms.
     rbind (jopt J (DeviceLists_from_json J) obj ''device_lists'' \<lparr>dl_changed = [], dl_left = []\<rparr>) (\<lambda>device_lists.
     rbind (jopt J (ToDevice_from_json J) obj ''to_device'' \<lparr>td_events = []\<rparr>) (\<lambda>to_device.
     rbind (jopt J (jget_map J (jget_narrow J 16)) obj ''device_one_time_keys_count'' []) (\<lambda>counts.
     rbind (jopt_if J is_array (\<lambda>v. rbind (jget_list J (jget_string J) v) (\<lambda>ts. Inr (Some ts)))
              obj ''device_unused_fallback_key_types'' None) (\<lambda>fallback.
     rbind (jopt J (\<lambda>p. jopt J (presence_events J) p ''events'' []) obj ''presence'' []) (\<lambda>presence.
     rbind (jopt J (AccountData_from_json J) obj ''account_data'' empty_AccountData) (\<lambda>account_data.
     rbind (jat_as J (jget_string J) obj ''next_batch'') (\<lambda>next_batch.
       Inr \<lparr>sy_next_batch = next_batch, sy_rooms = rooms, sy_to_device = to_device, sy_presence = presence,
            sy_device_lists = device_lists, sy_device_one_time_keys_count = counts,
            sy_device_unused_fallback_key_types = fallback, sy_account_data = account_data\<rparr>))))))))"

end
