(* ===== verification/Collection_Props.thy ===== *)
theory Collection_Props
  imports Sync_Response Event_Props
begin

text \<open>
  What a reader of events promises: every alternative holds an event of its own type with identifiers
  of at most 255 bytes, an event that cannot be read costs nothing but itself, and the two readers of
  the timeline agree.
\<close>

section \<open>Well-typed events\<close>

definition room_event_in :: "EventType set \<Rightarrow> ('c, 'z) RoomEvent_scheme \<Rightarrow> bool" where
  "room_event_in T e \<longleftrightarrow> ev_type e \<in> T \<and> length (ev_sender e) \<le> 255 \<and> length (re_event_id e) \<le> 255
     \<and> length (re_room_id e) \<le> 255"

definition state_event_in :: "EventType set \<Rightarrow> ('c, 'z) StateEvent_scheme \<Rightarrow> bool" where
  "state_event_in T e \<longleftrightarrow> room_event_in T e \<and> length (se_state_key e) \<le> 255"

definition stripped_event_in :: "EventType set \<Rightarrow> ('c, 'z) StrippedEvent_scheme \<Rightarrow> bool" where
  "stripped_event_in T e \<longleftrightarrow> ev_type e \<in> T \<and> length (ev_sender e) \<le> 255 \<and> length (st_state_key e) \<le> 255"

definition device_event_in :: "EventType set \<Rightarrow> 'c DeviceEvent \<Rightarrow> bool" where
  "device_event_in T e \<longleftrightarrow> ev_type e \<in> T \<and> ev_sender e \<noteq> [] \<and> length (ev_sender e) \<le> 255"

definition ephemeral_event_in :: "EventType set \<Rightarrow> 'c EphemeralEvent \<Rightarrow> bool" where
  "ephemeral_event_in T e \<longleftrightarrow> ee_type e \<in> T \<and> length (ee_room_id e) \<le> 255"

text \<open>
  The event types that each alternative may hold; a redacted event may have had any type. For messages to
  the device and account data they are the types that the client sends these contents with.
\<close>

primrec timeline_well_typed :: "TimelineEvents \<Rightarrow> bool" where
  "timeline_well_typed (TL_Aliases e) \<longleftrightarrow> state_event_in {RoomAliases} e"
| "timeline_well_typed (TL_Avatar e) \<longleftrightarrow> state_event_in {RoomAvatar} e"
| "timeline_well_typed (TL_CanonicalAlias e) \<longleftrightarrow> state_event_in {RoomCanonicalAlias} e"
| "timeline_well_typed (TL_Create e) \<longleftrightarrow> state_event_in {RoomCreate} e"
| "timeline_well_typed (TL_Encryption e) \<longleftrightarrow> state_event_in {RoomEncryption} e"
| "timeline_well_typed (TL_GuestAccess e) \<longleftrightarrow> state_event_in {RoomGuestAccess} e"
| "timeline_well_typed (TL_HistoryVisibility e) \<longleftrightarrow> state_event_in {RoomHistoryVisibility} e"
| "timeline_well_typed (TL_JoinRules e) \<longleftrightarrow> state_event_in {RoomJoinRules} e"
| "timeline_well_typed (TL_Member e) \<longleftrightarrow> state_event_in {RoomMember} e"
| "timeline_well_typed (TL_Name e) \<longleftrightarrow> state_event_in {RoomName} e"
| "timeline_well_typed (TL_PinnedEvents e) \<longleftrightarrow> state_event_in {RoomPinnedEvents} e"
| "timeline_well_typed (TL_PowerLevels e) \<longleftrightarrow> state_event_in {RoomPowerLevels} e"
| "timeline_well_typed (TL_UserRule e) \<longleftrightarrow> state_event_in {PolicyRuleUser} e"
| "timeline_well_typed (TL_RoomRule e) \<longleftrightarrow> state_event_in {PolicyRuleRoom} e"
| "timeline_well_typed (TL_ServerRule e) \<longleftrightarrow> state_event_in {PolicyRuleServer} e"
| "timeline_well_typed (TL_Child e) \<longleftrightarrow> state_event_in {SpaceChild} e"
| "timeline_well_typed (TL_Parent e) \<longleftrightarrow> state_event_in {SpaceParent} e"
| "timeline_well_typed (TL_Tombstone e) \<longleftrightarrow> state_event_in {RoomTombstone} e"
| "timeline_well_typed (TL_ServerAcl e) \<longleftrightarrow> state_event_in {RoomServerAcl} e"
| "timeline_well_typed (TL_Topic e) \<longleftrightarrow> state_event_in {RoomTopic} e"
| "timeline_well_typed (TL_Widget e) \<longleftrightarrow> state_event_in {Widget, VectorWidget} e"
| "timeline_well_typed (TL_ImagePack e) \<longleftrightarrow> state_event_in {ImagePackInRoom} e"
| "timeline_well_typed (TL_RedactedState e) \<longleftrightarrow> state_event_in UNIV e"
| "timeline_well_typed (TL_Encrypted e) \<longleftrightarrow> room_event_in {RoomEncrypted} e"
| "timeline_well_typed (TL_Redaction e) \<longleftrightarrow> room_event_in {RoomRedaction} e"
| "timeline_well_typed (TL_StickerImage e) \<longleftrightarrow> room_event_in {Sticker} e"
| "timeline_well_typed (TL_Reaction e) \<longleftrightarrow> room_event_in {Reaction} e"
| "timeline_well_typed (TL_Redacted e) \<longleftrightarrow> room_event_in UNIV e"
| "timeline_well_typed (TL_Audio e) \<longleftrightarrow> room_event_in {RoomMessage} e"
| "timeline_well_typed (TL_ElementEffect e) \<longleftrightarrow> room_event_in {RoomMessage} e"
| "timeline_well_typed (TL_Emote e) \<longleftrightarrow> room_event_in {RoomMessage} e"
| "timeline_well_typed (TL_File e) \<longleftrightarrow> room_event_in {RoomMessage} e"
| "timeline_well_typed (TL_Image e) \<longleftrightarrow> room_event_in {RoomMessage} e"
| "timeline_well_typed (TL_Location e) \<longleftrightarrow> room_event_in {RoomMessage} e"
| "timeline_well_typed (TL_Notice e) \<longleftrightarrow> room_event_in {RoomMessage} e"
| "timeline_well_typed (TL_Text e) \<longleftrightarrow> room_event_in {RoomMessage} e"
| "timeline_well_typed (TL_UnknownMessage e) \<longleftrightarrow> room_event_in {RoomMessage} e"
| "timeline_well_typed (TL_Video e) \<longleftrightarrow> room_event_in {RoomMessage} e"
| "timeline_well_typed (TL_KeyVerificationRequest e) \<longleftrightarrow> room_event_in {RoomMessage} e"
| "timeline_well_typed (TL_KeyVerificationStart e) \<longleftrightarrow> room_event_in {KeyVerificationStart} e"
| "timeline_well_typed (TL_KeyVerificationReady e) \<longleftrightarrow> room_event_in {KeyVerificationReady} e"
| "timeline_well_typed (TL_KeyVerificationDone e) \<longleftrightarrow> room_event_in {KeyVerificationDone} e"
| "timeline_well_typed (TL_KeyVerificationAccept e) \<longleftrightarrow> room_event_in {KeyVerificationAccept} e"
| "timeline_well_typed (TL_KeyVerificationCancel e) \<longleftrightarrow> room_event_in {KeyVerificationCancel} e"
| "timeline_well_typed (TL_KeyVerificationKey e) \<longleftrightarrow> room_event_in {KeyVerificationKey} e"
| "timeline_well_typed (TL_KeyVerificationMac e) \<longleftrightarrow> room_event_in {KeyVerificationMac} e"
| "timeline_well_typed (TL_CallCandidates e) \<longleftrightarrow> room_event_in {CallCandidates} e"
| "timeline_well_typed (TL_CallInvite e) \<longleftrightarrow> room_event_in {CallInvite} e"
| "timeline_well_typed (TL_CallAnswer e) \<longleftrightarrow> room_event_in {CallAnswer} e"
| "timeline_well_typed (TL_CallHangUp e) \<longleftrightarrow> room_event_in {CallHangUp} e"
| "timeline_well_typed (TL_CallSelectAnswer e) \<longleftrightarrow> room_event_in {CallSelectAnswer} e"
| "timeline_well_typed (TL_CallReject e) \<longleftrightarrow> room_event_in {CallReject} e"
| "timeline_well_typed (TL_CallNegotiate e) \<longleftrightarrow> room_event_in {CallNegotiate} e"
| "timeline_well_typed (TL_Unknown e) \<longleftrightarrow> room_event_in {Unsupported, RoomMessage} e"

fun state_well_typed :: "StateEvents \<Rightarrow> bool" where
  "state_well_typed (ST_Aliases e) \<longleftrightarrow> state_event_in {RoomAliases} e"
| "state_well_typed (ST_Avatar e) \<longleftrightarrow> state_event_in {RoomAvatar} e"
| "state_well_typed (ST_CanonicalAlias e) \<longleftrightarrow> state_event_in {RoomCanonicalAlias} e"
| "state_well_typed (ST_Create e) \<longleftrightarrow> state_event_in {RoomCreate} e"
| "state_well_typed (ST_Encryption e) \<longleftrightarrow> state_event_in {RoomEncryption} e"
| "state_well_typed (ST_GuestAccess e) \<longleftrightarrow> state_event_in {RoomGuestAccess} e"
| "state_well_typed (ST_HistoryVisibility e) \<longleftrightarrow> state_event_in {RoomHistoryVisibility} e"
| "state_well_typed (ST_JoinRules e) \<longleftrightarrow> state_event_in {RoomJoinRules} e"
| "state_well_typed (ST_Member e) \<longleftrightarrow> state_event_in {RoomMember} e"
| "state_well_typed (ST_Name e) \<longleftrightarrow> state_event_in {RoomName} e"
| "state_well_typed (ST_PinnedEvents e) \<longleftrightarrow> state_event_in {RoomPinnedEvents} e"
| "state_well_typed (ST_PowerLevels e) \<longleftrightarrow> state_event_in {RoomPowerLevels} e"
| "state_well_typed (ST_UserRule e) \<longleftrightarrow> state_event_in {PolicyRuleUser} e"
| "state_well_typed (ST_RoomRule e) \<longleftrightarrow> state_event_in {PolicyRuleRoom} e"
| "state_well_typed (ST_ServerRule e) \<longleftrightarrow> state_event_in {PolicyRuleServer} e"
| "state_well_typed (ST_Child e) \<longleftrightarrow> state_event_in {SpaceChild} e"
| "state_well_typed (ST_Parent e) \<longleftrightarrow> state_event_in {SpaceParent} e"
| "state_well_typed (ST_Tombstone e) \<longleftrightarrow> state_event_in {RoomTombstone} e"
| "state_well_typed (ST_ServerAcl e) \<longleftrightarrow> state_event_in {RoomServerAcl} e"
| "state_well_typed (ST_Topic e) \<longleftrightarrow> state_event_in {RoomTopic} e"
| "state_well_typed (ST_Widget e) \<longleftrightarrow> state_event_in {Widget, VectorWidget} e"
| "state_well_typed (ST_Redacted e) \<longleftrightarrow> state_event_in UNIV e"
| "state_well_typed (ST_ImagePack e) \<longleftrightarrow> state_event_in {ImagePackInRoom} e"
| "state_well_typed (ST_Unknown e) \<longleftrightarrow> state_event_in {Unsupported} e"

fun stripped_well_typed :: "StrippedEvents \<Rightarrow> bool" where
  "stripped_well_typed (SP_Aliases e) \<longleftrightarrow> stripped_event_in {RoomAliases} e"
| "stripped_well_typed (SP_Avatar e) \<longleftrightarrow> stripped_event_in {RoomAvatar} e"
| "stripped_well_typed (SP_CanonicalAlias e) \<longleftrightarrow> stripped_event_in {RoomCanonicalAlias} e"
| "stripped_well_typed (SP_Create e) \<longleftrightarrow> stripped_event_in {RoomCreate} e"
| "stripped_well_typed (SP_Encryption e) \<longleftrightarrow> stripped_event_in {} e"
| "stripped_well_typed (SP_GuestAccess e) \<longleftrightarrow> stripped_event_in {RoomGuestAccess} e"
| "stripped_well_typed (SP_HistoryVisibility e) \<longleftrightarrow> stripped_event_in {RoomHistoryVisibility} e"
| "stripped_well_typed (SP_JoinRules e) \<longleftrightarrow> stripped_event_in {RoomJoinRules} e"
| "stripped_well_typed (SP_Member e) \<longleftrightarrow> stripped_event_in {RoomMember} e"
| "stripped_well_typed (SP_Name e) \<longleftrightarrow> stripped_event_in {RoomName} e"
| "stripped_well_typed (SP_PinnedEvents e) \<longleftrightarrow> stripped_event_in {RoomPinnedEvents} e"
| "stripped_well_typed (SP_PowerLevels e) \<longleftrightarrow> stripped_event_in {RoomPowerLevels} e"
| "stripped_well_typed (SP_UserRule e) \<longleftrightarrow> stripped_event_in {PolicyRuleUser} e"
| "stripped_well_typed (SP_RoomRule e) \<longleftrightarrow> stripped_event_in {PolicyRuleRoom} e"
| "stripped_well_typed (SP_ServerRule e) \<longleftrightarrow> stripped_event_in {PolicyRuleServer} e"
| "stripped_well_typed (SP_Child e) \<longleftrightarrow> stripped_event_in {SpaceChild} e"
| "stripped_well_typed (SP_Parent e) \<longleftrightarrow> stripped_event_in {SpaceParent} e"
| "stripped_well_typed (SP_Tombstone e) \<longleftrightarrow> stripped_event_in {RoomTombstone} e"
| "stripped_well_typed (SP_ServerAcl e) \<longleftrightarrow> stripped_event_in {RoomServerAcl} e"
| "stripped_well_typed (SP_Topic e) \<longleftrightarrow> stripped_event_in {RoomTopic} e"
| "stripped_well_typed (SP_Widget e) \<longleftrightarrow> stripped_event_in {Widget, VectorWidget} e"
| "stripped_well_typed (SP_Redacted e) \<longleftrightarrow> stripped_event_in UNIV e"
| "stripped_well_typed (SP_Unknown e) \<longleftrightarrow> stripped_event_in {Unsupported} e"

fun device_well_typed :: "DeviceEvents \<Rightarrow> bool" where
  "device_well_typed (DV_RoomKey e) \<longleftrightarrow> device_event_in {to_device_content_to_type (DV_RoomKey e)} e"
| "device_well_typed (DV_ForwardedRoomKey e) \<longleftrightarrow> device_event_in {to_device_content_to_type (DV_ForwardedRoomKey e)} e"
| "device_well_typed (DV_KeyRequest e) \<longleftrightarrow> device_event_in {to_device_content_to_type (DV_KeyRequest e)} e"
| "device_well_typed (DV_OlmEncrypted e) \<longleftrightarrow> device_event_in {to_device_content_to_type (DV_OlmEncrypted e)} e"
| "device_well_typed (DV_Encrypted e) \<longleftrightarrow> device_event_in {to_device_content_to_type (DV_Encrypted e)} e"
| "device_well_typed (DV_Dummy e) \<longleftrightarrow> device_event_in {to_device_content_to_type (DV_Dummy e)} e"
| "device_well_typed (DV_KeyVerificationRequest e) \<longleftrightarrow> device_event_in {to_device_content_to_type (DV_KeyVerificationRequest e)} e"
| "device_well_typed (DV_KeyVerificationStart e) \<longleftrightarrow> device_event_in {to_device_content_to_type (DV_KeyVerificationStart e)} e"
| "device_well_typed (DV_KeyVerificationReady e) \<longleftrightarrow> device_event_in {to_device_content_to_type (DV_KeyVerificationReady e)} e"
| "device_well_typed (DV_KeyVerificationDone e) \<longleftrightarrow> device_event_in {to_device_content_to_type (DV_KeyVerificationDone e)} e"
| "device_well_typed (DV_KeyVerificationAccept e) \<longleftrightarrow> device_event_in {to_device_content_to_type (DV_KeyVerificationAccept e)} e"
| "device_well_typed (DV_KeyVerificationCancel e) \<longleftrightarrow> device_event_in {to_device_content_to_type (DV_KeyVerificationCancel e)} e"
| "device_well_typed (DV_KeyVerificationKey e) \<longleftrightarrow> device_event_in {to_device_content_to_type (DV_KeyVerificationKey e)} e"
| "device_well_typed (DV_KeyVerificationMac e) \<longleftrightarrow> device_event_in {to_device_content_to_type (DV_KeyVerificationMac e)} e"
| "device_well_typed (DV_SecretRequest e) \<longleftrightarrow> device_event_in {to_device_content_to_type (DV_SecretRequest e)} e"
| "device_well_typed (DV_SecretSend e) \<longleftrightarrow> device_event_in {to_device_content_to_type (DV_SecretSend e)} e"
| "device_well_typed (DV_Unknown e) \<longleftrightarrow> device_event_in {Unsupported} e"

fun ephemeral_well_typed :: "EphemeralEvents \<Rightarrow> bool" where
  "ephemeral_well_typed (EP_Typing e) \<longleftrightarrow> ephemeral_event_in {Typing} e"
| "ephemeral_well_typed (EP_Receipt e) \<longleftrightarrow> ephemeral_event_in {Receipt} e"
| "ephemeral_well_typed (EP_Unknown e) \<longleftrightarrow> ephemeral_event_in {Unsupported} e"

fun account_data_well_typed :: "RoomAccountDataEvents \<Rightarrow> bool" where
  "account_data_well_typed (AD_Tags e) \<longleftrightarrow> ephemeral_event_in {account_data_content_to_type (AD_Tags e)} e"
| "account_data_well_typed (AD_Direct e) \<longleftrightarrow> ephemeral_event_in {account_data_content_to_type (AD_Direct e)} e"
| "account_data_well_typed (AD_FullyRead e) \<longleftrightarrow> ephemeral_event_in {FullyRead} e"
| "account_data_well_typed (AD_IgnoredUsers e) \<longleftrightarrow> ephemeral_event_in {account_data_content_to_type (AD_IgnoredUsers e)} e"
| "account_data_well_typed (AD_GlobalRuleset e) \<longleftrightarrow> ephemeral_event_in {PushRules} e"
| "account_data_well_typed (AD_HiddenEvents e) \<longleftrightarrow> ephemeral_event_in {account_data_content_to_type (AD_HiddenEvents e)} e"
| "account_data_well_typed (AD_EventExpiry e) \<longleftrightarrow> ephemeral_event_in {account_data_content_to_type (AD_EventExpiry e)} e"
| "account_data_well_typed (AD_InvitePermissions e) \<longleftrightarrow> ephemeral_event_in {account_data_content_to_type (AD_InvitePermissions e)} e"
| "account_data_well_typed (AD_ImagePack e) \<longleftrightarrow> ephemeral_event_in {account_data_content_to_type (AD_ImagePack e)} e"
| "account_data_well_typed (AD_ImagePackRooms e) \<longleftrightarrow> ephemeral_event_in {account_data_content_to_type (AD_ImagePackRooms e)} e"
| "account_data_well_typed (AD_Unknown e) \<longleftrightarrow> ephemeral_event_in {Unsupported} e"

section \<open>Errors stay with their event\<close>

definition readable :: "('j \<Rightarrow> 'v option result) \<Rightarrow> 'j \<Rightarrow> 'v option" where
  "readable step e = (case step e of Inl _ \<Rightarrow> None | Inr v \<Rightarrow> v)"

definition printable :: "'j json_lib \<Rightarrow> 'j \<Rightarrow> bool" where
  "printable J e \<longleftrightarrow> (\<exists>t. jdump J e = Inr t)"

lemma parse_loop:
  assumes "\<And>e x. e \<in> set es \<Longrightarrow> step e = Inl x \<Longrightarrow> printable J e"
  shows "foldM (\<lambda>e container.
         case step e of
           Inl _ \<Rightarrow> rbind (log_error J e) (\<lambda>_. Inr container)
         | Inr None \<Rightarrow> Inr container
         | Inr (Some v) \<Rightarrow> Inr (container @ [v])) es acc = Inr (acc @ List.map_filter (readable step) es)"
  using assms
proof (induction es arbitrary: acc)
  case Nil
  then show ?case by (simp add: List.map_filter_def)
next
  case (Cons e es)
  have IH: "foldM (\<lambda>e container.
         case step e of
           Inl _ \<Rightarrow> rbind (log_error J e) (\<lambda>_. Inr container)
         | Inr None \<Rightarrow> Inr container
         | Inr (Some v) \<Rightarrow> Inr (container @ [v])) es a = Inr (a @ List.map_filter (readable step) es)" for a
    using Cons.IH Cons.prems by simp
  show ?case
  proof (cases "step e")
    case (Inl x)
    then obtain t where "jdump J e = Inr t" using Cons.prems [of e x] unfolding printable_def by auto
    then show ?thesis using Inl by (simp add: IH log_error_def readable_def List.map_filter_def)
  next
    case (Inr r)
    then show ?thesis by (cases r) (simp_all add: IH readable_def List.map_filter_def)
  qed
qed

lemma parse_events_readable:
  assumes "\<And>e x. e \<in> set (jiterate J events) \<Longrightarrow> step e = Inl x \<Longrightarrow> printable J e"
  shows "parse_events J step events = Inr (List.map_filter (readable step) (jiterate J events))"
  unfolding parse_events_def by (subst parse_loop) (use assms in auto)

lemma parse_loop_elements:
  assumes "foldM (\<lambda>e container.
         case step e of
           Inl _ \<Rightarrow> rbind (log_error J e) (\<lambda>_. Inr container)
         | Inr None \<Rightarrow> Inr container
         | Inr (Some v) \<Rightarrow> Inr (container @ [v])) es acc = Inr vs" and "v \<in> set vs"
  shows "v \<in> set acc \<or> (\<exists>e \<in> set es. step e = Inr (Some v))"
  using assms
proof (induction es arbitrary: acc)
  case (Cons e es)
  then show ?case by (fastforce simp: rbind_eq_Inr split: sum.splits option.splits)
qed simp

text \<open>Whatever a reader returns comes from the events, each read on its own.\<close>

lemma parse_events_elements:
  assumes "parse_events J step events = Inr vs" and "v \<in> set vs"
  shows "\<exists>e. step e = Inr (Some v)"
  using parse_loop_elements [OF assms(1) [unfolded parse_events_def] assms(2)] by auto

lemma as_event_Some: "as_event c r = Inr (Some v) \<longleftrightarrow> (\<exists>e. r = Inr e \<and> v = c e)"
  by (auto simp: as_event_def rbind_eq_Inr)

lemma as_event_None [simp]: "as_event c r \<noteq> Inr None"
  by (auto simp: as_event_def rbind_eq_Inr)

section \<open>The types of what is read\<close>

context json_library
begin

lemma getEventType_read:
  assumes "rbind (jat_as J (jget_string J) obj ''type'') getEventType = Inr t"
  shows "getEventType_json J obj = Inr t"
  using assms by (auto simp: getEventType_json_def jat_as_def rbind_eq_Inr contains_iff at_eq split: if_splits option.splits)

lemma Event_type:
  assumes "Event_from_json J C obj = Inr e"
  shows "getEventType_json J obj = Inr (ev_type e)"
  using assms by (intro getEventType_read) (auto simp: Event_from_json_def rbind_eq_Inr)

lemma RoomEvent_in:
  assumes "RoomEvent_from_json J C obj = Inr e" and "getEventType_json J obj = Inr t" and "t \<in> T"
  shows "room_event_in T e"
proof -
  obtain v where "Event_from_json J C obj = Inr v" "ev_type e = ev_type v"
    using assms(1) by (auto simp: RoomEvent_from_json_def rbind_eq_Inr Event.defs)
  then have "ev_type e = t" using Event_type assms(2) by fastforce
  then show ?thesis using RoomEvent_from_json_limits [OF assms(1)] assms(3) by (simp add: room_event_in_def)
qed

lemma StateEvent_in:
  assumes "StateEvent_from_json J C obj = Inr e" and "getEventType_json J obj = Inr t" and "t \<in> T"
  shows "state_event_in T e"
proof -
  obtain r where r: "RoomEvent_from_json J C obj = Inr r" "ev_type e = ev_type r"
    using assms(1) by (auto simp: StateEvent_from_json_def rbind_eq_Inr RoomEvent.defs)
  then have "ev_type e \<in> T" using RoomEvent_in [OF r(1) assms(2,3)] by (simp add: room_event_in_def)
  then show ?thesis using StateEvent_from_json_limits [OF assms(1)] by (simp add: state_event_in_def room_event_in_def)
qed

lemma RedactionEvent_in:
  assumes "RedactionEvent_from_json J C obj = Inr e" and "getEventType_json J obj = Inr t" and "t \<in> T"
  shows "room_event_in T e"
proof -
  obtain r where "RoomEvent_from_json J C obj = Inr r" "ev_type e = ev_type r" "ev_sender e = ev_sender r"
      "re_event_id e = re_event_id r" "re_room_id e = re_room_id r"
    using assms(1) by (auto simp: RedactionEvent_from_json_def rbind_eq_Inr RoomEvent.defs)
  then show ?thesis using RoomEvent_in [OF _ assms(2,3)] by (simp add: room_event_in_def)
qed

lemma EncryptedEvent_in:
  assumes "EncryptedEvent_from_json J C obj = Inr e" and "getEventType_json J obj = Inr t" and "t \<in> T"
  shows "room_event_in T e"
  using assms by (simp add: EncryptedEvent_from_json_def RoomEvent_in)

lemma StrippedEvent_in:
  assumes "StrippedEvent_from_json J C obj = Inr e" and "getEventType_json J obj = Inr t" and "t \<in> T"
  shows "stripped_event_in T e"
proof -
  obtain v where "Event_from_json J C obj = Inr v" "ev_type e = ev_type v"
    using assms(1) by (auto simp: StrippedEvent_from_json_def rbind_eq_Inr Event.defs)
  then have "ev_type e = t" using Event_type assms(2) by fastforce
  then show ?thesis using StrippedEvent_from_json_limits [OF assms(1)] assms(3) by (simp add: stripped_event_in_def)
qed

lemma DeviceEvent_in:
  assumes "DeviceEvent_from_json J C obj = Inr e" and "getEventType_json J obj = Inr t" and "t \<in> T"
  shows "device_event_in T e"
proof -
  have "Event_from_json J C obj = Inr e"
    using assms(1) by (auto simp: DeviceEvent_from_json_def rbind_eq_Inr split: if_splits)
  then have "ev_type e = t" using Event_type assms(2) by fastforce
  then show ?thesis using DeviceEvent_from_json_limits [OF assms(1)] assms(3) by (simp add: device_event_in_def)
qed

lemma EphemeralEvent_in:
  assumes "EphemeralEvent_from_json J C obj = Inr e" and "getEventType_json J obj = Inr t" and "t \<in> T"
  shows "ephemeral_event_in T e"
proof -
  have "getEventType_json J obj = Inr (ee_type e)"
    using assms(1) by (intro getEventType_read) (auto simp: EphemeralEvent_from_json_def rbind_eq_Inr)
  then have "ee_type e = t" using assms(2) by simp
  then show ?thesis using assms(1,3) by (auto simp: EphemeralEvent_from_json_def rbind_eq_Inr ephemeral_event_in_def)
qed

lemmas events_in =
  RoomEvent_in StateEvent_in RedactionEvent_in EncryptedEvent_in StrippedEvent_in DeviceEvent_in EphemeralEvent_in

lemma redacted_in:
  "StateEvent_from_json J C obj = Inr e \<Longrightarrow> getEventType_json J obj = Inr t \<Longrightarrow> state_event_in UNIV e"
  "RoomEvent_from_json J C obj = Inr r \<Longrightarrow> getEventType_json J obj = Inr t \<Longrightarrow> room_event_in UNIV r"
  by (rule StateEvent_in [OF _ _ UNIV_I], assumption+) (rule RoomEvent_in [OF _ _ UNIV_I], assumption+)

lemma message_event_typed:
  assumes "message_event J obj = Inr (Some v)" and "getEventType_json J obj = Inr RoomMessage"
  shows "timeline_well_typed v"
proof -
  obtain content where "jat J obj ''content'' = Inr content" using assms(1) by (auto simp: message_event_def rbind_eq_Inr)
  then show ?thesis
    by (insert assms, cases "getMessageType_json J content") (auto simp: message_event_def as_event_Some intro: events_in)
qed

lemma timeline_event_typed:
  assumes "timeline_event J obj = Inr (Some v)"
  shows "timeline_well_typed v"
proof -
  obtain t where t: "getEventType_json J obj = Inr t" using assms by (auto simp: timeline_event_def rbind_eq_Inr)
  show ?thesis
  proof (cases "is_redacted J obj")
    case True
    then show ?thesis using assms t
      by (auto simp: timeline_event_def as_event_Some redacted_in split: if_splits)
  next
    case False
    show ?thesis
      by (insert assms t False, cases t)
         (auto simp: timeline_event_def as_event_Some intro: events_in message_event_typed)
  qed
qed

lemma state_event_typed:
  assumes "state_event J obj = Inr (Some v)"
  shows "state_well_typed v"
proof -
  obtain t where t: "getEventType_json J obj = Inr t" using assms by (auto simp: state_event_def rbind_eq_Inr)
  show ?thesis
  proof (cases "is_redacted J obj")
    case True
    then show ?thesis using assms t by (auto simp: state_event_def as_event_Some redacted_in)
  next
    case False
    show ?thesis
      by (insert assms t False, cases t) (auto simp: state_event_def as_event_Some intro: events_in)
  qed
qed

lemma stripped_event_typed:
  assumes "stripped_event J obj = Inr (Some v)"
  shows "stripped_well_typed v"
proof -
  obtain t where t: "getEventType_json J obj = Inr t" using assms by (auto simp: stripped_event_def rbind_eq_Inr)
  show ?thesis by (insert assms t, cases t) (auto simp: stripped_event_def as_event_Some intro: events_in)
qed

lemma device_event_typed:
  assumes "device_event J obj = Inr (Some v)"
  shows "device_well_typed v"
proof -
  obtain t where t: "getEventType_json J obj = Inr t" using assms by (auto simp: device_event_def rbind_eq_Inr)
  show ?thesis
    by (insert assms t, cases t)
       (auto simp: device_event_def as_event_Some rbind_eq_Inr split: if_splits intro: events_in)
qed

lemma ephemeral_event_typed:
  assumes "ephemeral_event J obj = Inr (Some v)"
  shows "ephemeral_well_typed v"
proof -
  obtain t where t: "getEventType_json J obj = Inr t" using assms by (auto simp: ephemeral_event_def rbind_eq_Inr)
  show ?thesis by (insert assms t, cases t) (auto simp: ephemeral_event_def as_event_Some intro: events_in)
qed

lemma account_data_event_typed:
  assumes "room_account_data_event J obj = Inr (Some v)"
  shows "account_data_well_typed v"
proof -
  obtain t where t: "getEventType_json J obj = Inr t" using assms by (auto simp: room_account_data_event_def rbind_eq_Inr)
  show ?thesis by (insert assms t, cases t) (auto simp: room_account_data_event_def as_event_Some intro: events_in)
qed

end

end
