(* ===== verification/Sync_Props.thy ===== *)
theory Sync_Props
  imports Collection_Props
begin

text \<open>
  Properties of the readers of events and of the sync response as a whole.
\<close>

section \<open>What a sync response contains\<close>

definition timeline_ok :: "Timeline \<Rightarrow> bool" where
  "timeline_ok t \<longleftrightarrow> list_all timeline_well_typed (stl_events t)"

definition state_ok :: "State \<Rightarrow> bool" where
  "state_ok s \<longleftrightarrow> list_all state_well_typed (sst_events s)"

definition account_data_ok :: "AccountData \<Rightarrow> bool" where
  "account_data_ok a \<longleftrightarrow> list_all account_data_well_typed (sad_events a)"

definition rooms_ok :: "('r \<Rightarrow> bool) \<Rightarrow> 'r smap \<Rightarrow> bool" where
  "rooms_ok P m \<longleftrightarrow> smap_ok m \<and> (\<forall>(k, r) \<in> set m. length k \<le> 255 \<and> P r)"

definition joined_ok :: "JoinedRoom \<Rightarrow> bool" where
  "joined_ok r \<longleftrightarrow> state_ok (jn_state r) \<and> timeline_ok (jn_timeline r)
     \<and> list_all ephemeral_well_typed (sep_events (jn_ephemeral r)) \<and> account_data_ok (jn_account_data r)"

definition left_ok :: "LeftRoom \<Rightarrow> bool" where
  "left_ok r \<longleftrightarrow> state_ok (lv_state r) \<and> timeline_ok (lv_timeline r)"

definition sync_ok :: "Sync \<Rightarrow> bool" where
  "sync_ok s \<longleftrightarrow>
     rooms_ok joined_ok (rm_join (sy_rooms s)) \<and> rooms_ok left_ok (rm_leave (sy_rooms s))
     \<and> rooms_ok (\<lambda>r. list_all stripped_well_typed (invite_state r)) (rm_invite (sy_rooms s))
     \<and> rooms_ok (\<lambda>r. list_all stripped_well_typed (knock_state r)) (rm_knock (sy_rooms s))
     \<and> list_all device_well_typed (td_events (sy_to_device s))
     \<and> list_all (\<lambda>e. length (ev_sender e) \<le> 255) (sy_presence s)
     \<and> list_all (\<lambda>u. length u \<le> 255) (dl_changed (sy_device_lists s) @ dl_left (sy_device_lists s))
     \<and> account_data_ok (sy_account_data s)"

section \<open>Parts\<close>

lemma opt_elim:
  assumes "jopt J conv obj k d = Inr x" and "P d" and "\<And>v y. conv v = Inr y \<Longrightarrow> P y"
  shows "P x"
  using assms by (auto simp: jopt_def jat_as_def rbind_eq_Inr split: if_splits)

lemma opt_if_elim:
  assumes "jopt_if J Q conv obj k d = Inr x" and "P d" and "\<And>v y. conv v = Inr y \<Longrightarrow> P y"
  shows "P x"
  using assms by (auto simp: jopt_if_def jat_as_def rbind_eq_Inr split: if_splits)

lemma parsed_all:
  assumes "parse_events J step events = Inr vs" and "\<And>e v. step e = Inr (Some v) \<Longrightarrow> P v"
  shows "list_all P vs"
  using parse_events_elements [OF assms(1)] assms(2) by (auto simp: list_all_iff)

lemma room_loop:
  assumes "foldM (\<lambda>(k, v) rooms.
      if length k < 256 then rbind (conv v) (\<lambda>r. Inr (map_set k r rooms)) else Inr rooms) xs m = Inr m'"
    and "rooms_ok P m" and "\<And>v r. conv v = Inr r \<Longrightarrow> P r"
  shows "rooms_ok P m'"
  using assms(1,2)
proof (induction xs arbitrary: m)
  case (Cons x xs)
  obtain k v where x: "x = (k, v)" by (cases x)
  show ?case
  proof (cases "length k < 256")
    case True
    then obtain r where r: "conv v = Inr r" "foldM (\<lambda>(k, v) rooms.
        if length k < 256 then rbind (conv v) (\<lambda>r. Inr (map_set k r rooms)) else Inr rooms) xs (map_set k r m) = Inr m'"
      using Cons.prems(1) x by (auto simp: rbind_eq_Inr)
    have "rooms_ok P (map_set k r m)"
      using Cons.prems(2) True assms(3) [OF r(1)] using set_map_set [of k r m] by (fastforce simp: rooms_ok_def)
    then show ?thesis using Cons.IH r(2) by blast
  next
    case False
    then show ?thesis using Cons x by simp
  qed
qed simp

lemma room_entries_ok:
  assumes "room_entries J conv obj k = Inr m" and "\<And>v r. conv v = Inr r \<Longrightarrow> P r"
  shows "rooms_ok P m"
  using assms(1) unfolding room_entries_def
  by (rule opt_elim) (auto simp: rooms_ok_def [of P "[]"] intro: room_loop [OF _ _ assms(2)])

lemma device_list_short: "device_list J obj k = Inr us \<Longrightarrow> list_all (\<lambda>u. length u \<le> 255) us"
  by (auto simp: device_list_def rbind_eq_Inr list_all_iff)

lemma presence_events_short: "presence_events J v = Inr es \<Longrightarrow> list_all (\<lambda>e. length (ev_sender e) \<le> 255) es"
  unfolding presence_events_def
  by (erule parsed_all) (auto simp: as_event_Some dest: Event_from_json_limits)

context json_library
begin

lemma lists_typed:
  "parse_timeline_events J v = Inr ts \<Longrightarrow> list_all timeline_well_typed ts"
  "parse_state_events J v = Inr ss \<Longrightarrow> list_all state_well_typed ss"
  "parse_stripped_events J v = Inr ps \<Longrightarrow> list_all stripped_well_typed ps"
  "parse_device_events J v = Inr ds \<Longrightarrow> list_all device_well_typed ds"
  "parse_ephemeral_events J v = Inr es \<Longrightarrow> list_all ephemeral_well_typed es"
  "parse_room_account_data_events J v = Inr as \<Longrightarrow> list_all account_data_well_typed as"
  unfolding parse_timeline_events_def parse_state_events_def parse_stripped_events_def parse_device_events_def
    parse_ephemeral_events_def parse_room_account_data_events_def
  by (erule parsed_all, erule timeline_event_typed state_event_typed stripped_event_typed device_event_typed
      ephemeral_event_typed account_data_event_typed)+

lemma Timeline_typed: "Timeline_from_json J v = Inr t \<Longrightarrow> timeline_ok t"
  by (auto simp: Timeline_from_json_def rbind_eq_Inr jat_as_def timeline_ok_def dest: lists_typed)

lemma State_typed: "State_from_json J v = Inr s \<Longrightarrow> state_ok s"
  unfolding State_from_json_def state_ok_def
  by (auto simp: rbind_eq_Inr elim!: opt_if_elim dest: lists_typed)

lemma AccountData_typed: "AccountData_from_json J v = Inr a \<Longrightarrow> account_data_ok a"
  unfolding AccountData_from_json_def account_data_ok_def
  by (auto simp: rbind_eq_Inr elim!: opt_if_elim dest: lists_typed)

lemma Ephemeral_typed: "Ephemeral_from_json J v = Inr e \<Longrightarrow> list_all ephemeral_well_typed (sep_events e)"
  unfolding Ephemeral_from_json_def
  by (auto simp: rbind_eq_Inr elim!: opt_if_elim dest: lists_typed)

lemma empty_typed [simp]: "state_ok empty_State" "timeline_ok empty_Timeline" "account_data_ok empty_AccountData"
  by (simp_all add: state_ok_def timeline_ok_def account_data_ok_def empty_State_def empty_Timeline_def
      empty_AccountData_def)

lemma optional_typed:
  "jopt J (State_from_json J) v k empty_State = Inr s \<Longrightarrow> state_ok s"
  "jopt J (Timeline_from_json J) v k empty_Timeline = Inr t \<Longrightarrow> timeline_ok t"
  "jopt J (AccountData_from_json J) v k empty_AccountData = Inr a \<Longrightarrow> account_data_ok a"
  "jopt J (Ephemeral_from_json J) v k \<lparr>sep_events = []\<rparr> = Inr e \<Longrightarrow> list_all ephemeral_well_typed (sep_events e)"
  "jopt J (parse_stripped_events J) v k [] = Inr ps \<Longrightarrow> list_all stripped_well_typed ps"
  "jopt J (parse_device_events J) v k [] = Inr ds \<Longrightarrow> list_all device_well_typed ds"
  "jopt J (presence_events J) v k [] = Inr qs \<Longrightarrow> list_all (\<lambda>e. length (ev_sender e) \<le> 255) qs"
  by (erule opt_elim; simp add: State_typed Timeline_typed AccountData_typed Ephemeral_typed lists_typed presence_events_short)+

lemma JoinedRoom_typed: "JoinedRoom_from_json J v = Inr r \<Longrightarrow> joined_ok r"
  by (auto simp: JoinedRoom_from_json_def joined_ok_def rbind_eq_Inr dest: optional_typed)

lemma LeftRoom_typed: "LeftRoom_from_json J v = Inr r \<Longrightarrow> left_ok r"
  by (auto simp: LeftRoom_from_json_def left_ok_def rbind_eq_Inr dest: optional_typed)

lemma invite_events_typed: "invite_events J v k = Inr es \<Longrightarrow> list_all stripped_well_typed es"
  unfolding invite_events_def by (erule opt_elim) (auto dest: optional_typed)

lemma invited_typed:
  "InvitedRoom_from_json J v = Inr i \<Longrightarrow> list_all stripped_well_typed (invite_state i)"
  "KnockedRoom_from_json J v = Inr n \<Longrightarrow> list_all stripped_well_typed (knock_state n)"
  by (auto simp: InvitedRoom_from_json_def KnockedRoom_from_json_def rbind_eq_Inr dest: invite_events_typed)

lemma Rooms_typed:
  assumes "Rooms_from_json J v = Inr r"
  shows "rooms_ok joined_ok (rm_join r) \<and> rooms_ok left_ok (rm_leave r)
    \<and> rooms_ok (\<lambda>r. list_all stripped_well_typed (invite_state r)) (rm_invite r)
    \<and> rooms_ok (\<lambda>r. list_all stripped_well_typed (knock_state r)) (rm_knock r)"
  using assms
  by (auto simp: Rooms_from_json_def rbind_eq_Inr JoinedRoom_typed LeftRoom_typed invited_typed intro: room_entries_ok)

lemma Sync_typed:
  assumes "Sync_from_json J v = Inr s"
  shows "sync_ok s"
proof -
  have rooms: "rooms_ok joined_ok (rm_join r) \<and> rooms_ok left_ok (rm_leave r)
    \<and> rooms_ok (\<lambda>r. list_all stripped_well_typed (invite_state r)) (rm_invite r)
    \<and> rooms_ok (\<lambda>r. list_all stripped_well_typed (knock_state r)) (rm_knock r)"
    if "jopt J (Rooms_from_json J) v ''rooms'' \<lparr>rm_join = [], rm_leave = [], rm_invite = [], rm_knock = []\<rparr> = Inr r" for r
    using that by (rule opt_elim) (simp add: rooms_ok_def, erule Rooms_typed)
  have lists: "list_all (\<lambda>u. length u \<le> 255) (dl_changed d @ dl_left d)"
    if "jopt J (DeviceLists_from_json J) v ''device_lists'' \<lparr>dl_changed = [], dl_left = []\<rparr> = Inr d" for d
    using that by (rule opt_elim) (auto simp: DeviceLists_from_json_def rbind_eq_Inr dest: device_list_short)
  have to_device: "list_all device_well_typed (td_events t)"
    if "jopt J (ToDevice_from_json J) v ''to_device'' \<lparr>td_events = []\<rparr> = Inr t" for t
    using that by (rule opt_elim) (auto simp: ToDevice_from_json_def rbind_eq_Inr dest: optional_typed)
  have presence: "list_all (\<lambda>e. length (ev_sender e) \<le> 255) p"
    if "jopt J (\<lambda>p. jopt J (presence_events J) p ''events'' []) v ''presence'' [] = Inr p" for p
    using that by (rule opt_elim) (auto dest: optional_typed)
  show ?thesis
    using assms unfolding Sync_from_json_def sync_ok_def
    by (auto simp only: rbind_eq_Inr sum.inject Sync.simps dest!: rooms lists to_device presence optional_typed(3)
        intro!: conjI)
qed

end

section \<open>Sample responses\<close>

definition sample_room_event :: "string \<Rightarrow> json \<Rightarrow> json" where
  "sample_room_event type content = Obj [(''content'', content), (''event_id'', Str ''$e''), (''origin_server_ts'', Num 1),
     (''sender'', Str ''@a:b''), (''type'', Str type)]"

text \<open>A message, an event without the fields of its type, and a redaction whose target is missing.\<close>

definition sample_timeline :: json where
  "sample_timeline = Arr [
     sample_room_event ''m.room.message'' (Obj [(''body'', Str ''hi''), (''msgtype'', Str ''m.text'')]),
     sample_room_event ''m.call.hangup'' (Obj []),
     sample_room_event ''org.other'' (Obj []),
     sample_room_event ''m.room.redaction'' (Obj [])]"

definition sample_sync :: json where
  "sample_sync = Obj [(''device_lists'', Obj [(''changed'', Arr [Str ''@c:d'']), (''left'', Arr [])]),
     (''next_batch'', Str ''s1''),
     (''rooms'', Obj [(''join'', Obj [(''!r:b'', Obj [(''timeline'', Obj [(''events'', sample_timeline)])])])])]"

lemma map_filter_rules [simp]:
  "List.map_filter f [] = []"
  "List.map_filter f (x # xs) = (case f x of None \<Rightarrow> List.map_filter f xs | Some y \<Rightarrow> y # List.map_filter f xs)"
  by (simp_all add: List.map_filter_def split: option.split)

lemma tree_reads [simp]:
  "jopt tree_lib conv (Obj m) k d = (case map_of m k of None \<Rightarrow> Inr d | Some v \<Rightarrow> conv v)"
  "jat_as tree_lib conv (Obj m) k = (case map_of m k of None \<Rightarrow> key_error | Some v \<Rightarrow> conv v)"
  "jvalue tree_lib conv (Obj m) k d = (case map_of m k of None \<Rightarrow> Inr d | Some v \<Rightarrow> conv v)"
  "jopt_if tree_lib P conv (Obj m) k d =
     (case map_of m k of None \<Rightarrow> Inr d | Some v \<Rightarrow> if P (tree_type v) then conv v else Inr d)"
  by (auto simp: jopt_def jat_as_def jvalue_def jopt_if_def jmember_def tree_defs split: option.split)

lemma tree_strings [simp]:
  "jget_list tree_lib (jget_string tree_lib) (Arr (map Str xs)) = Inr xs"
  using tree.get_list_strings [of xs] by (simp add: jstrings_def tree_lib_def)

lemma tree_printable [simp]: "printable tree_lib e"
  by (cases e) (auto simp: printable_def tree_lib_def tree_dump_def split: list.split)

section \<open>Properties\<close>

text \<open>
  C10. Errors stay with their event: each of the six readers of event lists returns, in order, the
  alternative of every event that it can read, decided from that event alone, and skips the others; it
  never fails, as long as the events can be printed for the log.
\<close>

theorem events_read_independently:
  assumes "\<forall>e \<in> set (jiterate J events). printable J e"
  shows "parse_timeline_events J events = Inr (List.map_filter (readable (timeline_event J)) (jiterate J events))
    \<and> parse_state_events J events = Inr (List.map_filter (readable (state_event J)) (jiterate J events))
    \<and> parse_stripped_events J events = Inr (List.map_filter (readable (stripped_event J)) (jiterate J events))
    \<and> parse_device_events J events = Inr (List.map_filter (readable (device_event J)) (jiterate J events))
    \<and> parse_ephemeral_events J events = Inr (List.map_filter (readable (ephemeral_event J)) (jiterate J events))
    \<and> parse_room_account_data_events J events
        = Inr (List.map_filter (readable (room_account_data_event J)) (jiterate J events))"
  using assms
  by (simp add: parse_timeline_events_def parse_state_events_def parse_stripped_events_def parse_device_events_def
      parse_ephemeral_events_def parse_room_account_data_events_def parse_events_readable)

theorem events_read_independently_witness:
  "parse_timeline_events tree_lib sample_timeline
     = Inr (List.map_filter (readable (timeline_event tree_lib)) (jiterate tree_lib sample_timeline))
   \<and> (\<exists>x. timeline_event tree_lib (sample_room_event ''m.call.hangup'' (Obj [])) = Inl x)"
proof -
  have "\<exists>x. timeline_event tree_lib (sample_room_event ''m.call.hangup'' (Obj [])) = Inl x"
    by (simp add: timeline_event_def getEventType_json_def sample_room_event_def tree_defs jat_as_def getEventType_def
        is_redacted_def as_event_def RoomEvent_from_json_def Event_from_json_def content_from_json_def
        CallHangUp_content_def plain_content_def CallHangUp_from_json_def)
  then show ?thesis using events_read_independently [of tree_lib sample_timeline] by simp
qed

text \<open>
  C14. The two readers of timeline events agree: what the reader of lists chooses for an event, the reader
  of single events chooses, too, and where the first skips an event, the second keeps its value or reads
  the event as one of unknown content. They differ for verification requests, which only the second reads.
\<close>

theorem timeline_readers_agree:
  assumes "getEventType_json J obj = Inr type"
  shows "if type = KeyVerificationRequest \<and> \<not> is_redacted J obj
    then timeline_event J obj = Inr None
      \<and> (\<forall>e. RoomEvent_from_json J (KeyVerificationRequest_content J) obj = Inr e
           \<longrightarrow> TimelineEvents_from_json J obj d = Inr (TL_KeyVerificationRequest e))
    else TimelineEvents_from_json J obj d =
      (case timeline_event J obj of
         Inr (Some v) \<Rightarrow> Inr v
       | Inr None \<Rightarrow> Inr d
       | Inl _ \<Rightarrow> rbind (jdump J obj) (\<lambda>_. rbind (RoomEvent_from_json J (Unknown_content J) obj) (\<lambda>v. Inr (TL_Unknown v))))"
proof (cases "type = KeyVerificationRequest \<and> \<not> is_redacted J obj")
  case True
  then show ?thesis using assms
    by (simp add: timeline_event_def TimelineEvents_from_json_def collections_event_def as_event_def)
next
  case False
  then have "timeline_event J obj = collections_event J type obj"
    using assms by (cases type) (simp_all add: timeline_event_def collections_event_def)
  then show ?thesis using False assms by (auto simp: TimelineEvents_from_json_def split: sum.split option.split)
qed


theorem timeline_readers_agree_witness:
  "timeline_event tree_lib (sample_room_event ''m.key.verification.request'' (Obj [])) = Inr None"
proof -
  let ?e = "sample_room_event ''m.key.verification.request'' (Obj [])"
  have "getEventType_json tree_lib ?e = Inr KeyVerificationRequest" "\<not> is_redacted tree_lib ?e"
    by (simp_all add: sample_room_event_def getEventType_json_def is_redacted_def tree_defs jat_as_def getEventType_def)
  then show ?thesis using timeline_readers_agree [of tree_lib ?e] by simp
qed

text \<open>
  C7. A sync response that is accepted is well typed: every event in it stands in the alternative of its
  own type and its sender, event, room and state identifiers have at most 255 bytes, messages to the device
  have a sender, the rooms are keyed by distinct ids of at most 255 bytes, and so are the users of the
  device lists.
\<close>

theorem sync_well_typed:
  assumes "json_library J" and "Sync_from_json J obj = Inr s"
  shows "sync_ok s"
  using json_library.Sync_typed [OF assms] .

theorem sync_well_typed_witness: "\<exists>s. Sync_from_json tree_lib sample_sync = Inr s \<and> sync_ok s"
proof -
  have parse [simp]: "parse_events tree_lib step events = Inr (List.map_filter (readable step) (jiterate tree_lib events))"
    for step :: "json \<Rightarrow> 'v option result" and events
    by (rule parse_events_readable) simp
  have "device_list tree_lib (Obj [(''changed'', Arr (map Str [''@c:d''])), (''left'', Arr (map Str []))]) k = Inr us
      \<longleftrightarrow> us = (if k = ''changed'' then [''@c:d''] else [])" for k us
    unfolding device_list_def tree_reads by (auto simp del: list.map)
  then have "\<exists>s. Sync_from_json tree_lib sample_sync = Inr s"
    by (auto simp: sample_sync_def Sync_from_json_def Rooms_from_json_def room_entries_def DeviceLists_from_json_def
        jpairs_def JoinedRoom_from_json_def Timeline_from_json_def parse_timeline_events_def tree_sel rbind_eq_Inr)
  then show ?thesis using sync_well_typed [OF tree_lib_library] by blast
qed

end
