(* ===== verification/Timeline_Props.thy ===== *)
theory Timeline_Props
  imports Sync_Props Verification_Props
begin

text \<open>
  Round trips through the timeline: an event that the library writes is recognised by the reader of
  timelines, as the alternative it was written from and with all its data. State events, messages with
  their edits, encrypted messages, stickers, reactions, redactions, calls and verifications are covered.
\<close>

section \<open>The events that are read back\<close>

definition room_event_writable :: "EventType \<Rightarrow> ('c \<Rightarrow> bool) \<Rightarrow> ('c, 'z) RoomEvent_scheme \<Rightarrow> bool" where
  "room_event_writable t ok e \<longleftrightarrow> room_event_ok ok e \<and> ev_type e = t \<and> un_redacted_by (re_unsigned_data e) = []"

definition state_event_writable :: "EventType \<Rightarrow> ('c \<Rightarrow> bool) \<Rightarrow> 'c StateEvent \<Rightarrow> bool" where
  "state_event_writable t ok e \<longleftrightarrow> room_event_writable t ok e \<and> length (se_state_key e) \<le> 255"

text \<open>An event of the type that the client sends a content of the alternative \<open>v\<close> with.\<close>

abbreviation sent_state :: "TimelineEvents \<Rightarrow> ('c \<Rightarrow> bool) \<Rightarrow> 'c StateEvent \<Rightarrow> bool" where
  "sent_state v \<equiv> state_event_writable (state_content_to_type v)"

abbreviation sent_message :: "TimelineEvents \<Rightarrow> ('c \<Rightarrow> bool) \<Rightarrow> ('c, 'z) RoomEvent_scheme \<Rightarrow> bool" where
  "sent_message v \<equiv> room_event_writable (message_content_to_type v)"

definition effects :: "string set" where
  "effects = {''nic.custom.confetti'', ''nic.custom.fireworks'', ''io.element.effect.rainfall'',
     ''io.element.effect.hearts'', ''io.element.effect.snowfall'', ''io.element.effects.space_invaders''}"

definition formatted_content_ok :: "string set \<Rightarrow> FormattedMessage \<Rightarrow> bool" where
  "formatted_content_ok types m \<longleftrightarrow> fm_msgtype m \<in> types \<and> formatted_ok (fm_msgtype m) m \<and> message_rels_ok (fm_relations m)"

definition media_content_ok :: "string \<Rightarrow> ('i \<Rightarrow> bool) \<Rightarrow> 'i MediaMessage \<Rightarrow> bool" where
  "media_content_ok type ok m \<longleftrightarrow> media_ok type ok m \<and> message_rels_ok (mm_relations m)"

fun writable :: "TimelineEvents \<Rightarrow> bool" where
  "writable (TL_Aliases e) \<longleftrightarrow> sent_state (TL_Aliases e) (\<lambda>_. True) e"
| "writable (TL_Avatar e) \<longleftrightarrow> sent_state (TL_Avatar e) (\<lambda>c. ImageInfo_ok (av_image_info c)) e"
| "writable (TL_CanonicalAlias e) \<longleftrightarrow> sent_state (TL_CanonicalAlias e) (\<lambda>_. True) e"
| "writable (TL_Create e) \<longleftrightarrow> sent_state (TL_Create e) Create_ok e"
| "writable (TL_Encryption e) \<longleftrightarrow> sent_state (TL_Encryption e) Encryption_ok e"
| "writable (TL_GuestAccess e) \<longleftrightarrow> sent_state (TL_GuestAccess e) (\<lambda>_. True) e"
| "writable (TL_HistoryVisibility e) \<longleftrightarrow> sent_state (TL_HistoryVisibility e) (\<lambda>_. True) e"
| "writable (TL_JoinRules e) \<longleftrightarrow> sent_state (TL_JoinRules e) JoinRules_ok e"
| "writable (TL_Member e) \<longleftrightarrow> sent_state (TL_Member e) (\<lambda>_. True) e"
| "writable (TL_Name e) \<longleftrightarrow> sent_state (TL_Name e) (\<lambda>_. True) e"
| "writable (TL_PinnedEvents e) \<longleftrightarrow> sent_state (TL_PinnedEvents e) (\<lambda>_. True) e"
| "writable (TL_PowerLevels e) \<longleftrightarrow> sent_state (TL_PowerLevels e) PowerLevels_ok e"
| "writable (TL_UserRule e) \<longleftrightarrow> sent_state (TL_UserRule e) (\<lambda>_. True) e"
| "writable (TL_RoomRule e) \<longleftrightarrow> sent_state (TL_RoomRule e) (\<lambda>_. True) e"
| "writable (TL_ServerRule e) \<longleftrightarrow> sent_state (TL_ServerRule e) (\<lambda>_. True) e"
| "writable (TL_Child e) \<longleftrightarrow> sent_state (TL_Child e) Child_ok e"
| "writable (TL_Parent e) \<longleftrightarrow> sent_state (TL_Parent e) (\<lambda>c. via_ok (sp_via c)) e"
| "writable (TL_Tombstone e) \<longleftrightarrow> sent_state (TL_Tombstone e) (\<lambda>_. True) e"
| "writable (TL_ServerAcl e) \<longleftrightarrow> sent_state (TL_ServerAcl e) (\<lambda>_. True) e"
| "writable (TL_Topic e) \<longleftrightarrow> sent_state (TL_Topic e) (\<lambda>_. True) e"
| "writable (TL_Widget e) \<longleftrightarrow> state_event_writable (ev_type e) (\<lambda>c. smap_ok (wg_data c)) e \<and> ev_type e \<in> {Widget, VectorWidget}"
| "writable (TL_ImagePack e) \<longleftrightarrow> sent_state (TL_ImagePack e) ImagePack_ok e"
| "writable (TL_StickerImage e) \<longleftrightarrow> sent_message (TL_StickerImage e) (\<lambda>m. StickerImage_ok m \<and> message_rels_ok (si_relations m)) e"
| "writable (TL_Text e) \<longleftrightarrow> sent_message (TL_Text e) (formatted_content_ok {''m.text''}) e"
| "writable (TL_Notice e) \<longleftrightarrow> sent_message (TL_Notice e) (formatted_content_ok {''m.notice''}) e"
| "writable (TL_Emote e) \<longleftrightarrow> sent_message (TL_Emote e) (formatted_content_ok {''m.emote''}) e"
| "writable (TL_ElementEffect e) \<longleftrightarrow> sent_message (TL_ElementEffect e) (formatted_content_ok effects) e"
| "writable (TL_Audio e) \<longleftrightarrow> sent_message (TL_Audio e) (media_content_ok ''m.audio'' AudioInfo_ok) e"
| "writable (TL_Video e) \<longleftrightarrow> sent_message (TL_Video e) (media_content_ok ''m.video'' VideoInfo_ok) e"
| "writable (TL_Image e) \<longleftrightarrow> sent_message (TL_Image e) (media_content_ok ''m.image'' ImageInfo_ok) e"
| "writable (TL_File e) \<longleftrightarrow> sent_message (TL_File e) (\<lambda>m. File_ok m \<and> message_rels_ok (fl_relations m)) e"
| "writable (TL_Location e) \<longleftrightarrow> sent_message (TL_Location e) (\<lambda>m. Location_ok m \<and> message_rels_ok (lo_relations m)) e"
| "writable (TL_CallInvite e) \<longleftrightarrow> sent_message (TL_CallInvite e) CallInvite_ok e"
| "writable (TL_CallCandidates e) \<longleftrightarrow> sent_message (TL_CallCandidates e) CallCandidates_ok e"
| "writable (TL_CallAnswer e) \<longleftrightarrow> sent_message (TL_CallAnswer e) CallAnswer_ok e"
| "writable (TL_CallHangUp e) \<longleftrightarrow> sent_message (TL_CallHangUp e) CallHangUp_ok e"
| "writable (TL_CallSelectAnswer e) \<longleftrightarrow> sent_message (TL_CallSelectAnswer e) (\<lambda>_. True) e"
| "writable (TL_CallReject e) \<longleftrightarrow> sent_message (TL_CallReject e) (\<lambda>_. True) e"
| "writable (TL_CallNegotiate e) \<longleftrightarrow> sent_message (TL_CallNegotiate e) CallNegotiate_ok e"
| "writable (TL_Encrypted e) \<longleftrightarrow> sent_message (TL_Encrypted e) (\<lambda>c. rels_readable (me_relations c)) e"
| "writable (TL_Reaction e) \<longleftrightarrow> sent_message (TL_Reaction e) (\<lambda>c. relations_ok (rc_relations c)) e"
| "writable (TL_Redaction e) \<longleftrightarrow> room_event_writable RoomRedaction (\<lambda>_. True) e"
| "writable (TL_KeyVerificationStart e) \<longleftrightarrow> room_event_writable KeyVerificationStart (\<lambda>c. relations_ok (ks_relations c)) e"
| "writable (TL_KeyVerificationReady e) \<longleftrightarrow> room_event_writable KeyVerificationReady (\<lambda>c. relations_ok (ky_relations c)) e"
| "writable (TL_KeyVerificationDone e) \<longleftrightarrow> room_event_writable KeyVerificationDone KeyVerificationDone_ok e"
| "writable (TL_KeyVerificationAccept e) \<longleftrightarrow> room_event_writable KeyVerificationAccept (\<lambda>c. relations_ok (ka_relations c)) e"
| "writable (TL_KeyVerificationCancel e) \<longleftrightarrow> room_event_writable KeyVerificationCancel (\<lambda>c. relations_ok (kc_relations c)) e"
| "writable (TL_KeyVerificationKey e) \<longleftrightarrow> room_event_writable KeyVerificationKey (\<lambda>c. relations_ok (kk_relations c)) e"
| "writable (TL_KeyVerificationMac e) \<longleftrightarrow> room_event_writable KeyVerificationMac
     (\<lambda>c. smap_ok (kv_mac c) \<and> relations_ok (kv_relations c)) e"
| "writable _ \<longleftrightarrow> False"

text \<open>Both readers choose the alternative \<open>K\<close> for an event.\<close>

definition read_as :: "'j json_lib \<Rightarrow> ('a \<Rightarrow> TimelineEvents) \<Rightarrow> ('j \<Rightarrow> 'a result) \<Rightarrow> EventType \<Rightarrow> 'j \<Rightarrow> bool" where
  "read_as J K reader t obj \<longleftrightarrow>
     timeline_event J obj = as_event K (reader obj) \<and> collections_event J t obj = as_event K (reader obj)"

definition reads_back :: "'j json_lib \<Rightarrow> TimelineEvents \<Rightarrow> bool" where
  "reads_back J v \<longleftrightarrow> (\<exists>j. TimelineEvents_to_json J v = Inr j \<and> timeline_event J j = Inr (Some v)
     \<and> (\<forall>d. TimelineEvents_from_json J j d = Inr v))"

section \<open>What the envelope writes\<close>

context json_library
begin

lemma getEventType_fields:
  "jtype_of J j = JObject \<Longrightarrow> getEventType_json J j =
     (case jfields J j ''type'' of None \<Rightarrow> Inr Unsupported | Some v \<Rightarrow> rbind (jget_string J v) getEventType)"
  by (simp add: getEventType_json_def contains_fields at_as_fields split: option.split)

lemma is_redacted_fields:
  "jtype_of J j = JObject \<Longrightarrow> is_redacted J j \<longleftrightarrow>
     (case jfields J j ''unsigned'' of None \<Rightarrow> False | Some u \<Rightarrow> jcontains J u ''redacted_by'')"
  by (simp add: is_redacted_def contains_fields at_fields split: option.split)

lemma UnsignedData_not_redacted:
  assumes "UnsignedData_to_json J u = Inr j" and "un_redacted_by u = []"
  shows "\<not> jcontains J j ''redacted_by''"
proof -
  let ?obj = "jset_if J (un_age u \<noteq> 0)
     (jset_if J (un_replaces_state u \<noteq> [])
       (jset_if J (un_transaction_id u \<noteq> [])
         (jset_if J (un_prev_sender u \<noteq> []) (jnull J) ''prev_sender'' (jstring J (un_prev_sender u)))
         ''transaction_id'' (jstring J (un_transaction_id u)))
       ''replaces_state'' (jstring J (un_replaces_state u))) ''age'' (jint J (un_age u))"
  have "j = jset_if J False ?obj ''redacted_by'' (jstring J []) \<or>
      (\<exists>v. j = jset J (jset_if J False ?obj ''redacted_by'' (jstring J [])) ''redacted_because'' v)"
    using assms by (auto simp: UnsignedData_to_json_def rbind_eq_Inr Let_def split: option.splits)
  then show ?thesis by (auto simp: contains_fields object_or_null)
qed

lemma envelope_read:
  assumes "RoomEvent_to_json J C e = Inr j" and "ct_type_name C (ev_content e) = None"
    and "ev_type e \<noteq> Unsupported" and "un_redacted_by (re_unsigned_data e) = []"
  obtains d where "ct_to C (ev_content e) = Inr d" and "jtype_of J j = JObject" and "jfields J j ''content'' = Some d"
    and "getEventType_json J j = Inr (ev_type e)" and "\<not> is_redacted J j"
proof -
  obtain d u where d: "ct_to C (ev_content e) = Inr d" and u: "UnsignedData_to_json J (re_unsigned_data e) = Inr u"
    using assms(1) by (auto simp: RoomEvent_to_json_def Event_to_json_def rbind_eq_Inr Let_def)
  have j: "jtype_of J j = JObject" "jfields J j ''content'' = Some d" "jfields J j ''unsigned'' = Some u"
      "jfields J j ''type'' = Some (jstring J (event_type_to_string (ev_type e)))"
    using assms(1,2) d u
    by (auto simp: RoomEvent_to_json_def Event_to_json_def Let_def type_name_def object_or_null)
  have "getEventType_json J j = Inr (ev_type e)"
    using j assms(3) by (simp add: getEventType_fields getEventType_to_string)
  moreover have "\<not> is_redacted J j"
    using j UnsignedData_not_redacted [OF u assms(4)] by (simp add: is_redacted_fields)
  ultimately show ?thesis using that d j by blast
qed

text \<open>The fields that state and redaction events add are no part of the envelope.\<close>

lemma added_field_read:
  assumes "jtype_of J i = JObject" and "getEventType_json J i = Inr t" and "\<not> is_redacted J i"
    and "k \<noteq> ''type''" and "k \<noteq> ''unsigned''"
  shows "getEventType_json J (jset J i k v) = Inr t \<and> \<not> is_redacted J (jset J i k v)"
  using assms by (simp add: getEventType_fields is_redacted_fields object_or_null)

section \<open>The message type survives an edit\<close>

lemma edit_event_fields:
  assumes "jtype_of J c = JObject" and "k \<noteq> ''m.new_content''"
  shows "jtype_of J (foldl (edit_field J) c xs) = JObject \<and> jfields J (foldl (edit_field J) c xs) k = jfields J c k"
  using assms
proof (induction xs arbitrary: c)
  case (Cons x xs)
  have "jtype_of J (edit_field J c x) = JObject \<and> jfields J (edit_field J c x) k = jfields J c k"
    using Cons.prems by (cases x) (simp add: edit_field_def object_or_null jset2_def)
  then show ?case using Cons.IH [of "edit_field J c x"] Cons.prems(2) by simp
qed simp

lemma star_fields:
  assumes "star_field J f c = Inr d" and "jtype_of J c = JObject" and "k \<noteq> f"
  shows "jtype_of J d = JObject \<and> jfields J d k = jfields J c k"
  using assms by (auto simp: star_field_def rbind_eq_Inr object_or_null split: if_splits)

lemma apply_relations_other:
  assumes "apply_relations J c rels = Inr d" and "jtype_of J c = JObject"
    and "\<not> relation_key k" and "k \<noteq> ''body''" and "k \<noteq> ''formatted_body''"
  shows "jtype_of J d = JObject \<and> jfields J d k = jfields J c k"
proof -
  let ?a = "add_relations J c rels"
  have a: "jtype_of J ?a = JObject" "jfields J ?a k = jfields J c k" using add_relations_other [OF assms(2)] assms(3) by auto
  show ?thesis
  proof (cases "replaces rels True")
    case None
    then show ?thesis using assms(1) a by (simp add: apply_relations_def Let_def)
  next
    case (Some r)
    let ?e = "foldl (edit_field J) ?a (jitems J ?a)"
    have "k \<noteq> ''m.new_content''" using assms(3) by (auto simp: relation_key_def)
    then have e: "jtype_of J ?e = JObject" "jfields J ?e k = jfields J c k" using edit_event_fields [OF a(1)] a(2) by simp_all
    obtain b where "star_field J ''body'' ?e = Inr b" "star_field J ''formatted_body'' b = Inr d"
      using assms(1) Some by (auto simp: apply_relations_def Let_def rbind_eq_Inr)
    then show ?thesis using star_fields [of "''body''" ?e b k] star_fields [of "''formatted_body''" b d k] e assms(4,5) by simp
  qed
qed

lemma msgtype_read:
  assumes "jtype_of J d = JObject" and "jfields J d ''msgtype'' = Some (jstring J t)"
  shows "getMessageType_json J d = getMessageType t"
  using assms by (simp add: getMessageType_json_def contains_fields at_as_fields)

section \<open>One alternative\<close>

lemma room_stored:
  assumes "event_content J C ok" and "room_event_writable t ok e"
  obtains j d where "RoomEvent_to_json J C e = Inr j" and "RoomEvent_from_json J C j = Inr (RoomEvent.truncate e)"
    and "jtype_of J j = JObject" and "getEventType_json J j = Inr t" and "\<not> is_redacted J j"
    and "jat J j ''content'' = Inr d" and "ct_to C (ev_content e) = Inr d"
proof -
  have e: "room_event_ok ok e" "ev_type e = t" "un_redacted_by (re_unsigned_data e) = []" "ev_type e \<noteq> Unsupported"
    using assms(2) by (auto simp: room_event_writable_def room_event_ok_def event_ok_def)
  obtain j where j: "RoomEvent_to_json J C e = Inr j" "RoomEvent_from_json J C j = Inr (RoomEvent.truncate e)"
    using event_content.RoomEvent_roundtrip [OF assms(1) e(1)] by blast
  moreover obtain d where "ct_to C (ev_content e) = Inr d" "jtype_of J j = JObject" "jfields J j ''content'' = Some d"
      "getEventType_json J j = Inr (ev_type e)" "\<not> is_redacted J j"
    using envelope_read [OF j(1) event_content.no_type_name(1) [OF assms(1)] e(4,3)] by blast
  ultimately show ?thesis using that e(2) by (simp add: at_fields)
qed

lemma reads_backI:
  assumes "TimelineEvents_to_json J (K e) = Inr j" and "reader j = Inr e" and "getEventType_json J j = Inr t"
    and "read_as J K reader t j"
  shows "reads_back J (K e)"
  using assms by (auto simp: reads_back_def read_as_def TimelineEvents_from_json_def as_event_def)

lemma truncate_RoomEvent [simp]: "RoomEvent.truncate (e :: 'c RoomEvent) = e"
  by (simp add: RoomEvent.defs)

lemma room_case:
  assumes "event_content J C ok" and "room_event_writable t ok (e :: 'c RoomEvent)"
    and "\<And>obj. getEventType_json J obj = Inr t \<Longrightarrow> \<not> is_redacted J obj \<Longrightarrow> read_as J K (RoomEvent_from_json J C) t obj"
    and "TimelineEvents_to_json J (K e) = RoomEvent_to_json J C e"
  shows "reads_back J (K e)"
proof -
  obtain j d where "RoomEvent_to_json J C e = Inr j" "RoomEvent_from_json J C j = Inr e"
      "getEventType_json J j = Inr t" "\<not> is_redacted J j"
    using room_stored [OF assms(1,2)] by auto
  then show ?thesis using assms(3,4) by (intro reads_backI [where reader = "RoomEvent_from_json J C"]) auto
qed

lemma message_case:
  assumes "event_content J C ok" and "room_event_writable RoomMessage ok (e :: 'c RoomEvent)"
    and "\<And>c d. ok c \<Longrightarrow> ct_to C c = Inr d \<Longrightarrow> getMessageType_json J d = mt"
    and "\<And>obj d. getEventType_json J obj = Inr RoomMessage \<Longrightarrow> \<not> is_redacted J obj \<Longrightarrow> jat J obj ''content'' = Inr d
      \<Longrightarrow> getMessageType_json J d = mt \<Longrightarrow> read_as J K (RoomEvent_from_json J C) RoomMessage obj"
    and "TimelineEvents_to_json J (K e) = RoomEvent_to_json J C e"
  shows "reads_back J (K e)"
proof -
  obtain j d where j: "RoomEvent_to_json J C e = Inr j" "RoomEvent_from_json J C j = Inr e"
      "getEventType_json J j = Inr RoomMessage" "\<not> is_redacted J j" "jat J j ''content'' = Inr d" "ct_to C (ev_content e) = Inr d"
    by (rule room_stored [OF assms(1,2)]) simp
  have "ok (ev_content e)" using assms(2) by (simp add: room_event_writable_def room_event_ok_def event_ok_def)
  then have "read_as J K (RoomEvent_from_json J C) RoomMessage j" using assms(3,4) j by blast
  then show ?thesis using assms(5) j by (intro reads_backI [where reader = "RoomEvent_from_json J C"]) auto
qed

lemma state_case:
  assumes "event_content J C ok" and "state_event_writable t ok e"
    and "\<And>obj. getEventType_json J obj = Inr t \<Longrightarrow> \<not> is_redacted J obj \<Longrightarrow> read_as J K (StateEvent_from_json J C) t obj"
    and "TimelineEvents_to_json J (K e) = StateEvent_to_json J C e"
  shows "reads_back J (K e)"
proof -
  have w: "room_event_writable t ok e" "length (se_state_key e) \<le> 255" using assms(2) by (simp_all add: state_event_writable_def)
  obtain i where i: "RoomEvent_to_json J C e = Inr i" "jtype_of J i = JObject" "getEventType_json J i = Inr t" "\<not> is_redacted J i"
    using room_stored [OF assms(1) w(1)] by auto
  let ?j = "jset J i ''state_key'' (jstring J (se_state_key e))"
  have j: "StateEvent_to_json J C e = Inr ?j" "getEventType_json J ?j = Inr t" "\<not> is_redacted J ?j"
    using i added_field_read [of i t "''state_key''"] by (auto simp: StateEvent_to_json_def)
  have "room_event_ok ok e" using w(1) by (simp add: room_event_writable_def)
  from event_content.StateEvent_roundtrip [OF assms(1) this w(2)] j(1)
  have "StateEvent_from_json J C ?j = Inr e" by (metis sum.inject(2))
  then show ?thesis using assms(3,4) j by (intro reads_backI [where reader = "StateEvent_from_json J C"]) auto
qed

lemma redaction_case:
  assumes "event_content J C ok" and "room_event_writable t ok e"
    and "\<And>obj. getEventType_json J obj = Inr t \<Longrightarrow> \<not> is_redacted J obj \<Longrightarrow> read_as J K (RedactionEvent_from_json J C) t obj"
    and "TimelineEvents_to_json J (K e) = RedactionEvent_to_json J C e"
  shows "reads_back J (K e)"
proof -
  obtain i where i: "RoomEvent_to_json J C e = Inr i" "jtype_of J i = JObject" "getEventType_json J i = Inr t" "\<not> is_redacted J i"
    using room_stored [OF assms(1,2)] by auto
  let ?j = "jset J i ''redacts'' (jstring J (rde_redacts e))"
  have j: "RedactionEvent_to_json J C e = Inr ?j" "getEventType_json J ?j = Inr t" "\<not> is_redacted J ?j"
    using i added_field_read [of i t "''redacts''"] by (auto simp: RedactionEvent_to_json_def)
  have "room_event_ok ok e" using assms(2) by (simp add: room_event_writable_def)
  from event_content.RedactionEvent_roundtrip [OF assms(1) this] j(1)
  have "RedactionEvent_from_json J C ?j = Inr e" by (metis sum.inject(2))
  then show ?thesis using assms(3,4) j by (intro reads_backI [where reader = "RedactionEvent_from_json J C"]) auto
qed

section \<open>Messages\<close>

lemma event_content_mono:
  assumes "event_content J C ok" and "\<And>c. ok' c \<Longrightarrow> ok c"
  shows "event_content J C ok'"
  using assms unfolding event_content_def event_content_axioms_def by blast

lemma messages_written:
  "event_content J (Text_content J) (formatted_content_ok {''m.text''})"
  "event_content J (Notice_content J) (formatted_content_ok {''m.notice''})"
  "event_content J (Emote_content J) (formatted_content_ok {''m.emote''})"
  "event_content J (ElementEffect_content J) (formatted_content_ok effects)"
  unfolding Text_content_def Notice_content_def Emote_content_def ElementEffect_content_def Text_to_json_def [abs_def]
    Notice_to_json_def [abs_def] Emote_to_json_def [abs_def] ElementEffect_to_json_def [abs_def]
    Notice_from_json_def Emote_from_json_def
  by (rule event_content_mono [OF message_json.message_event_content [OF formatted_message]]
        event_content_mono [OF message_json.message_event_content [OF effect_message]],
      fastforce simp: formatted_content_ok_def)+

lemma media_written:
  "event_content J (Audio_content J) (media_content_ok ''m.audio'' AudioInfo_ok)"
  "event_content J (Video_content J) (media_content_ok ''m.video'' VideoInfo_ok)"
  "event_content J (Image_content J) (media_content_ok ''m.image'' ImageInfo_ok)"
  "event_content J (File_content J) (\<lambda>m. File_ok m \<and> message_rels_ok (fl_relations m))"
  "event_content J (Location_content J) (\<lambda>m. Location_ok m \<and> message_rels_ok (lo_relations m))"
  "event_content J (StickerImage_content J) (\<lambda>m. StickerImage_ok m \<and> message_rels_ok (si_relations m))"
  unfolding Audio_content_def Video_content_def Image_content_def File_content_def Location_content_def StickerImage_content_def
    Audio_to_json_def [abs_def] Video_to_json_def [abs_def] Image_to_json_def [abs_def] File_to_json_def [abs_def]
    Location_to_json_def [abs_def] StickerImage_to_json_def [abs_def] media_content_ok_def [abs_def]
  by (rule message_json.message_event_content [OF Audio_message] message_json.message_event_content [OF Video_message]
      message_json.message_event_content [OF Image_message] message_json.message_event_content [OF File_message]
      message_json.message_event_content [OF Location_message] message_json.message_event_content [OF StickerImage_message])+

lemma message_type_written:
  assumes "apply_relations J base rels = Inr d" and "jtype_of J base = JObject"
    and "jfields J base ''msgtype'' = Some (jstring J t)"
  shows "getMessageType_json J d = getMessageType t"
  using apply_relations_other [OF assms(1,2), of "''msgtype''"] assms(3) by (intro msgtype_read) simp_all

lemma base_types:
  "jtype_of J (formatted_base J t m) = JObject" "jfields J (formatted_base J t m) ''msgtype'' = Some (jstring J t)"
  "jtype_of J (media_base J t w i) = JObject" "jfields J (media_base J t w i) ''msgtype'' = Some (jstring J t)"
  "jtype_of J (File_base J f) = JObject" "jfields J (File_base J f) ''msgtype'' = Some (jstring J ''m.file'')"
  "jtype_of J (Location_base J l) = JObject" "jfields J (Location_base J l) ''msgtype'' = Some (jstring J ''m.location'')"
  by (simp_all add: formatted_base_def media_base_def File_base_def Location_base_def content_simps split: option.split)

lemma message_types:
  "formatted_content_ok {''m.text''} c \<Longrightarrow> ct_to (Text_content J) c = Inr d \<Longrightarrow> getMessageType_json J d = MsgText"
  "formatted_content_ok {''m.notice''} c \<Longrightarrow> ct_to (Notice_content J) c = Inr d \<Longrightarrow> getMessageType_json J d = MsgNotice"
  "formatted_content_ok {''m.emote''} c \<Longrightarrow> ct_to (Emote_content J) c = Inr d \<Longrightarrow> getMessageType_json J d = MsgEmote"
  "formatted_content_ok effects c \<Longrightarrow> ct_to (ElementEffect_content J) c = Inr d \<Longrightarrow> getMessageType_json J d = MsgElementEffect"
  "ct_to (Audio_content J) a = Inr d \<Longrightarrow> getMessageType_json J d = MsgAudio"
  "ct_to (Video_content J) v = Inr d \<Longrightarrow> getMessageType_json J d = MsgVideo"
  "ct_to (Image_content J) i = Inr d \<Longrightarrow> getMessageType_json J d = MsgImage"
  "ct_to (File_content J) f = Inr d \<Longrightarrow> getMessageType_json J d = MsgFile"
  "ct_to (Location_content J) l = Inr d \<Longrightarrow> getMessageType_json J d = MsgLocation"
  by (auto simp: Text_content_def Notice_content_def Emote_content_def ElementEffect_content_def Audio_content_def
      Video_content_def Image_content_def File_content_def Location_content_def plain_content_def Text_to_json_def
      Notice_to_json_def Emote_to_json_def ElementEffect_to_json_def Audio_to_json_def Video_to_json_def
      Image_to_json_def File_to_json_def Location_to_json_def formatted_content_ok_def effects_def base_types
      dest!: message_type_written simp: getMessageType_def)

lemmas state_cases = state_case [OF Aliases_event_content] state_case [OF Avatar_event_content]
  state_case [OF CanonicalAlias_event_content] state_case [OF Create_event_content] state_case [OF Encryption_event_content]
  state_case [OF GuestAccess_event_content] state_case [OF HistoryVisibility_event_content]
  state_case [OF JoinRules_event_content] state_case [OF Member_event_content] state_case [OF Name_event_content]
  state_case [OF PinnedEvents_event_content] state_case [OF PowerLevels_event_content] state_case [OF UserRule_event_content]
  state_case [OF RoomRule_event_content] state_case [OF ServerRule_event_content] state_case [OF Child_event_content]
  state_case [OF Parent_event_content] state_case [OF Tombstone_event_content] state_case [OF ServerAcl_event_content]
  state_case [OF Topic_event_content] state_case [OF Widget_event_content] state_case [OF ImagePack_event_content]

lemmas room_cases = room_case [OF media_written(6)] room_case [OF CallInvite_event_content]
  room_case [OF CallCandidates_event_content] room_case [OF CallAnswer_event_content] room_case [OF CallHangUp_event_content]
  room_case [OF CallSelectAnswer_event_content] room_case [OF CallReject_event_content] room_case [OF CallNegotiate_event_content]
  room_case [OF Encrypted_event_content] room_case [OF Reaction_event_content]
  room_case [OF KeyVerificationStart_event_content, simplified] room_case [OF KeyVerificationReady_event_content, simplified]
  room_case [OF KeyVerificationDone_event_content] room_case [OF KeyVerificationAccept_event_content, simplified]
  room_case [OF KeyVerificationCancel_event_content, simplified] room_case [OF KeyVerificationKey_event_content, simplified]
  room_case [OF KeyVerificationMac_event_content] redaction_case [OF Redaction_event_content]

lemmas message_cases = message_case [OF messages_written(1) _ message_types(1)]
  message_case [OF messages_written(2) _ message_types(2)] message_case [OF messages_written(3) _ message_types(3)]
  message_case [OF messages_written(4) _ message_types(4)] message_case [OF media_written(1) _ message_types(5)]
  message_case [OF media_written(2) _ message_types(6)] message_case [OF media_written(3) _ message_types(7)]
  message_case [OF media_written(4) _ message_types(8)] message_case [OF media_written(5) _ message_types(9)]

lemmas reading = read_as_def timeline_event_def collections_event_def message_event_def
  EncryptedEvent_from_json_def EncryptedEvent_to_json_def

lemma writable_reads_back:
  assumes "writable v"
  shows "reads_back J v"
proof (cases v)
  case (TL_Widget e)
  then show ?thesis using assms
    by (auto intro!: state_case [OF Widget_event_content, of "ev_type e"] simp: reading)
qed (insert assms, simp_all, (erule state_cases room_cases message_cases; simp add: reading; fail)+)

end

section \<open>Properties\<close>


definition sample_edit_event :: TimelineEvents where
  "sample_edit_event = TL_Text \<lparr>ev_type = RoomMessage, ev_sender = ''@a:b'',
     ev_content = \<lparr>fm_body = ''new'', fm_msgtype = ''m.text'', fm_format = [], fm_formatted_body = [],
       fm_relations = \<lparr>relations = [empty_Relation\<lparr>rel_type := Rel_Replace, rel_event_id := ''$x''\<rparr>], synthesized = True\<rparr>,
       fm_mentions = None\<rparr>,
     re_event_id = ''$e'', re_room_id = ''!r'', re_origin_server_ts = 1, re_unsigned_data = empty_UnsignedData\<rparr>"

lemma sample_edit_writable: "writable sample_edit_event"
  by (simp add: sample_edit_event_def room_event_writable_def room_event_ok_def event_ok_def unsigned_ok_def
        empty_UnsignedData_def uint64_ok_def formatted_content_ok_def formatted_ok_def message_rels_ok_def
        single_edit_def empty_Relation_def)


end
