(* ===== verification/Device_Props.thy ===== *)
theory Device_Props
  imports Verification_Props Timeline_Props
begin

text \<open>
  Round trips of messages to a device: keys, requests, secrets and the steps of a verification are
  recognised by the reader of device events as what they were written from.
\<close>

section \<open>The messages that are read back\<close>

text \<open>A message to a device: the writer of its envelope for the content of the alternative.\<close>

primrec device_event_to_json :: "'j json_lib \<Rightarrow> DeviceEvents \<Rightarrow> 'j result" where
  "device_event_to_json J (DV_RoomKey e) = DeviceEvent_to_json J (RoomKey_content J) e"
| "device_event_to_json J (DV_ForwardedRoomKey e) = DeviceEvent_to_json J (ForwardedRoomKey_content J) e"
| "device_event_to_json J (DV_KeyRequest e) = DeviceEvent_to_json J (KeyRequest_content J) e"
| "device_event_to_json J (DV_OlmEncrypted e) = DeviceEvent_to_json J (OlmEncrypted_content J) e"
| "device_event_to_json J (DV_Encrypted e) = DeviceEvent_to_json J (Encrypted_content J) e"
| "device_event_to_json J (DV_Dummy e) = DeviceEvent_to_json J (Dummy_content J) e"
| "device_event_to_json J (DV_KeyVerificationRequest e) = DeviceEvent_to_json J (KeyVerificationRequest_content J) e"
| "device_event_to_json J (DV_KeyVerificationStart e) = DeviceEvent_to_json J (KeyVerificationStart_content J) e"
| "device_event_to_json J (DV_KeyVerificationReady e) = DeviceEvent_to_json J (KeyVerificationReady_content J) e"
| "device_event_to_json J (DV_KeyVerificationDone e) = DeviceEvent_to_json J (KeyVerificationDone_content J) e"
| "device_event_to_json J (DV_KeyVerificationAccept e) = DeviceEvent_to_json J (KeyVerificationAccept_content J) e"
| "device_event_to_json J (DV_KeyVerificationCancel e) = DeviceEvent_to_json J (KeyVerificationCancel_content J) e"
| "device_event_to_json J (DV_KeyVerificationKey e) = DeviceEvent_to_json J (KeyVerificationKey_content J) e"
| "device_event_to_json J (DV_KeyVerificationMac e) = DeviceEvent_to_json J (KeyVerificationMac_content J) e"
| "device_event_to_json J (DV_SecretRequest e) = DeviceEvent_to_json J (SecretRequest_content J) e"
| "device_event_to_json J (DV_SecretSend e) = DeviceEvent_to_json J (SecretSend_content J) e"
| "device_event_to_json J (DV_Unknown e) = DeviceEvent_to_json J (Unknown_content J) e"

text \<open>An event of the type that the client sends the alternative \<open>v\<close> with, from a known sender.\<close>

definition sent_device :: "DeviceEvents \<Rightarrow> ('c \<Rightarrow> bool) \<Rightarrow> 'c DeviceEvent \<Rightarrow> bool" where
  "sent_device v ok e \<longleftrightarrow> event_ok ok e \<and> ev_type e = to_device_content_to_type v \<and> ev_sender e \<noteq> []"

primrec device_writable :: "DeviceEvents \<Rightarrow> bool" where
  "device_writable (DV_RoomKey e) \<longleftrightarrow> sent_device (DV_RoomKey e) (\<lambda>_. True) e"
| "device_writable (DV_ForwardedRoomKey e) \<longleftrightarrow> sent_device (DV_ForwardedRoomKey e) (\<lambda>_. True) e"
| "device_writable (DV_KeyRequest e) \<longleftrightarrow> sent_device (DV_KeyRequest e) KeyRequest_ok e"
| "device_writable (DV_OlmEncrypted e) \<longleftrightarrow> sent_device (DV_OlmEncrypted e) OlmEncrypted_ok e"
| "device_writable (DV_Encrypted e) \<longleftrightarrow>
     sent_device (DV_Encrypted e) (\<lambda>c. me_algorithm c = MEGOLM_ALGO \<and> rels_readable (me_relations c)) e"
| "device_writable (DV_Dummy e) \<longleftrightarrow> sent_device (DV_Dummy e) (\<lambda>_. True) e"
| "device_writable (DV_KeyVerificationRequest e) \<longleftrightarrow> sent_device (DV_KeyVerificationRequest e) KeyVerificationRequest_ok e"
| "device_writable (DV_KeyVerificationStart e) \<longleftrightarrow> sent_device (DV_KeyVerificationStart e) (\<lambda>c. relations_ok (ks_relations c)) e"
| "device_writable (DV_KeyVerificationReady e) \<longleftrightarrow> sent_device (DV_KeyVerificationReady e) (\<lambda>c. relations_ok (ky_relations c)) e"
| "device_writable (DV_KeyVerificationDone e) \<longleftrightarrow> sent_device (DV_KeyVerificationDone e) KeyVerificationDone_ok e"
| "device_writable (DV_KeyVerificationAccept e) \<longleftrightarrow> sent_device (DV_KeyVerificationAccept e) (\<lambda>c. relations_ok (ka_relations c)) e"
| "device_writable (DV_KeyVerificationCancel e) \<longleftrightarrow> sent_device (DV_KeyVerificationCancel e) (\<lambda>c. relations_ok (kc_relations c)) e"
| "device_writable (DV_KeyVerificationKey e) \<longleftrightarrow> sent_device (DV_KeyVerificationKey e) (\<lambda>c. relations_ok (kk_relations c)) e"
| "device_writable (DV_KeyVerificationMac e) \<longleftrightarrow>
     sent_device (DV_KeyVerificationMac e) (\<lambda>c. smap_ok (kv_mac c) \<and> relations_ok (kv_relations c)) e"
| "device_writable (DV_SecretRequest e) \<longleftrightarrow> sent_device (DV_SecretRequest e) (\<lambda>r. sr_action r \<noteq> Unknown_action) e"
| "device_writable (DV_SecretSend e) \<longleftrightarrow> sent_device (DV_SecretSend e) (\<lambda>_. True) e"
| "device_writable (DV_Unknown e) \<longleftrightarrow> False"

definition device_reads_back :: "'j json_lib \<Rightarrow> DeviceEvents \<Rightarrow> bool" where
  "device_reads_back J v \<longleftrightarrow> (\<exists>j. device_event_to_json J v = Inr j \<and> device_event J j = Inr (Some v))"

context json_library
begin

lemma parse_written:
  assumes "\<And>v. v \<in> set vs \<Longrightarrow> \<exists>j. w v = Inr j \<and> step j = Inr (Some v)"
  shows "\<exists>js. mapM w vs = Inr js \<and> parse_events J step (jof_array J js) = Inr vs"
proof -
  obtain h where h: "\<And>v. v \<in> set vs \<Longrightarrow> w v = Inr (h v) \<and> step (h v) = Inr (Some v)" using assms by metis
  then have "mapM w vs = Inr (map h vs)" by (intro mapM_eq) blast
  moreover have "parse_events J step (jof_array J (map h vs)) = Inr (List.map_filter (readable step) (map h vs))"
    using h by (subst parse_events_readable) (auto simp: jiterate_def elems_array)
  moreover have "List.map_filter (readable step) (map h vs) = vs"
    using h by (induction vs) (simp_all add: List.map_filter_def readable_def)
  ultimately show ?thesis by simp
qed

lemma device_stored:
  assumes "event_content J C ok" and "sent_device v ok e"
  obtains j d where "DeviceEvent_to_json J C e = Inr j" and "DeviceEvent_from_json J C j = Inr e"
    and "getEventType_json J j = Inr (to_device_content_to_type v)" and "jat J j ''content'' = Inr d"
    and "ct_to C (ev_content e) = Inr d"
proof -
  have e: "event_ok ok e" "ev_type e = to_device_content_to_type v" "ev_sender e \<noteq> []"
    using assms(2) by (simp_all add: sent_device_def)
  obtain j where j: "DeviceEvent_to_json J C e = Inr j" "DeviceEvent_from_json J C j = Inr (Event.truncate e)"
    using event_content.DeviceEvent_roundtrip [OF assms(1) e(1,3)] .
  then obtain d where d: "ct_to C (ev_content e) = Inr d"
      "j = jset J (jset J (jset J (jnull J) ''content'' d) ''sender'' (jstring J (ev_sender e)))
        ''type'' (jstring J (event_type_to_string (ev_type e)))"
    using event_content.no_type_name(1) [OF assms(1)]
    by (auto simp: DeviceEvent_to_json_def Event_to_json_def rbind_eq_Inr Let_def type_name_def)
  moreover have "ev_type e \<noteq> Unsupported" using e(1) by (simp add: event_ok_def)
  ultimately show ?thesis
    using that [of j d] j e(2) by (simp add: getEventType_fields getEventType_to_string at_fields object_or_null Event.defs)
qed

lemma device_case:
  assumes "event_content J C ok" and "sent_device (K e) ok e"
    and "\<And>obj d. getEventType_json J obj = Inr (to_device_content_to_type (K e)) \<Longrightarrow> jat J obj ''content'' = Inr d
      \<Longrightarrow> ct_to C (ev_content e) = Inr d \<Longrightarrow> device_event J obj = as_event K (DeviceEvent_from_json J C obj)"
    and "device_event_to_json J (K e) = DeviceEvent_to_json J C e"
  shows "device_reads_back J (K e)"
proof -
  obtain j d where "DeviceEvent_to_json J C e = Inr j" "DeviceEvent_from_json J C j = Inr e"
      "getEventType_json J j = Inr (to_device_content_to_type (K e))" "jat J j ''content'' = Inr d"
      "ct_to C (ev_content e) = Inr d"
    using device_stored [OF assms(1,2)] .
  then show ?thesis using assms(3,4) by (simp add: device_reads_back_def as_event_def)
qed

lemmas device_cases = device_case [OF RoomKey_event_content] device_case [OF ForwardedRoomKey_event_content]
  device_case [OF KeyRequest_event_content] device_case [OF Dummy_event_content]
  device_case [OF KeyVerificationRequest_event_content] device_case [OF KeyVerificationStart_event_content, simplified]
  device_case [OF KeyVerificationReady_event_content, simplified] device_case [OF KeyVerificationDone_event_content]
  device_case [OF KeyVerificationAccept_event_content, simplified] device_case [OF KeyVerificationCancel_event_content, simplified]
  device_case [OF KeyVerificationKey_event_content, simplified] device_case [OF KeyVerificationMac_event_content]
  device_case [OF SecretRequest_event_content] device_case [OF SecretSend_event_content]

lemma olm_algorithm:
  "OlmEncrypted_ok c \<Longrightarrow> ct_to (OlmEncrypted_content J) c = Inr d \<Longrightarrow>
     jat_as J (jget_string J) d ''algorithm'' = Inr ''m.olm.v1.curve25519-aes-sha2''"
  by (auto simp: OlmEncrypted_content_def plain_content_def OlmEncrypted_ok_def OlmEncrypted_to_json_def OLM_ALGO_def state_simps)

lemma megolm_algorithm:
  assumes "me_algorithm c = MEGOLM_ALGO" and "ct_to (Encrypted_content J) c = Inr d"
  shows "jat_as J (jget_string J) d ''algorithm'' = Inr ''m.megolm.v1.aes-sha2''"
proof -
  have d: "d = Encrypted_to_json J c" using assms(2) by (simp add: Encrypted_content_def plain_content_def)
  have "jtype_of J d = JObject \<and> jfields J d ''algorithm'' = Some (jstring J MEGOLM_ALGO)"
    unfolding d Encrypted_to_json_def Let_def
    using add_relations_other [where k = "''algorithm''"] assms(1) by (simp add: relation_key_def object_or_null)
  then show ?thesis by (simp add: at_as_fields MEGOLM_ALGO_def)
qed

lemma device_writable_reads_back:
  assumes "device_writable v"
  shows "device_reads_back J v"
proof (cases v)
  case (DV_OlmEncrypted e)
  then have e: "sent_device (DV_OlmEncrypted e) OlmEncrypted_ok e" using assms by simp
  then have "OlmEncrypted_ok (ev_content e)" by (simp add: sent_device_def event_ok_def)
  then show ?thesis unfolding DV_OlmEncrypted
    by (intro device_case [where K = DV_OlmEncrypted, OF OlmEncrypted_event_content e]) (simp_all add: device_event_def olm_algorithm)
next
  case (DV_Encrypted e)
  then have e: "sent_device (DV_Encrypted e) (\<lambda>c. rels_readable (me_relations c)) e" "me_algorithm (ev_content e) = MEGOLM_ALGO"
    using assms by (simp_all add: sent_device_def event_ok_def)
  then show ?thesis unfolding DV_Encrypted
    by (intro device_case [where K = DV_Encrypted, OF Encrypted_event_content e(1)]) (simp_all add: device_event_def megolm_algorithm)
qed (insert assms, simp_all, (erule device_cases; simp add: device_event_def; fail)+)

lemma device_written:
  assumes "list_all device_writable vs"
  shows "\<exists>js. mapM (device_event_to_json J) vs = Inr js \<and> parse_device_events J (jof_array J js) = Inr vs"
  unfolding parse_device_events_def
  using device_writable_reads_back assms
  by (intro parse_written) (auto simp: device_reads_back_def list_all_iff)

end

section \<open>Properties\<close>

text \<open>
  C12. Messages to a device survive the way through JSON: keys, key requests, encrypted messages, secrets
  and the steps of a verification that are written under the type that the client sends them with are
  read from the events of a sync response as the same alternatives, in their order and with all their
  data, for contents within the limits of \<open>device_writable\<close>: a known sender, identifiers of at most 255
  bytes, a request that is no edit, integers of their width.
\<close>

theorem device_roundtrip:
  assumes "json_library J" and "\<forall>v \<in> set vs. device_writable v"
  shows "\<exists>js. mapM (device_event_to_json J) vs = Inr js \<and> parse_device_events J (jof_array J js) = Inr vs"
  using json_library.device_written [OF assms(1)] assms(2) by (simp add: list_all_iff)

definition sample_key :: DeviceEvents where
  "sample_key = DV_RoomKey \<lparr>ev_type = RoomKey, ev_sender = ''@a:b'',
     ev_content = \<lparr>rk_algorithm = MEGOLM_ALGO, rk_room_id = ''!r'', rk_session_id = ''s'', rk_session_key = ''k''\<rparr>\<rparr>"

definition sample_mac :: DeviceEvents where
  "sample_mac = DV_KeyVerificationMac \<lparr>ev_type = KeyVerificationMac, ev_sender = ''@a:b'',
     ev_content = \<lparr>kv_transaction_id = Some ''t'', kv_mac = [(''ed25519:D'', ''m'')], kv_keys = ''k'',
       kv_relations = \<lparr>relations = [], synthesized = False\<rparr>\<rparr>\<rparr>"

theorem device_roundtrip_witness:
  "\<exists>js. mapM (device_event_to_json tree_lib) [sample_mac, sample_key] = Inr js
     \<and> parse_device_events tree_lib (jof_array tree_lib js) = Inr [sample_mac, sample_key]"
proof -
  have "\<forall>v \<in> set [sample_mac, sample_key]. device_writable v"
    by (simp add: sample_mac_def sample_key_def sent_device_def event_ok_def relations_ok_def rels_readable_def no_edit_def smap_ok_def)
  then show ?thesis by (rule device_roundtrip [OF tree_lib_library])
qed

end
