(* ===== verification/Account_Events.thy ===== *)
theory Account_Events
  imports Device_Props
begin

text \<open>
  Round trips of account data: what the client stores in the account data of a user or a room is
  recognised by the reader of account data as what it was written from.
\<close>

section \<open>The events that are read back\<close>

primrec account_event_to_json :: "'j json_lib \<Rightarrow> RoomAccountDataEvents \<Rightarrow> 'j result" where
  "account_event_to_json J (AD_Tags e) = EphemeralEvent_to_json J (Tags_content J) e"
| "account_event_to_json J (AD_Direct e) = EphemeralEvent_to_json J (Direct_content J) e"
| "account_event_to_json J (AD_FullyRead e) = EphemeralEvent_to_json J (FullyRead_content J) e"
| "account_event_to_json J (AD_IgnoredUsers e) = EphemeralEvent_to_json J (IgnoredUsers_content J) e"
| "account_event_to_json J (AD_GlobalRuleset e) = EphemeralEvent_to_json J (GlobalRuleset_content J) e"
| "account_event_to_json J (AD_HiddenEvents e) = EphemeralEvent_to_json J (HiddenEvents_content J) e"
| "account_event_to_json J (AD_EventExpiry e) = EphemeralEvent_to_json J (EventExpiry_content J) e"
| "account_event_to_json J (AD_InvitePermissions e) = EphemeralEvent_to_json J (InvitePermissions_content J) e"
| "account_event_to_json J (AD_ImagePack e) = EphemeralEvent_to_json J (ImagePack_content J) e"
| "account_event_to_json J (AD_ImagePackRooms e) = EphemeralEvent_to_json J (ImagePackRooms_content J) e"
| "account_event_to_json J (AD_Unknown e) = EphemeralEvent_to_json J (Unknown_content J) e"

definition sent_account :: "EventType \<Rightarrow> ('c \<Rightarrow> bool) \<Rightarrow> 'c EphemeralEvent \<Rightarrow> bool" where
  "sent_account t ok e \<longleftrightarrow> ok (ee_content e) \<and> ee_type e = t \<and> length (ee_room_id e) \<le> 255"

text \<open>Users are the keys of an object, which are sorted.\<close>

definition IgnoredUsers_ok :: "IgnoredUsers \<Rightarrow> bool" where
  "IgnoredUsers_ok c \<longleftrightarrow> sorted_wrt (<) (iu_users c)"

text \<open>Nothing is written for the defaults, and null is not read.\<close>

definition EventExpiry_ok :: "EventExpiry \<Rightarrow> bool" where
  "EventExpiry_ok c \<longleftrightarrow> uint64_ok (ex_expire_after_ms c) \<and> uint64_ok (ex_protect_latest c) \<and> uint64_ok (ex_keep_only_latest c)
     \<and> (ex_exclude_state_events c \<or> ex_expire_after_ms c \<noteq> 0 \<or> ex_protect_latest c \<noteq> 0 \<or> ex_keep_only_latest c \<noteq> 0)"

primrec account_writable :: "RoomAccountDataEvents \<Rightarrow> bool" where
  "account_writable (AD_Tags e) \<longleftrightarrow> sent_account (account_data_content_to_type (AD_Tags e)) (\<lambda>c. smap_ok (tg_tags c)) e"
| "account_writable (AD_Direct e) \<longleftrightarrow> sent_account (account_data_content_to_type (AD_Direct e)) (\<lambda>c. smap_ok (dr_user_to_rooms c)) e"
| "account_writable (AD_FullyRead e) \<longleftrightarrow> sent_account FullyRead (\<lambda>_. True) e"
| "account_writable (AD_IgnoredUsers e) \<longleftrightarrow> sent_account (account_data_content_to_type (AD_IgnoredUsers e)) IgnoredUsers_ok e"
| "account_writable (AD_GlobalRuleset e) \<longleftrightarrow> sent_account PushRules (\<lambda>s. Ruleset_ok s \<and> stored_Ruleset s = s) e"
| "account_writable (AD_HiddenEvents e) \<longleftrightarrow>
     sent_account (account_data_content_to_type (AD_HiddenEvents e)) (\<lambda>c. hd_hidden_event_types c \<noteq> Some []) e"
| "account_writable (AD_EventExpiry e) \<longleftrightarrow> sent_account (account_data_content_to_type (AD_EventExpiry e)) EventExpiry_ok e"
| "account_writable (AD_ImagePack e) \<longleftrightarrow> sent_account (account_data_content_to_type (AD_ImagePack e)) ImagePack_ok e"
| "account_writable (AD_InvitePermissions e) \<longleftrightarrow> False"
| "account_writable (AD_ImagePackRooms e) \<longleftrightarrow> False"
| "account_writable (AD_Unknown e) \<longleftrightarrow> False"

definition account_reads_back :: "'j json_lib \<Rightarrow> RoomAccountDataEvents \<Rightarrow> bool" where
  "account_reads_back J v \<longleftrightarrow>
     (\<exists>j. account_event_to_json J v = Inr j \<and> room_account_data_event J j = Inr (Some v))"

context json_library
begin

lemma account_case:
  assumes "sent_account t ok e" and "\<And>c. ok c \<Longrightarrow> \<exists>d. wr c = Inr d \<and> rd d = Inr c" and "t \<noteq> Unsupported"
    and "\<And>obj. getEventType_json J obj = Inr t \<Longrightarrow>
      room_account_data_event J obj = as_event K (EphemeralEvent_from_json J (plain_content rd wr d0) obj)"
    and "account_event_to_json J (K e) = EphemeralEvent_to_json J (plain_content rd wr d0) e"
  shows "account_reads_back J (K e)"
proof -
  have e: "ok (ee_content e)" "ee_type e = t" "length (ee_room_id e) \<le> 255"
    using assms(1) by (simp_all add: sent_account_def)
  obtain d where d: "wr (ee_content e) = Inr d" "rd d = Inr (ee_content e)" using assms(2) e(1) by blast
  let ?j = "jset_if J (ee_room_id e \<noteq> []) (jset J (jset J (jnull J) ''content'' d) ''type'' (jstring J (event_type_to_string t)))
    ''room_id'' (jstring J (ee_room_id e))"
  have "EphemeralEvent_to_json J (plain_content rd wr d0) e = Inr ?j"
    using d e by (simp add: EphemeralEvent_to_json_def plain_content_def type_name_def Let_def)
  moreover have "EphemeralEvent_from_json J (plain_content rd wr d0) ?j = Inr e"
    using d e assms(3) by (cases e) (simp add: EphemeralEvent_from_json_def plain_content_def reads object_or_null getEventType_to_string)
  moreover have "getEventType_json J ?j = Inr t"
    using assms(3) by (simp add: getEventType_fields getEventType_to_string object_or_null)
  ultimately show ?thesis using assms(4,5) by (simp add: account_reads_back_def as_event_def)
qed

section \<open>The contents\<close>

lemma Tag_read: "Tag_from_json J (Tag_to_json J t) = Inr t"
  by (cases t; cases "tg_order t") (simp_all add: Tag_from_json_def Tag_to_json_def reads jset_opt_def object_or_null)

lemma Tags_read: "smap_ok (tg_tags c) \<Longrightarrow> Tags_from_json J (Tags_to_json J c) = Inr c"
  using get_map_of_map [of "tg_tags c" "Tag_from_json J" "Tag_to_json J"]
  by (simp add: Tags_from_json_def Tags_to_json_def reads Tag_read)

lemma Direct_read: "smap_ok (dr_user_to_rooms c) \<Longrightarrow> Direct_from_json J (Direct_to_json J c) = Inr c"
  using get_map_of_map [of "dr_user_to_rooms c" "jget_list J (jget_string J)" "jstrings J"]
  by (simp add: Direct_from_json_def Direct_to_json_def)

lemma FullyRead_read: "FullyRead_from_json J (FullyRead_to_json J c) = Inr c"
  by (simp add: FullyRead_from_json_def FullyRead_to_json_def reads)

text \<open>Pushing onto a field, which is null at first.\<close>

lemma push_list:
  assumes "is_object_or_null J c" and "jtype_of J (jmember J c k) \<in> {JNull, JArray}" and "ts \<noteq> []"
  shows "\<exists>v. jfields J (foldl (\<lambda>obj t. jset J obj k (jpush J (jmember J obj k) (g t))) c ts) k = Some v \<and> jtype_of J v = JArray
    \<and> jelems J v = (if jtype_of J (jmember J c k) = JNull then [] else jelems J (jmember J c k)) @ map g ts"
  using assms
proof (induction ts arbitrary: c)
  case (Cons t ts)
  let ?v = "jpush J (jmember J c k) (g t)"
  let ?c = "jset J c k ?v"
  have c: "is_object_or_null J ?c" "jmember J ?c k = ?v" "jfields J ?c k = Some ?v" "jtype_of J ?v = JArray"
    using Cons.prems by (simp_all add: object_or_null member_fields)
  have e: "jelems J ?v = (if jtype_of J (jmember J c k) = JNull then [] else jelems J (jmember J c k)) @ [g t]"
    using Cons.prems(2) by (auto simp: elems_push elems_push_null)
  show ?case
  proof (cases ts)
    case Nil
    then show ?thesis using c e by simp
  next
    case (Cons u us)
    then show ?thesis using Cons.IH [of ?c] c e by simp
  qed
qed simp

lemma event_types_read:
  "foldM (\<lambda>e types. rbind (jget_string J e) (\<lambda>type.
      if type = [] then Inr (types @ [Unsupported])
      else case getEventType type of Inl _ \<Rightarrow> Inr types | Inr t \<Rightarrow> Inr (types @ [t])))
    (map (\<lambda>t. jstring J (event_type_to_string t)) ts) acc = Inr (acc @ ts)"
proof (induction ts arbitrary: acc)
  case (Cons t ts)
  have "event_type_to_string t = [] \<longleftrightarrow> t = Unsupported"
  proof (cases "t = Unsupported")
    case False
    have "getEventType [] = Inl (Invalid_argument ''Empty event type'')" by (simp only: getEventType_Inl)
    then show ?thesis using getEventType_to_string [OF False] False by (metis sum.distinct(1))
  qed simp
  then show ?case using Cons.IH getEventType_to_string [of t] by simp
qed simp

lemma HiddenEvents_read:
  assumes "hd_hidden_event_types c \<noteq> Some []"
  shows "HiddenEvents_from_json J (HiddenEvents_to_json J c) = Inr c"
proof (cases "hd_hidden_event_types c")
  case None
  then show ?thesis by (cases c) (simp add: HiddenEvents_from_json_def HiddenEvents_to_json_def contains_fields)
next
  case (Some ts)
  let ?d = "foldl (\<lambda>obj t. jset J obj ''hidden_event_types''
      (jpush J (jmember J obj ''hidden_event_types'') (jstring J (event_type_to_string t)))) (jnull J) ts"
  have "jtype_of J (jmember J (jnull J) ''hidden_event_types'') = JNull" by (simp add: member_fields)
  then obtain v where v: "jfields J ?d ''hidden_event_types'' = Some v" "jtype_of J v = JArray"
      "jelems J v = map (\<lambda>t. jstring J (event_type_to_string t)) ts"
    using push_list [of "jnull J" "''hidden_event_types''" ts "\<lambda>t. jstring J (event_type_to_string t)"] assms Some by auto
  then show ?thesis using Some event_types_read [of ts "[]"]
    by (cases c) (simp add: HiddenEvents_from_json_def HiddenEvents_to_json_def contains_fields at_fields' jiterate_def)
qed

lemma EventExpiry_read: "EventExpiry_ok c \<Longrightarrow> EventExpiry_from_json J (EventExpiry_to_json J c) = Inr c"
  by (auto simp: EventExpiry_ok_def EventExpiry_from_json_def EventExpiry_to_json_def uint64_ok_def jset_if_def reads object_or_null Let_def)

lemma map_set_last: "\<forall>l \<in> fst ` set m. l < k \<Longrightarrow> map_set k v m = m @ [(k, v)]"
  by (induction m) auto

lemma set_sorted_keys: "sorted_wrt (<) us \<Longrightarrow> foldl (\<lambda>m u. map_set u x m) [] us = map (\<lambda>u. (u, x)) us"
  by (induction us rule: rev_induct) (auto simp: sorted_wrt_append intro!: map_set_last)

lemma IgnoredUsers_read:
  assumes "IgnoredUsers_ok c"
  shows "IgnoredUsers_from_json J (IgnoredUsers_to_json J c) = Inr c"
proof -
  let ?m = "map (\<lambda>u. (u, jobject J)) (iu_users c)"
  have "smap_ok ?m" using assms by (simp add: IgnoredUsers_ok_def smap_ok_def comp_def)
  then show ?thesis using assms
    by (cases c) (simp add: IgnoredUsers_ok_def IgnoredUsers_from_json_def IgnoredUsers_to_json_def set_sorted_keys
        contains_fields at_fields jpairs_def items_object comp_def)
qed

lemma account_contents:
  "smap_ok (tg_tags t) \<Longrightarrow> \<exists>d. Inr (Tags_to_json J t) = Inr d \<and> Tags_from_json J d = Inr t"
  "smap_ok (dr_user_to_rooms i) \<Longrightarrow> \<exists>d. Inr (Direct_to_json J i) = Inr d \<and> Direct_from_json J d = Inr i"
  "\<exists>d. Inr (FullyRead_to_json J f) = Inr d \<and> FullyRead_from_json J d = Inr f"
  "IgnoredUsers_ok u \<Longrightarrow> \<exists>d. Inr (IgnoredUsers_to_json J u) = Inr d \<and> IgnoredUsers_from_json J d = Inr u"
  "Ruleset_ok r \<and> stored_Ruleset r = r \<Longrightarrow> \<exists>d. Inr (GlobalRuleset_to_json J r) = Inr d \<and> GlobalRuleset_from_json J d = Inr r"
  "hd_hidden_event_types h \<noteq> Some [] \<Longrightarrow> \<exists>d. Inr (HiddenEvents_to_json J h) = Inr d \<and> HiddenEvents_from_json J d = Inr h"
  "EventExpiry_ok x \<Longrightarrow> \<exists>d. Inr (EventExpiry_to_json J x) = Inr d \<and> EventExpiry_from_json J d = Inr x"
  "ImagePack_ok p \<Longrightarrow> \<exists>d. Inr (ImagePack_to_json J p) = Inr d \<and> ImagePack_from_json J d = Inr p"
  by (auto simp: Tags_read Direct_read FullyRead_read IgnoredUsers_read GlobalRuleset_roundtrip HiddenEvents_read EventExpiry_read ImagePack_read)

lemmas account_cases = account_case [OF _ account_contents(1)]
  account_case [OF _ account_contents(2)]
  account_case [OF _ account_contents(3)]
  account_case [OF _ account_contents(4)]
  account_case [OF _ account_contents(5)]
  account_case [OF _ account_contents(6)]
  account_case [OF _ account_contents(7)]
  account_case [OF _ account_contents(8)]

lemma account_writable_reads_back:
  assumes "account_writable v"
  shows "account_reads_back J v"
proof (cases v)
qed (insert assms, simp_all, (erule account_cases; simp add: room_account_data_event_def Tags_content_def
    Direct_content_def FullyRead_content_def IgnoredUsers_content_def GlobalRuleset_content_def HiddenEvents_content_def
    EventExpiry_content_def ImagePack_content_def; fail)+)

lemma account_written:
  assumes "list_all account_writable vs"
  shows "\<exists>js. mapM (account_event_to_json J) vs = Inr js \<and> parse_room_account_data_events J (jof_array J js) = Inr vs"
  unfolding parse_room_account_data_events_def
  using account_writable_reads_back assms
  by (intro parse_written) (auto simp: account_reads_back_def list_all_iff)

end

section \<open>Properties\<close>


definition sample_ignored :: RoomAccountDataEvents where
  "sample_ignored = AD_IgnoredUsers \<lparr>ee_content = \<lparr>iu_users = [''@a:x'', ''@b:x'']\<rparr>, ee_type = IgnoredUsers, ee_room_id = []\<rparr>"

definition sample_hidden :: RoomAccountDataEvents where
  "sample_hidden = AD_HiddenEvents \<lparr>ee_content = \<lparr>hd_hidden_event_types = Some [RoomMember, Reaction]\<rparr>,
     ee_type = NhekoHiddenEvents, ee_room_id = ''!r:x''\<rparr>"


end
