(* ===== verification/Sync_Delivery.thy ===== *)
theory Sync_Delivery
  imports Account_Events
begin

text \<open>
  The readers together: what a server puts into the parts of a sync response arrives in the same parts of
  the decoded response.
\<close>

section \<open>The response of a server\<close>

definition events_json :: "'j json_lib \<Rightarrow> 'j list \<Rightarrow> 'j" where
  "events_json J es = jset J (jobject J) ''events'' (jof_array J es)"

text \<open>A joined room with the events of its timeline and its account data.\<close>

definition room_json :: "'j json_lib \<Rightarrow> TimelineEvents list \<times> RoomAccountDataEvents list \<Rightarrow> 'j result" where
  "room_json J room =
     rbind (mapM (TimelineEvents_to_json J) (fst room)) (\<lambda>timeline.
     rbind (mapM (account_event_to_json J) (snd room)) (\<lambda>account_data.
       Inr (jset J (jset J (jobject J) ''timeline'' (events_json J timeline)) ''account_data'' (events_json J account_data))))"

definition server_sync :: "'j json_lib \<Rightarrow> string \<Rightarrow> (TimelineEvents list \<times> RoomAccountDataEvents list) smap
    \<Rightarrow> DeviceEvents list \<Rightarrow> RoomAccountDataEvents list \<Rightarrow> 'j result" where
  "server_sync J next_batch rooms devices account_data =
     rbind (mapM (\<lambda>(k, room). rbind (room_json J room) (\<lambda>j. Inr (k, j))) rooms) (\<lambda>join.
     rbind (mapM (device_event_to_json J) devices) (\<lambda>to_device.
     rbind (mapM (account_event_to_json J) account_data) (\<lambda>account_data.
       let obj = jset J (jobject J) ''next_batch'' (jstring J next_batch);
           obj = jset J obj ''rooms'' (jset J (jobject J) ''join'' (jof_object J join));
           obj = jset J obj ''to_device'' (events_json J to_device)
       in Inr (jset J obj ''account_data'' (events_json J account_data)))))"

definition room_writable :: "string \<times> TimelineEvents list \<times> RoomAccountDataEvents list \<Rightarrow> bool" where
  "room_writable r \<longleftrightarrow> length (fst r) \<le> 255 \<and> list_all writable (fst (snd r)) \<and> list_all account_writable (snd (snd r))"

text \<open>What a decoded response holds for a joined room.\<close>

definition room_content :: "JoinedRoom \<Rightarrow> TimelineEvents list \<times> RoomAccountDataEvents list" where
  "room_content room = (stl_events (jn_timeline room), sad_events (jn_account_data room))"

context json_library
begin

lemma timeline_written:
  assumes "list_all writable vs"
  shows "\<exists>js. mapM (TimelineEvents_to_json J) vs = Inr js \<and> parse_timeline_events J (jof_array J js) = Inr vs"
  unfolding parse_timeline_events_def
  using writable_reads_back assms unfolding reads_back_def list_all_iff
  by (intro parse_written) blast

lemma events_read:
  "jtype_of J (events_json J es) = JObject" "jfields J (events_json J es) = [''events'' \<mapsto> jof_array J es]"
  by (simp_all add: events_json_def object_simps jobject_def)

lemma account_data_read:
  "parse_room_account_data_events J (jof_array J es) = Inr vs \<Longrightarrow>
   AccountData_from_json J (events_json J es) = Inr \<lparr>sad_events = vs\<rparr>"
  by (simp add: AccountData_from_json_def opt_if_fields events_read)

lemma room_delivered:
  assumes "list_all writable events" and "list_all account_writable acc"
  obtains j room where "room_json J (events, acc) = Inr j" and "JoinedRoom_from_json J j = Inr room" and "room_content room = (events, acc)"
proof -
  obtain ts where t: "mapM (TimelineEvents_to_json J) events = Inr ts" "parse_timeline_events J (jof_array J ts) = Inr events"
    using timeline_written [OF assms(1)] by blast
  obtain as where a: "mapM (account_event_to_json J) acc = Inr as" "parse_room_account_data_events J (jof_array J as) = Inr acc"
    using account_written [OF assms(2)] by blast
  have "Timeline_from_json J (events_json J ts) = Inr \<lparr>stl_events = events, stl_prev_batch = [], stl_limited = False\<rparr>"
    using t(2) by (simp add: Timeline_from_json_def value_fields at_as_fields events_read)
  then show ?thesis
    using that [of "jset J (jset J (jobject J) ''timeline'' (events_json J ts)) ''account_data'' (events_json J as)"] t(1) a
    by (simp add: room_json_def JoinedRoom_from_json_def opt_fields object_or_null account_data_read room_content_def)
qed

text \<open>The loop over the rooms appends each of them: their ids are sorted.\<close>

lemma room_loop_sorted:
  assumes "\<forall>(k, x) \<in> set xs. length k < 256 \<and> conv (h x) = Inr (g x)" and "sorted_wrt (<) (map fst xs)"
    and "\<forall>l \<in> fst ` set acc. \<forall>k \<in> fst ` set xs. l < k"
  shows "foldM (\<lambda>(k, v) rooms. if length k < 256 then rbind (conv v) (\<lambda>r. Inr (map_set k r rooms)) else Inr rooms)
     (map (\<lambda>(k, x). (k, h x)) xs) acc = Inr (acc @ map (\<lambda>(k, x). (k, g x)) xs)"
  using assms
proof (induction xs arbitrary: acc)
  case (Cons p xs)
  obtain k x where p: "p = (k, x)" by (cases p)
  have "map_set k (g x) acc = acc @ [(k, g x)]" using Cons.prems(3) by (intro map_set_last) (simp add: p)
  moreover have "\<forall>l \<in> fst ` set (acc @ [(k, g x)]). \<forall>k \<in> fst ` set xs. l < k"
    using Cons.prems(2,3) by (auto simp: p)
  ultimately show ?case using Cons.IH [of "acc @ [(k, g x)]"] Cons.prems(1,2) by (simp add: p)
qed simp

lemma rooms_delivered:
  assumes "\<forall>r \<in> set rooms. room_writable r" and "smap_ok rooms"
  obtains join rs where "mapM (\<lambda>(k, room). rbind (room_json J room) (\<lambda>j. Inr (k, j))) rooms = Inr join" and "smap_ok join"
    and "room_entries J (JoinedRoom_from_json J) (jset J (jobject J) ''join'' (jof_object J join)) ''join'' = Inr rs"
    and "map (\<lambda>(k, room). (k, room_content room)) rs = rooms"
proof -
  define h g where "h x = projr (room_json J x)" and "g x = projr (JoinedRoom_from_json J (h x))" for x
  have hg: "room_json J x = Inr (h x) \<and> JoinedRoom_from_json J (h x) = Inr (g x) \<and> room_content (g x) = x"
    if "(k, x) \<in> set rooms" for k x
  proof -
    have "room_writable (k, x)" using assms(1) that by blast
    then have w: "list_all writable (fst x)" "list_all account_writable (snd x)" by (simp_all add: room_writable_def)
    obtain j room where "room_json J (fst x, snd x) = Inr j" "JoinedRoom_from_json J j = Inr room"
        "room_content room = (fst x, snd x)"
      by (rule room_delivered [OF w])
    then show ?thesis by (simp add: h_def g_def)
  qed
  let ?join = "map (\<lambda>(k, x). (k, h x)) rooms"
  let ?rs = "map (\<lambda>(k, x). (k, g x)) rooms"
  have "mapM (\<lambda>(k, room). rbind (room_json J room) (\<lambda>j. Inr (k, j))) rooms = Inr ?join"
    using hg by (intro mapM_eq) auto
  moreover have ok: "smap_ok ?join" using assms(2) by (simp add: smap_ok_def comp_def case_prod_beta)
  moreover have "foldM (\<lambda>(k, v) rooms. if length k < 256 then rbind (JoinedRoom_from_json J v) (\<lambda>r. Inr (map_set k r rooms)) else Inr rooms)
      ?join [] = Inr ([] @ ?rs)"
    using assms hg by (intro room_loop_sorted) (auto simp: room_writable_def smap_ok_def)
  then have "room_entries J (JoinedRoom_from_json J) (jset J (jobject J) ''join'' (jof_object J ?join)) ''join'' = Inr ?rs"
    using ok by (simp add: room_entries_def opt_fields object_or_null jobject_def jpairs_def items_object)
  moreover have "map (\<lambda>(k, room). (k, room_content room)) ?rs = rooms"
    using hg by (auto intro!: map_idI)
  ultimately show ?thesis using that by blast
qed

lemma sync_delivered:
  assumes "\<forall>r \<in> set rooms. room_writable r" and "smap_ok rooms"
    and "list_all device_writable devices" and "list_all account_writable acc"
  shows "\<exists>j r. server_sync J next_batch rooms devices acc = Inr j \<and> Sync_from_json J j = Inr r
    \<and> sy_next_batch r = next_batch \<and> td_events (sy_to_device r) = devices \<and> sad_events (sy_account_data r) = acc
    \<and> map (\<lambda>(k, room). (k, room_content room)) (rm_join (sy_rooms r)) = rooms"
proof -
  obtain join rs where r: "mapM (\<lambda>(k, room). rbind (room_json J room) (\<lambda>j. Inr (k, j))) rooms = Inr join"
      "room_entries J (JoinedRoom_from_json J) (jset J (jobject J) ''join'' (jof_object J join)) ''join'' = Inr rs"
      "map (\<lambda>(k, room). (k, room_content room)) rs = rooms"
    using rooms_delivered [OF assms(1,2)] by blast
  obtain ds where d: "mapM (device_event_to_json J) devices = Inr ds" "parse_device_events J (jof_array J ds) = Inr devices"
    using device_written [OF assms(3)] by blast
  obtain as where a: "mapM (account_event_to_json J) acc = Inr as" "parse_room_account_data_events J (jof_array J as) = Inr acc"
    using account_written [OF assms(4)] by blast
  let ?rooms = "jset J (jobject J) ''join'' (jof_object J join)"
  have "Rooms_from_json J ?rooms = Inr \<lparr>rm_join = rs, rm_leave = [], rm_invite = [], rm_knock = []\<rparr>"
    using r(2) by (simp add: Rooms_from_json_def room_entries_def opt_fields object_or_null)
  moreover have "ToDevice_from_json J (events_json J ds) = Inr \<lparr>td_events = devices\<rparr>"
    using d(2) by (simp add: ToDevice_from_json_def opt_fields events_read)
  ultimately show ?thesis
    using r a d by (simp add: server_sync_def Sync_from_json_def opt_fields opt_if_fields at_as_fields object_or_null
        account_data_read Let_def)
qed

end

section \<open>Properties\<close>


definition sample_rooms :: "(TimelineEvents list \<times> RoomAccountDataEvents list) smap" where
  "sample_rooms = [(''!a:x'', [sample_edit_event], [sample_hidden]), (''!b:x'', [], [])]"


end
