(* ===== verification/Account_Props.thy ===== *)
theory Account_Props
  imports Account_Data
begin

text \<open>
  Which invites the permissions in the account data allow.
\<close>

lemma has_key_iff: "has_key k m \<longleftrightarrow> k \<in> fst ` set m"
  by (auto simp: has_key_def map_of_eq_None_iff)

lemma find_server: "CHR '':'' \<notin> set l \<Longrightarrow> find_char (CHR '':'') (l @ CHR '':'' # server) = Some (length l)"
  by (induction l) auto



end
