(* ===== verification/Key_Responses.thy ===== *)
theory Key_Responses
  imports Http_Client Olm_Sessions
begin

text \<open>
  The answers to key requests and the data of the key backup (\<open>lib/structs/responses/crypto.cpp\<close>), and
  the descriptions that secret storage keeps in the account data (\<open>lib/structs/secret_storage.cpp\<close>).
\<close>

section \<open>Key uploads, queries and claims\<close>

definition UploadKeys_from_json :: "'j json_lib \<Rightarrow> 'j \<Rightarrow> int smap result" where
  "UploadKeys_from_json J obj = jat_as J (jget_map J (jget_narrow J 32)) obj ''one_time_key_counts''"

record QueryKeys_response =
  qk_failures :: "string smap"
  qk_device_keys :: "DeviceKeys smap smap"
  qk_master_keys :: "CrossSigningKeys smap"
  qk_user_signing_keys :: "CrossSigningKeys smap"
  qk_self_signing_keys :: "CrossSigningKeys smap"

text \<open>The failures of servers, kept as their text.\<close>

definition failures_from_json :: "'j json_lib \<Rightarrow> 'j \<Rightarrow> string smap result" where
  "failures_from_json J obj = jopt J (jget_map J (jdump J)) obj ''failures'' []"

definition QueryKeys_response_from_json :: "'j json_lib \<Rightarrow> 'j \<Rightarrow> QueryKeys_response result" where
  "QueryKeys_response_from_json J obj =
     rbind (failures_from_json J obj) (\<lambda>failures.
     rbind (jopt J (jget_map J (jget_map J (DeviceKeys_from_json J))) obj ''device_keys'' []) (\<lambda>device_keys.
     rbind (jopt J (jget_map J (CrossSigningKeys_from_json J)) obj ''master_keys'' []) (\<lambda>master_keys.
     rbind (jopt J (jget_map J (CrossSigningKeys_from_json J)) obj ''user_signing_keys'' []) (\<lambda>user_signing_keys.
     rbind (jopt J (jget_map J (CrossSigningKeys_from_json J)) obj ''self_signing_keys'' []) (\<lambda>self_signing_keys.
       Inr \<lparr>qk_failures = failures, qk_device_keys = device_keys, qk_master_keys = master_keys,
            qk_user_signing_keys = user_signing_keys, qk_self_signing_keys = self_signing_keys\<rparr>)))))"

definition QueryKeys_response_to_json :: "'j json_lib \<Rightarrow> QueryKeys_response \<Rightarrow> 'j result" where
  "QueryKeys_response_to_json J r =
     rbind (foldM (\<lambda>(k, v) obj. rbind (jparse J v) (\<lambda>w. Inr (jset2 J obj ''failures'' k w)))
              (qk_failures r) (jnull J)) (\<lambda>obj.
       let obj = jset J obj ''device_keys'' (jof_map J (jof_map J (DeviceKeys_to_json J)) (qk_device_keys r));
           obj = jset J obj ''master_keys'' (jof_map J (CrossSigningKeys_to_json J) (qk_master_keys r));
           obj = jset J obj ''user_signing_keys'' (jof_map J (CrossSigningKeys_to_json J) (qk_user_signing_keys r))
       in Inr (jset J obj ''self_signing_keys'' (jof_map J (CrossSigningKeys_to_json J) (qk_self_signing_keys r))))"

definition KeySignaturesUpload_from_json :: "'j json_lib \<Rightarrow> 'j \<Rightarrow> (ErrorCode \<times> string) smap smap result" where
  "KeySignaturesUpload_from_json J obj =
     jopt J (jget_map J (jget_map J (LightweightError_from_json J))) obj ''failures'' []"

record 'j ClaimKeys_response =
  ck_failures :: "string smap"
  ck_one_time_keys :: "'j smap smap"

definition ClaimKeys_response_from_json :: "'j json_lib \<Rightarrow> 'j \<Rightarrow> 'j ClaimKeys_response result" where
  "ClaimKeys_response_from_json J obj =
     rbind (failures_from_json J obj) (\<lambda>failures.
     rbind (jopt J (jget_map J (jget_map J Inr)) obj ''one_time_keys'' []) (\<lambda>one_time_keys.
       Inr \<lparr>ck_failures = failures, ck_one_time_keys = one_time_keys\<rparr>))"

record KeyChanges =
  kch_changed :: "string list"
  kch_left :: "string list"

definition KeyChanges_from_json :: "'j json_lib \<Rightarrow> 'j \<Rightarrow> KeyChanges result" where
  "KeyChanges_from_json J obj =
     rbind (jopt J (jget_list J (jget_string J)) obj ''changed'' []) (\<lambda>changed.
     rbind (jopt J (jget_list J (jget_string J)) obj ''left'' []) (\<lambda>left.
       Inr \<lparr>kch_changed = changed, kch_left = left\<rparr>))"

section \<open>The key backup\<close>

record EncryptedSessionData =
  es_ephemeral :: string
  es_ciphertext :: string
  es_mac :: string

definition EncryptedSessionData_from_json :: "'j json_lib \<Rightarrow> 'j \<Rightarrow> EncryptedSessionData result" where
  "EncryptedSessionData_from_json J obj =
     rbind (jat_as J (jget_string J) obj ''ephemeral'') (\<lambda>ephemeral.
     rbind (jat_as J (jget_string J) obj ''ciphertext'') (\<lambda>ciphertext.
     rbind (jat_as J (jget_string J) obj ''mac'') (\<lambda>mac.
       Inr \<lparr>es_ephemeral = ephemeral, es_ciphertext = ciphertext, es_mac = mac\<rparr>)))"

definition EncryptedSessionData_to_json :: "'j json_lib \<Rightarrow> EncryptedSessionData \<Rightarrow> 'j" where
  "EncryptedSessionData_to_json J d =
     jset J (jset J (jset J (jnull J) ''ephemeral'' (jstring J (es_ephemeral d)))
       ''ciphertext'' (jstring J (es_ciphertext d))) ''mac'' (jstring J (es_mac d))"

record SessionBackup =
  sb_first_message_index :: int
  sb_forwarded_count :: int
  sb_is_verified :: bool
  sb_session_data :: EncryptedSessionData

definition SessionBackup_from_json :: "'j json_lib \<Rightarrow> 'j \<Rightarrow> SessionBackup result" where
  "SessionBackup_from_json J obj =
     rbind (jat_as J (jget_int64 J) obj ''first_message_index'') (\<lambda>first_message_index.
     rbind (jat_as J (jget_int64 J) obj ''forwarded_count'') (\<lambda>forwarded_count.
     rbind (jat_as J (jget_bool J) obj ''is_verified'') (\<lambda>is_verified.
     rbind (jat_as J (EncryptedSessionData_from_json J) obj ''session_data'') (\<lambda>session_data.
       Inr \<lparr>sb_first_message_index = first_message_index, sb_forwarded_count = forwarded_count,
            sb_is_verified = is_verified, sb_session_data = session_data\<rparr>))))"

definition SessionBackup_to_json :: "'j json_lib \<Rightarrow> SessionBackup \<Rightarrow> 'j" where
  "SessionBackup_to_json J b =
     (let obj = jset J (jnull J) ''first_message_index'' (jint J (sb_first_message_index b));
          obj = jset J obj ''forwarded_count'' (jint J (sb_forwarded_count b));
          obj = jset J obj ''is_verified'' (jbool J (sb_is_verified b))
      in jset J obj ''session_data'' (EncryptedSessionData_to_json J (sb_session_data b)))"

definition RoomKeysBackup_from_json :: "'j json_lib \<Rightarrow> 'j \<Rightarrow> SessionBackup smap result" where
  "RoomKeysBackup_from_json J obj = jat_as J (jget_map J (SessionBackup_from_json J)) obj ''sessions''"

definition RoomKeysBackup_to_json :: "'j json_lib \<Rightarrow> SessionBackup smap \<Rightarrow> 'j" where
  "RoomKeysBackup_to_json J m = jset J (jnull J) ''sessions'' (jof_map J (SessionBackup_to_json J) m)"

definition KeysBackup_from_json :: "'j json_lib \<Rightarrow> 'j \<Rightarrow> SessionBackup smap smap result" where
  "KeysBackup_from_json J obj = jat_as J (jget_map J (RoomKeysBackup_from_json J)) obj ''rooms''"

definition KeysBackup_to_json :: "'j json_lib \<Rightarrow> SessionBackup smap smap \<Rightarrow> 'j" where
  "KeysBackup_to_json J m = jset J (jnull J) ''rooms'' (jof_map J (RoomKeysBackup_to_json J) m)"

record BackupVersion =
  bv_algorithm :: string
  bv_auth_data :: string
  bv_count :: int
  bv_etag :: string
  bv_version :: string

text \<open>The etag is kept as JSON text but written as a string.\<close>

definition BackupVersion_from_json :: "'j json_lib \<Rightarrow> 'j \<Rightarrow> BackupVersion result" where
  "BackupVersion_from_json J obj =
     rbind (jat_as J (jget_string J) obj ''algorithm'') (\<lambda>algorithm.
     rbind (jat_as J (jdump J) obj ''auth_data'') (\<lambda>auth_data.
     rbind (jat_as J (jget_int64 J) obj ''count'') (\<lambda>count.
     rbind (jat_as J (jdump J) obj ''etag'') (\<lambda>etag.
     rbind (jat_as J (jget_string J) obj ''version'') (\<lambda>version.
       Inr \<lparr>bv_algorithm = algorithm, bv_auth_data = auth_data, bv_count = count, bv_etag = etag,
            bv_version = version\<rparr>)))))"

definition BackupVersion_to_json :: "'j json_lib \<Rightarrow> BackupVersion \<Rightarrow> 'j result" where
  "BackupVersion_to_json J v =
     rbind (jparse J (bv_auth_data v)) (\<lambda>auth_data.
       let obj = jset J (jnull J) ''algorithm'' (jstring J (bv_algorithm v));
           obj = jset J obj ''auth_data'' auth_data;
           obj = jset J obj ''count'' (jint J (bv_count v));
           obj = jset J obj ''etag'' (jstring J (bv_etag v))
       in Inr (jset J obj ''version'' (jstring J (bv_version v))))"

section \<open>Secret storage\<close>

definition AesHmacSha2EncryptedData_to_json :: "'j json_lib \<Rightarrow> AesHmacSha2EncryptedData \<Rightarrow> 'j" where
  "AesHmacSha2EncryptedData_to_json J d =
     jset J (jset J (jset J (jnull J) ''iv'' (jstring J (ed_iv d)))
       ''ciphertext'' (jstring J (ed_ciphertext d))) ''mac'' (jstring J (ed_mac d))"

definition AesHmacSha2EncryptedData_from_json :: "'j json_lib \<Rightarrow> 'j \<Rightarrow> AesHmacSha2EncryptedData result" where
  "AesHmacSha2EncryptedData_from_json J obj =
     rbind (jat_as J (jget_string J) obj ''iv'') (\<lambda>iv.
     rbind (jat_as J (jget_string J) obj ''ciphertext'') (\<lambda>ciphertext.
     rbind (jat_as J (jget_string J) obj ''mac'') (\<lambda>mac.
       Inr \<lparr>ed_iv = iv, ed_ciphertext = ciphertext, ed_mac = mac\<rparr>)))"

definition Secret_to_json :: "'j json_lib \<Rightarrow> AesHmacSha2EncryptedData smap \<Rightarrow> 'j" where
  "Secret_to_json J encrypted =
     jset J (jnull J) ''encrypted'' (jof_map J (AesHmacSha2EncryptedData_to_json J) encrypted)"

definition Secret_from_json :: "'j json_lib \<Rightarrow> 'j \<Rightarrow> AesHmacSha2EncryptedData smap result" where
  "Secret_from_json J obj = jat_as J (jget_map J (AesHmacSha2EncryptedData_from_json J)) obj ''encrypted''"

definition PBKDF2_to_json :: "'j json_lib \<Rightarrow> PBKDF2 \<Rightarrow> 'j" where
  "PBKDF2_to_json J d =
     (let obj = jset J (jnull J) ''algorithm'' (jstring J (pb_algorithm d));
          obj = jset J obj ''salt'' (jstring J (pb_salt d));
          obj = jset J obj ''iterations'' (jint J (int (pb_iterations d)))
      in jset J obj ''bits'' (jint J (int (pb_bits d))))"

definition PBKDF2_from_json :: "'j json_lib \<Rightarrow> 'j \<Rightarrow> PBKDF2 result" where
  "PBKDF2_from_json J obj =
     rbind (jat_as J (jget_string J) obj ''algorithm'') (\<lambda>algorithm.
     rbind (jat_as J (jget_string J) obj ''salt'') (\<lambda>salt.
     rbind (jat_as J (jget_narrow J 32) obj ''iterations'') (\<lambda>iterations.
     rbind (jvalue J (jget_narrow J 32) obj ''bits'' 256) (\<lambda>bits.
       Inr \<lparr>pb_algorithm = algorithm, pb_salt = salt, pb_iterations = nat iterations, pb_bits = nat bits\<rparr>))))"

definition KeyDescription_to_json :: "'j json_lib \<Rightarrow> AesHmacSha2KeyDescription \<Rightarrow> 'j" where
  "KeyDescription_to_json J d =
     (let obj = jset J (jnull J) ''name'' (jstring J (kd_name d));
          obj = jset J obj ''algorithm'' (jstring J (kd_algorithm d));
          obj = jset_opt J (PBKDF2_to_json J) obj ''passphrase'' (kd_passphrase d);
          obj = jset_if J (kd_iv d \<noteq> []) obj ''iv'' (jstring J (kd_iv d));
          obj = jset_if J (kd_mac d \<noteq> []) obj ''mac'' (jstring J (kd_mac d))
      in jset_if J (kd_signatures d \<noteq> []) obj ''signatures'' (jof_map J (jstring_map J) (kd_signatures d)))"

definition KeyDescription_from_json :: "'j json_lib \<Rightarrow> 'j \<Rightarrow> AesHmacSha2KeyDescription result" where
  "KeyDescription_from_json J obj =
     rbind (jvalue J (jget_string J) obj ''name'' []) (\<lambda>name.
     rbind (jat_as J (jget_string J) obj ''algorithm'') (\<lambda>algorithm.
     rbind (jfind_opt J (PBKDF2_from_json J) obj ''passphrase'') (\<lambda>passphrase.
     rbind (jvalue J (jget_string J) obj ''iv'' []) (\<lambda>iv.
     rbind (jvalue J (jget_string J) obj ''mac'' []) (\<lambda>mac.
     rbind (jopt J (jget_map J (jget_string_map J)) obj ''signatures'' []) (\<lambda>signatures.
       Inr \<lparr>kd_name = name, kd_algorithm = algorithm, kd_passphrase = passphrase, kd_iv = iv, kd_mac = mac,
            kd_signatures = signatures\<rparr>))))))"

end
