(* ===== verification/Key_Storage_Props.thy ===== *)
theory Key_Storage_Props
  imports Key_Responses Olm_Props
begin

text \<open>
  Key backups and secret storage descriptions are read back from their JSON, and what that means for a
  key whose description went through the account data.
\<close>

section \<open>Round trips\<close>

definition word32 :: "nat \<Rightarrow> bool" where
  "word32 n \<longleftrightarrow> n < 2 ^ 32"

definition description_ok :: "AesHmacSha2KeyDescription \<Rightarrow> bool" where
  "description_ok d \<longleftrightarrow> signatures_ok (kd_signatures d)
     \<and> (case kd_passphrase d of None \<Rightarrow> True | Some p \<Rightarrow> word32 (pb_iterations p) \<and> word32 (pb_bits p))"

context json_library
begin

lemma AesHmacSha2EncryptedData_roundtrip:
  "AesHmacSha2EncryptedData_from_json J (AesHmacSha2EncryptedData_to_json J d) = Inr d"
  by (simp add: AesHmacSha2EncryptedData_from_json_def AesHmacSha2EncryptedData_to_json_def reads object_or_null)

lemma Secret_roundtrip: "smap_ok m \<Longrightarrow> Secret_from_json J (Secret_to_json J m) = Inr m"
  by (simp add: Secret_from_json_def Secret_to_json_def reads get_map_of_map AesHmacSha2EncryptedData_roundtrip)

lemma PBKDF2_roundtrip:
  "word32 (pb_iterations p) \<Longrightarrow> word32 (pb_bits p) \<Longrightarrow> PBKDF2_from_json J (PBKDF2_to_json J p) = Inr p"
  by (simp add: PBKDF2_from_json_def PBKDF2_to_json_def word32_def reads object_or_null narrow_read Let_def)

lemma signatures_read:
  "signatures_ok m \<Longrightarrow> jget_map J (jget_string_map J) (jof_map J (jstring_map J) m) = Inr m"
  by (intro get_map_of_map) (auto simp: signatures_ok_def jget_string_map_def jstring_map_def)

lemma KeyDescription_roundtrip:
  assumes "description_ok d"
  shows "KeyDescription_from_json J (KeyDescription_to_json J d) = Inr d"
  using assms
  by (cases "kd_passphrase d"; cases d)
     (auto simp: KeyDescription_from_json_def KeyDescription_to_json_def description_ok_def reads object_or_null
        jfind_opt_def jset_opt_def PBKDF2_roundtrip signatures_read Let_def)

lemma EncryptedSessionData_roundtrip: "EncryptedSessionData_from_json J (EncryptedSessionData_to_json J d) = Inr d"
  by (simp add: EncryptedSessionData_from_json_def EncryptedSessionData_to_json_def reads object_or_null)

end

section \<open>Properties\<close>

text \<open>
  C17. A secret storage key outlives its setup: the description that the setup returns is read back
  unchanged from its JSON in the account data, and the description that was read still restores the
  private key, from the recovery key and from the passphrase.
\<close>

theorem stored_description_restores_key:
  assumes "openssl_library L" and "json_library J"
  shows "\<exists>res r d. create_ssss_key L ent password = Inr res \<and> key_to_recoverykey (ss_privateKey res) = Inr r
    \<and> KeyDescription_from_json J (KeyDescription_to_json J (ss_keyDescription res)) = Inr d \<and> d = ss_keyDescription res
    \<and> key_from_recoverykey L r d = Inr (Some (ss_privateKey res))
    \<and> (password \<noteq> [] \<longrightarrow> key_from_passphrase L password d = Inr (Some (ss_privateKey res)))"
proof -
  obtain res where res: "create_ssss_key L ent password = Inr res"
      "verify_key L (ss_privateKey res) (ss_keyDescription res) = Inr (Some (ss_privateKey res))"
      "key_from_passphrase L password (ss_keyDescription res) =
        (if password = [] then Inl (Invalid_argument ''no passphrase to derive key from'') else Inr (Some (ss_privateKey res)))"
    using openssl_library.ssss_key_restored [OF assms(1)] by blast
  moreover obtain r where "key_to_recoverykey (ss_privateKey res) = Inr r"
      "key_from_recoverykey L r (ss_keyDescription res) = verify_key L (ss_privateKey res) (ss_keyDescription res)"
    using recoverykey_roundtrip by blast
  moreover have "description_ok (ss_keyDescription res)"
    using res(1) by (auto simp: create_ssss_key_def description_ok_def ssss_passphrase_def word32_def signatures_ok_def
        rbind_eq_Inr smap_ok_def Let_def)
  ultimately show ?thesis using json_library.KeyDescription_roundtrip [OF assms(2)] by auto
qed

theorem stored_description_restores_key_witness:
  "\<exists>res d. create_ssss_key sample_ssl (\<lambda>_ _. None) ''secret'' = Inr res
    \<and> KeyDescription_from_json tree_lib (KeyDescription_to_json tree_lib (ss_keyDescription res)) = Inr d
    \<and> key_from_passphrase sample_ssl ''secret'' d = Inr (Some (ss_privateKey res))"
  using stored_description_restores_key [OF sample_ssl_library tree_lib_library, of "\<lambda>_ _. None" "''secret''"] by auto

end
