(* ===== verification/Responses.thy ===== *)
theory Responses
  imports Sync_Response Http_Client Push_Eval
begin

text \<open>
  The other responses of the server (\<open>lib/structs/responses\<close>): devices, members, messages,
  notifications, public rooms, profiles, media, capabilities, and the small ones of \<open>common.cpp\<close>.
\<close>

section \<open>Identifiers as JSON\<close>

definition ident_from_json :: "'j json_lib \<Rightarrow> id_kind \<Rightarrow> 'j \<Rightarrow> ID result" where
  "ident_from_json J kind obj = rbind (jget_string J obj) (parse_id kind)"

definition ident_to_json :: "'j json_lib \<Rightarrow> ID \<Rightarrow> 'j" where
  "ident_to_json J i = jstring J (id_to_string i)"

section \<open>Single fields\<close>

definition RoomId_from_json :: "'j json_lib \<Rightarrow> 'j \<Rightarrow> string result" where
  "RoomId_from_json J obj = jat_as J (jget_string J) obj ''room_id''"

definition EventId_from_json :: "'j json_lib \<Rightarrow> 'j \<Rightarrow> ID result" where
  "EventId_from_json J obj = jat_as J (ident_from_json J Event_id) obj ''event_id''"

definition FilterId_from_json :: "'j json_lib \<Rightarrow> 'j \<Rightarrow> string result" where
  "FilterId_from_json J obj = jat_as J (jget_string J) obj ''filter_id''"

definition Version_from_json :: "'j json_lib \<Rightarrow> 'j \<Rightarrow> string result" where
  "Version_from_json J obj = jat_as J (jget_string J) obj ''version''"

definition Success_from_json :: "'j json_lib \<Rightarrow> 'j \<Rightarrow> bool result" where
  "Success_from_json J obj = jat_as J (jget_bool J) obj ''success''"

definition Available_from_json :: "'j json_lib \<Rightarrow> 'j \<Rightarrow> bool result" where
  "Available_from_json J obj = jat_as J (jget_bool J) obj ''available''"

record RequestToken =
  rt_sid :: string
  rt_submit_url :: string

definition RequestToken_from_json :: "'j json_lib \<Rightarrow> 'j \<Rightarrow> RequestToken result" where
  "RequestToken_from_json J obj =
     rbind (jat_as J (jget_string J) obj ''sid'') (\<lambda>sid.
     rbind (jopt J (jget_string J) obj ''submit_url'' []) (\<lambda>submit_url.
       Inr \<lparr>rt_sid = sid, rt_submit_url = submit_url\<rparr>))"

definition Aliases_response_from_json :: "'j json_lib \<Rightarrow> 'j \<Rightarrow> string list result" where
  "Aliases_response_from_json J obj = jat_as J (jget_list J (jget_string J)) obj ''aliases''"

definition StateEvents_from_json :: "'j json_lib \<Rightarrow> 'j \<Rightarrow> StateEvents list result" where
  "StateEvents_from_json J arr = parse_state_events J arr"

definition CreateRoom_from_json :: "'j json_lib \<Rightarrow> 'j \<Rightarrow> ID result" where
  "CreateRoom_from_json J obj = jat_as J (ident_from_json J Room_id) obj ''room_id''"

definition ContentURI_from_json :: "'j json_lib \<Rightarrow> 'j \<Rightarrow> string result" where
  "ContentURI_from_json J obj = jat_as J (jget_string J) obj ''content_uri''"

definition Empty_from_json :: "'j json_lib \<Rightarrow> 'j \<Rightarrow> unit result" where
  "Empty_from_json J obj = Inr ()"

text \<open>The names of the versions of the protocol; an empty one is refused.\<close>

definition Versions_from_json :: "'j json_lib \<Rightarrow> 'j \<Rightarrow> string list result" where
  "Versions_from_json J obj =
     rbind (jat_as J (jget_list J (jget_string J)) obj ''versions'') (\<lambda>versions.
       if [] \<in> set versions then Inl (Invalid_argument '': invalid version'') else Inr versions)"

record TurnServer =
  tu_username :: string
  tu_password :: string
  tu_uris :: "string list"
  tu_ttl :: int

definition TurnServer_from_json :: "'j json_lib \<Rightarrow> 'j \<Rightarrow> TurnServer result" where
  "TurnServer_from_json J obj =
     rbind (jat_as J (jget_string J) obj ''username'') (\<lambda>username.
     rbind (jat_as J (jget_string J) obj ''password'') (\<lambda>password.
     rbind (jat_as J (jget_list J (jget_string J)) obj ''uris'') (\<lambda>uris.
     rbind (jat_as J (jget_narrow J 32) obj ''ttl'') (\<lambda>ttl.
       Inr \<lparr>tu_username = username, tu_password = password, tu_uris = uris, tu_ttl = ttl\<rparr>))))"

section \<open>Capabilities\<close>

datatype RoomVersionStability = Unstable | Stable

record RoomVersionsCapability =
  rv_default :: string
  rv_available :: "RoomVersionStability smap"

record Capabilities =
  cp_room_versions :: RoomVersionsCapability
  cp_change_password :: bool
  cp_set_displayname :: bool
  cp_set_avatar_url :: bool
  cp_change_3pid :: bool

definition RoomVersionStability_from_json :: "'j json_lib \<Rightarrow> 'j \<Rightarrow> RoomVersionStability result" where
  "RoomVersionStability_from_json J obj =
     Inr (if jtype_of J obj = JString \<and> jget_string J obj = Inr ''stable'' then Stable else Unstable)"

definition default_RoomVersionsCapability :: RoomVersionsCapability where
  "default_RoomVersionsCapability = \<lparr>rv_default = ''1'', rv_available = [(''1'', Stable)]\<rparr>"

definition RoomVersionsCapability_from_json :: "'j json_lib \<Rightarrow> 'j \<Rightarrow> RoomVersionsCapability result" where
  "RoomVersionsCapability_from_json J obj =
     rbind (jvalue J (jget_map J (RoomVersionStability_from_json J)) obj ''available'' [(''1'', Stable)]) (\<lambda>available.
     rbind (jvalue J (jget_string J) obj ''default'' ''1'') (\<lambda>d.
       Inr \<lparr>rv_default = d, rv_available = available\<rparr>))"

definition Enabled_capability_from_json :: "'j json_lib \<Rightarrow> 'j \<Rightarrow> bool result" where
  "Enabled_capability_from_json J obj = jvalue J (jget_bool J) obj ''enabled'' True"

definition Capabilities_from_json :: "'j json_lib \<Rightarrow> 'j \<Rightarrow> Capabilities result" where
  "Capabilities_from_json J obj =
     (if jcontains J obj ''capabilities'' \<and> jtype_of J (jmember J obj ''capabilities'') = JObject then
        rbind (jat J obj ''capabilities'') (\<lambda>j.
        rbind (jvalue J (RoomVersionsCapability_from_json J) j ''m.room_versions'' default_RoomVersionsCapability) (\<lambda>v.
        rbind (jvalue J (Enabled_capability_from_json J) j ''m.change_password'' True) (\<lambda>password.
        rbind (jvalue J (Enabled_capability_from_json J) j ''m.set_displayname'' True) (\<lambda>displayname.
        rbind (jvalue J (Enabled_capability_from_json J) j ''m.set_avatar_url'' True) (\<lambda>avatar.
        rbind (jvalue J (Enabled_capability_from_json J) j ''m.3pid_changes'' True) (\<lambda>change_3pid.
          Inr \<lparr>cp_room_versions = v, cp_change_password = password, cp_set_displayname = displayname,
               cp_set_avatar_url = avatar, cp_change_3pid = change_3pid\<rparr>))))))
      else Inr \<lparr>cp_room_versions = default_RoomVersionsCapability, cp_change_password = True,
                cp_set_displayname = True, cp_set_avatar_url = True, cp_change_3pid = True\<rparr>)"

section \<open>Devices, users and profiles\<close>

record Device =
  dv_device_id :: string
  dv_display_name :: string
  dv_last_seen_ip :: string
  dv_last_seen_ts :: int

definition Device_from_json :: "'j json_lib \<Rightarrow> 'j \<Rightarrow> Device result" where
  "Device_from_json J obj =
     rbind (jat_as J (jget_string J) obj ''device_id'') (\<lambda>device_id.
     rbind (jopt_if J (\<lambda>t. t = JString) (jget_string J) obj ''display_name'' []) (\<lambda>display_name.
     rbind (jopt_if J (\<lambda>t. t = JString) (jget_string J) obj ''last_seen_ip'' []) (\<lambda>last_seen_ip.
     rbind (jopt_if J (\<lambda>t. t \<in> {JInteger, JUnsigned, JFloat}) (jget_uint64 J) obj ''last_seen_ts'' 0) (\<lambda>last_seen_ts.
       Inr \<lparr>dv_device_id = device_id, dv_display_name = display_name, dv_last_seen_ip = last_seen_ip,
            dv_last_seen_ts = last_seen_ts\<rparr>))))"

definition QueryDevices_from_json :: "'j json_lib \<Rightarrow> 'j \<Rightarrow> Device list result" where
  "QueryDevices_from_json J obj = jat_as J (jget_list J (Device_from_json J)) obj ''devices''"

record Profile =
  pf_avatar_url :: string
  pf_display_name :: string

definition Profile_from_json :: "'j json_lib \<Rightarrow> 'j \<Rightarrow> Profile result" where
  "Profile_from_json J obj =
     rbind (jopt_if J not_null (jget_string J) obj ''avatar_url'' []) (\<lambda>avatar_url.
     rbind (jopt_if J not_null (jget_string J) obj ''displayname'' []) (\<lambda>display_name.
       Inr \<lparr>pf_avatar_url = avatar_url, pf_display_name = display_name\<rparr>))"

definition AvatarUrl_from_json :: "'j json_lib \<Rightarrow> 'j \<Rightarrow> string result" where
  "AvatarUrl_from_json J obj = jopt_if J not_null (jget_string J) obj ''avatar_url'' []"

record User_response =
  us_avatar_url :: string
  us_display_name :: string
  us_user_id :: string

definition User_response_from_json :: "'j json_lib \<Rightarrow> 'j \<Rightarrow> User_response result" where
  "User_response_from_json J obj =
     rbind (jopt_if J not_null (jget_string J) obj ''avatar_url'' []) (\<lambda>avatar_url.
     rbind (jopt_if J not_null (jget_string J) obj ''display_name'' []) (\<lambda>display_name.
     rbind (jat_as J (jget_string J) obj ''user_id'') (\<lambda>user_id.
       Inr \<lparr>us_avatar_url = avatar_url, us_display_name = display_name, us_user_id = user_id\<rparr>)))"

record Users =
  us_limited :: bool
  us_results :: "User_response list"

definition Users_from_json :: "'j json_lib \<Rightarrow> 'j \<Rightarrow> Users result" where
  "Users_from_json J obj =
     rbind (jat_as J (jget_bool J) obj ''limited'') (\<lambda>limited.
     rbind (jat_as J (jget_list J (User_response_from_json J)) obj ''results'') (\<lambda>results.
       Inr \<lparr>us_limited = limited, us_results = results\<rparr>))"

section \<open>Media\<close>

record OGImage =
  og_type :: "string option"
  og_width :: "int option"
  og_height :: "int option"
  og_alt :: "string option"
  og_url :: string
  og_size :: int

record URLPreview =
  up_title :: string
  up_url :: string
  up_image :: OGImage
  up_description :: "string option"
  up_site_name :: "string option"

text \<open>
  \<open>std::stol\<close>: white space, an optional sign and the digits that follow, whatever comes after them; and
  the conversion to 32 bits.
\<close>

definition stol :: "string \<Rightarrow> int result" where
  "stol s =
     (let t = dropWhile (\<lambda>c. c = CHR '' '' \<or> c \<in> {CHR 0x09, CHR 0x0A, CHR 0x0B, CHR 0x0C, CHR 0x0D}) s;
          negative = (t \<noteq> [] \<and> hd t = CHR ''-'');
          u = (if t \<noteq> [] \<and> hd t \<in> {CHR ''-'', CHR ''+''} then tl t else t);
          ds = takeWhile is_digit u;
          n = int (foldl (\<lambda>v d. 10 * v + (of_char d - 48)) (0 :: nat) ds);
          n = (if negative then - n else n)
      in if ds = [] then Inl (Invalid_argument ''stol'')
         else if n < - (2 ^ 63) \<or> n \<ge> 2 ^ 63 then Inl (Out_of_range ''stol'')
         else Inr n)"

definition to_int32 :: "int \<Rightarrow> int" where
  "to_int32 n = (n + 2 ^ 31) mod 2 ^ 32 - 2 ^ 31"

definition extractOptionalInt :: "'j json_lib \<Rightarrow> 'j \<Rightarrow> string \<Rightarrow> int option result" where
  "extractOptionalInt J obj name =
     jfind_opt J (\<lambda>field.
       if jtype_of J field = JString then rbind (jget_string J field) (\<lambda>s. rbind (stol s) (\<lambda>n. Inr (to_int32 n)))
       else rbind (jget_narrow J 32 field) (\<lambda>n. Inr (to_int32 n))) obj name"

definition URLPreview_from_json :: "'j json_lib \<Rightarrow> 'j \<Rightarrow> URLPreview result" where
  "URLPreview_from_json J obj =
     rbind (jat_as J (jget_string J) obj ''og:title'') (\<lambda>title.
     rbind (jat_as J (jget_string J) obj ''og:url'') (\<lambda>url.
     rbind (jfind_opt J (jget_string J) obj ''og:site_name'') (\<lambda>site_name.
     rbind (jfind_opt J (jget_string J) obj ''og:description'') (\<lambda>description.
     rbind (jfind_opt J (jget_string J) obj ''og:image:type'') (\<lambda>image_type.
     rbind (extractOptionalInt J obj ''og:image:width'') (\<lambda>width.
     rbind (extractOptionalInt J obj ''og:image:height'') (\<lambda>height.
     rbind (jfind_opt J (jget_string J) obj ''og:image:alt'') (\<lambda>alt.
     rbind (jat_as J (jget_uint64 J) obj ''matrix:image:size'') (\<lambda>size.
     rbind (jat_as J (jget_string J) obj ''og:image'') (\<lambda>image_url.
       Inr \<lparr>up_title = title, up_url = url,
            up_image = \<lparr>og_type = image_type, og_width = width, og_height = height, og_alt = alt,
              og_url = image_url, og_size = size\<rparr>,
            up_description = description, up_site_name = site_name\<rparr>))))))))))"

section \<open>Events\<close>

text \<open>A member that cannot be read is logged without its text.\<close>

definition Members_from_json :: "'j json_lib \<Rightarrow> 'j \<Rightarrow> Member StateEvent list result" where
  "Members_from_json J obj =
     jopt J (\<lambda>chunk. Inr (List.map_filter (\<lambda>e.
         case StateEvent_from_json J (Member_content J) e of Inl _ \<Rightarrow> None | Inr m \<Rightarrow> Some m)
       (jiterate J chunk))) obj ''chunk'' []"

record Messages =
  ms_start :: string
  ms_end :: string
  ms_chunk :: "TimelineEvents list"

definition Messages_from_json :: "'j json_lib \<Rightarrow> 'j \<Rightarrow> Messages result" where
  "Messages_from_json J obj =
     rbind (jvalue J (jget_string J) obj ''start'' []) (\<lambda>start.
     rbind (jvalue J (jget_string J) obj ''end'' []) (\<lambda>end_token.
     rbind (jopt J (parse_timeline_events J) obj ''chunk'' []) (\<lambda>chunk.
       Inr \<lparr>ms_start = start, ms_end = end_token, ms_chunk = chunk\<rparr>)))"

text \<open>The first alternative of the variant, value-initialised.\<close>

definition default_TimelineEvents :: TimelineEvents where
  "default_TimelineEvents = TL_Aliases \<lparr>ev_type = KeyVerificationCancel, ev_sender = [],
     ev_content = \<lparr>al_aliases = []\<rparr>, re_event_id = [], re_room_id = [], re_origin_server_ts = 0,
     re_unsigned_data = empty_UnsignedData, se_state_key = []\<rparr>"

record Notification =
  nf_actions :: "Action list"
  nf_event :: TimelineEvents
  nf_read :: bool
  nf_profile_tag :: string
  nf_room_id :: string
  nf_ts :: int

definition Notification_from_json :: "'j json_lib \<Rightarrow> 'j \<Rightarrow> Notification result" where
  "Notification_from_json J obj =
     rbind (jat_as J (jget_list J (get_Action J)) obj ''actions'') (\<lambda>actions.
     rbind (jat_as J (jget_bool J) obj ''read'') (\<lambda>read.
     rbind (jat_as J (jget_string J) obj ''room_id'') (\<lambda>room_id.
     rbind (jat_as J (jget_uint64 J) obj ''ts'') (\<lambda>ts.
     rbind (jopt_if J not_null (jget_string J) obj ''profile_tag'' []) (\<lambda>profile_tag.
     rbind (jat J obj ''event'') (\<lambda>event.
     rbind (parse_timeline_events J (jpush J (jnull J) event)) (\<lambda>tmp.
       Inr \<lparr>nf_actions = actions, nf_event = (case tmp of [] \<Rightarrow> default_TimelineEvents | e # _ \<Rightarrow> e),
            nf_read = read, nf_profile_tag = profile_tag, nf_room_id = room_id, nf_ts = ts\<rparr>)))))))"

definition Notification_to_json :: "'j json_lib \<Rightarrow> Notification \<Rightarrow> 'j result" where
  "Notification_to_json J n =
     (let obj = jset J (jnull J) ''actions'' (jof_array J (map (Action_to_json J) (nf_actions n)));
          obj = jset J obj ''read'' (jbool J (nf_read n));
          obj = jset J obj ''room_id'' (jstring J (nf_room_id n));
          obj = jset J obj ''ts'' (jint J (nf_ts n))
      in rbind (compose_timeline_events J [nf_event n]) (\<lambda>arr.
           Inr (jset_if J (nf_profile_tag n \<noteq> []) (jset J obj ''event'' arr)
                  ''profile_tag'' (jstring J (nf_profile_tag n)))))"

definition Notifications_from_json :: "'j json_lib \<Rightarrow> 'j \<Rightarrow> Notification list result" where
  "Notifications_from_json J obj = jat_as J (jget_list J (Notification_from_json J)) obj ''notifications''"

definition Notifications_to_json :: "'j json_lib \<Rightarrow> Notification list \<Rightarrow> 'j result" where
  "Notifications_to_json J ns =
     rbind (mapM (Notification_to_json J) ns) (\<lambda>xs. Inr (jset J (jnull J) ''notifications'' (jof_array J xs)))"

section \<open>Public rooms\<close>

definition PublicRoomVisibility_from_json :: "'j json_lib \<Rightarrow> 'j \<Rightarrow> RoomVisibility result" where
  "PublicRoomVisibility_from_json J obj =
     rbind (jat_as J (jget_string J) obj ''visibility'') (\<lambda>v. Inr (stringToVisibility v))"

record PublicRoomsChunk =
  pc_aliases :: "string list"
  pc_canonical_alias :: string
  pc_name :: string
  pc_num_joined_members :: int
  pc_room_id :: string
  pc_topic :: string
  pc_world_readable :: bool
  pc_guest_can_join :: bool
  pc_avatar_url :: string
  pc_join_rule :: JoinRule
  pc_room_type :: string
  pc_room_version :: string
  pc_membership :: Membership
  pc_encryption :: string
  pc_children_state :: "StrippedEvents list"

text \<open>The default of \<open>value\<close> is computed first, with a \<open>value\<close> of its own.\<close>

definition jvalue2 :: "'j json_lib \<Rightarrow> 'j \<Rightarrow> string \<Rightarrow> string \<Rightarrow> string \<Rightarrow> string result" where
  "jvalue2 J obj k1 k2 d = rbind (jvalue J (jget_string J) obj k2 d) (jvalue J (jget_string J) obj k1)"

definition PublicRoomsChunk_from_json :: "'j json_lib \<Rightarrow> 'j \<Rightarrow> PublicRoomsChunk result" where
  "PublicRoomsChunk_from_json J obj =
     rbind (jvalue J (jget_list J (jget_string J)) obj ''aliases'' []) (\<lambda>aliases.
     rbind (jvalue J (jget_string J) obj ''canonical_alias'' []) (\<lambda>canonical_alias.
     rbind (jvalue J (jget_string J) obj ''name'' []) (\<lambda>name.
     rbind (jat_as J (jget_uint64 J) obj ''num_joined_members'') (\<lambda>num_joined_members.
     rbind (jat_as J (jget_string J) obj ''room_id'') (\<lambda>room_id.
     rbind (jvalue J (jget_string J) obj ''topic'' []) (\<lambda>topic.
     rbind (jat_as J (jget_bool J) obj ''world_readable'') (\<lambda>world_readable.
     rbind (jat_as J (jget_bool J) obj ''guest_can_join'') (\<lambda>guest_can_join.
     rbind (jvalue J (jget_string J) obj ''avatar_url'' []) (\<lambda>avatar_url.
     rbind (jvalue J (jget_string J) obj ''join_rule'' ''public'') (\<lambda>join_rule.
     rbind (jvalue J (jget_string J) obj ''room_type'' []) (\<lambda>room_type.
     rbind (jvalue2 J obj ''im.nheko.summary.room_version'' ''im.nheko.summary.version'' []) (\<lambda>room_version.
     rbind (jvalue2 J obj ''membership'' ''im.nheko.summary.membership'' ''leave'') (\<lambda>membership.
     rbind (jvalue J (jget_string J) obj ''im.nheko.summary.encryption'' []) (\<lambda>encryption.
     rbind (jopt J (parse_stripped_events J) obj ''children_state'' []) (\<lambda>children_state.
       Inr \<lparr>pc_aliases = aliases, pc_canonical_alias = canonical_alias, pc_name = name,
            pc_num_joined_members = num_joined_members, pc_room_id = room_id, pc_topic = topic,
            pc_world_readable = world_readable, pc_guest_can_join = guest_can_join, pc_avatar_url = avatar_url,
            pc_join_rule = stringToJoinRule join_rule, pc_room_type = room_type, pc_room_version = room_version,
            pc_membership = stringToMembership membership, pc_encryption = encryption,
            pc_children_state = children_state\<rparr>)))))))))))))))"

record PublicRooms_response =
  pub_chunk :: "PublicRoomsChunk list"
  pub_next_batch :: string
  pub_prev_batch :: string
  pub_total_room_count_estimate :: "int option"

definition PublicRooms_response_from_json :: "'j json_lib \<Rightarrow> 'j \<Rightarrow> PublicRooms_response result" where
  "PublicRooms_response_from_json J obj =
     rbind (jat_as J (jget_list J (PublicRoomsChunk_from_json J)) obj ''chunk'') (\<lambda>chunk.
     rbind (jopt J (jget_string J) obj ''next_batch'' []) (\<lambda>next_batch.
     rbind (jopt J (jget_string J) obj ''prev_batch'' []) (\<lambda>prev_batch.
     rbind (jfind_opt J (jget_uint64 J) obj ''total_room_count_estimate'') (\<lambda>total.
       Inr \<lparr>pub_chunk = chunk, pub_next_batch = next_batch, pub_prev_batch = prev_batch,
            pub_total_room_count_estimate = total\<rparr>))))"

record HierarchyRooms =
  hr_rooms :: "PublicRoomsChunk list"
  hr_next_batch :: string

definition HierarchyRooms_from_json :: "'j json_lib \<Rightarrow> 'j \<Rightarrow> HierarchyRooms result" where
  "HierarchyRooms_from_json J obj =
     rbind (jat_as J (jget_list J (PublicRoomsChunk_from_json J)) obj ''rooms'') (\<lambda>rooms.
     rbind (jopt J (jget_string J) obj ''next_batch'' []) (\<lambda>next_batch.
       Inr \<lparr>hr_rooms = rooms, hr_next_batch = next_batch\<rparr>))"

section \<open>Login flows\<close>

record IdentityProvider =
  idp_brand :: string
  idp_icon :: string
  idp_id :: string
  idp_name :: string

definition IdentityProvider_from_json :: "'j json_lib \<Rightarrow> 'j \<Rightarrow> IdentityProvider result" where
  "IdentityProvider_from_json J obj =
     rbind (jvalue J (jget_string J) obj ''brand'' []) (\<lambda>brand.
     rbind (jvalue J (jget_string J) obj ''icon'' []) (\<lambda>icon.
     rbind (jat_as J (jget_string J) obj ''id'') (\<lambda>i.
     rbind (jat_as J (jget_string J) obj ''name'') (\<lambda>name.
       Inr \<lparr>idp_brand = brand, idp_icon = icon, idp_id = i, idp_name = name\<rparr>))))"

record LoginFlow =
  lf_type :: string
  lf_identity_providers :: "IdentityProvider list"

definition LoginFlow_from_json :: "'j json_lib \<Rightarrow> 'j \<Rightarrow> LoginFlow result" where
  "LoginFlow_from_json J obj =
     rbind (jat_as J (jget_string J) obj ''type'') (\<lambda>type.
     rbind (jvalue J (jget_list J (IdentityProvider_from_json J)) obj ''identity_providers'' []) (\<lambda>providers.
       Inr \<lparr>lf_type = type, lf_identity_providers = providers\<rparr>))"

definition LoginFlows_from_json :: "'j json_lib \<Rightarrow> 'j \<Rightarrow> LoginFlow list result" where
  "LoginFlows_from_json J obj = jat_as J (jget_list J (LoginFlow_from_json J)) obj ''flows''"

definition RegistrationTokenValidity_from_json :: "'j json_lib \<Rightarrow> 'j \<Rightarrow> bool result" where
  "RegistrationTokenValidity_from_json J obj = jat_as J (jget_bool J) obj ''valid''"

end
