(* ===== verification/Spec2Isabelle.thy ===== *)
theory Spec2Isabelle
  imports Base58 Utils Identifiers Event_Types Http_Props Http_Transport Power_Levels Push_Props Olm_Props
    Sync_Delivery Account_Props Key_Storage_Props Responses
begin

text \<open>
  A verification library for mtxclient, the C++ client library for the Matrix protocol.

  \<^bold>\<open>The program.\<close> An application creates an HTTP client (\<open>lib/http/client.cpp\<close>), which keeps the
  session (server, access token, user and device id, sync token) and offers one method per endpoint of
  the client-server API. Each method builds a path and a body, sends it through a transport (coeurl) and
  hands the decoded answer or an error to a callback. Bodies and answers are JSON: every request and
  event type has a \<open>to_json\<close> or \<open>from_json\<close> function. Beside it stands the olm client
  (\<open>lib/crypto/client.cpp\<close>), which wraps an account of libolm: it signs and uploads keys, creates the
  cross-signing keys, the key backup and the secret storage, and encrypts and decrypts messages with olm
  and megolm sessions; \<open>lib/crypto/utils.cpp\<close> wraps OpenSSL. Encodings, identifiers, relations, power
  levels and the push rule evaluator are logic of the library itself.

  \<^bold>\<open>How the code is modelled.\<close> A struct is a record, an enum a datatype, a function a HOL function
  of the same name; a function that may throw returns \<open>'a result\<close> (\<open>Prelude\<close>), with the exception on
  the left; a method that changes an object takes and returns its record, so that what a throwing method
  has already changed is visible. \<open>std::map<std::string, T>\<close> is a sorted association list (\<open>smap\<close>).
  Integers are \<open>word\<close>s of their width where the code relies on it, \<open>int\<close> where JSON numbers are read.
  Code outside of the repository is a record of functions, an argument of the definitions that call it,
  and what its documentation promises is a locale over that record:

    \<^item> \<open>json_library\<close> (\<open>Json\<close>) for nlohmann::json, interpreted on JSON trees;
    \<^item> \<open>re2_library\<close> (\<open>Push_Props\<close>) for RE2, interpreted on literal matching;
    \<^item> \<open>openssl_library\<close> (\<open>Crypto_Props\<close>) for OpenSSL, interpreted on a toy key stream;
    \<^item> \<open>olm_library\<close> (\<open>Olm_Props\<close>), which extends \<open>json_library\<close>, for libolm, interpreted on toy
      signatures.

  Three more locales are interfaces inside the library. \<open>related_json\<close> (\<open>Message_Props\<close>) is what contents with
  relations share: a base object without relations and a reader that looks at the fields only; verification
  steps and reactions meet it. \<open>message_json\<close> extends it by the texts that an edit changes; every message
  content meets it, which gives each of them the form of its edits. \<open>event_content\<close> (\<open>Event_Props\<close>) is what
  the templates for envelopes need of a content: to be read back from what is written; it is met by every
  message (through \<open>message_json\<close>), state content, redaction and call, and gives each of them the round trip of
  its events.

  The properties are stated for every record that meets such a contract; the interpretations show that
  the contracts can be met and serve the witnesses. The random bytes of \<open>create_buffer\<close> are an argument,
  too, failures of the generator included, so that the theorems hold for all of them. The answers of the
  server are arguments of the callbacks, and a chain of requests is an \<open>act\<close> (\<open>Http_Endpoints\<close>).

  \<^bold>\<open>The theories.\<close>

    \<^item> \<open>Prelude\<close>: exceptions, results and their monadic rules, sorted maps, bytes and strings.
    \<^item> \<open>Encoding\<close>: base64 and base58 of \<open>lib/crypto/encoding.cpp\<close> as written; \<open>Base64\<close>, \<open>Base58\<close>:
      round trips, lengths, alphabets, and that the base58 buffers are never left.
    \<^item> \<open>Utils\<close>: \<open>lib/utils.cpp\<close>: MXC URIs, percent-encoding, query strings, random tokens.
    \<^item> \<open>Identifiers\<close>: event, room and user ids; \<open>Event_Types\<close>: the tables of event types and error codes.
    \<^item> \<open>Json\<close>: the interface to nlohmann::json; \<open>Crypto_Json\<close>: keys and encrypted files with their
      JSON conversions; \<open>Requests\<close>: the request bodies and user-interactive authentication data.
    \<^item> \<open>Power_Levels\<close>: levels and room creation: creators, defaults, round trips.
    \<^item> \<open>Relations\<close>: replies, edits, threads and reactions in both JSON forms, and applying an edit.
    \<^item> \<open>Media_Info\<close>, \<open>Messages\<close>: media infos and the contents of messages; \<open>Message_Props\<close>: their round trips.
    \<^item> \<open>Member_Presence\<close>, \<open>Room_State\<close>, \<open>Calls\<close>, \<open>Account_Data\<close>: the contents of state events, calls, account
      data, ephemeral events and extensions (\<open>lib/structs/events\<close>); \<open>State_Props\<close>: their round trips;
      \<open>Account_Props\<close>: which invites the permissions allow.
    \<^item> \<open>Key_Verification\<close>, \<open>Verification_Events\<close>: encrypted events, room keys, secrets and the key
      verification flow (\<open>lib/structs/events/encrypted.cpp\<close>).
    \<^item> \<open>Events\<close>: the envelope templates (\<open>events_impl.hpp\<close>); \<open>Event_Props\<close>: their round trips, and that no
      reader lets a longer identifier through.
    \<^item> \<open>Contents\<close>, \<open>Collections\<close>: the templates applied to every content, the variants over all events,
      and the readers that sort events by type (\<open>events/collections.cpp\<close>, \<open>responses/common.cpp\<close>).
      \<open>Collection_Props\<close>: every alternative holds events of its own type; \<open>Sync_Props\<close>: the same for
      a whole sync response, that an event that cannot be read costs only itself, and that the two readers
      of timeline events agree; \<open>Timeline_Props\<close>: what is written is read back as the same alternative.
    \<^item> \<open>Verification_Props\<close>: the contents of encryption and verification as instances of \<open>event_content\<close>;
      \<open>Device_Props\<close>, \<open>Account_Events\<close>: what is sent to a device or stored as account data is read
      back from the events of a sync response; \<open>Sync_Delivery\<close>: the readers together deliver what a server
      puts into a sync response.
    \<^item> \<open>Sync_Response\<close>, \<open>Responses\<close>, \<open>Key_Responses\<close>: the answers of the server and the secret
      storage descriptions; \<open>Key_Storage_Props\<close>: a stored description restores its key.
    \<^item> \<open>Http_Client\<close>: the client's state, headers, URLs, typed requests and their callbacks, login and
      logout; \<open>Http_Endpoints\<close>, \<open>Http_Endpoints2\<close>: the request of every endpoint, the media fallbacks
      and the state machine of user-interactive authentication; \<open>Http_Props\<close>: what callbacks receive,
      where the token goes, injectivity of paths, bounds on requests, the invariant of the state machine;
      \<open>Http_Transport\<close>: the settings of the transport and how errors are printed.
    \<^item> \<open>Push_Rules\<close>: rules and their JSON; \<open>Push_Eval\<close>: compilation and evaluation; \<open>Push_Flatten\<close>: the
      flattened event holds exactly the values of the event; \<open>Push_Props\<close>: the compiled evaluator
      refines the reference evaluation on the received rules, patterns and member counts.
    \<^item> \<open>Crypto_Utils\<close>: files, secrets, recovery keys, key files; \<open>Crypto_Props\<close>: their round trips
      and rejections; \<open>Key_Export\<close>: the encrypted session export.
    \<^item> \<open>Olm_Client\<close>, \<open>Olm_Sessions\<close>: the olm client; \<open>Olm_Props\<close>: signatures verify, cross-signing
      keys form a chain, secret storage keys and backups can be restored, short authentication strings,
      and that an account is never lost (a reachability predicate with rule induction).

  \<^bold>\<open>Bounds and fuel.\<close> Every function terminates without fuel: loops are structural recursion or have a
  \<open>termination\<close> proof (\<open>encode_base58\<close> by its buffer, \<open>remove_substrs\<close> by the length of the text).
  \<open>flatten_impl\<close> has the depth limit of the code. A chain of requests is run on a list of answers, and
  \<open>media_requests_bounded\<close> shows how many are enough.

  \<^bold>\<open>Not modelled.\<close> The transport with its connections and threads: what it answers is an argument, what
  it is told a sequence of calls. Logging (\<open>log.cpp\<close>) produces text for the reader of a log only.
  \<open>crypto/objects.hpp\<close> allocates and frees the objects of libolm; in HOL there is no memory to manage. The
  programs in \<open>examples\<close> use the library and add nothing to it.
\<close>

end
